(* ===== verification/Prelude.thy ===== *)
theory Prelude
  imports Main "HOL-Library.Word"
begin

text \<open>
  Shared vocabulary of the development: the text rendering the Python code uses (decimal
  integers, hexadecimal, UUIDs, lower-casing, substring search, joining and splitting) and the
  generic facts about lists of rows that the component theories share.

  A Python \<open>str\<close> is modelled by the list of bytes of its UTF-8 encoding (\<^typ>\<open>string\<close>), which is
  also what every hash of the program is computed over. Python integers are \<^typ>\<open>int\<close>, timestamps
  are whole microseconds since the epoch (the resolution of \<open>datetime\<close>), and a UUID is a 128-bit
  word.
\<close>

named_theorems text_simps \<open>evaluation of the text rendering functions\<close>
named_theorems row_simps \<open>lookup and update in a list of rows\<close>

type_synonym instant = int
type_synonym uuid = "128 word"

abbreviation seconds :: "int \<Rightarrow> int" where
  "seconds n \<equiv> n * 1000000"

section \<open>Decimal text\<close>

definition digit_char :: "nat \<Rightarrow> char" where
  "digit_char d = char_of (48 + d)"

definition digit_val :: "char \<Rightarrow> nat" where
  "digit_val c = of_char c - 48"

definition is_digit :: "char \<Rightarrow> bool" where
  "is_digit c \<longleftrightarrow> 48 \<le> (of_char c :: nat) \<and> (of_char c :: nat) \<le> 57"

fun nat_str :: "nat \<Rightarrow> string" where
  "nat_str n = (if n < 10 then [digit_char n] else nat_str (n div 10) @ [digit_char (n mod 10)])"

declare nat_str.simps [simp del]

definition str_nat :: "string \<Rightarrow> nat" where
  "str_nat s = foldl (\<lambda>a c. 10 * a + digit_val c) 0 s"

definition int_str :: "int \<Rightarrow> string" where
  "int_str i = (if i < 0 then CHR ''-'' # nat_str (nat (- i)) else nat_str (nat i))"

lemma of_char_digit_char: "d < 10 \<Longrightarrow> (of_char (digit_char d) :: nat) = 48 + d"
  by (simp add: digit_char_def of_char_of take_bit_eq_mod)

lemma digit_val_char [simp]: "d < 10 \<Longrightarrow> digit_val (digit_char d) = d"
  by (simp add: digit_val_def of_char_digit_char)

lemma is_digit_char [simp]: "d < 10 \<Longrightarrow> is_digit (digit_char d)"
  by (simp add: is_digit_def of_char_digit_char)

lemma nat_str_digits: "c \<in> set (nat_str n) \<Longrightarrow> is_digit c"
proof (induction n rule: nat_str.induct)
  case (1 n)
  show ?case
  proof (cases "n < 10")
    case True
    with "1.prems" show ?thesis by (simp add: nat_str.simps [of n])
  next
    case False
    with "1.prems" have "c \<in> set (nat_str (n div 10)) \<or> c = digit_char (n mod 10)"
      by (auto simp: nat_str.simps [of n])
    with False "1.IH" show ?thesis by auto
  qed
qed

lemma nat_str_nonempty [simp]: "nat_str n \<noteq> []"
  by (subst nat_str.simps) simp

text \<open>Evaluation of \<open>int_str\<close> by division of integers.\<close>

function int_digits :: "int \<Rightarrow> string" where
  "int_digits i = (if i < 10 then [digit_char (nat i)] else int_digits (i div 10) @ [digit_char (nat (i mod 10))])"
  by pat_completeness auto
termination by (relation "measure nat") auto

lemma int_digits_nat_str: "0 \<le> i \<Longrightarrow> int_digits i = nat_str (nat i)"
proof (induction i rule: int_digits.induct)
  case (1 i)
  show ?case
  proof (cases "i < 10")
    case True
    with 1 show ?thesis by (simp add: nat_str.simps [of "nat i"] int_digits.simps [of i])
  next
    case False
    with 1 show ?thesis
      by (simp add: nat_str.simps [of "nat i"] int_digits.simps [of i] nat_div_distrib nat_mod_distrib)
  qed
qed

declare int_digits.simps [simp del]

lemma int_str_code [code]: "int_str i = (if i < 0 then CHR ''-'' # int_digits (- i) else int_digits i)"
  by (simp add: int_str_def int_digits_nat_str)

lemma str_nat_append1: "str_nat (s @ [c]) = 10 * str_nat s + digit_val c"
  by (simp add: str_nat_def)

lemma str_nat_nat_str [simp]: "str_nat (nat_str n) = n"
proof (induction n rule: nat_str.induct)
  case (1 n)
  show ?case
  proof (cases "n < 10")
    case True
    then show ?thesis by (subst nat_str.simps) (simp add: str_nat_def)
  next
    case False
    then show ?thesis
      by (subst nat_str.simps) (simp add: str_nat_append1 "1.IH")
  qed
qed

lemma nat_str_inj [simp]: "nat_str m = nat_str n \<longleftrightarrow> m = n"
  by (metis str_nat_nat_str)

lemma not_digit_minus [simp]: "\<not> is_digit (CHR ''-'')"
  by (simp add: is_digit_def)

lemma hd_nat_str_digit: "is_digit (hd (nat_str n))"
  by (rule nat_str_digits [of _ n]) simp

lemma nat_str_not_minus: "nat_str n \<noteq> CHR ''-'' # s"
  using hd_nat_str_digit [of n] by (metis list.sel(1) not_digit_minus)

lemma int_str_inj [simp]: "int_str i = int_str j \<longleftrightarrow> i = j"
  using nat_str_not_minus [of "nat i"] nat_str_not_minus [of "nat j"]
  by (auto simp: int_str_def) metis+

text \<open>
  A decimal prefix is determined by where the digits stop: two decimal numbers followed by
  text that does not start with a digit are equal when the whole texts are.
\<close>

definition no_digit :: "string \<Rightarrow> bool" where
  "no_digit s \<longleftrightarrow> (case s of [] \<Rightarrow> True | c # _ \<Rightarrow> \<not> is_digit c)"

lemma no_digit_simps [simp]: "no_digit []" "no_digit (c # s) \<longleftrightarrow> \<not> is_digit c"
  by (simp_all add: no_digit_def)

lemma takeWhile_digits:
  assumes "\<And>c. c \<in> set ds \<Longrightarrow> is_digit c" and "no_digit s"
  shows "takeWhile is_digit (ds @ s) = ds"
proof -
  have "takeWhile is_digit s = []"
  proof (cases s)
    case (Cons c t)
    with assms(2) show ?thesis by simp
  qed simp
  moreover have "takeWhile is_digit (ds @ s) = ds @ takeWhile is_digit s"
    by (rule takeWhile_append2) (use assms(1) in blast)
  ultimately show ?thesis by simp
qed

lemma nat_str_prefix:
  assumes "nat_str m @ s = nat_str n @ t" and "no_digit s" and "no_digit t"
  shows "m = n \<and> s = t"
proof -
  have "nat_str m = takeWhile is_digit (nat_str m @ s)"
    using takeWhile_digits [OF nat_str_digits assms(2)] by simp
  also have "\<dots> = takeWhile is_digit (nat_str n @ t)" using assms(1) by simp
  also have "\<dots> = nat_str n"
    using takeWhile_digits [OF nat_str_digits assms(3)] by simp
  finally show ?thesis using assms(1) by simp
qed

lemma int_str_prefix:
  assumes "int_str i @ s = int_str j @ t" and "no_digit s" and "no_digit t"
  shows "i = j \<and> s = t"
proof (cases "i < 0"; cases "j < 0")
  assume "i < 0" "j < 0"
  with assms(1) have "nat_str (nat (- i)) @ s = nat_str (nat (- j)) @ t"
    by (simp add: int_str_def)
  from nat_str_prefix [OF this assms(2,3)] \<open>i < 0\<close> \<open>j < 0\<close> show ?thesis by auto
next
  assume "i < 0" "\<not> j < 0"
  with assms(1) have "hd (nat_str (nat j)) = CHR ''-''"
    by (metis (no_types) append_Cons hd_append2 int_str_def list.sel(1) nat_str_nonempty)
  with hd_nat_str_digit [of "nat j"] show ?thesis by simp
next
  assume "\<not> i < 0" "j < 0"
  with assms(1) have "hd (nat_str (nat i)) = CHR ''-''"
    by (metis (no_types) append_Cons hd_append2 int_str_def list.sel(1) nat_str_nonempty)
  with hd_nat_str_digit [of "nat i"] show ?thesis by simp
next
  assume "\<not> i < 0" "\<not> j < 0"
  with assms(1) have "nat_str (nat i) @ s = nat_str (nat j) @ t" by (simp add: int_str_def)
  from nat_str_prefix [OF this assms(2,3)] \<open>\<not> i < 0\<close> \<open>\<not> j < 0\<close> show ?thesis by auto
qed

lemma int_str_nonempty [simp]: "int_str i \<noteq> []"
  by (simp add: int_str_def)

lemma int_str_chars: "c \<in> set (int_str i) \<Longrightarrow> is_digit c \<or> c = CHR ''-''"
  by (auto simp: int_str_def nat_str_digits split: if_splits)

section \<open>Hexadecimal text and UUIDs\<close>

definition hex_char :: "nat \<Rightarrow> char" where
  "hex_char d = (if d < 10 then char_of (48 + d) else char_of (87 + d))"

definition hex_val :: "char \<Rightarrow> nat" where
  "hex_val c = (let n = of_char c in if n < 58 then n - 48 else n - 87)"

fun hex_str :: "nat \<Rightarrow> nat \<Rightarrow> string" where
  "hex_str 0 n = []"
| "hex_str (Suc w) n = hex_str w (n div 16) @ [hex_char (n mod 16)]"

definition hex_nat :: "string \<Rightarrow> nat" where
  "hex_nat s = foldl (\<lambda>a c. 16 * a + hex_val c) 0 s"

lemma of_char_hex_char:
  "d < 16 \<Longrightarrow> (of_char (hex_char d) :: nat) = (if d < 10 then 48 + d else 87 + d)"
  by (simp add: hex_char_def of_char_of take_bit_eq_mod)

lemma hex_val_char [simp]: "d < 16 \<Longrightarrow> hex_val (hex_char d) = d"
  by (simp add: hex_val_def of_char_hex_char Let_def)

lemma hex_char_not_colon: "d < 16 \<Longrightarrow> hex_char d \<noteq> CHR '':''"
proof
  assume "d < 16" and "hex_char d = CHR '':''"
  then have "(of_char (hex_char d) :: nat) = 58" by simp
  with \<open>d < 16\<close> show False by (simp add: of_char_hex_char split: if_splits)
qed

lemma length_hex_str [simp]: "length (hex_str w n) = w"
  by (induction w arbitrary: n) simp_all

lemma hex_str_not_colon: "c \<in> set (hex_str w n) \<Longrightarrow> c \<noteq> CHR '':''"
  using hex_char_not_colon by (induction w arbitrary: n) (auto, metis mod_less_divisor zero_less_numeral)

lemma hex_nat_append1: "hex_nat (s @ [c]) = 16 * hex_nat s + hex_val c"
  by (simp add: hex_nat_def)

lemma hex_nat_hex_str: "n < 16 ^ w \<Longrightarrow> hex_nat (hex_str w n) = n"
proof (induction w arbitrary: n)
  case 0
  then show ?case by (simp add: hex_nat_def)
next
  case (Suc w)
  then have "n div 16 < 16 ^ w" by (simp add: less_mult_imp_div_less mult.commute)
  then have "hex_nat (hex_str w (n div 16)) = n div 16" by (rule Suc.IH)
  then show ?case by (simp add: hex_nat_append1)
qed

text \<open>\<open>uuid.UUID.hex\<close> is the 32 hexadecimal digits; \<open>str\<close> groups them 8-4-4-4-12.\<close>

definition uuid_hex :: "uuid \<Rightarrow> string" where
  "uuid_hex u = hex_str 32 (unat u)"

definition dash :: "string \<Rightarrow> string" where
  "dash h = take 8 h @ ''-'' @ take 4 (drop 8 h) @ ''-'' @ take 4 (drop 12 h) @ ''-'' @
     take 4 (drop 16 h) @ ''-'' @ drop 20 h"

definition undash :: "string \<Rightarrow> string" where
  "undash s = take 8 s @ take 4 (drop 9 s) @ take 4 (drop 14 s) @ take 4 (drop 19 s) @ drop 24 s"

definition uuid_str :: "uuid \<Rightarrow> string" where
  "uuid_str u = dash (uuid_hex u)"

definition uuid_parse :: "string \<Rightarrow> uuid" where
  "uuid_parse s = word_of_nat (hex_nat (undash s))"

lemma undash_dash: "length h = 32 \<Longrightarrow> undash (dash h) = h"
proof -
  assume h: "length h = 32"
  have split: "drop m h = take 4 (drop m h) @ drop (m + 4) h" for m
    by (metis append_take_drop_id drop_drop add.commute)
  have "undash (dash h) =
      take 8 h @ take 4 (drop 8 h) @ take 4 (drop 12 h) @ take 4 (drop 16 h) @ drop 20 h"
    using h by (simp add: undash_def dash_def)
  also have "\<dots> = take 8 h @ drop 8 h"
    using split [of 8] split [of 12] split [of 16] by simp
  finally show ?thesis by simp
qed

lemma uuid_parse_str [simp]: "uuid_parse (uuid_str u) = u"
proof -
  have "unat u < 16 ^ 32" using unsigned_less [of u] by simp
  then have "hex_nat (hex_str 32 (unat u)) = unat u" by (rule hex_nat_hex_str)
  then show ?thesis by (simp add: uuid_parse_def uuid_str_def uuid_hex_def undash_dash)
qed

lemma uuid_str_inj [simp]: "uuid_str u = uuid_str v \<longleftrightarrow> u = v"
  by (metis uuid_parse_str)

lemma length_uuid_str [simp]: "length (uuid_str u) = 36"
  by (simp add: uuid_str_def dash_def uuid_hex_def)

lemma length_uuid_hex [simp]: "length (uuid_hex u) = 32"
  by (simp add: uuid_hex_def)

lemma uuid_str_not_colon: "CHR '':'' \<notin> set (uuid_str u)"
proof -
  have "CHR '':'' \<notin> set (uuid_hex u)"
    using hex_str_not_colon unfolding uuid_hex_def by blast
  then have "CHR '':'' \<notin> set (take n (drop m (uuid_hex u)))"
      and "CHR '':'' \<notin> set (drop m (uuid_hex u))" for n m
    by (meson in_set_dropD in_set_takeD)+
  from this(1) [of _ 0] this show ?thesis by (simp add: uuid_str_def dash_def)
qed

section \<open>Text operations of the standard library\<close>

text \<open>\<open>str.lower\<close>, on the ASCII letters.\<close>

definition lower_char :: "char \<Rightarrow> char" where
  "lower_char c = (let n = of_char c in if 65 \<le> n \<and> n \<le> (90::nat) then char_of (n + 32) else c)"

definition lower :: "string \<Rightarrow> string" where
  "lower s = map lower_char s"

definition upper_char :: "char \<Rightarrow> char" where
  "upper_char c = (let n = of_char c in if 97 \<le> n \<and> n \<le> (122::nat) then char_of (n - 32) else c)"

definition upper :: "string \<Rightarrow> string" where
  "upper s = map upper_char s"

fun starts_with :: "string \<Rightarrow> string \<Rightarrow> bool" where
  "starts_with [] s = True"
| "starts_with (p # ps) [] = False"
| "starts_with (p # ps) (c # s) = (p = c \<and> starts_with ps s)"

text \<open>The substring test \<open>needle in haystack\<close>.\<close>

fun contains :: "string \<Rightarrow> string \<Rightarrow> bool" where
  "contains p [] = (p = [])"
| "contains p (c # s) = (starts_with p (c # s) \<or> contains p s)"

fun join_with :: "string \<Rightarrow> string list \<Rightarrow> string" where
  "join_with sep [] = []"
| "join_with sep [x] = x"
| "join_with sep (x # y # xs) = x @ sep @ join_with sep (y # xs)"

lemma length_lower [simp]: "length (lower s) = length s"
  by (simp add: lower_def)

lemma starts_with_append: "starts_with p (p @ s)"
  by (induction p) simp_all

lemma contains_append: "contains p (a @ p @ b)"
proof (induction a)
  case Nil
  show ?case
  proof (cases "p @ b")
    case Nil
    then show ?thesis by simp
  next
    case (Cons c s)
    with starts_with_append [of p b] show ?thesis by simp
  qed
qed simp

section \<open>Lists of rows\<close>

definition upd_where :: "('r \<Rightarrow> bool) \<Rightarrow> ('r \<Rightarrow> 'r) \<Rightarrow> 'r list \<Rightarrow> 'r list" where
  "upd_where p f rs = map (\<lambda>r. if p r then f r else r) rs"

lemma upd_where_Nil [row_simps, simp]: "upd_where p f [] = []"
  by (simp add: upd_where_def)

lemma upd_where_Cons [row_simps, simp]:
  "upd_where p f (r # rs) = (if p r then f r else r) # upd_where p f rs"
  by (simp add: upd_where_def)

lemma upd_where_append [row_simps]:
  "upd_where p f (rs @ ss) = upd_where p f rs @ upd_where p f ss"
  by (simp add: upd_where_def)

lemma length_upd_where [simp]: "length (upd_where p f rs) = length rs"
  by (simp add: upd_where_def)

lemma set_upd_where: "set (upd_where p f rs) = {if p r then f r else r | r. r \<in> set rs}"
  by (auto simp: upd_where_def)

lemma upd_where_id: "(\<And>r. r \<in> set rs \<Longrightarrow> \<not> p r) \<Longrightarrow> upd_where p f rs = rs"
  by (induction rs) auto

lemma map_upd_where_key:
  "(\<And>r. p r \<Longrightarrow> k (f r) = k r) \<Longrightarrow> map k (upd_where p f rs) = map k rs"
  by (induction rs) auto

lemma find_upd_where_other:
  "(\<And>r. p r \<Longrightarrow> \<not> q r \<and> \<not> q (f r)) \<Longrightarrow> find q (upd_where p f rs) = find q rs"
  by (induction rs) auto

lemma find_upd_where_same:
  "(\<And>r. q r \<Longrightarrow> q (f r)) \<Longrightarrow> find q (upd_where q f rs) = map_option f (find q rs)"
  by (induction rs) auto

lemma find_append: "find p (xs @ ys) = (case find p xs of Some x \<Rightarrow> Some x | None \<Rightarrow> find p ys)"
  by (induction xs) auto

lemma find_SomeD: "find p xs = Some x \<Longrightarrow> x \<in> set xs \<and> p x"
  by (induction xs) (auto split: if_splits)

lemma find_None_filter: "find p xs = None \<longleftrightarrow> filter p xs = []"
  by (induction xs) auto

lemma distinct_map_uniq:
  "distinct (map k rs) \<Longrightarrow> r \<in> set rs \<Longrightarrow> r' \<in> set rs \<Longrightarrow> k r = k r' \<Longrightarrow> r = r'"
  by (auto simp: distinct_map inj_on_def)

lemma find_distinct_key:
  "distinct (map k rs) \<Longrightarrow> r \<in> set rs \<Longrightarrow> find (\<lambda>x. k x = k r) rs = Some r"
  by (induction rs) (auto simp: image_iff)

lemma filter_distinct_key:
  "distinct (map k rs) \<Longrightarrow> r \<in> set rs \<Longrightarrow> filter (\<lambda>x. k x = k r) rs = [r]"
proof (induction rs)
  case (Cons a rs)
  then show ?case
  proof (cases "a = r")
    case True
    with Cons.prems(1) have "filter (\<lambda>x. k x = k r) rs = []"
      by (auto simp: filter_empty_conv image_iff)
    with True show ?thesis by simp
  next
    case False
    with Cons.prems have "r \<in> set rs" "k a \<noteq> k r" by (auto simp: image_iff)
    with Cons show ?thesis by simp
  qed
qed simp

lemma filter_length_le1:
  "distinct (map k rs) \<Longrightarrow> length (filter (\<lambda>x. k x = v) rs) \<le> 1"
proof (induction rs)
  case (Cons a rs)
  show ?case
  proof (cases "k a = v")
    case True
    with Cons.prems have "filter (\<lambda>x. k x = v) rs = []"
      by (auto simp: filter_empty_conv image_iff)
    with True show ?thesis by simp
  qed (use Cons in auto)
qed simp

end
