(* ===== verification/Json.thy ===== *)
theory Json
  imports Prelude "HOL-Library.Multiset" "HOL-Library.List_Lexorder" "HOL-Library.Char_ord"
begin

text \<open>
  JSON values as the Python code handles them (\<open>dict[str, Any]\<close> payloads, JSONB columns) and the
  serialisations it hashes: \<open>json.dumps(..., separators=(",", ":"), ensure_ascii=False)\<close>, with
  and without \<open>sort_keys\<close>. A dictionary is the list of its items in insertion order. A
  floating-point number is kept as the text Python prints for it.

  The main result is that the rendering is injective on float-free values, also when followed by
  other text, so two different values never share a serialisation.
\<close>

datatype json =
    JNull
  | JBool bool
  | JInt int
  | JFloat string
  | JStr string
  | JList "json list"
  | JObj "(string \<times> json) list"

type_synonym dict = "(string \<times> json) list"

section \<open>Dictionary operations\<close>

text \<open>\<open>d.get(key)\<close> and \<open>d.get(key, default)\<close>.\<close>

definition dget_or :: "string \<Rightarrow> json \<Rightarrow> dict \<Rightarrow> json" where
  "dget_or k v d = (case map_of d k of None \<Rightarrow> v | Some x \<Rightarrow> x)"

definition dget :: "string \<Rightarrow> dict \<Rightarrow> json" where
  "dget k d = dget_or k JNull d"

text \<open>\<open>d[key] = v\<close>: an existing key keeps its place.\<close>

fun dset :: "string \<Rightarrow> json \<Rightarrow> dict \<Rightarrow> dict" where
  "dset k v [] = [(k, v)]"
| "dset k v ((k', v') # d) = (if k = k' then (k, v) # d else (k', v') # dset k v d)"

text \<open>\<open>d.update(e)\<close>.\<close>

definition dupdate :: "dict \<Rightarrow> dict \<Rightarrow> dict" where
  "dupdate d e = fold (\<lambda>(k, v). dset k v) e d"

lemma map_of_dset [simp]: "map_of (dset k v d) x = (if x = k then Some v else map_of d x)"
  by (induction d) auto

section \<open>Python text of a value\<close>

text \<open>The code points of a UTF-8 string: a lead byte with its continuation bytes.\<close>

definition is_cont :: "char \<Rightarrow> bool" where
  "is_cont c \<longleftrightarrow> (let n = of_char c in 128 \<le> n \<and> n < (192::nat))"

lemma is_cont_code [code]: "is_cont (Char b0 b1 b2 b3 b4 b5 b6 b7) \<longleftrightarrow> b7 \<and> \<not> b6"
  by (cases b0; cases b1; cases b2; cases b3; cases b4; cases b5; cases b6; cases b7) (simp_all add: is_cont_def)

fun utf8_chars :: "string \<Rightarrow> string list" where
  "utf8_chars [] = []"
| "utf8_chars (c # s) =
     (case utf8_chars s of
        [] \<Rightarrow> [[c]]
      | p # ps \<Rightarrow> (if is_cont (hd p) then (c # p) # ps else [c] # p # ps))"

definition py_len :: "string \<Rightarrow> nat" where
  "py_len s = length (utf8_chars s)"

definition py_take :: "nat \<Rightarrow> string \<Rightarrow> string" where
  "py_take n s = concat (take n (utf8_chars s))"

lemma concat_utf8_chars [simp]: "concat (utf8_chars s) = s"
  by (induction s) (auto split: list.splits)

lemma utf8_chars_nonempty: "p \<in> set (utf8_chars s) \<Longrightarrow> p \<noteq> []"
  by (induction s arbitrary: p) (auto split: list.splits if_splits)

lemma py_len_le: "py_len s \<le> length s"
  unfolding py_len_def by (induction s) (auto split: list.splits)

lemma py_take_all: "py_len s \<le> n \<Longrightarrow> py_take n s = s"
  by (simp add: py_len_def py_take_def)

definition repr_char :: "char \<Rightarrow> char \<Rightarrow> string" where
  "repr_char q c =
     (if c = q \<or> c = CHR 0x5C then [CHR 0x5C, c]
      else if c = CHR 0x0A then [CHR 0x5C, CHR ''n'']
      else if c = CHR 0x0D then [CHR 0x5C, CHR ''r'']
      else if c = CHR 0x09 then [CHR 0x5C, CHR ''t'']
      else if (of_char c :: nat) < 32 \<or> (of_char c :: nat) = 127
      then [CHR 0x5C, CHR ''x''] @ hex_str 2 (of_char c)
      else [c])"

definition repr_str :: "string \<Rightarrow> string" where
  "repr_str s =
     (let q = (if CHR 0x27 \<in> set s \<and> CHR 0x22 \<notin> set s then CHR 0x22 else CHR 0x27)
      in [q] @ concat (map (repr_char q) s) @ [q])"

fun py_repr :: "json \<Rightarrow> string" where
  "py_repr JNull = ''None''"
| "py_repr (JBool b) = (if b then ''True'' else ''False'')"
| "py_repr (JInt i) = int_str i"
| "py_repr (JFloat s) = s"
| "py_repr (JStr s) = repr_str s"
| "py_repr (JList xs) = ''['' @ join_with '', '' (map py_repr xs) @ '']''"
| "py_repr (JObj d) =
     ''{'' @ join_with '', '' (map (\<lambda>(k, v). repr_str k @ '': '' @ py_repr v) d) @ ''}''"

text \<open>\<open>str(v)\<close>.\<close>

fun py_str :: "json \<Rightarrow> string" where
  "py_str (JStr s) = s"
| "py_str v = py_repr v"

text \<open>\<open>bool(v)\<close>.\<close>

fun truthy :: "json \<Rightarrow> bool" where
  "truthy JNull = False"
| "truthy (JBool b) = b"
| "truthy (JInt i) = (i \<noteq> 0)"
| "truthy (JFloat s) = (s \<noteq> ''0.0'' \<and> s \<noteq> ''-0.0'')"
| "truthy (JStr s) = (s \<noteq> [])"
| "truthy (JList xs) = (xs \<noteq> [])"
| "truthy (JObj d) = (d \<noteq> [])"

text \<open>What \<open>for x in v\<close> visits, or \<open>None\<close> where Python raises \<open>TypeError\<close>.\<close>

fun py_iter :: "json \<Rightarrow> json list option" where
  "py_iter (JStr s) = Some (map JStr (utf8_chars s))"
| "py_iter (JList xs) = Some xs"
| "py_iter (JObj d) = Some (map (JStr \<circ> fst) d)"
| "py_iter _ = None"

section \<open>Serialisation\<close>

definition esc_char :: "char \<Rightarrow> string" where
  "esc_char c =
     (if c = CHR 0x22 then [CHR 0x5C, CHR 0x22]
      else if c = CHR 0x5C then [CHR 0x5C, CHR 0x5C]
      else if c = CHR 0x0A then [CHR 0x5C, CHR ''n'']
      else if c = CHR 0x0D then [CHR 0x5C, CHR ''r'']
      else if c = CHR 0x09 then [CHR 0x5C, CHR ''t'']
      else if c = CHR 0x0C then [CHR 0x5C, CHR ''f'']
      else if c = CHR 0x08 then [CHR 0x5C, CHR ''b'']
      else if (of_char c :: nat) < 32 then [CHR 0x5C, CHR ''u''] @ hex_str 4 (of_char c)
      else [c])"

definition quote :: "string \<Rightarrow> string" where
  "quote s = [CHR 0x22] @ concat (map esc_char s) @ [CHR 0x22]"

fun render :: "json \<Rightarrow> string" where
  "render JNull = ''null''"
| "render (JBool b) = (if b then ''true'' else ''false'')"
| "render (JInt i) = int_str i"
| "render (JFloat s) = s"
| "render (JStr s) = quote s"
| "render (JList xs) = ''['' @ join_with '','' (map render xs) @ '']''"
| "render (JObj d) =
     ''{'' @ join_with '','' (map (\<lambda>(k, v). quote k @ '':'' @ render v) d) @ ''}''"

text \<open>\<open>sort_keys=True\<close>: every object is written in the order of its keys.\<close>

fun sort_json :: "json \<Rightarrow> json" where
  "sort_json (JList xs) = JList (map sort_json xs)"
| "sort_json (JObj d) = JObj (sort_key fst (map (\<lambda>(k, v). (k, sort_json v)) d))"
| "sort_json v = v"

definition dumps_sorted :: "json \<Rightarrow> string" where
  "dumps_sorted v = render (sort_json v)"

section \<open>The rendering is injective\<close>

fun float_free :: "json \<Rightarrow> bool" where
  "float_free (JFloat s) = False"
| "float_free (JList xs) = (\<forall>x \<in> set xs. float_free x)"
| "float_free (JObj d) = (\<forall>kv \<in> set d. float_free (snd kv))"
| "float_free _ = True"

definition unesc :: "string \<Rightarrow> char \<times> string" where
  "unesc s =
     (case s of
        x # y # r \<Rightarrow>
          (if x \<noteq> CHR 0x5C then (x, y # r)
           else if y = CHR 0x22 \<or> y = CHR 0x5C then (y, r)
           else if y = CHR ''n'' then (CHR 0x0A, r)
           else if y = CHR ''r'' then (CHR 0x0D, r)
           else if y = CHR ''t'' then (CHR 0x09, r)
           else if y = CHR ''f'' then (CHR 0x0C, r)
           else if y = CHR ''b'' then (CHR 0x08, r)
           else (char_of (hex_nat (take 4 r)), drop 4 r))
      | x # r \<Rightarrow> (x, r)
      | [] \<Rightarrow> (CHR 0x00, []))"

lemma unesc_esc_char: "unesc (esc_char c @ s) = (c, s)"
proof -
  have "hex_nat (hex_str 4 (of_char c)) = of_char c" if "(of_char c :: nat) < 32"
    by (rule hex_nat_hex_str) (use that in simp)
  then show ?thesis by (cases s) (auto simp: esc_char_def unesc_def)
qed

lemma esc_char_prefix: "esc_char c @ s = esc_char d @ t \<Longrightarrow> c = d \<and> s = t"
  by (metis Pair_inject unesc_esc_char)

lemma esc_char_not_quote: "esc_char c @ s \<noteq> CHR 0x22 # t"
  by (simp add: esc_char_def)

lemma quote_body_prefix:
  "concat (map esc_char s) @ CHR 0x22 # x = concat (map esc_char t) @ CHR 0x22 # y
    \<Longrightarrow> s = t \<and> x = y"
proof (induction s arbitrary: t)
  case Nil
  then show ?case
    by (cases t) (auto dest: esc_char_not_quote [THEN notE, OF sym])
next
  case (Cons c s)
  show ?case
  proof (cases t)
    case Nil
    with Cons.prems show ?thesis using esc_char_not_quote by auto
  next
    case (Cons d t')
    with Cons.prems
    have "esc_char c @ (concat (map esc_char s) @ CHR 0x22 # x) =
        esc_char d @ (concat (map esc_char t') @ CHR 0x22 # y)" by simp
    from esc_char_prefix [OF this] Cons.IH [of t'] Cons show ?thesis by simp
  qed
qed

lemma quote_prefix: "quote s @ x = quote t @ y \<Longrightarrow> s = t \<and> x = y"
  using quote_body_prefix [of s x t y] by (simp add: quote_def)

lemma quote_inj [simp]: "quote s = quote t \<longleftrightarrow> s = t"
  using quote_prefix [of s "[]" t "[]"] by auto

text \<open>
  Comma-separated items before a closing bracket: when each item can be told from any other by a
  text prefix, so can the whole sequence.
\<close>

lemma join_prefix:
  assumes item: "\<And>x y s t. x \<in> set xs \<Longrightarrow> y \<in> set ys \<Longrightarrow> no_digit s \<Longrightarrow> no_digit t \<Longrightarrow>
      r x @ s = r y @ t \<Longrightarrow> x = y \<and> s = t"
    and start: "\<And>x s t. x \<in> set xs \<union> set ys \<Longrightarrow> r x @ s \<noteq> e # t"
    and e: "\<not> is_digit e" "e \<noteq> CHR '',''"
    and eq: "join_with '','' (map r xs) @ e # a = join_with '','' (map r ys) @ e # b"
  shows "xs = ys \<and> a = b"
  using item start eq
proof (induction xs arbitrary: ys)
  case Nil
  then show ?case
  proof (cases ys)
    case (Cons y ys')
    with Nil.prems(2) [of y] Nil.prems(3) show ?thesis by (cases ys') (auto, metis+)
  qed simp
next
  case (Cons x xs)
  define tl where "tl zs c = (if zs = [] then e # c else '','' @ join_with '','' (map r zs) @ e # c)"
    for zs c
  have tl: "join_with '','' (map r (z # zs)) @ e # c = r z @ tl zs c" for z zs c
    by (cases zs) (simp_all add: tl_def)
  have nd: "no_digit (tl zs c)" for zs c
    using e by (simp add: tl_def is_digit_def)
  show ?case
  proof (cases ys)
    case Nil
    with Cons.prems(3) have "r x @ tl xs a = e # b" by (simp only: tl) simp
    with Cons.prems(2) [of x] show ?thesis by simp
  next
    case ys: (Cons y ys')
    with Cons.prems(3) have "r x @ tl xs a = r y @ tl ys' b" by (simp only: tl)
    with Cons.prems(1) [of x y "tl xs a" "tl ys' b"] ys nd
    have xy: "x = y" and teq: "tl xs a = tl ys' b" by simp_all
    show ?thesis
    proof (cases "xs = []")
      case True
      with teq e have "ys' = []" by (auto simp: tl_def split: if_splits)
      with True teq xy ys show ?thesis by (simp add: tl_def)
    next
      case False
      with teq e have "ys' \<noteq> []" by (auto simp: tl_def split: if_splits)
      with False teq have "join_with '','' (map r xs) @ e # a = join_with '','' (map r ys') @ e # b"
        by (simp add: tl_def)
      with Cons.IH [of ys'] Cons.prems(1,2) ys have "xs = ys' \<and> a = b" by auto
      with xy ys show ?thesis by simp
    qed
  qed
qed

text \<open>The first character of a rendering tells the kind of value, and none closes a bracket.\<close>

lemma render_start: "float_free v \<Longrightarrow> render v @ s \<noteq> CHR '']'' # t \<and> render v @ s \<noteq> CHR ''}'' # t"
proof (cases v)
  case (JInt i)
  have "hd (int_str i) \<noteq> CHR '']'' \<and> hd (int_str i) \<noteq> CHR ''}''"
    using int_str_chars [of "hd (int_str i)" i] by (auto simp: is_digit_def)
  with JInt show ?thesis by (metis append_is_Nil_conv hd_append2 int_str_nonempty list.sel(1) render.simps(3))
qed (auto simp: quote_def)

definition kind :: "char \<Rightarrow> nat" where
  "kind c = (if is_digit c \<or> c = CHR ''-'' then 0 else of_char c)"

lemma kind_int: "kind (hd (int_str i)) = 0"
  using int_str_chars [of "hd (int_str i)" i] by (auto simp: kind_def)

lemma kind_render:
  "float_free v \<Longrightarrow> kind (hd (render v @ s)) =
    (case v of JNull \<Rightarrow> 110 | JBool b \<Rightarrow> (if b then 116 else 102) | JInt i \<Rightarrow> 0
     | JFloat t \<Rightarrow> 0 | JStr t \<Rightarrow> 34 | JList xs \<Rightarrow> 91 | JObj d \<Rightarrow> 123)"
  using kind_int by (cases v) (auto simp: kind_def is_digit_def quote_def)

theorem render_prefix:
  "float_free v \<Longrightarrow> float_free w \<Longrightarrow> no_digit s \<Longrightarrow> no_digit t \<Longrightarrow>
    render v @ s = render w @ t \<Longrightarrow> v = w \<and> s = t"
proof (induction v arbitrary: w s t)
  case (JList xs)
  from JList.prems(5) have "kind (hd (render (JList xs) @ s)) = kind (hd (render w @ t))"
    by (simp only:)
  with kind_render [OF JList.prems(1)] kind_render [OF JList.prems(2)]
  obtain ys where w: "w = JList ys" by (auto split: json.splits if_splits)
  with JList.prems have eq: "join_with '','' (map render xs) @ CHR '']'' # s =
      join_with '','' (map render ys) @ CHR '']'' # t" by simp
  have "xs = ys \<and> s = t"
  proof (rule join_prefix [where r = render and e = "CHR '']''", OF _ _ _ _ eq])
    show "x = y \<and> s' = t'" if "x \<in> set xs" "y \<in> set ys" "no_digit s'" "no_digit t'"
      "render x @ s' = render y @ t'" for x y s' t'
      using JList.IH [OF that(1) _ _ that(3,4,5)] JList.prems(1,2) w that(1,2) by auto
    show "render x @ s' \<noteq> CHR '']'' # t'" if "x \<in> set xs \<union> set ys" for x s' t'
      using render_start [of x] that JList.prems(1,2) w by auto
  qed (auto simp: is_digit_def)
  with w show ?case by simp
next
  case (JObj d)
  let ?r = "\<lambda>(k, v). quote k @ '':'' @ render v"
  from JObj.prems(5) have "kind (hd (render (JObj d) @ s)) = kind (hd (render w @ t))"
    by (simp only:)
  with kind_render [OF JObj.prems(1)] kind_render [OF JObj.prems(2)]
  obtain e where w: "w = JObj e" by (auto split: json.splits if_splits)
  with JObj.prems have eq: "join_with '','' (map ?r d) @ CHR ''}'' # s =
      join_with '','' (map ?r e) @ CHR ''}'' # t" by simp
  have "d = e \<and> s = t"
  proof (rule join_prefix [where r = ?r and e = "CHR ''}''", OF _ _ _ _ eq])
    show "x = y \<and> s' = t'" if "x \<in> set d" "y \<in> set e" "no_digit s'" "no_digit t'"
      and xy: "?r x @ s' = ?r y @ t'" for x y s' t'
    proof -
      obtain k v k' v' where kv: "x = (k, v)" "y = (k', v')" by (cases x, cases y) blast
      with xy have "quote k @ ('':'' @ render v @ s') = quote k' @ ('':'' @ render v' @ t')" by simp
      from quote_prefix [OF this] have k: "k = k'" and v: "render v @ s' = render v' @ t'" by simp_all
      have "v \<in> Basic_BNFs.snds x" "float_free v" "float_free v'"
        using kv JObj.prems(1,2) w that(1,2) by auto
      from JObj.IH [OF that(1) this that(3,4) v] k kv show ?thesis by simp
    qed
    show "?r x @ s' \<noteq> CHR ''}'' # t'" for x s' t'
      by (cases x) (simp add: quote_def)
  qed (auto simp: is_digit_def)
  with w show ?case by simp
next
  case (JStr u)
  from JStr.prems(5) have "kind (hd (render (JStr u) @ s)) = kind (hd (render w @ t))"
    by (simp only:)
  with kind_render [OF JStr.prems(1)] kind_render [OF JStr.prems(2)]
  obtain u' where w: "w = JStr u'" by (auto split: json.splits if_splits)
  with JStr.prems(5) quote_prefix [of u s u' t] show ?case by simp
next
  case (JInt i)
  from JInt.prems(5) have "kind (hd (render (JInt i) @ s)) = kind (hd (render w @ t))"
    by (simp only:)
  with kind_render [OF JInt.prems(1)] kind_render [OF JInt.prems(2)] JInt.prems(2)
  obtain j where w: "w = JInt j" by (auto split: json.splits if_splits)
  with JInt.prems(3-5) int_str_prefix [of i s j t] show ?case by simp
next
  case JNull
  from JNull.prems(5) have "kind (hd (render JNull @ s)) = kind (hd (render w @ t))"
    by (simp only:)
  with kind_render [OF JNull.prems(1)] kind_render [OF JNull.prems(2)]
  have "w = JNull" by (auto split: json.splits if_splits)
  with JNull.prems(5) show ?case by simp
next
  case (JBool b)
  from JBool.prems(5) have "kind (hd (render (JBool b) @ s)) = kind (hd (render w @ t))"
    by (simp only:)
  with kind_render [OF JBool.prems(1)] kind_render [OF JBool.prems(2)]
  have "w = JBool b" by (auto split: json.splits if_splits)
  with JBool.prems(5) show ?case by simp
qed simp

corollary render_inject:
  "float_free v \<Longrightarrow> float_free w \<Longrightarrow> render v = render w \<longleftrightarrow> v = w"
  using render_prefix [of v w "[]" "[]"] by auto

text \<open>Sorting the keys keeps a value float-free, and the sorted form is what decides equality.\<close>

lemma float_free_sort_json [simp]: "float_free (sort_json v) = float_free v"
  by (induction v) (auto simp: image_iff split_beta)

theorem dumps_sorted_inject:
  "float_free v \<Longrightarrow> float_free w \<Longrightarrow> dumps_sorted v = dumps_sorted w \<longleftrightarrow> sort_json v = sort_json w"
  by (simp add: dumps_sorted_def render_inject)

text \<open>
  Two objects with the same sorted form hold the same members: the sorted form forgets the order
  of the items and nothing else.
\<close>

lemma map_of_eqI_perm:
  assumes "distinct (map fst x)" and "mset y = mset x"
  shows "map_of y k = map_of x k"
proof -
  from assms(2) have "mset (map fst y) = mset (map fst x)" by simp
  with assms(1) have "distinct (map fst y)" by (metis mset_eq_imp_distinct_iff)
  moreover from assms(2) have "set y = set x" by (rule mset_eq_setD)
  ultimately show ?thesis using assms(1) by (metis map_of_inject_set)
qed

lemma sort_json_JObj_members:
  assumes "sort_json (JObj d) = sort_json (JObj e)" and "distinct (map fst d)" and "distinct (map fst e)"
  shows "map_option sort_json (map_of d k) = map_option sort_json (map_of e k)"
proof -
  let ?f = "\<lambda>(k, v). (k, sort_json v)"
  have keys: "map fst (map ?f x) = map fst x" for x by (induction x) auto
  have mo: "map_of (map ?f x) k = map_option sort_json (map_of x k)" for x
    by (induction x) auto
  have "map_of (sort_key fst (map ?f x)) k = map_of (map ?f x) k" if "distinct (map fst x)" for x
  proof (rule map_of_eqI_perm)
    show "distinct (map fst (map ?f x))" using that by (simp only: keys)
  qed simp
  with assms mo show ?thesis by (metis json.inject(6) sort_json.simps(2))
qed

end
