(* ===== verification/Domain_Enums.thy ===== *)
theory Domain_Enums
  imports Prelude
begin

text \<open>
  The closed enumerations of \<open>domain/enums.py\<close>. Each \<open>StrEnum\<close> is a datatype with a function to
  its string value and the inverse lookup that calling the enumeration on a string performs
  (\<open>None\<close> where Python raises \<open>ValueError\<close>). Risk bands, dispositions and routes are ordered by
  strictness, which the risk and revalidation rules compare.
\<close>

datatype tool_name =
  INSPECT_SERVICE | RESTART_SERVICE | SCALE_SERVICE | PROVISION_RESOURCE | DELETE_RESOURCE

datatype risk_band = LOW | MEDIUM | HIGH | CRITICAL

datatype policy_disposition = ALLOW | REQUIRE_APPROVAL | BLOCK

datatype approval_route = NONE | SINGLE | CRITICAL_TWO_STEP

datatype approval_decision = APPROVE | REJECT

datatype intent_state =
    REQUESTED | RISK_EVALUATED | POLICY_EVALUATED | AUTO_APPROVED
  | PENDING_APPROVAL_1 | APPROVED_BY_LEVEL_1 | PENDING_APPROVAL_2 | APPROVED
  | REVALIDATING | EXECUTING | SUCCEEDED | FAILED | EXECUTION_UNKNOWN
  | BLOCKED | REJECTED | CANCELLED | EXPIRED | STALE

datatype execution_outcome = OUT_SUCCEEDED | OUT_FAILED | OUT_UNKNOWN

datatype intent_source = AGENT | DIRECT

section \<open>String values\<close>

fun tool_value :: "tool_name \<Rightarrow> string" where
  "tool_value INSPECT_SERVICE = ''inspect_service''"
| "tool_value RESTART_SERVICE = ''restart_service''"
| "tool_value SCALE_SERVICE = ''scale_service''"
| "tool_value PROVISION_RESOURCE = ''provision_resource''"
| "tool_value DELETE_RESOURCE = ''delete_resource''"

fun band_value :: "risk_band \<Rightarrow> string" where
  "band_value LOW = ''LOW''"
| "band_value MEDIUM = ''MEDIUM''"
| "band_value HIGH = ''HIGH''"
| "band_value CRITICAL = ''CRITICAL''"

fun disposition_value :: "policy_disposition \<Rightarrow> string" where
  "disposition_value ALLOW = ''ALLOW''"
| "disposition_value REQUIRE_APPROVAL = ''REQUIRE_APPROVAL''"
| "disposition_value BLOCK = ''BLOCK''"

fun route_value :: "approval_route \<Rightarrow> string" where
  "route_value NONE = ''NONE''"
| "route_value SINGLE = ''SINGLE''"
| "route_value CRITICAL_TWO_STEP = ''CRITICAL_TWO_STEP''"

fun decision_value :: "approval_decision \<Rightarrow> string" where
  "decision_value APPROVE = ''APPROVE''"
| "decision_value REJECT = ''REJECT''"

fun state_value :: "intent_state \<Rightarrow> string" where
  "state_value REQUESTED = ''REQUESTED''"
| "state_value RISK_EVALUATED = ''RISK_EVALUATED''"
| "state_value POLICY_EVALUATED = ''POLICY_EVALUATED''"
| "state_value AUTO_APPROVED = ''AUTO_APPROVED''"
| "state_value PENDING_APPROVAL_1 = ''PENDING_APPROVAL_1''"
| "state_value APPROVED_BY_LEVEL_1 = ''APPROVED_BY_LEVEL_1''"
| "state_value PENDING_APPROVAL_2 = ''PENDING_APPROVAL_2''"
| "state_value APPROVED = ''APPROVED''"
| "state_value REVALIDATING = ''REVALIDATING''"
| "state_value EXECUTING = ''EXECUTING''"
| "state_value SUCCEEDED = ''SUCCEEDED''"
| "state_value FAILED = ''FAILED''"
| "state_value EXECUTION_UNKNOWN = ''EXECUTION_UNKNOWN''"
| "state_value BLOCKED = ''BLOCKED''"
| "state_value REJECTED = ''REJECTED''"
| "state_value CANCELLED = ''CANCELLED''"
| "state_value EXPIRED = ''EXPIRED''"
| "state_value STALE = ''STALE''"

fun outcome_value :: "execution_outcome \<Rightarrow> string" where
  "outcome_value OUT_SUCCEEDED = ''SUCCEEDED''"
| "outcome_value OUT_FAILED = ''FAILED''"
| "outcome_value OUT_UNKNOWN = ''UNKNOWN''"

fun source_value :: "intent_source \<Rightarrow> string" where
  "source_value AGENT = ''AGENT''"
| "source_value DIRECT = ''DIRECT''"

section \<open>Lookup by value\<close>

definition all_tools :: "tool_name list" where
  "all_tools = [INSPECT_SERVICE, RESTART_SERVICE, SCALE_SERVICE, PROVISION_RESOURCE, DELETE_RESOURCE]"

definition tool_of :: "string \<Rightarrow> tool_name option" where
  "tool_of s = find (\<lambda>t. tool_value t = s) all_tools"

definition outcome_of :: "string \<Rightarrow> execution_outcome option" where
  "outcome_of s = find (\<lambda>t. outcome_value t = s) [OUT_SUCCEEDED, OUT_FAILED, OUT_UNKNOWN]"

definition source_of :: "string \<Rightarrow> intent_source option" where
  "source_of s = find (\<lambda>t. source_value t = s) [AGENT, DIRECT]"

lemma tool_of_value [simp]: "tool_of (tool_value t) = Some t"
  by (cases t) (simp_all add: tool_of_def all_tools_def)

lemma tool_of_SomeD: "tool_of s = Some t \<Longrightarrow> s = tool_value t"
  unfolding tool_of_def by (drule find_SomeD) simp

lemma tool_value_inj [simp]: "tool_value s = tool_value t \<longleftrightarrow> s = t"
  by (metis option.inject tool_of_value)

lemma outcome_of_value [simp]: "outcome_of (outcome_value t) = Some t"
  by (cases t) (simp_all add: outcome_of_def)

lemma outcome_of_SomeD: "outcome_of s = Some t \<Longrightarrow> s = outcome_value t"
  unfolding outcome_of_def by (drule find_SomeD) simp

lemma state_value_inj [simp]: "state_value s = state_value t \<longleftrightarrow> s = t"
  by (cases s; cases t) simp_all

lemma state_value_bound: "length (state_value s) \<le> 19"
  by (cases s) simp_all

section \<open>Strictness orders\<close>

fun band_rank :: "risk_band \<Rightarrow> int" where
  "band_rank LOW = 0"
| "band_rank MEDIUM = 1"
| "band_rank HIGH = 2"
| "band_rank CRITICAL = 3"

fun disposition_rank :: "policy_disposition \<Rightarrow> nat" where
  "disposition_rank ALLOW = 0"
| "disposition_rank REQUIRE_APPROVAL = 1"
| "disposition_rank BLOCK = 2"

fun route_rank :: "approval_route \<Rightarrow> nat" where
  "route_rank NONE = 0"
| "route_rank SINGLE = 1"
| "route_rank CRITICAL_TWO_STEP = 2"

lemma band_rank_inj [simp]: "band_rank a = band_rank b \<longleftrightarrow> a = b"
  by (cases a; cases b) simp_all

lemma disposition_rank_inj [simp]: "disposition_rank a = disposition_rank b \<longleftrightarrow> a = b"
  by (cases a; cases b) simp_all

lemma route_rank_inj [simp]: "route_rank a = route_rank b \<longleftrightarrow> a = b"
  by (cases a; cases b) simp_all

instantiation risk_band :: linorder
begin
definition less_eq_risk_band :: "risk_band \<Rightarrow> risk_band \<Rightarrow> bool" where
  "less_eq_risk_band a b \<longleftrightarrow> band_rank a \<le> band_rank b"
definition less_risk_band :: "risk_band \<Rightarrow> risk_band \<Rightarrow> bool" where
  "less_risk_band a b \<longleftrightarrow> band_rank a < band_rank b"
instance
  by standard (auto simp: less_eq_risk_band_def less_risk_band_def intro: band_rank_inj [THEN iffD1])
end

instantiation policy_disposition :: linorder
begin
definition less_eq_policy_disposition :: "policy_disposition \<Rightarrow> policy_disposition \<Rightarrow> bool" where
  "less_eq_policy_disposition a b \<longleftrightarrow> disposition_rank a \<le> disposition_rank b"
definition less_policy_disposition :: "policy_disposition \<Rightarrow> policy_disposition \<Rightarrow> bool" where
  "less_policy_disposition a b \<longleftrightarrow> disposition_rank a < disposition_rank b"
instance
  by standard (auto simp: less_eq_policy_disposition_def less_policy_disposition_def
      intro: disposition_rank_inj [THEN iffD1])
end

instantiation approval_route :: linorder
begin
definition less_eq_approval_route :: "approval_route \<Rightarrow> approval_route \<Rightarrow> bool" where
  "less_eq_approval_route a b \<longleftrightarrow> route_rank a \<le> route_rank b"
definition less_approval_route :: "approval_route \<Rightarrow> approval_route \<Rightarrow> bool" where
  "less_approval_route a b \<longleftrightarrow> route_rank a < route_rank b"
instance
  by standard (auto simp: less_eq_approval_route_def less_approval_route_def
      intro: route_rank_inj [THEN iffD1])
end

lemmas strictness_defs =
  less_eq_risk_band_def less_risk_band_def
  less_eq_policy_disposition_def less_policy_disposition_def
  less_eq_approval_route_def less_approval_route_def

end
