(* ===== verification/Domain_Errors.thy ===== *)
theory Domain_Errors
  imports Prelude
begin

text \<open>
  The exceptions of the program. \<open>domain/errors.py\<close> defines a class hierarchy under
  \<open>DomainError\<close> whose attributes (code, message, status, retryable, \<open>persist_state\<close>) the API
  envelope and the transaction owner read; an instance may override some of them. The other
  constructors of \<open>exn\<close> are the exceptions of the agent, adapter, identity and database layers
  that the code distinguishes, and the built-in ones it can raise.

  A fallible operation returns \<open>exn + 'a\<close>. A handler that works on a database session returns the
  result together with the session's database at that point; \<open>run_transaction\<close> is the owner's
  rule for what survives.
\<close>

datatype error_class =
    DomainError | IllegalTransitionError | StateConflictError | ForbiddenError
  | RateLimitedError | ApprovalStaleError | ApprovalExpiredError | IdempotencyConflictError
  | NotFoundError | ExecutionClassificationError

record domain_error =
  de_class :: error_class
  de_message :: string
  de_code :: string
  de_status :: int
  de_retryable :: bool

fun class_code :: "error_class \<Rightarrow> string" where
  "class_code DomainError = ''DOMAIN_ERROR''"
| "class_code IllegalTransitionError = ''STATE_CONFLICT''"
| "class_code StateConflictError = ''STATE_CONFLICT''"
| "class_code ForbiddenError = ''FORBIDDEN''"
| "class_code RateLimitedError = ''RATE_LIMITED''"
| "class_code ApprovalStaleError = ''APPROVAL_STALE''"
| "class_code ApprovalExpiredError = ''APPROVAL_EXPIRED''"
| "class_code IdempotencyConflictError = ''IDEMPOTENCY_CONFLICT''"
| "class_code NotFoundError = ''NOT_FOUND''"
| "class_code ExecutionClassificationError = ''EXECUTION_FAILED''"

fun class_message :: "error_class \<Rightarrow> string" where
  "class_message DomainError = ''Domain failure.''"
| "class_message IllegalTransitionError = ''Transition is not legal for the current state.''"
| "class_message StateConflictError = ''Concurrent modification lost the race.''"
| "class_message ForbiddenError = ''Actor is not authorized for this action.''"
| "class_message RateLimitedError = ''Request rate exceeded.''"
| "class_message ApprovalStaleError = ''Decision does not match the current intent revision.''"
| "class_message ApprovalExpiredError = ''Approval window elapsed before the decision.''"
| "class_message IdempotencyConflictError =
     ''Idempotency key was already used with a different request.''"
| "class_message NotFoundError = ''Resource not found.''"
| "class_message ExecutionClassificationError = ''Execution could not be classified.''"

fun class_retryable :: "error_class \<Rightarrow> bool" where
  "class_retryable RateLimitedError = True"
| "class_retryable _ = False"

fun class_status :: "error_class \<Rightarrow> int" where
  "class_status DomainError = 400"
| "class_status IllegalTransitionError = 409"
| "class_status StateConflictError = 409"
| "class_status ForbiddenError = 403"
| "class_status RateLimitedError = 429"
| "class_status ApprovalStaleError = 409"
| "class_status ApprovalExpiredError = 409"
| "class_status IdempotencyConflictError = 409"
| "class_status NotFoundError = 404"
| "class_status ExecutionClassificationError = 500"

fun class_persist_state :: "error_class \<Rightarrow> bool" where
  "class_persist_state ApprovalExpiredError = True"
| "class_persist_state _ = False"

text \<open>\<open>DomainError.__init__\<close>: an empty message falls back to the class's.\<close>

definition make_error ::
  "error_class \<Rightarrow> string \<Rightarrow> string option \<Rightarrow> int option \<Rightarrow> bool option \<Rightarrow> domain_error" where
  "make_error c msg code st ret =
     \<lparr>de_class = c,
      de_message = (if msg = [] then class_message c else msg),
      de_code = (case code of None \<Rightarrow> class_code c | Some x \<Rightarrow> x),
      de_status = (case st of None \<Rightarrow> class_status c | Some x \<Rightarrow> x),
      de_retryable = (case ret of None \<Rightarrow> class_retryable c | Some x \<Rightarrow> x)\<rparr>"

datatype exn =
    Domain domain_error
  | UnknownToolError
  | ParameterValidationError
  | RequestValidationError
  | IdentityValidationError
  | AdapterPreSendError
  | AdapterUnavailableError
  | TimeoutError
  | NoResultFound
  | MultipleResultsFound
  | IntegrityError
  | DataError
  | LookupError
  | ValueError
  | TypeError
  | RuntimeError

definition raise_error :: "error_class \<Rightarrow> string \<Rightarrow> exn" where
  "raise_error c msg = Domain (make_error c msg None None None)"

definition raise_coded :: "string \<Rightarrow> string \<Rightarrow> int \<Rightarrow> bool option \<Rightarrow> exn" where
  "raise_coded msg code st ret = Domain (make_error DomainError msg (Some code) (Some st) ret)"

fun is_class :: "error_class \<Rightarrow> exn \<Rightarrow> bool" where
  "is_class c (Domain d) = (de_class d = c)"
| "is_class c _ = False"

fun is_domain_error :: "exn \<Rightarrow> bool" where
  "is_domain_error (Domain d) = True"
| "is_domain_error _ = False"

text \<open>\<open>getattr(exc, "persist_state", False)\<close>.\<close>

fun persist_state :: "exn \<Rightarrow> bool" where
  "persist_state (Domain d) = class_persist_state (de_class d)"
| "persist_state _ = False"

lemma is_class_raise [simp]: "is_class c (raise_error c' msg) \<longleftrightarrow> c = c'"
  by (auto simp: raise_error_def make_error_def)

lemma is_domain_raise [simp]: "is_domain_error (raise_error c msg)"
  by (simp add: raise_error_def)

lemma persist_state_raise [simp]: "persist_state (raise_error c msg) = class_persist_state c"
  by (simp add: raise_error_def make_error_def)

lemma persist_state_coded [simp]: "persist_state (raise_coded msg code st ret) = False"
  by (simp add: raise_coded_def make_error_def)

text \<open>
  The transaction of \<open>get_session\<close> (\<open>api/dependencies.py\<close>): a result commits the session, an
  error rolls it back unless it marks durable state, and the error is re-raised either way.
\<close>

definition run_transaction :: "('s \<Rightarrow> (exn + 'a) \<times> 's) \<Rightarrow> 's \<Rightarrow> (exn + 'a) \<times> 's" where
  "run_transaction h s =
     (case h s of
        (Inr a, s') \<Rightarrow> (Inr a, s')
      | (Inl e, s') \<Rightarrow> (Inl e, if persist_state e then s' else s))"

text \<open>
  \<open>async with session.begin()\<close> (worker code): every exception rolls back.
\<close>

definition begin_block :: "('s \<Rightarrow> (exn + 'a) \<times> 's) \<Rightarrow> 's \<Rightarrow> (exn + 'a) \<times> 's" where
  "begin_block h s = (case h s of (Inr a, s') \<Rightarrow> (Inr a, s') | (Inl e, s') \<Rightarrow> (Inl e, s))"

text \<open>Result methods of a query: at most one row, and exactly one row.\<close>

fun scalar_one_or_none :: "'a list \<Rightarrow> exn + 'a option" where
  "scalar_one_or_none [] = Inr None"
| "scalar_one_or_none [x] = Inr (Some x)"
| "scalar_one_or_none (x # y # xs) = Inl MultipleResultsFound"

fun scalar_one :: "'a list \<Rightarrow> exn + 'a" where
  "scalar_one [] = Inl NoResultFound"
| "scalar_one [x] = Inr x"
| "scalar_one (x # y # xs) = Inl MultipleResultsFound"

fun first_row :: "'a list \<Rightarrow> 'a option" where
  "first_row [] = None"
| "first_row (x # xs) = Some x"

lemma scalar_one_or_none_le1:
  "length xs \<le> 1 \<Longrightarrow> scalar_one_or_none xs = Inr (first_row xs)"
  by (cases xs rule: scalar_one_or_none.cases) auto

lemma scalar_one_or_none_Inr:
  "scalar_one_or_none xs = Inr (Some x) \<longleftrightarrow> xs = [x]"
  "scalar_one_or_none xs = Inr None \<longleftrightarrow> xs = []"
  by (cases xs rule: scalar_one_or_none.cases; auto)+

lemma scalar_one_Inr: "scalar_one xs = Inr x \<longleftrightarrow> xs = [x]"
  by (cases xs rule: scalar_one.cases) auto

lemma first_row_filter: "first_row (filter p xs) = find p xs"
  by (induction xs) auto

end
