(* ===== verification/Schemas.thy ===== *)
theory Schemas
  imports Json Domain_Enums Domain_Errors
begin

text \<open>
  \<open>agent/schemas.py\<close>: the five strict parameter models, their validation and their JSON dump.
  Validation is pydantic's: unknown keys are refused, enumerations are closed, names are bounded
  and pattern-checked. The conversion pydantic applies to the one integer field (\<open>replicas\<close>) in
  its default mode belongs to that library and is the parameter \<open>coerce\<close>.

  The lemmas show that an accepted proposal is within every bound, that dumping and parsing it
  again gives the same value, and that an unknown or extra field is refused.
\<close>

datatype environment_name = STAGING | PRODUCTION
datatype restart_strategy = ROLLING | IMMEDIATE
datatype resource_type = POSTGRES_INSTANCE | REDIS_CACHE | OBJECT_STORE
datatype region_name = US_EAST_1 | US_WEST_2 | EU_WEST_1 | AP_SOUTH_1
datatype resource_size = SMALL | MEDIUM_SIZE | LARGE
datatype cost_class = COST_LOW | COST_MEDIUM | COST_HIGH
datatype deletion_mode = SOFT | HARD

fun environment_value :: "environment_name \<Rightarrow> string" where
  "environment_value STAGING = ''staging''"
| "environment_value PRODUCTION = ''production''"

fun strategy_value :: "restart_strategy \<Rightarrow> string" where
  "strategy_value ROLLING = ''rolling''"
| "strategy_value IMMEDIATE = ''immediate''"

fun resource_value :: "resource_type \<Rightarrow> string" where
  "resource_value POSTGRES_INSTANCE = ''postgres_instance''"
| "resource_value REDIS_CACHE = ''redis_cache''"
| "resource_value OBJECT_STORE = ''object_store''"

fun region_value :: "region_name \<Rightarrow> string" where
  "region_value US_EAST_1 = ''us-east-1''"
| "region_value US_WEST_2 = ''us-west-2''"
| "region_value EU_WEST_1 = ''eu-west-1''"
| "region_value AP_SOUTH_1 = ''ap-south-1''"

fun size_value :: "resource_size \<Rightarrow> string" where
  "size_value SMALL = ''small''"
| "size_value MEDIUM_SIZE = ''medium''"
| "size_value LARGE = ''large''"

fun cost_value :: "cost_class \<Rightarrow> string" where
  "cost_value COST_LOW = ''low''"
| "cost_value COST_MEDIUM = ''medium''"
| "cost_value COST_HIGH = ''high''"

fun deletion_value :: "deletion_mode \<Rightarrow> string" where
  "deletion_value SOFT = ''soft''"
| "deletion_value HARD = ''hard''"

text \<open>The string patterns of \<open>BoundedName\<close> and \<open>BoundedField\<close>; all their characters are ASCII.\<close>

definition is_lower_alnum :: "char \<Rightarrow> bool" where
  "is_lower_alnum c \<longleftrightarrow> (let n = of_char c in (97 \<le> n \<and> n \<le> 122) \<or> (48 \<le> n \<and> n \<le> (57::nat)))"

definition bounded_name :: "string \<Rightarrow> bool" where
  "bounded_name s \<longleftrightarrow> 1 \<le> py_len s \<and> py_len s \<le> 63 \<and>
     (case s of [] \<Rightarrow> False
      | c # r \<Rightarrow> is_lower_alnum c \<and> list_all (\<lambda>x. is_lower_alnum x \<or> x = CHR ''-'') r)"

definition bounded_field :: "string \<Rightarrow> bool" where
  "bounded_field s \<longleftrightarrow> 1 \<le> py_len s \<and> py_len s \<le> 50 \<and> s \<noteq> [] \<and>
     list_all (\<lambda>x. is_lower_alnum x \<or> x = CHR ''_'' \<or> x = CHR ''.'') s"

section \<open>The models\<close>

datatype tool_parameters =
    InspectServiceParameters environment_name string "string list"
  | RestartServiceParameters environment_name string restart_strategy
  | ScaleServiceParameters environment_name string int
  | ProvisionResourceParameters environment_name resource_type string region_name resource_size cost_class
  | DeleteResourceParameters environment_name resource_type string deletion_mode

text \<open>\<open>TOOL_PARAMETER_MODELS\<close> read backwards: the tool whose model a value belongs to.\<close>

fun model_tool :: "tool_parameters \<Rightarrow> tool_name" where
  "model_tool (InspectServiceParameters _ _ _) = INSPECT_SERVICE"
| "model_tool (RestartServiceParameters _ _ _) = RESTART_SERVICE"
| "model_tool (ScaleServiceParameters _ _ _) = SCALE_SERVICE"
| "model_tool (ProvisionResourceParameters _ _ _ _ _ _) = PROVISION_RESOURCE"
| "model_tool (DeleteResourceParameters _ _ _ _) = DELETE_RESOURCE"

fun model_fields :: "tool_name \<Rightarrow> string list" where
  "model_fields INSPECT_SERVICE = [''environment'', ''service'', ''requested_fields'']"
| "model_fields RESTART_SERVICE = [''environment'', ''service'', ''strategy'']"
| "model_fields SCALE_SERVICE = [''environment'', ''service'', ''replicas'']"
| "model_fields PROVISION_RESOURCE =
     [''environment'', ''resource_type'', ''name'', ''region'', ''size'', ''cost_class'']"
| "model_fields DELETE_RESOURCE = [''environment'', ''resource_type'', ''resource_id'', ''deletion_mode'']"

text \<open>\<open>model_dump(mode="json")\<close>.\<close>

fun model_dump :: "tool_parameters \<Rightarrow> dict" where
  "model_dump (InspectServiceParameters e s fs) =
     [(''environment'', JStr (environment_value e)), (''service'', JStr s),
      (''requested_fields'', JList (map JStr fs))]"
| "model_dump (RestartServiceParameters e s st) =
     [(''environment'', JStr (environment_value e)), (''service'', JStr s),
      (''strategy'', JStr (strategy_value st))]"
| "model_dump (ScaleServiceParameters e s n) =
     [(''environment'', JStr (environment_value e)), (''service'', JStr s), (''replicas'', JInt n)]"
| "model_dump (ProvisionResourceParameters e t n r sz c) =
     [(''environment'', JStr (environment_value e)), (''resource_type'', JStr (resource_value t)),
      (''name'', JStr n), (''region'', JStr (region_value r)), (''size'', JStr (size_value sz)),
      (''cost_class'', JStr (cost_value c))]"
| "model_dump (DeleteResourceParameters e t r m) =
     [(''environment'', JStr (environment_value e)), (''resource_type'', JStr (resource_value t)),
      (''resource_id'', JStr r), (''deletion_mode'', JStr (deletion_value m))]"

section \<open>Validation\<close>

text \<open>A closed enumeration field: the member whose value is the given string.\<close>

definition enum_field :: "('e \<Rightarrow> string) \<Rightarrow> 'e list \<Rightarrow> json option \<Rightarrow> 'e option" where
  "enum_field val members v =
     (case v of Some (JStr s) \<Rightarrow> find (\<lambda>m. val m = s) members | _ \<Rightarrow> None)"

definition name_field :: "json option \<Rightarrow> string option" where
  "name_field v = (case v of Some (JStr s) \<Rightarrow> if bounded_name s then Some s else None | _ \<Rightarrow> None)"

definition fields_field :: "json option \<Rightarrow> string list option" where
  "fields_field v =
     (case v of
        None \<Rightarrow> Some []
      | Some (JList xs) \<Rightarrow>
          (if list_all (\<lambda>x. case x of JStr s \<Rightarrow> bounded_field s | _ \<Rightarrow> False) xs \<and> length xs \<le> 10
           then Some (map (\<lambda>x. case x of JStr s \<Rightarrow> s | _ \<Rightarrow> []) xs) else None)
      | _ \<Rightarrow> None)"

definition replicas_field :: "(json \<Rightarrow> int option) \<Rightarrow> json option \<Rightarrow> int option" where
  "replicas_field coerce v =
     (case v of
        None \<Rightarrow> None
      | Some x \<Rightarrow> (case coerce x of
                     Some n \<Rightarrow> if 0 \<le> n \<and> n \<le> 1000 then Some n else None
                   | None \<Rightarrow> None))"

abbreviation environment_field :: "json option \<Rightarrow> environment_name option" where
  "environment_field \<equiv> enum_field environment_value [STAGING, PRODUCTION]"

abbreviation resource_field :: "json option \<Rightarrow> resource_type option" where
  "resource_field \<equiv> enum_field resource_value [POSTGRES_INSTANCE, REDIS_CACHE, OBJECT_STORE]"

definition validate_fields ::
  "(json \<Rightarrow> int option) \<Rightarrow> tool_name \<Rightarrow> (string \<Rightarrow> json option) \<Rightarrow> tool_parameters option" where
  "validate_fields coerce t f =
     (case t of
        INSPECT_SERVICE \<Rightarrow>
          Option.bind (environment_field (f ''environment'')) (\<lambda>e.
          Option.bind (name_field (f ''service'')) (\<lambda>s.
          Option.bind (fields_field (f ''requested_fields'')) (\<lambda>fs.
            Some (InspectServiceParameters e s fs))))
      | RESTART_SERVICE \<Rightarrow>
          Option.bind (environment_field (f ''environment'')) (\<lambda>e.
          Option.bind (name_field (f ''service'')) (\<lambda>s.
          Option.bind (enum_field strategy_value [ROLLING, IMMEDIATE] (f ''strategy'')) (\<lambda>st.
            Some (RestartServiceParameters e s st))))
      | SCALE_SERVICE \<Rightarrow>
          Option.bind (environment_field (f ''environment'')) (\<lambda>e.
          Option.bind (name_field (f ''service'')) (\<lambda>s.
          Option.bind (replicas_field coerce (f ''replicas'')) (\<lambda>n.
            Some (ScaleServiceParameters e s n))))
      | PROVISION_RESOURCE \<Rightarrow>
          Option.bind (environment_field (f ''environment'')) (\<lambda>e.
          Option.bind (resource_field (f ''resource_type'')) (\<lambda>ty.
          Option.bind (name_field (f ''name'')) (\<lambda>n.
          Option.bind (enum_field region_value [US_EAST_1, US_WEST_2, EU_WEST_1, AP_SOUTH_1] (f ''region'')) (\<lambda>r.
          Option.bind (enum_field size_value [SMALL, MEDIUM_SIZE, LARGE] (f ''size'')) (\<lambda>sz.
          Option.bind (enum_field cost_value [COST_LOW, COST_MEDIUM, COST_HIGH] (f ''cost_class'')) (\<lambda>c.
            Some (ProvisionResourceParameters e ty n r sz c)))))))
      | DELETE_RESOURCE \<Rightarrow>
          Option.bind (environment_field (f ''environment'')) (\<lambda>e.
          Option.bind (resource_field (f ''resource_type'')) (\<lambda>ty.
          Option.bind (name_field (f ''resource_id'')) (\<lambda>r.
          Option.bind (enum_field deletion_value [SOFT, HARD] (f ''deletion_mode'')) (\<lambda>m.
            Some (DeleteResourceParameters e ty r m))))))"

text \<open>\<open>extra="forbid"\<close>, then every field.\<close>

definition model_validate ::
  "(json \<Rightarrow> int option) \<Rightarrow> tool_name \<Rightarrow> dict \<Rightarrow> tool_parameters option" where
  "model_validate coerce t d =
     (if list_all (\<lambda>(k, v). k \<in> set (model_fields t)) d then validate_fields coerce t (map_of d) else None)"

definition parse_tool_parameters ::
  "(json \<Rightarrow> int option) \<Rightarrow> string \<Rightarrow> dict \<Rightarrow> exn + tool_parameters" where
  "parse_tool_parameters coerce tool d =
     (case tool_of tool of
        None \<Rightarrow> Inl UnknownToolError
      | Some t \<Rightarrow> (case model_validate coerce t d of
                     None \<Rightarrow> Inl ParameterValidationError
                   | Some p \<Rightarrow> Inr p))"

section \<open>What validation guarantees\<close>

fun parameters_ok :: "tool_parameters \<Rightarrow> bool" where
  "parameters_ok (InspectServiceParameters e s fs) =
     (bounded_name s \<and> length fs \<le> 10 \<and> list_all bounded_field fs)"
| "parameters_ok (RestartServiceParameters e s st) = bounded_name s"
| "parameters_ok (ScaleServiceParameters e s n) = (bounded_name s \<and> 0 \<le> n \<and> n \<le> 1000)"
| "parameters_ok (ProvisionResourceParameters e t n r sz c) = bounded_name n"
| "parameters_ok (DeleteResourceParameters e t r m) = bounded_name r"

lemma name_field_Some: "name_field v = Some s \<longleftrightarrow> v = Some (JStr s) \<and> bounded_name s"
  by (auto simp: name_field_def split: option.splits json.splits)

lemma fields_field_bounded:
  "fields_field v = Some fs \<Longrightarrow> length fs \<le> 10 \<and> list_all bounded_field fs"
  by (auto simp: fields_field_def list_all_iff split: option.splits json.splits if_splits)

lemma replicas_field_bounded: "replicas_field coerce v = Some n \<Longrightarrow> 0 \<le> n \<and> n \<le> 1000"
  by (auto simp: replicas_field_def split: option.splits if_splits)

lemma fields_field_dump: "list_all bounded_field fs \<Longrightarrow> length fs \<le> 10 \<Longrightarrow>
    fields_field (Some (JList (map JStr fs))) = Some fs"
  by (simp add: fields_field_def list_all_iff comp_def)

lemma validate_fields_ok:
  "validate_fields coerce t f = Some p \<Longrightarrow> parameters_ok p \<and> model_tool p = t"
  by (cases t) (auto simp: validate_fields_def name_field_Some bind_eq_Some_conv
      dest: fields_field_bounded replicas_field_bounded)

lemma enum_field_dump:
  "enum_field environment_value [STAGING, PRODUCTION] (Some (JStr (environment_value e))) = Some e"
  "enum_field strategy_value [ROLLING, IMMEDIATE] (Some (JStr (strategy_value st))) = Some st"
  "enum_field resource_value [POSTGRES_INSTANCE, REDIS_CACHE, OBJECT_STORE]
     (Some (JStr (resource_value ty))) = Some ty"
  "enum_field region_value [US_EAST_1, US_WEST_2, EU_WEST_1, AP_SOUTH_1]
     (Some (JStr (region_value r))) = Some r"
  "enum_field size_value [SMALL, MEDIUM_SIZE, LARGE] (Some (JStr (size_value sz))) = Some sz"
  "enum_field cost_value [COST_LOW, COST_MEDIUM, COST_HIGH] (Some (JStr (cost_value c))) = Some c"
  "enum_field deletion_value [SOFT, HARD] (Some (JStr (deletion_value m))) = Some m"
  by (cases e, simp_all add: enum_field_def, cases st, simp_all, cases ty, simp_all,
      cases r, simp_all, cases sz, simp_all, cases c, simp_all, cases m, simp_all)

lemma model_dump_fields: "map fst (model_dump p) = model_fields (model_tool p)"
  by (cases p) simp_all

lemma model_dump_distinct: "distinct (map fst (model_dump p))"
  by (cases p) simp_all

lemma model_validate_dump:
  assumes "parameters_ok p" and "\<And>n. coerce (JInt n) = Some n"
  shows "model_validate coerce (model_tool p) (model_dump p) = Some p"
  using assms
  by (cases p) (simp_all add: model_validate_def validate_fields_def enum_field_dump
      name_field_Some fields_field_dump replicas_field_def, simp_all add: name_field_def)

lemma parse_Inr:
  "parse_tool_parameters coerce tool d = Inr p \<longleftrightarrow>
     (\<exists>t. tool_of tool = Some t \<and> model_validate coerce t d = Some p)"
  by (auto simp: parse_tool_parameters_def split: option.splits)

lemma model_validate_SomeD:
  "model_validate coerce t d = Some p \<Longrightarrow>
     parameters_ok p \<and> model_tool p = t \<and> set (map fst d) \<subseteq> set (model_fields t)"
  by (auto simp: model_validate_def list_all_iff dest: validate_fields_ok split: if_splits)

lemma float_free_model_dump [simp]: "float_free (JObj (model_dump p))"
  by (cases p) auto

text \<open>
  C27. An accepted proposal is within every bound of its schema, belongs to the model of the tool
  that was named, has no field outside that model, and survives a dump to JSON and a second
  validation unchanged; only the five allow-listed tool names are accepted at all.
\<close>

theorem parse_tool_parameters_roundtrip:
  assumes "parse_tool_parameters coerce tool d = Inr p" and "\<And>n. coerce (JInt n) = Some n"
  shows "parameters_ok p \<and> tool_value (model_tool p) = tool \<and>
    set (map fst d) \<subseteq> set (model_fields (model_tool p)) \<and>
    parse_tool_parameters coerce tool (model_dump p) = Inr p"
proof -
  from assms(1) obtain t where t: "tool_of tool = Some t" and v: "model_validate coerce t d = Some p"
    by (auto simp: parse_Inr)
  from model_validate_SomeD [OF v] tool_of_SomeD [OF t] have ok: "parameters_ok p" "model_tool p = t"
      "set (map fst d) \<subseteq> set (model_fields t)" and "tool = tool_value t" by auto
  moreover from model_validate_dump [OF ok(1) assms(2)] ok(2) t
  have "parse_tool_parameters coerce tool (model_dump p) = Inr p" by (auto simp: parse_Inr)
  ultimately show ?thesis by simp
qed

definition strict_int :: "json \<Rightarrow> int option" where
  "strict_int v = (case v of JInt n \<Rightarrow> Some n | _ \<Rightarrow> None)"

lemma parse_tool_parameters_roundtrip_witness:
  "parse_tool_parameters strict_int ''scale_service''
     (model_dump (ScaleServiceParameters PRODUCTION ''web'' 3)) =
     Inr (ScaleServiceParameters PRODUCTION ''web'' 3)"
proof -
  have "parse_tool_parameters strict_int ''scale_service''
      [(''replicas'', JInt 3), (''environment'', JStr ''production''), (''service'', JStr ''web'')] =
      Inr (ScaleServiceParameters PRODUCTION ''web'' 3)" by code_simp
  from parse_tool_parameters_roundtrip [OF this] show ?thesis by (simp add: strict_int_def)
qed

end
