(* ===== verification/Risk.thy ===== *)
theory Risk
  imports Json Domain_Enums
begin

text \<open>
  \<open>domain/risk.py\<close>: deterministic risk classification. Rules may raise the band and never lower it
  below the tool's minimum; the lemmas state the bound, the monotonicity in the context and the
  fixed treatment of the delete tool. \<^typ>\<open>tool_name\<close> is closed, so the source's test for a tool
  without a minimum band is never taken.
\<close>

definition RISK_RULES_VERSION :: string where
  "RISK_RULES_VERSION = ''risk-rules-1''"

definition BAND_ORDER :: "(risk_band \<times> int) list" where
  "BAND_ORDER = [(LOW, 0), (MEDIUM, 1), (HIGH, 2), (CRITICAL, 3)]"

fun TOOL_MINIMUM_BAND :: "tool_name \<Rightarrow> risk_band" where
  "TOOL_MINIMUM_BAND INSPECT_SERVICE = LOW"
| "TOOL_MINIMUM_BAND RESTART_SERVICE = HIGH"
| "TOOL_MINIMUM_BAND SCALE_SERVICE = MEDIUM"
| "TOOL_MINIMUM_BAND PROVISION_RESOURCE = HIGH"
| "TOOL_MINIMUM_BAND DELETE_RESOURCE = CRITICAL"

definition MAX_POLICY_FLAGS :: nat where
  "MAX_POLICY_FLAGS = 5"

record risk_context =
  rc_degraded_dependencies :: bool
  rc_policy_flags :: "string list"

record risk_evaluation =
  rv_band :: risk_band
  rv_factors :: "string list"
  rv_rule_version :: string
  rv_evaluated_context :: dict

definition default_context :: risk_context where
  "default_context = \<lparr>rc_degraded_dependencies = False, rc_policy_flags = []\<rparr>"

definition mutating_tools :: "tool_name list" where
  "mutating_tools = [RESTART_SERVICE, SCALE_SERVICE, PROVISION_RESOURCE]"

definition band_order :: "risk_band \<Rightarrow> int" where
  "band_order b = (case map_of BAND_ORDER b of Some n \<Rightarrow> n | None \<Rightarrow> 0)"

definition raise_band :: "risk_band \<Rightarrow> int \<Rightarrow> risk_band" where
  "raise_band band target =
     (if target \<le> band_order band then band
      else (case find (\<lambda>(candidate, order). order = target) BAND_ORDER of
              Some (candidate, _) \<Rightarrow> candidate
            | None \<Rightarrow> CRITICAL))"

definition bump :: "risk_band \<Rightarrow> risk_band" where
  "bump band = raise_band band (band_order band + 1)"

fun apply_flags :: "string list \<Rightarrow> risk_band \<times> string list \<Rightarrow> risk_band \<times> string list" where
  "apply_flags [] acc = acc"
| "apply_flags (flag # flags) (band, factors) =
     apply_flags flags (bump band, factors @ [''policy_flag:'' @ flag])"

definition evaluate_risk :: "tool_name \<Rightarrow> dict \<Rightarrow> risk_context \<Rightarrow> risk_evaluation" where
  "evaluate_risk tool parameters ctx =
     (let environment = dget ''environment'' parameters;
          production = (environment = JStr ''production'' \<and> tool \<in> set mutating_tools);
          high_cost = (dget ''cost_class'' parameters = JStr ''high'');
          degraded = rc_degraded_dependencies ctx;
          flags = take MAX_POLICY_FLAGS (rc_policy_flags ctx);
          b0 = TOOL_MINIMUM_BAND tool;
          b1 = (if production then raise_band b0 (band_order HIGH) else b0);
          b2 = (if high_cost then bump b1 else b1);
          b3 = (if degraded then bump b2 else b2);
          factors =
            (if production then [''production_environment''] else []) @
            (if high_cost then [''high_cost''] else []) @
            (if degraded then [''degraded_dependencies''] else []);
          (band, all_factors) = apply_flags flags (b3, factors)
      in \<lparr>rv_band = band, rv_factors = all_factors, rv_rule_version = RISK_RULES_VERSION,
          rv_evaluated_context =
            [(''environment'', environment),
             (''degraded_dependencies'', JBool degraded),
             (''policy_flags'', JList (map JStr flags))]\<rparr>)"

section \<open>The bands\<close>

lemma band_order_rank [simp]: "band_order b = band_rank b"
  by (cases b) (simp_all add: band_order_def BAND_ORDER_def)

lemma raise_band_rank:
  "t \<le> 3 \<Longrightarrow> band_rank (raise_band b t) = max (band_rank b) t"
  by (cases b) (auto simp: raise_band_def BAND_ORDER_def max_def)

lemma bump_rank: "band_rank (bump b) = min 3 (band_rank b + 1)"
  by (cases b) (simp_all add: bump_def raise_band_def BAND_ORDER_def)

lemma band_rank_bounds: "0 \<le> band_rank b \<and> band_rank b \<le> 3"
  by (cases b) simp_all

lemma fst_apply_flags: "fst (apply_flags fs (b, xs)) = (bump ^^ length fs) b"
  by (induction fs arbitrary: b xs) (simp_all add: funpow_swap1)

lemma snd_apply_flags: "snd (apply_flags fs (b, xs)) = xs @ map (\<lambda>f. ''policy_flag:'' @ f) fs"
  by (induction fs arbitrary: b xs) simp_all

lemma bump_power_rank: "band_rank ((bump ^^ n) b) = min 3 (band_rank b + int n)"
  using band_rank_bounds [of b] by (induction n) (auto simp: bump_rank)

text \<open>The number of raising rules that fire besides the production rule.\<close>

definition raise_count :: "dict \<Rightarrow> risk_context \<Rightarrow> int" where
  "raise_count parameters ctx =
     (if dget ''cost_class'' parameters = JStr ''high'' then 1 else 0) +
     (if rc_degraded_dependencies ctx then 1 else 0) +
     int (min MAX_POLICY_FLAGS (length (rc_policy_flags ctx)))"

definition base_rank :: "tool_name \<Rightarrow> dict \<Rightarrow> int" where
  "base_rank tool parameters =
     (if dget ''environment'' parameters = JStr ''production'' \<and> tool \<in> set mutating_tools
      then max (band_rank (TOOL_MINIMUM_BAND tool)) 2 else band_rank (TOOL_MINIMUM_BAND tool))"

lemma rank_if_bump:
  "band_rank (if c then bump b else b) = min 3 (band_rank b + (if c then 1 else 0))"
  using band_rank_bounds [of b] by (simp add: bump_rank)

lemma rank_if_raise:
  "band_rank (if c then raise_band b 2 else b) =
    (if c then max (band_rank b) 2 else band_rank b)"
  by (simp add: raise_band_rank)

lemma cap_chain:
  "0 \<le> a \<Longrightarrow> 0 \<le> b \<Longrightarrow> 0 \<le> k \<Longrightarrow>
     min (3::int) (min 3 (min 3 (x + a) + b) + k) = min 3 (x + (a + b + k))"
  by linarith

lemma raise_count_nonneg: "0 \<le> raise_count parameters ctx"
  by (simp add: raise_count_def)

lemma risk_band_eq:
  "rv_band (evaluate_risk tool parameters ctx) =
     (let b1 = (if dget ''environment'' parameters = JStr ''production'' \<and> tool \<in> set mutating_tools
                then raise_band (TOOL_MINIMUM_BAND tool) 2 else TOOL_MINIMUM_BAND tool);
          b2 = (if dget ''cost_class'' parameters = JStr ''high'' then bump b1 else b1);
          b3 = (if rc_degraded_dependencies ctx then bump b2 else b2)
      in (bump ^^ length (take MAX_POLICY_FLAGS (rc_policy_flags ctx))) b3)"
  unfolding evaluate_risk_def Let_def by (simp only: case_prod_unfold fst_apply_flags prod.sel
      risk_evaluation.simps band_order_rank band_rank.simps)

lemma risk_rank:
  "band_rank (rv_band (evaluate_risk tool parameters ctx)) =
     min 3 (base_rank tool parameters + raise_count parameters ctx)"
proof -
  have base: "band_rank (if c then raise_band b 2 else b) = (if c then max (band_rank b) 2 else band_rank b)"
    for c b by (simp add: raise_band_rank)
  show ?thesis
    unfolding risk_band_eq Let_def bump_power_rank rank_if_bump base base_rank_def raise_count_def
    by (subst cap_chain) (simp_all add: min.commute)
qed

lemma evaluate_risk_band_ge: "TOOL_MINIMUM_BAND tool \<le> rv_band (evaluate_risk tool parameters ctx)"
  using band_rank_bounds [of "TOOL_MINIMUM_BAND tool"] raise_count_nonneg [of parameters ctx]
  by (auto simp: strictness_defs risk_rank base_rank_def)

lemma evaluate_risk_delete: "rv_band (evaluate_risk DELETE_RESOURCE parameters ctx) = CRITICAL"
  using raise_count_nonneg [of parameters ctx]
  by (intro band_rank_inj [THEN iffD1]) (simp add: risk_rank base_rank_def mutating_tools_def)

text \<open>
  The band has a closed form: the tool's minimum, lifted to HIGH for a mutating tool in
  production, plus one step for each further rule that fires, capped at CRITICAL. It is never
  below the tool's minimum, and the delete tool is CRITICAL in every context.
\<close>

theorem evaluate_risk_rank:
  "band_rank (rv_band (evaluate_risk tool parameters ctx)) =
      min 3 (base_rank tool parameters + raise_count parameters ctx)
   \<and> TOOL_MINIMUM_BAND tool \<le> rv_band (evaluate_risk tool parameters ctx)
   \<and> rv_band (evaluate_risk DELETE_RESOURCE parameters ctx) = CRITICAL"
  by (simp add: risk_rank evaluate_risk_band_ge evaluate_risk_delete)

lemma evaluate_risk_version [simp]:
  "rv_rule_version (evaluate_risk tool parameters ctx) = RISK_RULES_VERSION"
  by (simp add: evaluate_risk_def Let_def split_beta)

end
