(* ===== verification/Policy.thy ===== *)
theory Policy
  imports Risk Domain_Errors
begin

text \<open>
  \<open>domain/policy.py\<close>: evaluation of a versioned policy bundle. The bundle's rules are free-form
  JSON, so every \<open>dict.get\<close>, \<open>isinstance\<close> test and conversion of the source is written out; a
  rule field the source iterates over that is not iterable raises \<open>TypeError\<close>.
\<close>

definition DEFAULT_APPROVAL_TTL_SECONDS :: int where
  "DEFAULT_APPROVAL_TTL_SECONDS = 900"

definition MAX_APPROVAL_TTL_SECONDS :: int where
  "MAX_APPROVAL_TTL_SECONDS = 3600"

definition default_scopes :: "tool_name \<Rightarrow> string list" where
  "default_scopes t = (if t = INSPECT_SERVICE then [''ops:read''] else [''ops:write''])"

definition CRITICAL_ROLES :: "string list" where
  "CRITICAL_ROLES = [''critical_approver_l1'', ''critical_approver_l2'']"

definition SINGLE_APPROVAL_ROLES :: "string list" where
  "SINGLE_APPROVAL_ROLES = [''approver'']"

record policy_bundle =
  pb_version :: string
  pb_rules :: dict

record policy_evaluation =
  pv_disposition :: policy_disposition
  pv_route :: approval_route
  pv_required_roles :: "string list"
  pv_required_scopes :: "string list"
  pv_obligations :: "string list"
  pv_reason_codes :: "string list"
  pv_policy_version :: string
  pv_approval_ttl_seconds :: "int option"

definition seed_rules :: dict where
  "seed_rules =
     [(''approval_ttl_seconds'', JInt DEFAULT_APPROVAL_TTL_SECONDS),
      (''tools'', JObj
        [(''inspect_service'', JObj [(''disposition'', JStr ''ALLOW'')]),
         (''restart_service'', JObj
            [(''disposition'', JStr ''REQUIRE_APPROVAL''),
             (''required_roles'', JList [JStr ''approver'']),
             (''obligations'', JList [JStr ''announce_in_incident_channel''])]),
         (''scale_service'', JObj
            [(''staging'', JObj [(''disposition'', JStr ''ALLOW'')]),
             (''production'', JObj
                [(''disposition'', JStr ''REQUIRE_APPROVAL''),
                 (''required_roles'', JList [JStr ''approver''])])]),
         (''provision_resource'', JObj
            [(''disposition'', JStr ''REQUIRE_APPROVAL''),
             (''required_roles'', JList [JStr ''approver''])]),
         (''delete_resource'', JObj
            [(''disposition'', JStr ''REQUIRE_APPROVAL''),
             (''required_roles'', JList [JStr ''critical_approver_l1'', JStr ''critical_approver_l2'']),
             (''obligations'', JList [JStr ''require_change_ticket''])])])]"

definition seed_bundle :: policy_bundle where
  "seed_bundle = \<lparr>pb_version = ''policy-1'', pb_rules = seed_rules\<rparr>"

definition blocked :: "string \<Rightarrow> string \<Rightarrow> policy_evaluation" where
  "blocked reason version =
     \<lparr>pv_disposition = BLOCK, pv_route = NONE, pv_required_roles = [], pv_required_scopes = [],
      pv_obligations = [], pv_reason_codes = [reason], pv_policy_version = version,
      pv_approval_ttl_seconds = None\<rparr>"

definition tool_rule :: "policy_bundle \<Rightarrow> tool_name \<Rightarrow> json \<Rightarrow> dict option" where
  "tool_rule bundle tool environment =
     (case dget ''tools'' (pb_rules bundle) of
        JObj rules \<Rightarrow>
          (case dget (tool_value tool) rules of
             JObj rule \<Rightarrow>
               (case environment of
                  JStr env \<Rightarrow>
                    (case dget env rule of
                       JObj sub \<Rightarrow>
                         Some (dupdate (filter (\<lambda>(k, v). k \<noteq> ''staging'' \<and> k \<noteq> ''production'') rule) sub)
                     | _ \<Rightarrow> Some rule)
                | _ \<Rightarrow> Some rule)
           | _ \<Rightarrow> None)
      | _ \<Rightarrow> None)"

text \<open>\<open>tuple(str(x) for x in rule.get(key, default))\<close>.\<close>

definition text_items :: "string \<Rightarrow> string list \<Rightarrow> dict \<Rightarrow> string list option" where
  "text_items key dflt rule =
     (case map_of rule key of
        None \<Rightarrow> Some dflt
      | Some v \<Rightarrow> map_option (map py_str) (py_iter v))"

definition valid_ttl :: "json \<Rightarrow> int option" where
  "valid_ttl v =
     (case v of
        JInt n \<Rightarrow> (if n \<le> 0 \<or> n > MAX_APPROVAL_TTL_SECONDS then None else Some n)
      | _ \<Rightarrow> None)"

text \<open>
  The three branches on the risk band: disposition, route, required roles and reason codes, or
  \<open>None\<close> for a disposition the low bands do not know.
\<close>

definition decide_treatment ::
  "risk_band \<Rightarrow> string \<Rightarrow> string list \<Rightarrow>
     (policy_disposition \<times> approval_route \<times> string list \<times> string list) option" where
  "decide_treatment band raw roles =
     (if band = CRITICAL then
        (let d = (if raw = ''BLOCK'' then BLOCK else REQUIRE_APPROVAL)
         in Some (d, if d = BLOCK then NONE else CRITICAL_TWO_STEP,
                  if roles = [] then CRITICAL_ROLES else roles,
                  if raw = ''ALLOW'' then [''tool_minimum_enforced''] else []))
      else if band = HIGH then
        (let d = (if raw = ''BLOCK'' then BLOCK else REQUIRE_APPROVAL)
         in Some (d, if d = BLOCK then NONE else SINGLE,
                  if roles = [] then SINGLE_APPROVAL_ROLES else roles,
                  if raw = ''ALLOW'' then [''tool_minimum_enforced''] else []))
      else if raw = ''BLOCK'' then Some (BLOCK, NONE, roles, [])
      else if raw = ''ALLOW'' then Some (ALLOW, NONE, roles, [])
      else if raw = ''REQUIRE_APPROVAL'' then
        Some (REQUIRE_APPROVAL, SINGLE, if roles = [] then SINGLE_APPROVAL_ROLES else roles, [])
      else None)"

definition evaluate_policy ::
  "tool_name \<Rightarrow> risk_evaluation \<Rightarrow> dict \<Rightarrow> policy_bundle \<Rightarrow> exn + policy_evaluation" where
  "evaluate_policy tool risk parameters bundle =
     (case tool_rule bundle tool (dget ''environment'' parameters) of
        None \<Rightarrow> Inr (blocked ''no_policy_rule'' (pb_version bundle))
      | Some rule \<Rightarrow>
          (case valid_ttl (dget_or ''approval_ttl_seconds''
                 (dget_or ''approval_ttl_seconds'' (JInt DEFAULT_APPROVAL_TTL_SECONDS) (pb_rules bundle))
                 rule) of
             None \<Rightarrow> Inr (blocked ''invalid_ttl'' (pb_version bundle))
           | Some ttl \<Rightarrow>
               (case (text_items ''required_roles'' [] rule,
                      text_items ''scopes'' (default_scopes tool) rule,
                      text_items ''obligations'' [] rule) of
                  (Some roles, Some scopes, Some obligations) \<Rightarrow>
                    (case decide_treatment (rv_band risk)
                            (py_str (dget_or ''disposition'' (JStr ''REQUIRE_APPROVAL'') rule)) roles of
                       None \<Rightarrow> Inr (blocked ''unknown_disposition'' (pb_version bundle))
                     | Some (disposition, route, roles', reasons) \<Rightarrow>
                         Inr \<lparr>pv_disposition = disposition,
                              pv_route = (if disposition = BLOCK then NONE else route),
                              pv_required_roles = roles', pv_required_scopes = scopes,
                              pv_obligations = obligations,
                              pv_reason_codes = reasons @
                                (if disposition = BLOCK then [''policy_blocked'']
                                 else if disposition = REQUIRE_APPROVAL then [''approval_required'']
                                 else []),
                              pv_policy_version = pb_version bundle,
                              pv_approval_ttl_seconds =
                                (if disposition = REQUIRE_APPROVAL then Some ttl else None)\<rparr>)
                | _ \<Rightarrow> Inl TypeError)))"

section \<open>Properties\<close>

lemma valid_ttl_bounds: "valid_ttl v = Some n \<Longrightarrow> 1 \<le> n \<and> n \<le> 3600"
  by (auto simp: valid_ttl_def MAX_APPROVAL_TTL_SECONDS_def split: json.splits if_splits)

text \<open>What every evaluation satisfies, whatever the bundle holds.\<close>

definition evaluation_ok :: "risk_band \<Rightarrow> policy_evaluation \<Rightarrow> bool" where
  "evaluation_ok band e \<longleftrightarrow>
     (case pv_disposition e of
        ALLOW \<Rightarrow> band < HIGH \<and> pv_route e = NONE \<and> pv_approval_ttl_seconds e = None
      | REQUIRE_APPROVAL \<Rightarrow>
          pv_route e = (if band = CRITICAL then CRITICAL_TWO_STEP else SINGLE) \<and>
          pv_required_roles e \<noteq> [] \<and>
          (case pv_approval_ttl_seconds e of None \<Rightarrow> False | Some n \<Rightarrow> 1 \<le> n \<and> n \<le> 3600)
      | BLOCK \<Rightarrow> pv_route e = NONE \<and> pv_approval_ttl_seconds e = None \<and> pv_reason_codes e \<noteq> [])"

lemma evaluation_ok_blocked [simp]: "evaluation_ok band (blocked reason v)"
  by (simp add: evaluation_ok_def blocked_def)

lemma decide_treatment_ok:
  assumes "decide_treatment band raw roles = Some (d, r, rs, cs)"
  shows "(case d of ALLOW \<Rightarrow> band < HIGH \<and> r = NONE
          | REQUIRE_APPROVAL \<Rightarrow> r = (if band = CRITICAL then CRITICAL_TWO_STEP else SINGLE) \<and> rs \<noteq> []
          | BLOCK \<Rightarrow> r = NONE)"
  using assms
  by (cases band; cases "roles = []")
    (auto simp: decide_treatment_def Let_def strictness_defs CRITICAL_ROLES_def SINGLE_APPROVAL_ROLES_def
      split: if_splits)

lemma evaluate_policy_ok:
  assumes "evaluate_policy tool risk parameters bundle = Inr e"
  shows "evaluation_ok (rv_band risk) e \<and> pv_policy_version e = pb_version bundle"
  using assms
  by (auto simp: evaluate_policy_def evaluation_ok_def blocked_def
      split: option.splits policy_disposition.splits
      dest!: valid_ttl_bounds decide_treatment_ok)

text \<open>The bundle shapes on which evaluation raises instead of blocking.\<close>

definition well_shaped_rule :: "dict \<Rightarrow> bool" where
  "well_shaped_rule rule \<longleftrightarrow>
     (\<forall>key \<in> {''required_roles'', ''scopes'', ''obligations''}.
        case map_of rule key of None \<Rightarrow> True | Some v \<Rightarrow> py_iter v \<noteq> None)"

lemma text_items_None:
  "text_items key dflt rule = None \<longleftrightarrow>
     (case map_of rule key of None \<Rightarrow> False | Some v \<Rightarrow> py_iter v = None)"
  by (simp add: text_items_def split: option.splits)

lemma evaluate_policy_Inl:
  "(\<exists>x. evaluate_policy tool risk parameters bundle = Inl x) \<longleftrightarrow>
     (\<exists>rule ttl. tool_rule bundle tool (dget ''environment'' parameters) = Some rule \<and>
        valid_ttl (dget_or ''approval_ttl_seconds''
           (dget_or ''approval_ttl_seconds'' (JInt DEFAULT_APPROVAL_TTL_SECONDS) (pb_rules bundle)) rule)
          = Some ttl \<and> \<not> well_shaped_rule rule)"
proof -
  have ws: "well_shaped_rule rule \<longleftrightarrow> text_items ''required_roles'' [] rule \<noteq> None \<and>
      text_items ''scopes'' (default_scopes tool) rule \<noteq> None \<and>
      text_items ''obligations'' [] rule \<noteq> None" for rule
    by (auto simp: well_shaped_rule_def text_items_None split: option.splits)
  show ?thesis
    by (auto simp: evaluate_policy_def ws split: option.splits prod.splits)
qed

text \<open>
  C26. Policy can only tighten: whatever the bundle holds, an evaluation that returns never
  allows a HIGH or CRITICAL action without approval, routes a CRITICAL one through the two-step
  approval, names at least one approver role and an approval window of 1 to 3600 seconds whenever
  it requires approval, and gives a reason whenever it blocks.
\<close>

theorem evaluate_policy_never_weakens:
  assumes "evaluate_policy tool risk parameters bundle = Inr e"
  shows "(rv_band risk \<ge> HIGH \<longrightarrow> pv_disposition e \<noteq> ALLOW)
    \<and> (rv_band risk = CRITICAL \<and> pv_disposition e \<noteq> BLOCK \<longrightarrow> pv_route e = CRITICAL_TWO_STEP)
    \<and> (pv_disposition e = REQUIRE_APPROVAL \<longrightarrow>
         pv_route e \<noteq> NONE \<and> pv_required_roles e \<noteq> [] \<and>
         (\<exists>ttl. pv_approval_ttl_seconds e = Some ttl \<and> 1 \<le> ttl \<and> ttl \<le> 3600))
    \<and> (pv_disposition e = BLOCK \<longrightarrow> pv_reason_codes e \<noteq> [])"
  using evaluate_policy_ok [OF assms]
  by (auto simp: evaluation_ok_def strictness_defs split: policy_disposition.splits option.splits)

lemma evaluate_policy_never_weakens_witness:
  "\<exists>e. evaluate_policy DELETE_RESOURCE (evaluate_risk DELETE_RESOURCE [] default_context) []
        (seed_bundle\<lparr>pb_rules := [(''tools'', JObj [(''delete_resource'', JObj [(''disposition'', JStr ''ALLOW'')])])]\<rparr>)
      = Inr e \<and> pv_disposition e \<noteq> ALLOW \<and> pv_route e = CRITICAL_TWO_STEP"
proof -
  let ?r = "evaluate_risk DELETE_RESOURCE [] default_context"
  let ?b = "seed_bundle\<lparr>pb_rules :=
     [(''tools'', JObj [(''delete_resource'', JObj [(''disposition'', JStr ''ALLOW'')])])]\<rparr>"
  have "case evaluate_policy DELETE_RESOURCE ?r [] ?b of Inr e \<Rightarrow> pv_disposition e = REQUIRE_APPROVAL
     | Inl x \<Rightarrow> False" by code_simp
  then obtain e where e: "evaluate_policy DELETE_RESOURCE ?r [] ?b = Inr e"
      and d: "pv_disposition e = REQUIRE_APPROVAL"
    by (auto split: sum.splits)
  have "rv_band ?r = CRITICAL" by code_simp
  with evaluate_policy_never_weakens [OF e] d e show ?thesis by simp
qed

text \<open>
  Evaluation raises exactly when the selected rule has a usable approval window and a
  \<open>required_roles\<close>, \<open>scopes\<close> or \<open>obligations\<close> value that cannot be iterated over: a malformed
  bundle of that kind is not turned into a BLOCK.
\<close>

theorem evaluate_policy_raises_iff:
  "(\<exists>x. evaluate_policy tool risk parameters bundle = Inl x) =
     (\<exists>rule ttl. tool_rule bundle tool (dget ''environment'' parameters) = Some rule \<and>
        valid_ttl (dget_or ''approval_ttl_seconds''
           (dget_or ''approval_ttl_seconds'' (JInt DEFAULT_APPROVAL_TTL_SECONDS) (pb_rules bundle)) rule)
          = Some ttl \<and> \<not> well_shaped_rule rule)"
  by (rule evaluate_policy_Inl)

end
