(* ===== verification/Intent.thy ===== *)
theory Intent
  imports Schemas
begin

text \<open>
  \<open>domain/intent.py\<close>: the canonical intent with its digest, and the redacted evidence kept of a raw
  proposal. Three functions of the standard library are parameters: \<open>sha\<close> is
  \<open>hashlib.sha256(...).hexdigest()\<close>, \<open>nfc\<close> is \<open>unicodedata.normalize("NFC", ...)\<close> and \<open>lc\<close> is
  \<open>str.lower\<close>. Nothing is assumed of \<open>sha\<close>: a result about a digest gives a collision as its
  alternative.
\<close>

definition DIGEST_VERSION :: string where
  "DIGEST_VERSION = ''1''"

definition MAX_RAW_PROPOSAL_BYTES :: int where
  "MAX_RAW_PROPOSAL_BYTES = 16384"

definition REDACTED :: string where
  "REDACTED = ''[REDACTED]''"

definition SECRET_KEY_MARKERS :: "string list" where
  "SECRET_KEY_MARKERS =
     [''password'', ''secret'', ''token'', ''api_key'', ''apikey'', ''authorization'',
      ''credential'', ''private_key'']"

definition OVERFLOW_PREVIEW_BYTES :: nat where
  "OVERFLOW_PREVIEW_BYTES = 2048"

record canonical_intent =
  ci_tool :: tool_name
  ci_tenant_id :: string
  ci_requester_id :: string
  ci_revision :: int
  ci_parameters :: dict
  ci_canonical_json :: string
  ci_digest :: string

section \<open>Canonical form and digest\<close>

fun normalize :: "(string \<Rightarrow> string) \<Rightarrow> json \<Rightarrow> json" where
  "normalize nfc (JStr s) = JStr (nfc s)"
| "normalize nfc (JObj d) = JObj (map (\<lambda>(k, v). (k, normalize nfc v)) d)"
| "normalize nfc (JList xs) = JList (map (normalize nfc) xs)"
| "normalize nfc v = v"

definition envelope :: "tool_name \<Rightarrow> string \<Rightarrow> string \<Rightarrow> int \<Rightarrow> dict \<Rightarrow> json" where
  "envelope tool tenant requester revision parameters =
     JObj [(''digest_version'', JStr DIGEST_VERSION), (''tenant_id'', JStr tenant),
           (''requester_id'', JStr requester), (''tool'', JStr (tool_value tool)),
           (''revision'', JInt revision), (''parameters'', JObj parameters)]"

definition canonical_envelope ::
  "(string \<Rightarrow> string) \<Rightarrow> tool_name \<Rightarrow> string \<Rightarrow> string \<Rightarrow> int \<Rightarrow> dict \<Rightarrow> string" where
  "canonical_envelope nfc tool tenant requester revision parameters =
     dumps_sorted (normalize nfc (envelope tool tenant requester revision parameters))"

definition canonicalize ::
  "(string \<Rightarrow> string) \<Rightarrow> (string \<Rightarrow> string) \<Rightarrow> tool_name \<Rightarrow> string \<Rightarrow> string \<Rightarrow> int \<Rightarrow> tool_parameters
     \<Rightarrow> exn + canonical_intent" where
  "canonicalize sha nfc tool tenant requester revision parameters =
     (if model_tool parameters \<noteq> tool then Inl UnknownToolError
      else if revision < 1 then Inl ValueError
      else
        (let canonical = canonical_envelope nfc tool tenant requester revision (model_dump parameters)
         in Inr \<lparr>ci_tool = tool, ci_tenant_id = tenant, ci_requester_id = requester,
                 ci_revision = revision, ci_parameters = model_dump parameters,
                 ci_canonical_json = canonical, ci_digest = sha canonical\<rparr>))"

section \<open>Evidence of the raw proposal\<close>

fun redact :: "(string \<Rightarrow> string) \<Rightarrow> json \<Rightarrow> json" where
  "redact lc (JObj d) =
     JObj (map (\<lambda>(k, v). (k, if list_ex (\<lambda>m. contains m (lc k)) SECRET_KEY_MARKERS
                            then JStr REDACTED else redact lc v)) d)"
| "redact lc (JList xs) = JList (map (redact lc) xs)"
| "redact lc v = v"

definition sanitize_raw_proposal :: "(string \<Rightarrow> string) \<Rightarrow> json \<Rightarrow> dict" where
  "sanitize_raw_proposal lc payload =
     (let sanitized = redact lc payload; serialized = render sanitized
      in if int (length serialized) \<le> MAX_RAW_PROPOSAL_BYTES
         then (case sanitized of JObj d \<Rightarrow> d | v \<Rightarrow> [(''payload'', v)])
         else [(''_truncated'', JBool True), (''_original_bytes'', JInt (int (length serialized))),
               (''_preview'', JStr (py_take OVERFLOW_PREVIEW_BYTES serialized))])"

section \<open>What the digest binds\<close>

definition collision :: "(string \<Rightarrow> string) \<Rightarrow> string \<Rightarrow> string \<Rightarrow> bool" where
  "collision sha x y \<longleftrightarrow> x \<noteq> y \<and> sha x = sha y"

lemma float_free_normalize [simp]: "float_free (normalize nfc v) = float_free v"
  by (induction v) (auto simp: split_beta)

lemma float_free_envelope [simp]:
  "float_free (envelope tool tenant requester revision parameters) = float_free (JObj parameters)"
  by (simp add: envelope_def)

text \<open>Equal sorted envelopes agree on every member.\<close>

lemma envelope_members:
  assumes "sort_json (normalize nfc (envelope t n r v p)) = sort_json (normalize nfc (envelope t' n' r' v' p'))"
  shows "nfc n = nfc n'" and "nfc r = nfc r'" and "v = v'"
    and "nfc (tool_value t) = nfc (tool_value t')"
    and "sort_json (normalize nfc (JObj p)) = sort_json (normalize nfc (JObj p'))"
proof -
  let ?d = "\<lambda>t n r v p. [(''digest_version'', JStr (nfc DIGEST_VERSION)), (''tenant_id'', JStr (nfc n)),
           (''requester_id'', JStr (nfc r)), (''tool'', JStr (nfc (tool_value t))),
           (''revision'', JInt v), (''parameters'', normalize nfc (JObj p))]"
  have eq: "sort_json (JObj (?d t n r v p)) = sort_json (JObj (?d t' n' r' v' p'))"
    using assms by (simp add: envelope_def)
  have mem: "map_option sort_json (map_of (?d t n r v p) k) = map_option sort_json (map_of (?d t' n' r' v' p') k)"
    for k by (rule sort_json_JObj_members [OF eq]) simp_all
  show "nfc n = nfc n'" using mem [of "''tenant_id''"] by simp
  show "nfc r = nfc r'" using mem [of "''requester_id''"] by simp
  show "v = v'" using mem [of "''revision''"] by simp
  show "nfc (tool_value t) = nfc (tool_value t')" using mem [of "''tool''"] by simp
  show "sort_json (normalize nfc (JObj p)) = sort_json (normalize nfc (JObj p'))"
    using mem [of "''parameters''"] by (simp del: normalize.simps sort_json.simps)
qed

definition is_ascii :: "string \<Rightarrow> bool" where
  "is_ascii s \<longleftrightarrow> list_all (\<lambda>c. (of_char c :: nat) < 128) s"

lemma bounded_name_ascii: "bounded_name s \<Longrightarrow> is_ascii s"
  by (auto simp: bounded_name_def is_ascii_def list_all_iff is_lower_alnum_def Let_def
      split: list.splits)

lemma bounded_field_ascii: "bounded_field s \<Longrightarrow> is_ascii s"
  by (auto simp: bounded_field_def is_ascii_def list_all_iff is_lower_alnum_def Let_def)

lemma enum_ascii [simp]:
  "is_ascii (environment_value e)" "is_ascii (strategy_value st)" "is_ascii (resource_value ty)"
  "is_ascii (region_value rg)" "is_ascii (size_value sz)" "is_ascii (cost_value co)"
  "is_ascii (deletion_value dm)" "is_ascii (tool_value t)"
  by (cases e, simp_all add: is_ascii_def, cases st, simp_all, cases ty, simp_all, cases rg, simp_all,
      cases sz, simp_all, cases co, simp_all, cases dm, simp_all, cases t, simp_all)

text \<open>Accepted parameters are ASCII, so normalisation leaves their dump alone.\<close>

lemma normalize_model_dump:
  assumes "parameters_ok p" and nfc: "\<And>s. is_ascii s \<Longrightarrow> nfc s = s"
  shows "normalize nfc (JObj (model_dump p)) = JObj (model_dump p)"
  using assms(1)
  by (cases p) (auto simp: nfc bounded_name_ascii bounded_field_ascii list_all_iff)

lemma enum_value_inj:
  "environment_value e = environment_value e' \<longleftrightarrow> e = e'"
  "strategy_value st = strategy_value st' \<longleftrightarrow> st = st'"
  "resource_value ty = resource_value ty' \<longleftrightarrow> ty = ty'"
  "region_value rg = region_value rg' \<longleftrightarrow> rg = rg'"
  "size_value sz = size_value sz' \<longleftrightarrow> sz = sz'"
  "cost_value co = cost_value co' \<longleftrightarrow> co = co'"
  "deletion_value dm = deletion_value dm' \<longleftrightarrow> dm = dm'"
  using enum_field_dump by (metis option.inject)+

lemma model_dump_inj:
  assumes "sort_json (JObj (model_dump p)) = sort_json (JObj (model_dump p'))"
    and "model_tool p = model_tool p'"
  shows "p = p'"
proof -
  have mem: "map_option sort_json (map_of (model_dump p) k) = map_option sort_json (map_of (model_dump p') k)"
    for k by (rule sort_json_JObj_members [OF assms(1) model_dump_distinct model_dump_distinct])
  have strs: "map JStr xs = map JStr ys \<Longrightarrow> xs = ys" for xs ys by (simp add: inj_map_eq_map inj_def)
  show ?thesis
    by (cases p; cases p'; (use assms(2) in \<open>simp; fail\<close> |
      use mem [of "''environment''"] mem [of "''service''"] mem [of "''requested_fields''"]
        mem [of "''strategy''"] mem [of "''replicas''"] mem [of "''resource_type''"] mem [of "''name''"]
        mem [of "''region''"] mem [of "''size''"] mem [of "''cost_class''"] mem [of "''resource_id''"]
        mem [of "''deletion_mode''"]
      in \<open>auto simp: enum_value_inj comp_def dest: strs\<close>))
qed

lemma canonicalize_Inr:
  "canonicalize sha nfc tool tenant requester revision p = Inr c \<longleftrightarrow>
     model_tool p = tool \<and> 1 \<le> revision \<and>
     c = \<lparr>ci_tool = tool, ci_tenant_id = tenant, ci_requester_id = requester, ci_revision = revision,
          ci_parameters = model_dump p,
          ci_canonical_json = canonical_envelope nfc tool tenant requester revision (model_dump p),
          ci_digest = sha (canonical_envelope nfc tool tenant requester revision (model_dump p))\<rparr>"
  by (auto simp: canonicalize_def Let_def)

lemma canonical_envelope_inject:
  assumes "canonical_envelope nfc t n r v (model_dump p) = canonical_envelope nfc t' n' r' v' (model_dump p')"
    and "parameters_ok p" "parameters_ok p'" and nfc: "\<And>s. is_ascii s \<Longrightarrow> nfc s = s"
    and "model_tool p = t" "model_tool p' = t'"
  shows "t = t' \<and> nfc n = nfc n' \<and> nfc r = nfc r' \<and> v = v' \<and> p = p'"
proof -
  have "sort_json (normalize nfc (envelope t n r v (model_dump p))) =
      sort_json (normalize nfc (envelope t' n' r' v' (model_dump p')))"
    using assms(1) dumps_sorted_inject by (simp add: canonical_envelope_def del: float_free.simps)
  from envelope_members [OF this] show ?thesis
    using assms(2-6) by (metis enum_ascii(8) model_dump_inj normalize_model_dump tool_value_inj)
qed

text \<open>
  C25. The digest binds the whole proposal: two accepted intents with the same digest have the
  same tool, revision and parameters and, up to Unicode normalisation, the same tenant and
  requester; otherwise their two canonical texts are a SHA-256 collision.
\<close>

theorem digest_binds_intent:
  assumes "canonicalize sha nfc t n r v p = Inr c" and "canonicalize sha nfc t' n' r' v' p' = Inr c'"
    and "ci_digest c = ci_digest c'" and "parameters_ok p" and "parameters_ok p'"
    and "\<And>s. is_ascii s \<Longrightarrow> nfc s = s"
  shows "(t = t' \<and> v = v' \<and> p = p' \<and> nfc n = nfc n' \<and> nfc r = nfc r')
    \<or> collision sha (ci_canonical_json c) (ci_canonical_json c')"
proof (cases "ci_canonical_json c = ci_canonical_json c'")
  case True
  with assms(1,2) have "canonical_envelope nfc t n r v (model_dump p) =
      canonical_envelope nfc t' n' r' v' (model_dump p')" by (simp add: canonicalize_Inr)
  from canonical_envelope_inject [OF this assms(4-6)] assms(1,2) show ?thesis
    by (simp add: canonicalize_Inr)
next
  case False
  with assms(1-3) show ?thesis by (auto simp: canonicalize_Inr collision_def)
qed

lemma digest_binds_intent_witness:
  "ScaleServiceParameters STAGING ''web'' 2 \<noteq> ScaleServiceParameters STAGING ''web'' 3 \<and>
   (\<exists>c c'. canonicalize (\<lambda>s. ''0'') id SCALE_SERVICE ''t'' ''r'' 1 (ScaleServiceParameters STAGING ''web'' 2) = Inr c \<and>
      canonicalize (\<lambda>s. ''0'') id SCALE_SERVICE ''t'' ''r'' 1 (ScaleServiceParameters STAGING ''web'' 3) = Inr c' \<and>
      collision (\<lambda>s. ''0'') (ci_canonical_json c) (ci_canonical_json c'))"
proof -
  let ?p = "\<lambda>n. ScaleServiceParameters STAGING ''web'' n"
  obtain c where c: "canonicalize (\<lambda>s. ''0'') id SCALE_SERVICE ''t'' ''r'' 1 (?p 2) = Inr c"
    by (simp add: canonicalize_def Let_def)
  obtain c' where c': "canonicalize (\<lambda>s. ''0'') id SCALE_SERVICE ''t'' ''r'' 1 (?p 3) = Inr c'"
    by (simp add: canonicalize_def Let_def)
  have d: "ci_digest c = ci_digest c'" using c c' by (simp add: canonicalize_Inr)
  have ok: "parameters_ok (?p 2)" "parameters_ok (?p 3)" by code_simp+
  from digest_binds_intent [OF c c' d ok] c c' show ?thesis by simp
qed

section \<open>What the evidence may hold\<close>

text \<open>Every value under a secret-looking key, at any depth, is the redaction marker.\<close>

fun redacted_ok :: "(string \<Rightarrow> string) \<Rightarrow> json \<Rightarrow> bool" where
  "redacted_ok lc (JObj d) =
     (\<forall>kv \<in> set d. if list_ex (\<lambda>m. contains m (lc (fst kv))) SECRET_KEY_MARKERS
                   then snd kv = JStr REDACTED else redacted_ok lc (snd kv))"
| "redacted_ok lc (JList xs) = (\<forall>x \<in> set xs. redacted_ok lc x)"
| "redacted_ok lc v = True"

lemma redact_ok: "redacted_ok lc (redact lc v)"
  by (induction v) (auto simp: split_beta)

text \<open>
  C28. The evidence stored of an untrusted proposal is either redacted at every depth and at most
  16384 bytes of JSON, up to the one-key wrapper of a non-object, or a fixed three-key object
  that holds a preview of the redacted text.
\<close>

theorem sanitize_raw_proposal_safe:
  "(redacted_ok lc (redact lc v) \<and> length (render (redact lc v)) \<le> 16384 \<and>
      sanitize_raw_proposal lc v =
        (case redact lc v of JObj d \<Rightarrow> d | w \<Rightarrow> [(''payload'', w)]))
   \<or> (length (render (redact lc v)) > 16384 \<and>
      map fst (sanitize_raw_proposal lc v) = [''_truncated'', ''_original_bytes'', ''_preview''] \<and>
      map_of (sanitize_raw_proposal lc v) ''_preview'' =
        Some (JStr (concat (take 2048 (utf8_chars (render (redact lc v)))))))"
  using redact_ok [of lc v]
  by (simp add: sanitize_raw_proposal_def Let_def MAX_RAW_PROPOSAL_BYTES_def py_take_def
      OVERFLOW_PREVIEW_BYTES_def)

end
