(* ===== verification/State_Machine.thy ===== *)
theory State_Machine
  imports Domain_Enums Domain_Errors
begin

text \<open>
  \<open>domain/state_machine.py\<close>: the authoritative table of legal transitions, the sets the command
  layer consults, and the guard every module calls before it records a transition.
\<close>

fun legal_targets :: "intent_state \<Rightarrow> intent_state list" where
  "legal_targets REQUESTED = [RISK_EVALUATED, CANCELLED]"
| "legal_targets RISK_EVALUATED = [POLICY_EVALUATED, CANCELLED]"
| "legal_targets POLICY_EVALUATED = [AUTO_APPROVED, PENDING_APPROVAL_1, BLOCKED, CANCELLED]"
| "legal_targets AUTO_APPROVED = [REVALIDATING, CANCELLED]"
| "legal_targets PENDING_APPROVAL_1 = [APPROVED, APPROVED_BY_LEVEL_1, REJECTED, CANCELLED, EXPIRED]"
| "legal_targets APPROVED_BY_LEVEL_1 = [PENDING_APPROVAL_2, REJECTED, CANCELLED, EXPIRED]"
| "legal_targets PENDING_APPROVAL_2 = [APPROVED, REJECTED, CANCELLED, EXPIRED]"
| "legal_targets APPROVED = [REVALIDATING, CANCELLED, EXPIRED]"
| "legal_targets REVALIDATING = [EXECUTING, STALE, EXPIRED]"
| "legal_targets EXECUTING = [SUCCEEDED, FAILED, EXECUTION_UNKNOWN, STALE, EXPIRED]"
| "legal_targets EXECUTION_UNKNOWN = [SUCCEEDED, FAILED]"
| "legal_targets SUCCEEDED = []"
| "legal_targets FAILED = []"
| "legal_targets BLOCKED = []"
| "legal_targets REJECTED = []"
| "legal_targets CANCELLED = []"
| "legal_targets EXPIRED = []"
| "legal_targets STALE = []"

definition cancellable_states :: "intent_state list" where
  "cancellable_states =
     [REQUESTED, RISK_EVALUATED, POLICY_EVALUATED, AUTO_APPROVED, PENDING_APPROVAL_1,
      APPROVED_BY_LEVEL_1, PENDING_APPROVAL_2, APPROVED]"

definition expirable_states :: "intent_state list" where
  "expirable_states = [PENDING_APPROVAL_1, APPROVED_BY_LEVEL_1, PENDING_APPROVAL_2, APPROVED]"

definition is_legal :: "intent_state \<Rightarrow> intent_state \<Rightarrow> bool" where
  "is_legal current target \<longleftrightarrow> target \<in> set (legal_targets current)"

definition require_transition :: "intent_state \<Rightarrow> intent_state \<Rightarrow> exn + unit" where
  "require_transition current target =
     (if is_legal current target then Inr ()
      else Inl (raise_error IllegalTransitionError
             (''transition '' @ state_value current @ '' -> '' @ state_value target @ '' is not legal'')))"

definition is_terminal :: "intent_state \<Rightarrow> bool" where
  "is_terminal s \<longleftrightarrow> legal_targets s = []"

lemma require_transition_Inr: "require_transition s t = Inr u \<longleftrightarrow> is_legal s t"
  by (auto simp: require_transition_def)

section \<open>The lifecycle as a graph\<close>

text \<open>
  Every legal edge raises the rank of a state, so a revision takes at most nine transitions and
  no state is entered twice. The ranks also separate the states before the execution claim
  from those at or after the provider send.
\<close>

fun state_rank :: "intent_state \<Rightarrow> nat" where
  "state_rank REQUESTED = 0"
| "state_rank RISK_EVALUATED = 1"
| "state_rank POLICY_EVALUATED = 2"
| "state_rank AUTO_APPROVED = 6"
| "state_rank PENDING_APPROVAL_1 = 3"
| "state_rank APPROVED_BY_LEVEL_1 = 4"
| "state_rank PENDING_APPROVAL_2 = 5"
| "state_rank APPROVED = 6"
| "state_rank REVALIDATING = 7"
| "state_rank EXECUTING = 8"
| "state_rank EXECUTION_UNKNOWN = 9"
| "state_rank SUCCEEDED = 10"
| "state_rank FAILED = 10"
| "state_rank BLOCKED = 10"
| "state_rank REJECTED = 10"
| "state_rank CANCELLED = 10"
| "state_rank EXPIRED = 10"
| "state_rank STALE = 10"

lemma is_legal_rank: "is_legal s t \<Longrightarrow> state_rank s < state_rank t"
  by (cases s) (auto simp: is_legal_def)

lemma is_legal_irrefl [simp]: "\<not> is_legal s s"
  using is_legal_rank by blast

inductive lifecycle_path :: "intent_state \<Rightarrow> intent_state list \<Rightarrow> intent_state \<Rightarrow> bool" where
  here: "lifecycle_path s [] s"
| hop: "is_legal s t \<Longrightarrow> lifecycle_path t ts u \<Longrightarrow> lifecycle_path s (t # ts) u"

inductive_simps lifecycle_path_Nil: "lifecycle_path s [] u"
inductive_simps lifecycle_path_Cons: "lifecycle_path s (t # ts) u"

lemma lifecycle_path_append:
  "lifecycle_path s (ts @ us) u \<longleftrightarrow> (\<exists>m. lifecycle_path s ts m \<and> lifecycle_path m us u)"
  by (induction ts arbitrary: s) (auto simp: lifecycle_path_Nil lifecycle_path_Cons)

lemma lifecycle_path_snoc:
  "lifecycle_path s ts m \<Longrightarrow> is_legal m u \<Longrightarrow> lifecycle_path s (ts @ [u]) u"
  by (auto simp: lifecycle_path_append lifecycle_path_Cons lifecycle_path_Nil)

lemma lifecycle_path_rank:
  "lifecycle_path s ts u \<Longrightarrow> state_rank s + length ts \<le> state_rank u"
  by (induction rule: lifecycle_path.induct) (auto dest: is_legal_rank)

definition past_claim :: "intent_state \<Rightarrow> bool" where
  "past_claim s \<longleftrightarrow> s \<in> {EXECUTING, EXECUTION_UNKNOWN, SUCCEEDED, FAILED, STALE, EXPIRED,
     BLOCKED, REJECTED, CANCELLED}"

lemma past_claim_closed: "past_claim s \<Longrightarrow> is_legal s t \<Longrightarrow> past_claim t"
  by (cases s) (auto simp: past_claim_def is_legal_def)

lemma legal_into_executing: "is_legal s EXECUTING \<longleftrightarrow> s = REVALIDATING"
  by (cases s) (auto simp: is_legal_def)

lemma legal_into_revalidating: "is_legal s REVALIDATING \<longleftrightarrow> s = AUTO_APPROVED \<or> s = APPROVED"
  by (cases s) (auto simp: is_legal_def)

lemma legal_into_approved: "is_legal s APPROVED \<longleftrightarrow> s = PENDING_APPROVAL_1 \<or> s = PENDING_APPROVAL_2"
  by (cases s) (auto simp: is_legal_def)

lemma legal_into_auto_approved: "is_legal s AUTO_APPROVED \<longleftrightarrow> s = POLICY_EVALUATED"
  by (cases s) (auto simp: is_legal_def)

end
