(* ===== verification/Store.thy ===== *)
theory Store
  imports Json Domain_Enums Domain_Errors State_Machine
begin

text \<open>
  The durable state: one record per mapped class of \<open>infrastructure/orm.py\<close> and one database record
  that holds the tables, with the constraints PostgreSQL checks when a session is flushed.

  A row keeps enumerated columns as the enumeration (the program writes nothing else into them)
  and JSONB columns as dictionaries. A key that the ORM generates with \<open>uuid.uuid4\<close> is the number
  of the generated value (\<^typ>\<open>nat\<close>), so two generated keys differ; where the program prints it,
  \<open>row_id_str\<close> is its text. Columns that no code reads (\<open>updated_at\<close>, \<open>evaluated_at\<close>, the
  transition's own id, \<open>request_fingerprint\<close>) are left out.

  The environment of one transaction is \<open>env\<close>: the clock of the process, the clock of the
  database and the intent rows that other transactions hold locked.
\<close>

type_synonym row_id = nat
type_synonym intent_key = "string \<times> uuid \<times> int"

definition row_id_str :: "row_id \<Rightarrow> string" where
  "row_id_str n = uuid_str (word_of_nat n)"

datatype exec_status = EX_CLAIMED | EX_EXECUTING | EX_SUCCEEDED | EX_FAILED | EX_UNKNOWN

datatype idem_status = PENDING | COMPLETED

record intent_row =
  ai_tenant_id :: string
  ai_intent_id :: uuid
  ai_revision :: int
  ai_tool :: tool_name
  ai_canonical_parameters :: dict
  ai_intent_digest :: string
  ai_requester_id :: string
  ai_requester_rationale :: string
  ai_raw_proposal :: "dict option"
  ai_source :: intent_source
  ai_state :: intent_state
  ai_state_version :: int
  ai_approval_expires_at :: "instant option"
  ai_created_at :: instant

record transition_row =
  st_tenant_id :: string
  st_intent_id :: uuid
  st_intent_revision :: int
  st_from_state :: "intent_state option"
  st_to_state :: intent_state
  st_actor_type :: string
  st_actor_id :: string
  st_command_id :: string
  st_reason_code :: string
  st_metadata :: dict
  st_sequence :: int
  st_occurred_at :: instant

record idempotency_row =
  ir_tenant_id :: string
  ir_actor_id :: string
  ir_scope :: string
  ir_key_hash :: string
  ir_request_hash :: string
  ir_status :: idem_status
  ir_response_status :: "int option"
  ir_response_body :: "dict option"
  ir_expires_at :: "instant option"

record outbox_row =
  ob_id :: row_id
  ob_sequence :: int
  ob_topic :: string
  ob_payload :: dict
  ob_attempts :: int
  ob_next_attempt_at :: "instant option"
  ob_published_at :: "instant option"
  ob_claimed_by :: "string option"
  ob_claim_expires_at :: "instant option"
  ob_created_at :: instant

record audit_row =
  ae_event_id :: row_id
  ae_tenant_id :: string
  ae_aggregate_id :: uuid
  ae_aggregate_revision :: int
  ae_sequence :: int
  ae_event_type :: string
  ae_actor_id :: string
  ae_occurred_at :: instant
  ae_correlation_id :: "string option"
  ae_causation_id :: "string option"
  ae_policy_version :: "string option"
  ae_risk_version :: "string option"
  ae_attributes :: dict
  ae_previous_hash :: string
  ae_event_hash :: string

record risk_row =
  rr_tenant_id :: string
  rr_intent_id :: uuid
  rr_intent_revision :: int
  rr_generation :: int
  rr_band :: risk_band
  rr_factors :: "string list"
  rr_rule_version :: string
  rr_evaluated_context :: dict

record policy_row =
  pr_tenant_id :: string
  pr_intent_id :: uuid
  pr_intent_revision :: int
  pr_generation :: int
  pr_disposition :: policy_disposition
  pr_route :: approval_route
  pr_required_roles :: "string list"
  pr_required_scopes :: "string list"
  pr_obligations :: "string list"
  pr_reason_codes :: "string list"
  pr_policy_version :: string
  pr_approval_ttl_seconds :: "int option"

record bundle_row =
  br_id :: row_id
  br_tenant_id :: string
  br_version :: string
  br_rules :: dict
  br_is_active :: bool
  br_created_at :: instant

record decision_row =
  dr_tenant_id :: string
  dr_intent_id :: uuid
  dr_intent_revision :: int
  dr_intent_digest :: string
  dr_level :: int
  dr_decision :: approval_decision
  dr_actor_id :: string
  dr_actor_roles_snapshot :: "string list"
  dr_scope_snapshot :: dict
  dr_reason :: string
  dr_policy_version :: string
  dr_decided_at :: instant
  dr_expires_at :: "instant option"

record role_row =
  ra_id :: row_id
  ra_tenant_id :: string
  ra_principal_id :: string
  ra_role :: string
  ra_environments :: "string list option"
  ra_scopes :: "string list option"
  ra_environments_key :: string
  ra_valid_from :: instant
  ra_valid_until :: "instant option"
  ra_revoked_at :: "instant option"
  ra_granted_by :: string

record execution_row =
  xr_id :: row_id
  xr_tenant_id :: string
  xr_intent_id :: uuid
  xr_intent_revision :: int
  xr_operation_key :: string
  xr_attempt :: int
  xr_status :: exec_status
  xr_provider_operation_id :: "string option"
  xr_precondition_snapshot :: "dict option"
  xr_claim_expires_at :: "instant option"
  xr_started_at :: "instant option"
  xr_finished_at :: "instant option"
  xr_error_code :: "string option"
  xr_result_summary :: "dict option"
  xr_reconcile_attempts :: int
  xr_next_reconcile_at :: "instant option"

record db =
  db_intents :: "intent_row list"
  db_transitions :: "transition_row list"
  db_idempotency :: "idempotency_row list"
  db_outbox :: "outbox_row list"
  db_audit :: "audit_row list"
  db_risk :: "risk_row list"
  db_policy :: "policy_row list"
  db_bundles :: "bundle_row list"
  db_decisions :: "decision_row list"
  db_roles :: "role_row list"
  db_executions :: "execution_row list"
  db_next_id :: nat
  db_next_sequence :: int

record env =
  ev_now :: instant
  ev_db_now :: instant
  ev_locked :: "intent_key list"

definition empty_db :: db where
  "empty_db = \<lparr>db_intents = [], db_transitions = [], db_idempotency = [], db_outbox = [],
     db_audit = [], db_risk = [], db_policy = [], db_bundles = [], db_decisions = [],
     db_roles = [], db_executions = [], db_next_id = 0, db_next_sequence = 1\<rparr>"

section \<open>Keys\<close>

definition ai_key :: "intent_row \<Rightarrow> intent_key" where
  "ai_key i = (ai_tenant_id i, ai_intent_id i, ai_revision i)"

definition st_key :: "transition_row \<Rightarrow> intent_key" where
  "st_key t = (st_tenant_id t, st_intent_id t, st_intent_revision t)"

definition rr_key :: "risk_row \<Rightarrow> intent_key" where
  "rr_key r = (rr_tenant_id r, rr_intent_id r, rr_intent_revision r)"

definition pr_key :: "policy_row \<Rightarrow> intent_key" where
  "pr_key r = (pr_tenant_id r, pr_intent_id r, pr_intent_revision r)"

definition dr_key :: "decision_row \<Rightarrow> intent_key" where
  "dr_key r = (dr_tenant_id r, dr_intent_id r, dr_intent_revision r)"

definition xr_key :: "execution_row \<Rightarrow> intent_key" where
  "xr_key r = (xr_tenant_id r, xr_intent_id r, xr_intent_revision r)"

lemmas key_defs = ai_key_def st_key_def rr_key_def pr_key_def dr_key_def xr_key_def

section \<open>Queries and writes\<close>

text \<open>\<open>session.get(ActionIntentORM, key)\<close>, and the rows an ORM object keeps when it is changed.\<close>

definition get_intent :: "intent_key \<Rightarrow> db \<Rightarrow> intent_row option" where
  "get_intent k d = find (\<lambda>i. ai_key i = k) (db_intents d)"

definition save_intent :: "intent_row \<Rightarrow> db \<Rightarrow> db" where
  "save_intent i d = d\<lparr>db_intents := upd_where (\<lambda>r. ai_key r = ai_key i) (\<lambda>_. i) (db_intents d)\<rparr>"

definition add_intent :: "intent_row \<Rightarrow> db \<Rightarrow> db" where
  "add_intent i d = d\<lparr>db_intents := db_intents d @ [i]\<rparr>"

definition add_transition :: "transition_row \<Rightarrow> db \<Rightarrow> db" where
  "add_transition t d = d\<lparr>db_transitions := db_transitions d @ [t]\<rparr>"

text \<open>A new outbox row takes the next generated id and the next value of the sequence.\<close>

definition add_outbox :: "instant \<Rightarrow> string \<Rightarrow> dict \<Rightarrow> db \<Rightarrow> db" where
  "add_outbox now topic payload d =
     d\<lparr>db_outbox := db_outbox d @
         [\<lparr>ob_id = db_next_id d, ob_sequence = db_next_sequence d, ob_topic = topic,
           ob_payload = payload, ob_attempts = 0, ob_next_attempt_at = None,
           ob_published_at = None, ob_claimed_by = None, ob_claim_expires_at = None,
           ob_created_at = now\<rparr>],
       db_next_id := db_next_id d + 1, db_next_sequence := db_next_sequence d + 1\<rparr>"

definition save_execution :: "execution_row \<Rightarrow> db \<Rightarrow> db" where
  "save_execution x d = d\<lparr>db_executions := upd_where (\<lambda>r. xr_id r = xr_id x) (\<lambda>_. x) (db_executions d)\<rparr>"

text \<open>\<open>max(sequence) + 1\<close> over the transitions of the revision; no transition counts as 0.\<close>

definition next_sequence :: "intent_row \<Rightarrow> db \<Rightarrow> int" where
  "next_sequence i d =
     (let qs = map st_sequence (filter (\<lambda>t. st_key t = ai_key i) (db_transitions d))
      in (if qs = [] then 0 else Max (set qs)) + 1)"

definition policy_rows_for :: "intent_key \<Rightarrow> db \<Rightarrow> policy_row list" where
  "policy_rows_for k d = filter (\<lambda>r. pr_key r = k \<and> pr_generation r = 1) (db_policy d)"

definition risk_rows_for :: "intent_key \<Rightarrow> db \<Rightarrow> risk_row list" where
  "risk_rows_for k d = filter (\<lambda>r. rr_key r = k \<and> rr_generation r = 1) (db_risk d)"

text \<open>\<open>SELECT ... FOR UPDATE NOWAIT\<close> fails when another transaction holds the row.\<close>

definition row_locked :: "env \<Rightarrow> intent_key \<Rightarrow> bool" where
  "row_locked ev k \<longleftrightarrow> k \<in> set (ev_locked ev)"

section \<open>Tables\<close>

text \<open>
  A table of the database record: a field with its update. The lemmas say what a query returns
  after a row is added or changed; every table of the record is an instance.
\<close>

locale table =
  fixes rows :: "db \<Rightarrow> 'r list" and put :: "('r list \<Rightarrow> 'r list) \<Rightarrow> db \<Rightarrow> db"
  assumes rows_put: "rows (put f d) = f (rows d)"
    and put_put: "put f (put g d) = put (f \<circ> g) d"
begin

lemma rows_insert: "rows (put (\<lambda>rs. rs @ [r]) d) = rows d @ [r]"
  by (simp add: rows_put)

lemma query_insert:
  "filter q (rows (put (\<lambda>rs. rs @ [r]) d)) = filter q (rows d) @ (if q r then [r] else [])"
  by (simp add: rows_put)

lemma lookup_change:
  "(\<And>r. q r \<Longrightarrow> q (f r)) \<Longrightarrow> find q (rows (put (upd_where q f) d)) = map_option f (find q (rows d))"
  by (simp add: rows_put find_upd_where_same)

lemma lookup_other:
  "(\<And>r. p r \<Longrightarrow> \<not> q r \<and> \<not> q (f r)) \<Longrightarrow> find q (rows (put (upd_where p f) d)) = find q (rows d)"
  by (simp add: rows_put find_upd_where_other)

lemma change_key: "(\<And>r. p r \<Longrightarrow> k (f r) = k r) \<Longrightarrow> map k (rows (put (upd_where p f) d)) = map k (rows d)"
  by (simp add: rows_put map_upd_where_key)

end

interpretation intents: table db_intents db_intents_update by unfold_locales simp_all
interpretation transitions: table db_transitions db_transitions_update by unfold_locales simp_all
interpretation idempotency: table db_idempotency db_idempotency_update by unfold_locales simp_all
interpretation outbox: table db_outbox db_outbox_update by unfold_locales simp_all
interpretation audit: table db_audit db_audit_update by unfold_locales simp_all
interpretation bundles: table db_bundles db_bundles_update by unfold_locales simp_all
interpretation decisions: table db_decisions db_decisions_update by unfold_locales simp_all
interpretation roles: table db_roles db_roles_update by unfold_locales simp_all
interpretation executions: table db_executions db_executions_update by unfold_locales simp_all

lemma get_intent_SomeD: "get_intent k d = Some i \<Longrightarrow> i \<in> set (db_intents d) \<and> ai_key i = k"
  unfolding get_intent_def by (drule find_SomeD) simp

lemma get_save_intent:
  "get_intent k (save_intent i d) =
     (if k = ai_key i \<and> get_intent k d \<noteq> None then Some i else get_intent k d)"
proof (cases "k = ai_key i")
  case True
  with intents.lookup_change [of "\<lambda>r. ai_key r = ai_key i" "\<lambda>_. i" d] show ?thesis
    by (auto simp: get_intent_def save_intent_def)
next
  case False
  with intents.lookup_other [of "\<lambda>r. ai_key r = ai_key i" "\<lambda>r. ai_key r = k" "\<lambda>_. i" d]
  show ?thesis by (auto simp: get_intent_def save_intent_def)
qed

lemma get_intent_cong: "db_intents d = db_intents d' \<Longrightarrow> get_intent k d = get_intent k d'"
  by (simp add: get_intent_def)

lemma add_outbox_fields [simp]:
  "db_intents (add_outbox n t p d) = db_intents d"
  "db_transitions (add_outbox n t p d) = db_transitions d"
  "db_idempotency (add_outbox n t p d) = db_idempotency d"
  "db_audit (add_outbox n t p d) = db_audit d"
  "db_risk (add_outbox n t p d) = db_risk d"
  "db_policy (add_outbox n t p d) = db_policy d"
  "db_bundles (add_outbox n t p d) = db_bundles d"
  "db_decisions (add_outbox n t p d) = db_decisions d"
  "db_roles (add_outbox n t p d) = db_roles d"
  "db_executions (add_outbox n t p d) = db_executions d"
  by (simp_all add: add_outbox_def)

lemma add_transition_fields [simp]:
  "db_intents (add_transition t d) = db_intents d"
  "db_transitions (add_transition t d) = db_transitions d @ [t]"
  "db_idempotency (add_transition t d) = db_idempotency d"
  "db_outbox (add_transition t d) = db_outbox d"
  "db_audit (add_transition t d) = db_audit d"
  "db_risk (add_transition t d) = db_risk d"
  "db_policy (add_transition t d) = db_policy d"
  "db_bundles (add_transition t d) = db_bundles d"
  "db_decisions (add_transition t d) = db_decisions d"
  "db_roles (add_transition t d) = db_roles d"
  "db_executions (add_transition t d) = db_executions d"
  "db_next_id (add_transition t d) = db_next_id d"
  by (simp_all add: add_transition_def)

lemma save_intent_fields [simp]:
  "db_intents (save_intent i d) = upd_where (\<lambda>r. ai_key r = ai_key i) (\<lambda>_. i) (db_intents d)"
  "db_transitions (save_intent i d) = db_transitions d"
  "db_idempotency (save_intent i d) = db_idempotency d"
  "db_outbox (save_intent i d) = db_outbox d"
  "db_audit (save_intent i d) = db_audit d"
  "db_risk (save_intent i d) = db_risk d"
  "db_policy (save_intent i d) = db_policy d"
  "db_bundles (save_intent i d) = db_bundles d"
  "db_decisions (save_intent i d) = db_decisions d"
  "db_roles (save_intent i d) = db_roles d"
  "db_executions (save_intent i d) = db_executions d"
  "db_next_id (save_intent i d) = db_next_id d"
  by (simp_all add: save_intent_def)

lemma save_execution_fields [simp]:
  "db_intents (save_execution x d) = db_intents d"
  "db_transitions (save_execution x d) = db_transitions d"
  "db_idempotency (save_execution x d) = db_idempotency d"
  "db_outbox (save_execution x d) = db_outbox d"
  "db_audit (save_execution x d) = db_audit d"
  "db_risk (save_execution x d) = db_risk d"
  "db_policy (save_execution x d) = db_policy d"
  "db_bundles (save_execution x d) = db_bundles d"
  "db_decisions (save_execution x d) = db_decisions d"
  "db_roles (save_execution x d) = db_roles d"
  "db_executions (save_execution x d) = upd_where (\<lambda>r. xr_id r = xr_id x) (\<lambda>_. x) (db_executions d)"
  by (simp_all add: save_execution_def)

lemma get_intent_frame [simp]:
  "get_intent k (add_outbox n t p d) = get_intent k d"
  "get_intent k (add_transition r d) = get_intent k d"
  "get_intent k (save_execution x d) = get_intent k d"
  by (simp_all add: get_intent_def)

section \<open>Constraints\<close>

definition fits :: "nat \<Rightarrow> string \<Rightarrow> bool" where
  "fits n s \<longleftrightarrow> py_len s \<le> n"

definition fits_opt :: "nat \<Rightarrow> string option \<Rightarrow> bool" where
  "fits_opt n v \<longleftrightarrow> (case v of None \<Rightarrow> True | Some s \<Rightarrow> fits n s)"

definition columns_fit :: "db \<Rightarrow> bool" where
  "columns_fit d \<longleftrightarrow>
     list_all (\<lambda>i. fits 63 (ai_tenant_id i) \<and> fits 64 (ai_intent_digest i) \<and>
       fits 255 (ai_requester_id i)) (db_intents d) \<and>
     list_all (\<lambda>t. fits 63 (st_tenant_id t) \<and> fits 32 (st_actor_type t) \<and> fits 255 (st_actor_id t) \<and>
       fits 64 (st_command_id t) \<and> fits 64 (st_reason_code t)) (db_transitions d) \<and>
     list_all (\<lambda>r. fits 63 (ir_tenant_id r) \<and> fits 255 (ir_actor_id r) \<and> fits 64 (ir_scope r) \<and>
       fits 64 (ir_key_hash r) \<and> fits 64 (ir_request_hash r)) (db_idempotency d) \<and>
     list_all (\<lambda>r. fits 64 (ob_topic r) \<and> fits_opt 64 (ob_claimed_by r)) (db_outbox d) \<and>
     list_all (\<lambda>r. fits 63 (ae_tenant_id r) \<and> fits 64 (ae_event_type r) \<and> fits 255 (ae_actor_id r) \<and>
       fits_opt 64 (ae_correlation_id r) \<and> fits_opt 64 (ae_causation_id r) \<and>
       fits_opt 32 (ae_policy_version r) \<and> fits_opt 32 (ae_risk_version r) \<and>
       fits 64 (ae_previous_hash r) \<and> fits 64 (ae_event_hash r)) (db_audit d) \<and>
     list_all (\<lambda>r. fits 63 (rr_tenant_id r) \<and> fits 32 (rr_rule_version r)) (db_risk d) \<and>
     list_all (\<lambda>r. fits 63 (pr_tenant_id r) \<and> fits 32 (pr_policy_version r)) (db_policy d) \<and>
     list_all (\<lambda>r. fits 63 (br_tenant_id r) \<and> fits 32 (br_version r)) (db_bundles d) \<and>
     list_all (\<lambda>r. fits 63 (dr_tenant_id r) \<and> fits 64 (dr_intent_digest r) \<and> fits 255 (dr_actor_id r) \<and>
       fits 32 (dr_policy_version r)) (db_decisions d) \<and>
     list_all (\<lambda>r. fits 63 (ra_tenant_id r) \<and> fits 255 (ra_principal_id r) \<and> fits 63 (ra_role r) \<and>
       fits 512 (ra_environments_key r) \<and> fits 255 (ra_granted_by r)) (db_roles d) \<and>
     list_all (\<lambda>r. fits 63 (xr_tenant_id r) \<and> fits 255 (xr_operation_key r) \<and>
       fits_opt 255 (xr_provider_operation_id r) \<and> fits_opt 64 (xr_error_code r)) (db_executions d)"

definition references_ok :: "db \<Rightarrow> bool" where
  "references_ok d \<longleftrightarrow>
     (let ks = map ai_key (db_intents d)
      in list_all (\<lambda>t. st_key t \<in> set ks) (db_transitions d) \<and>
         list_all (\<lambda>t. rr_key t \<in> set ks) (db_risk d) \<and>
         list_all (\<lambda>t. pr_key t \<in> set ks) (db_policy d) \<and>
         list_all (\<lambda>t. dr_key t \<in> set ks) (db_decisions d) \<and>
         list_all (\<lambda>t. xr_key t \<in> set ks) (db_executions d))"

definition checks_ok :: "db \<Rightarrow> bool" where
  "checks_ok d \<longleftrightarrow>
     list_all (\<lambda>i. ai_revision i \<ge> 1 \<and> ai_state_version i \<ge> 1) (db_intents d) \<and>
     list_all (\<lambda>r. (dr_level r = 1 \<or> dr_level r = 2) \<and> dr_intent_revision r \<ge> 1) (db_decisions d) \<and>
     list_all (\<lambda>r. xr_attempt r \<ge> 1 \<and> xr_intent_revision r \<ge> 1) (db_executions d)"

definition audit_causation :: "audit_row \<Rightarrow> string \<times> uuid \<times> string option" where
  "audit_causation r = (ae_tenant_id r, ae_aggregate_id r, ae_causation_id r)"

text \<open>
  The keys and unique indexes of the deployed schema, which is what the migrations create:
  \<open>UNIQUE (tenant_id, version)\<close> on the policy bundles comes from migration 0002 alone, and the
  \<open>unique=True\<close> of \<open>orm.py\<close> on \<open>event_hash\<close> is not part of it, because no migration creates it
  (\<open>Schema_Drift\<close>). Widths of integers and NUL characters in text are not checked.
\<close>

definition unique_ok :: "db \<Rightarrow> bool" where
  "unique_ok d \<longleftrightarrow>
     distinct (map ai_key (db_intents d)) \<and>
     distinct (map st_command_id (db_transitions d)) \<and>
     distinct (map (\<lambda>t. (st_key t, st_sequence t)) (db_transitions d)) \<and>
     distinct (map (\<lambda>r. (ir_tenant_id r, ir_actor_id r, ir_scope r, ir_key_hash r)) (db_idempotency d)) \<and>
     distinct (map ob_id (db_outbox d)) \<and>
     distinct (map (\<lambda>r. (ae_tenant_id r, ae_aggregate_id r, ae_sequence r)) (db_audit d)) \<and>
     distinct (map audit_causation (filter (\<lambda>r. ae_causation_id r \<noteq> None) (db_audit d))) \<and>
     distinct (map (\<lambda>r. (rr_key r, rr_generation r)) (db_risk d)) \<and>
     distinct (map (\<lambda>r. (pr_key r, pr_generation r)) (db_policy d)) \<and>
     distinct (map (\<lambda>b. (br_tenant_id b, br_version b)) (db_bundles d)) \<and>
     distinct (map br_tenant_id (filter br_is_active (db_bundles d))) \<and>
     distinct (map (\<lambda>r. (dr_key r, dr_level r, dr_actor_id r))
       (filter (\<lambda>r. dr_decision r = APPROVE) (db_decisions d))) \<and>
     distinct (map (\<lambda>r. (ra_tenant_id r, ra_principal_id r, ra_role r, ra_environments_key r))
       (filter (\<lambda>r. ra_revoked_at r = None) (db_roles d))) \<and>
     distinct (map xr_id (db_executions d)) \<and>
     distinct (map xr_key (db_executions d)) \<and>
     distinct (map xr_operation_key (db_executions d))"

text \<open>\<open>session.flush()\<close>: what the database answers when the pending changes are sent to it.\<close>

definition flush :: "db \<Rightarrow> exn + unit" where
  "flush d =
     (if \<not> columns_fit d then Inl DataError
      else if references_ok d \<and> checks_ok d \<and> unique_ok d then Inr ()
      else Inl IntegrityError)"

definition constraints_ok :: "db \<Rightarrow> bool" where
  "constraints_ok d \<longleftrightarrow> flush d = Inr ()"

text \<open>
  \<open>async with session.begin()\<close> and \<open>get_session\<close> on the database: the commit flushes first. The
  commit of \<open>get_session\<close> runs after the handler has returned; a flush that fails there is an error
  answer here. Every command flushes itself before it returns, and what is left for that commit, the completion of
  the idempotency record, violates none of these constraints.
\<close>

definition transaction :: "(db \<Rightarrow> (exn + 'a) \<times> db) \<Rightarrow> db \<Rightarrow> (exn + 'a) \<times> db" where
  "transaction h =
     begin_block (\<lambda>d. case h d of
        (Inr a, d') \<Rightarrow> (case flush d' of Inr _ \<Rightarrow> (Inr a, d') | Inl e \<Rightarrow> (Inl e, d'))
      | (Inl e, d') \<Rightarrow> (Inl e, d'))"

definition request :: "(db \<Rightarrow> (exn + 'a) \<times> db) \<Rightarrow> db \<Rightarrow> (exn + 'a) \<times> db" where
  "request h =
     run_transaction (\<lambda>d. case h d of
        (Inr a, d') \<Rightarrow> (case flush d' of Inr _ \<Rightarrow> (Inr a, d') | Inl e \<Rightarrow> (Inl e, d'))
      | (Inl e, d') \<Rightarrow> (if persist_state e
                       then (case flush d' of Inr _ \<Rightarrow> (Inl e, d') | Inl f \<Rightarrow> (Inl f, d'))
                       else (Inl e, d')))"

end
