(* ===== verification/History.thy ===== *)
theory History
  imports Store
begin

text \<open>
  The lifecycle of an intent as the database shows it. An intent's transition rows form a legal
  path from REQUESTED to its current state, numbered from 1, and its state version is their
  number. Approval states carry evidence: decision rows by other persons than the requester.

  \<open>moves\<close> is the abstract specification of what one write may do to this part of the database.
  Each handler of the component theories is shown to be a sequence of such moves, and every
  invariant here is proved once, for a move.

  The interface \<open>transition_recorder\<close> states what the five separately written
  \<open>_record_transition\<close> routines of the program have in common; each is an instance.
\<close>

section \<open>Histories\<close>

definition history :: "db \<Rightarrow> intent_key \<Rightarrow> transition_row list" where
  "history d k = filter (\<lambda>t. st_key t = k) (db_transitions d)"

inductive valid_history :: "transition_row list \<Rightarrow> intent_state \<Rightarrow> bool" where
  created: "st_from_state t = None \<Longrightarrow> st_to_state t = REQUESTED \<Longrightarrow> st_sequence t = 1 \<Longrightarrow>
    valid_history [t] REQUESTED"
| recorded: "valid_history h s \<Longrightarrow> is_legal s s' \<Longrightarrow> st_from_state t = Some s \<Longrightarrow> st_to_state t = s' \<Longrightarrow>
    st_sequence t = int (length h) + 1 \<Longrightarrow> valid_history (h @ [t]) s'"

lemma valid_history_sequences:
  "valid_history h s \<Longrightarrow> map st_sequence h = map (\<lambda>n. int n + 1) [0..<length h]"
  by (induction rule: valid_history.induct) auto

lemma valid_history_last: "valid_history h s \<Longrightarrow> h \<noteq> [] \<and> st_to_state (last h) = s"
  by (induction rule: valid_history.induct) auto

lemma valid_history_path:
  "valid_history h s \<Longrightarrow> lifecycle_path REQUESTED (tl (map st_to_state h)) s"
proof (induction rule: valid_history.induct)
  case (created t)
  show ?case by (simp add: lifecycle_path.here)
next
  case (recorded h s s' t)
  then have "h \<noteq> []" using valid_history_last by blast
  then have "tl (map st_to_state (h @ [t])) = tl (map st_to_state h) @ [s']"
    using recorded.hyps by (cases h) auto
  with recorded show ?case by (simp add: lifecycle_path_snoc)
qed

lemma valid_history_rank: "valid_history h s \<Longrightarrow> length h \<le> state_rank s + 1"
  by (induction rule: valid_history.induct) (auto dest: is_legal_rank)

lemma valid_history_requested: "valid_history h REQUESTED \<Longrightarrow> length h = 1"
  by (erule valid_history.cases) (auto dest: is_legal_rank)

lemma state_rank_bound: "state_rank s \<le> 10"
  by (cases s) simp_all

lemma Max_sequences: "valid_history h s \<Longrightarrow> Max (set (map st_sequence h)) = int (length h)"
proof -
  assume v: "valid_history h s"
  then have "h \<noteq> []" using valid_history_last by blast
  then obtain n where n: "length h = Suc n" by (cases h) auto
  have "set (map st_sequence h) = (\<lambda>n. int n + 1) ` {0..n}"
    using valid_history_sequences [OF v] n by (metis atLeastLessThanSuc_atLeastAtMost image_set set_upt)
  then have "Max (set (map st_sequence h)) = int n + 1"
    by (intro Max_eqI) auto
  with n show ?thesis by simp
qed

lemma next_sequence_length:
  assumes "valid_history (history d (ai_key i)) s"
  shows "next_sequence i d = int (length (history d (ai_key i))) + 1"
  using Max_sequences [OF assms] valid_history_last [OF assms]
  by (simp add: next_sequence_def history_def)

section \<open>Approval evidence\<close>

definition approved_by :: "db \<Rightarrow> intent_row \<Rightarrow> int \<Rightarrow> string \<Rightarrow> bool" where
  "approved_by d i lvl a \<longleftrightarrow>
     (\<exists>r \<in> set (db_decisions d). dr_key r = ai_key i \<and> dr_level r = lvl \<and> dr_decision r = APPROVE \<and>
        dr_actor_id r = a \<and> dr_intent_digest r = ai_intent_digest i) \<and> a \<noteq> ai_requester_id i"

definition evidence :: "db \<Rightarrow> intent_row \<Rightarrow> intent_state \<Rightarrow> bool" where
  "evidence d i s \<longleftrightarrow>
     (s = AUTO_APPROVED \<longrightarrow>
        (\<exists>p. policy_rows_for (ai_key i) d = [p] \<and> pr_disposition p = ALLOW)) \<and>
     (s = APPROVED_BY_LEVEL_1 \<or> s = PENDING_APPROVAL_2 \<longrightarrow> (\<exists>a. approved_by d i 1 a)) \<and>
     (s = APPROVED \<longrightarrow>
        (\<exists>p. policy_rows_for (ai_key i) d = [p] \<and>
           (if pr_route p = CRITICAL_TWO_STEP
            then \<exists>a b. approved_by d i 1 a \<and> approved_by d i 2 b \<and> a \<noteq> b
            else \<exists>a. approved_by d i 1 a)))"

definition visited :: "db \<Rightarrow> intent_row \<Rightarrow> intent_state set" where
  "visited d i = st_to_state ` set (history d (ai_key i))"

section \<open>Moves\<close>

text \<open>The columns of an intent that no write ever changes.\<close>

definition same_identity :: "intent_row \<Rightarrow> intent_row \<Rightarrow> bool" where
  "same_identity i j \<longleftrightarrow> ai_key i = ai_key j \<and> ai_tool i = ai_tool j \<and>
     ai_canonical_parameters i = ai_canonical_parameters j \<and>
     ai_intent_digest i = ai_intent_digest j \<and> ai_requester_id i = ai_requester_id j"

definition recorded_row :: "intent_row \<Rightarrow> intent_state option \<Rightarrow> intent_state \<Rightarrow> int \<Rightarrow> transition_row \<Rightarrow> bool" where
  "recorded_row i s s' n t \<longleftrightarrow> st_key t = ai_key i \<and> st_from_state t = s \<and> st_to_state t = s' \<and> st_sequence t = n"

definition advance_intent :: "intent_row \<Rightarrow> intent_state \<Rightarrow> intent_row" where
  "advance_intent i s = i\<lparr>ai_state := s, ai_state_version := ai_state_version i + 1\<rparr>"

fun route_state :: "policy_disposition \<Rightarrow> intent_state" where
  "route_state ALLOW = AUTO_APPROVED"
| "route_state REQUIRE_APPROVAL = PENDING_APPROVAL_1"
| "route_state BLOCK = BLOCKED"

inductive moves :: "db \<Rightarrow> db \<Rightarrow> bool" where
  frame: "db_intents d' = db_intents d \<Longrightarrow> db_transitions d' = db_transitions d \<Longrightarrow>
    db_policy d' = db_policy d \<Longrightarrow> set (db_decisions d) \<subseteq> set (db_decisions d') \<Longrightarrow> moves d d'"
| create: "get_intent (ai_key i) d = None \<Longrightarrow> ai_state i = REQUESTED \<Longrightarrow> ai_state_version i = 1 \<Longrightarrow>
    recorded_row i None REQUESTED 1 t \<Longrightarrow> db_intents d' = db_intents d @ [i] \<Longrightarrow>
    db_transitions d' = db_transitions d @ [t] \<Longrightarrow> db_policy d' = db_policy d \<Longrightarrow>
    db_decisions d' = db_decisions d \<Longrightarrow> moves d d'"
| route: "i \<in> set (db_intents d) \<Longrightarrow> ai_state i = REQUESTED \<Longrightarrow> pr_key p = ai_key i \<Longrightarrow> pr_generation p = 1 \<Longrightarrow>
    same_identity j i \<Longrightarrow> ai_state j = route_state (pr_disposition p) \<Longrightarrow> ai_state_version j = 4 \<Longrightarrow>
    recorded_row i (Some REQUESTED) RISK_EVALUATED 2 t2 \<Longrightarrow>
    recorded_row i (Some RISK_EVALUATED) POLICY_EVALUATED 3 t3 \<Longrightarrow>
    recorded_row i (Some POLICY_EVALUATED) (route_state (pr_disposition p)) 4 t4 \<Longrightarrow>
    db_intents d' = upd_where (\<lambda>r. ai_key r = ai_key i) (\<lambda>_. j) (db_intents d) \<Longrightarrow>
    db_transitions d' = db_transitions d @ [t2, t3, t4] \<Longrightarrow>
    db_policy d' = db_policy d @ [p] \<Longrightarrow> db_decisions d' = db_decisions d \<Longrightarrow> moves d d'"
| advance: "i \<in> set (db_intents d) \<Longrightarrow> is_legal (ai_state i) s \<Longrightarrow> evidence d i s \<Longrightarrow>
    recorded_row i (Some (ai_state i)) s (next_sequence i d) t \<Longrightarrow>
    db_intents d' = upd_where (\<lambda>r. ai_key r = ai_key i) (\<lambda>_. advance_intent i s) (db_intents d) \<Longrightarrow>
    db_transitions d' = db_transitions d @ [t] \<Longrightarrow> db_policy d' = db_policy d \<Longrightarrow>
    db_decisions d' = db_decisions d \<Longrightarrow> moves d d'"

abbreviation evolves :: "db \<Rightarrow> db \<Rightarrow> bool" where
  "evolves \<equiv> moves\<^sup>*\<^sup>*"

lemma evolves_frame:
  "db_intents d' = db_intents d \<Longrightarrow> db_transitions d' = db_transitions d \<Longrightarrow>
    db_policy d' = db_policy d \<Longrightarrow> set (db_decisions d) \<subseteq> set (db_decisions d') \<Longrightarrow> evolves d d'"
  by (rule r_into_rtranclp) (rule frame)

section \<open>The invariant\<close>

definition intent_ok :: "db \<Rightarrow> intent_row \<Rightarrow> bool" where
  "intent_ok d i \<longleftrightarrow>
     valid_history (history d (ai_key i)) (ai_state i) \<and>
     ai_state_version i = int (length (history d (ai_key i))) \<and>
     (ai_state i = REQUESTED \<longrightarrow> policy_rows_for (ai_key i) d = []) \<and>
     (\<forall>s \<in> visited d i. evidence d i s)"

definition db_ok :: "db \<Rightarrow> bool" where
  "db_ok d \<longleftrightarrow> distinct (map ai_key (db_intents d)) \<and>
     (\<forall>i \<in> set (db_intents d). intent_ok d i) \<and>
     st_key ` set (db_transitions d) \<subseteq> ai_key ` set (db_intents d) \<and>
     pr_key ` set (db_policy d) \<subseteq> ai_key ` set (db_intents d)"

lemma db_ok_empty: "db_ok empty_db"
  by (simp add: db_ok_def empty_db_def)

lemma current_visited: "intent_ok d i \<Longrightarrow> ai_state i \<in> visited d i"
  unfolding intent_ok_def visited_def by (metis image_eqI last_in_set valid_history_last)

lemma approved_by_mono:
  "approved_by d i l a \<Longrightarrow> set (db_decisions d) \<subseteq> set (db_decisions d') \<Longrightarrow> same_identity j i \<Longrightarrow>
    approved_by d' j l a"
  by (auto simp: approved_by_def same_identity_def)

lemma evidence_mono:
  assumes ev: "evidence d i s" and dec: "set (db_decisions d) \<subseteq> set (db_decisions d')"
    and pol: "policy_rows_for (ai_key i) d' = policy_rows_for (ai_key i) d" and id: "same_identity j i"
  shows "evidence d' j s"
proof -
  have ap: "approved_by d i l a \<Longrightarrow> approved_by d' j l a" for l a
    using approved_by_mono [OF _ dec id] .
  have pol': "policy_rows_for (ai_key j) d' = policy_rows_for (ai_key i) d"
    using pol id by (simp add: same_identity_def)
  have ap1: "(\<exists>a. approved_by d i 1 a) \<Longrightarrow> \<exists>a. approved_by d' j 1 a" using ap by blast
  have ap2: "(\<exists>a b. approved_by d i 1 a \<and> approved_by d i 2 b \<and> a \<noteq> b) \<Longrightarrow>
      \<exists>a b. approved_by d' j 1 a \<and> approved_by d' j 2 b \<and> a \<noteq> b" using ap by blast
  show ?thesis
    unfolding evidence_def pol'
  proof (intro conjI impI)
    assume "s = AUTO_APPROVED"
    with ev show "\<exists>p. policy_rows_for (ai_key i) d = [p] \<and> pr_disposition p = ALLOW"
      by (simp add: evidence_def)
  next
    assume "s = APPROVED_BY_LEVEL_1 \<or> s = PENDING_APPROVAL_2"
    with ev ap1 show "\<exists>a. approved_by d' j 1 a" by (simp add: evidence_def)
  next
    assume "s = APPROVED"
    with ev obtain p where p: "policy_rows_for (ai_key i) d = [p]"
      and q: "if pr_route p = CRITICAL_TWO_STEP
            then \<exists>a b. approved_by d i 1 a \<and> approved_by d i 2 b \<and> a \<noteq> b
            else \<exists>a. approved_by d i 1 a" by (auto simp: evidence_def)
    from q ap1 ap2 have "if pr_route p = CRITICAL_TWO_STEP
            then \<exists>a b. approved_by d' j 1 a \<and> approved_by d' j 2 b \<and> a \<noteq> b
            else \<exists>a. approved_by d' j 1 a" by (simp split: if_splits)
    with p show "\<exists>p. policy_rows_for (ai_key i) d = [p] \<and> (if pr_route p = CRITICAL_TWO_STEP
            then \<exists>a b. approved_by d' j 1 a \<and> approved_by d' j 2 b \<and> a \<noteq> b
            else \<exists>a. approved_by d' j 1 a)" by blast
  qed
qed

lemma same_identity_refl [simp]: "same_identity i i"
  by (simp add: same_identity_def)

lemma same_identity_advance [simp]: "same_identity (advance_intent i s) i"
  by (simp add: same_identity_def advance_intent_def ai_key_def)

lemma ai_key_advance [simp]: "ai_key (advance_intent i s) = ai_key i"
  by (simp add: advance_intent_def ai_key_def)

lemma advance_fields [simp]:
  "ai_state (advance_intent i s) = s"
  "ai_state_version (advance_intent i s) = ai_state_version i + 1"
  "ai_requester_id (advance_intent i s) = ai_requester_id i"
  "ai_intent_digest (advance_intent i s) = ai_intent_digest i"
  "ai_canonical_parameters (advance_intent i s) = ai_canonical_parameters i"
  "ai_tool (advance_intent i s) = ai_tool i"
  "ai_approval_expires_at (advance_intent i s) = ai_approval_expires_at i"
  "ai_tenant_id (advance_intent i s) = ai_tenant_id i"
  "ai_intent_id (advance_intent i s) = ai_intent_id i"
  "ai_revision (advance_intent i s) = ai_revision i"
  by (simp_all add: advance_intent_def)

lemma map_key_upd:
  "ai_key j = ai_key i \<Longrightarrow>
    map ai_key (upd_where (\<lambda>r. ai_key r = ai_key i) (\<lambda>_. j) is) = map ai_key is"
  by (rule map_upd_where_key) simp

lemma image_key_upd:
  "ai_key j = ai_key i \<Longrightarrow>
    ai_key ` set (upd_where (\<lambda>r. ai_key r = ai_key i) (\<lambda>_. j) is) = ai_key ` set is"
  using arg_cong [OF map_key_upd, of j i set "is"] by simp

lemma in_upd_where:
  "r \<in> set (upd_where (\<lambda>r. ai_key r = ai_key i) (\<lambda>_. j) is) \<Longrightarrow>
    r = j \<or> (r \<in> set is \<and> ai_key r \<noteq> ai_key i)"
  by (auto simp: set_upd_where split: if_splits)

lemma intent_ok_other:
  assumes "intent_ok d r" and "history d' (ai_key r) = history d (ai_key r)"
    and "policy_rows_for (ai_key r) d' = policy_rows_for (ai_key r) d"
    and "set (db_decisions d) \<subseteq> set (db_decisions d')"
  shows "intent_ok d' r"
proof -
  have "evidence d' r s" if "evidence d r s" for s
    by (rule evidence_mono [OF that assms(4,3)]) simp
  with assms(1) show ?thesis by (simp add: intent_ok_def visited_def assms(2,3))
qed

lemma policy_rows_for_cong: "db_policy d' = db_policy d \<Longrightarrow> policy_rows_for k d' = policy_rows_for k d"
  by (simp add: policy_rows_for_def)

lemma history_snoc:
  "db_transitions d' = db_transitions d @ ts \<Longrightarrow>
    history d' k = history d k @ filter (\<lambda>t. st_key t = k) ts"
  by (simp add: history_def)

lemma intent_ok_advance:
  assumes ok: "intent_ok d i" and legal: "is_legal (ai_state i) s" and ev: "evidence d i s"
    and row: "recorded_row i (Some (ai_state i)) s (next_sequence i d) t"
    and tr: "db_transitions d' = db_transitions d @ [t]" and pol: "db_policy d' = db_policy d"
    and dec: "db_decisions d' = db_decisions d"
  shows "intent_ok d' (advance_intent i s)"
proof -
  let ?k = "ai_key i"
  have h: "history d' ?k = history d ?k @ [t]"
    using history_snoc [OF tr] row by (simp add: recorded_row_def)
  have v: "valid_history (history d ?k) (ai_state i)" using ok by (simp add: intent_ok_def)
  have "valid_history (history d' ?k) s"
    unfolding h using v legal row next_sequence_length [OF v]
    by (intro valid_history.recorded) (auto simp: recorded_row_def)
  moreover have "evidence d' (advance_intent i s) s'" if "s' \<in> visited d i \<or> s' = s" for s'
  proof (rule evidence_mono [where d = d and i = i])
    show "evidence d i s'" using that ok ev by (auto simp: intent_ok_def)
  qed (simp_all add: dec policy_rows_for_cong [OF pol])
  moreover have "s \<noteq> REQUESTED" using legal is_legal_rank by (metis not_less_zero state_rank.simps(1))
  ultimately show ?thesis
    using ok row h by (auto simp: intent_ok_def visited_def recorded_row_def)
qed

lemma moves_db_ok: "moves d d' \<Longrightarrow> db_ok d \<Longrightarrow> db_ok d'"
proof (induction rule: moves.induct)
  case (frame d' d)
  have "intent_ok d' i" if "i \<in> set (db_intents d)" for i
    using that frame intent_ok_other [of d i d']
    by (auto simp: db_ok_def history_def policy_rows_for_def)
  with frame show ?case by (simp add: db_ok_def)
next
  case (create i d t d')
  have fresh: "ai_key i \<notin> ai_key ` set (db_intents d)"
    using create.hyps(1) unfolding get_intent_def find_None_iff by auto
  then have ht: "history d (ai_key i) = []" and pt: "policy_rows_for (ai_key i) d = []"
    using create.prems unfolding db_ok_def history_def policy_rows_for_def filter_empty_conv
    by (metis image_eqI subsetD)+
  have h: "history d' k = history d k @ (if k = ai_key i then [t] else [])" for k
    using history_snoc [OF create.hyps(6)] create.hyps(4) by (auto simp: recorded_row_def)
  have "intent_ok d' i"
    using create.hyps h ht pt policy_rows_for_cong [OF create.hyps(7)]
    by (auto simp: intent_ok_def recorded_row_def visited_def evidence_def intro: valid_history.created)
  moreover have "intent_ok d' r" if "r \<in> set (db_intents d)" for r
  proof -
    have "ai_key r \<noteq> ai_key i" using that fresh by (metis image_eqI)
    with that create.prems h policy_rows_for_cong [OF create.hyps(7)] create.hyps(8) show ?thesis
      by (intro intent_ok_other [of d r d']) (simp_all add: db_ok_def)
  qed
  ultimately show ?case
    using create.prems create.hyps fresh by (auto simp: db_ok_def recorded_row_def)
next
  case (route i d p j t2 t3 t4 d')
  let ?s = "route_state (pr_disposition p)"
  have ok: "intent_ok d i" using route.prems route.hyps(1) by (simp add: db_ok_def)
  have keys: "ai_key j = ai_key i" using route.hyps(5) by (simp add: same_identity_def)
  let ?k = "ai_key i"
  have h: "history d' k = history d k @ (if k = ?k then [t2, t3, t4] else [])" for k
    using history_snoc [OF route.hyps(12)] route.hyps(8-10) by (auto simp: recorded_row_def)
  have v: "valid_history (history d ?k) REQUESTED" using ok route.hyps(2) by (simp add: intent_ok_def)
  have len: "length (history d ?k) = 1" by (rule valid_history_requested [OF v])
  then obtain t1 where t1: "history d ?k = [t1]" by (cases "history d ?k") auto
  have s: "is_legal POLICY_EVALUATED ?s"
    by (cases "pr_disposition p") (auto simp: is_legal_def)
  have "valid_history ((([t1] @ [t2]) @ [t3]) @ [t4]) ?s"
    using v t1 route.hyps(8-10) s
    by (intro valid_history.recorded) (auto simp: recorded_row_def is_legal_def)
  then have vh: "valid_history (history d' ?k) ?s" by (simp add: h t1)
  have pol: "policy_rows_for k d' = policy_rows_for k d @ (if k = ?k then [p] else [])" for k
    using route.hyps(3,4,13) by (simp add: policy_rows_for_def)
  have p0: "policy_rows_for ?k d = []" using ok route.hyps(2) by (simp add: intent_ok_def)
  have t1s: "st_to_state t1 = REQUESTED" using valid_history_last [OF v] t1 by simp
  have "intent_ok d' j"
    using route.hyps keys h t1 vh pol p0 t1s
    by (cases "pr_disposition p")
      (auto simp: intent_ok_def visited_def recorded_row_def evidence_def)
  moreover have "intent_ok d' r" if "r \<in> set (db_intents d)" "ai_key r \<noteq> ?k" for r
    using that route.prems h pol route.hyps(14)
    by (intro intent_ok_other [of d r d']) (auto simp: db_ok_def)
  ultimately show ?case
    using route.prems route.hyps keys
    by (auto simp: db_ok_def map_key_upd image_key_upd recorded_row_def dest!: in_upd_where)
next
  case (advance i d s t d')
  have ok: "intent_ok d i" using advance.prems advance.hyps(1) by (simp add: db_ok_def)
  have new: "intent_ok d' (advance_intent i s)"
    by (rule intent_ok_advance [OF ok advance.hyps(2-4) advance.hyps(6-8)])
  have other: "intent_ok d' r" if "r \<in> set (db_intents d)" "ai_key r \<noteq> ai_key i" for r
  proof (rule intent_ok_other [of d r d'])
    show "history d' (ai_key r) = history d (ai_key r)"
      using history_snoc [OF advance.hyps(6)] advance.hyps(4) that(2) by (auto simp: recorded_row_def)
  qed (use that advance.prems policy_rows_for_cong [OF advance.hyps(7)] advance.hyps(8) in \<open>auto simp: db_ok_def\<close>)
  have keys: "ai_key ` set (db_intents d') = ai_key ` set (db_intents d)"
    unfolding advance.hyps(5) by (rule image_key_upd) simp
  have "distinct (map ai_key (db_intents d'))"
    using advance.prems unfolding advance.hyps(5) by (simp add: map_key_upd db_ok_def)
  moreover have "intent_ok d' r" if "r \<in> set (db_intents d')" for r
    using that new other unfolding advance.hyps(5) by (auto dest!: in_upd_where)
  moreover have "st_key t \<in> ai_key ` set (db_intents d)"
    using advance.hyps(1,4) by (auto simp: recorded_row_def)
  ultimately show ?case
    using advance.prems advance.hyps(6,7) keys by (auto simp: db_ok_def)
qed

lemma evolves_db_ok: "evolves d d' \<Longrightarrow> db_ok d \<Longrightarrow> db_ok d'"
  by (induction rule: rtranclp_induct) (auto intro: moves_db_ok)

section \<open>The recorder interface\<close>

definition plain_state :: "intent_state \<Rightarrow> bool" where
  "plain_state s \<longleftrightarrow> s \<noteq> AUTO_APPROVED \<and> s \<noteq> APPROVED_BY_LEVEL_1 \<and> s \<noteq> PENDING_APPROVAL_2 \<and> s \<noteq> APPROVED"

lemma evidence_plain: "plain_state s \<Longrightarrow> evidence d i s"
  by (simp add: plain_state_def evidence_def)

lemma plain_states [simp]:
  "plain_state REVALIDATING" "plain_state EXECUTING" "plain_state SUCCEEDED" "plain_state FAILED"
  "plain_state EXECUTION_UNKNOWN" "plain_state EXPIRED" "plain_state STALE" "plain_state REJECTED"
  "plain_state CANCELLED" "plain_state BLOCKED"
  by (simp_all add: plain_state_def)

text \<open>
  The contract of a \<open>_record_transition\<close> routine: it refuses an edge outside the table; on a legal
  one it adds a transition row numbered after the last, one outbox row about the revision, and
  moves the intent to the target with its version raised by one, and it touches nothing else.
\<close>

definition outbox_about :: "intent_row \<Rightarrow> intent_state \<Rightarrow> dict \<Rightarrow> bool" where
  "outbox_about i s p \<longleftrightarrow>
     map_of p ''tenant_id'' = Some (JStr (ai_tenant_id i)) \<and>
     map_of p ''intent_id'' = Some (JStr (uuid_str (ai_intent_id i))) \<and>
     map_of p ''revision'' = Some (JInt (ai_revision i)) \<and>
     map_of p ''to_state'' = Some (JStr (state_value s))"

locale transition_recorder =
  fixes recorder :: "'a \<Rightarrow> intent_row \<Rightarrow> intent_state \<Rightarrow> db \<Rightarrow> exn + (intent_row \<times> db)"
  assumes refuses: "\<not> is_legal (ai_state i) s \<Longrightarrow>
      \<exists>m. recorder a i s d = Inl (raise_error IllegalTransitionError m)"
    and records: "is_legal (ai_state i) s \<Longrightarrow>
      \<exists>t now topic p. recorder a i s d =
        Inr (advance_intent i s,
             save_intent (advance_intent i s) (add_outbox now topic p (add_transition t d))) \<and>
        recorded_row i (Some (ai_state i)) s (next_sequence i d) t \<and> outbox_about i s p"
begin

lemma recorder_Inr:
  "recorder a i s d = Inr (i', d') \<Longrightarrow>
     is_legal (ai_state i) s \<and> i' = advance_intent i s \<and>
     (\<exists>t now topic p.
        d' = save_intent (advance_intent i s) (add_outbox now topic p (add_transition t d)) \<and>
        recorded_row i (Some (ai_state i)) s (next_sequence i d) t \<and> outbox_about i s p)"
  using refuses [of i s a d] records [of i s a d] by (cases "is_legal (ai_state i) s") auto

lemma recorder_total: "is_legal (ai_state i) s \<Longrightarrow> \<exists>d'. recorder a i s d = Inr (advance_intent i s, d')"
  using records [of i s a d] by auto

lemma recorder_error: "recorder a i s d = Inl e \<Longrightarrow> is_class IllegalTransitionError e \<and> \<not> is_legal (ai_state i) s"
  using refuses [of i s a d] records [of i s a d] by (cases "is_legal (ai_state i) s") auto

lemma recorder_moves:
  assumes "recorder a i s d = Inr (i', d')" and "i \<in> set (db_intents d)" and "evidence d i s"
  shows "moves d d'"
proof -
  from recorder_Inr [OF assms(1)] obtain t now topic p
    where l: "is_legal (ai_state i) s"
      and d': "d' = save_intent (advance_intent i s) (add_outbox now topic p (add_transition t d))"
      and t: "recorded_row i (Some (ai_state i)) s (next_sequence i d) t" by blast
  show ?thesis
    by (rule moves.advance [OF assms(2) l assms(3) t]) (simp_all add: d')
qed

lemma recorder_evolves:
  "recorder a i s d = Inr (i', d') \<Longrightarrow> i \<in> set (db_intents d) \<Longrightarrow> evidence d i s \<Longrightarrow> evolves d d'"
  by (blast intro: recorder_moves)

lemma recorder_stored:
  assumes "recorder a i s d = Inr (i', d')" and "i \<in> set (db_intents d)"
  shows "i' \<in> set (db_intents d')"
  using recorder_Inr [OF assms(1)] assms(2) by (auto simp: set_upd_where)

lemma recorder_frame:
  assumes "recorder a i s d = Inr (i', d')"
  shows "db_idempotency d' = db_idempotency d" "db_audit d' = db_audit d" "db_risk d' = db_risk d"
    "db_policy d' = db_policy d" "db_bundles d' = db_bundles d" "db_decisions d' = db_decisions d"
    "db_roles d' = db_roles d" "db_executions d' = db_executions d"
  using recorder_Inr [OF assms] by auto

lemma recorder_get:
  assumes "recorder a i s d = Inr (i', d')"
  shows "get_intent k d' = (if k = ai_key i \<and> get_intent k d \<noteq> None then Some i' else get_intent k d)"
  using recorder_Inr [OF assms] by (auto simp: get_save_intent)

lemma recorder_outbox:
  assumes "recorder a i s d = Inr (i', d')"
  shows "\<exists>m. db_outbox d' = db_outbox d @ [m] \<and> outbox_about i s (ob_payload m)"
  using recorder_Inr [OF assms] by (auto simp: add_outbox_def add_transition_def)

end

end
