(* ===== verification/Repositories.thy ===== *)
theory Repositories
  imports History Intent Policy
begin

text \<open>
  \<open>infrastructure/repositories.py\<close> and \<open>domain/models.py\<close>: creation of the intent aggregate, the
  recording of risk and policy evidence with the routing of the intent, and the lookup of the
  active policy bundle. Each write is shown to be a sequence of the moves of \<open>History\<close>; the
  routing writes its three transition rows directly, without the guard of the state machine.
\<close>

record create_intent_command =
  cc_tenant_id :: string
  cc_intent_id :: uuid
  cc_revision :: int
  cc_tool :: tool_name
  cc_canonical_parameters :: dict
  cc_intent_digest :: string
  cc_requester_id :: string
  cc_requester_rationale :: string
  cc_source :: intent_source
  cc_raw_proposal :: "dict option"
  cc_command_id :: string
  cc_correlation_id :: string
  cc_actor_id :: string

record intent_snapshot =
  is_tenant_id :: string
  is_intent_id :: uuid
  is_revision :: int
  is_tool :: tool_name
  is_intent_digest :: string
  is_state :: intent_state
  is_state_version :: int
  is_created_at :: instant

record evaluation_recorded =
  er_tenant_id :: string
  er_intent_id :: uuid
  er_revision :: int
  er_state :: intent_state
  er_state_version :: int
  er_band :: risk_band
  er_disposition :: policy_disposition
  er_route :: approval_route

section \<open>IntentRepository\<close>

definition created_intent :: "(string \<Rightarrow> string) \<Rightarrow> env \<Rightarrow> create_intent_command \<Rightarrow> intent_row" where
  "created_intent lc ev c =
     \<lparr>ai_tenant_id = cc_tenant_id c, ai_intent_id = cc_intent_id c, ai_revision = cc_revision c,
      ai_tool = cc_tool c, ai_canonical_parameters = cc_canonical_parameters c,
      ai_intent_digest = cc_intent_digest c, ai_requester_id = cc_requester_id c,
      ai_requester_rationale = cc_requester_rationale c,
      ai_raw_proposal = map_option (\<lambda>p. sanitize_raw_proposal lc (JObj p)) (cc_raw_proposal c),
      ai_source = cc_source c, ai_state = REQUESTED, ai_state_version = 1,
      ai_approval_expires_at = None, ai_created_at = ev_db_now ev\<rparr>"

definition created_transition :: "env \<Rightarrow> create_intent_command \<Rightarrow> transition_row" where
  "created_transition ev c =
     \<lparr>st_tenant_id = cc_tenant_id c, st_intent_id = cc_intent_id c, st_intent_revision = cc_revision c,
      st_from_state = None, st_to_state = REQUESTED, st_actor_type = ''system'',
      st_actor_id = cc_actor_id c, st_command_id = cc_command_id c,
      st_reason_code = ''intent_created'',
      st_metadata = [(''correlation_id'', JStr (cc_correlation_id c))],
      st_sequence = 1, st_occurred_at = ev_now ev\<rparr>"

definition created_payload :: "create_intent_command \<Rightarrow> dict" where
  "created_payload c =
     [(''tenant_id'', JStr (cc_tenant_id c)), (''intent_id'', JStr (uuid_str (cc_intent_id c))),
      (''revision'', JInt (cc_revision c)), (''tool'', JStr (tool_value (cc_tool c))),
      (''intent_digest'', JStr (cc_intent_digest c)), (''command_id'', JStr (cc_command_id c)),
      (''correlation_id'', JStr (cc_correlation_id c))]"

definition create_intent_rows :: "(string \<Rightarrow> string) \<Rightarrow> env \<Rightarrow> create_intent_command \<Rightarrow> db \<Rightarrow> db" where
  "create_intent_rows lc ev c d =
     add_outbox (ev_db_now ev) ''intent.created'' (created_payload c)
       (add_transition (created_transition ev c) (add_intent (created_intent lc ev c) d))"

definition create ::
  "(string \<Rightarrow> string) \<Rightarrow> env \<Rightarrow> create_intent_command \<Rightarrow> db \<Rightarrow> (exn + intent_snapshot) \<times> db" where
  "create lc ev c d =
     (let d' = create_intent_rows lc ev c d
      in (case flush d' of
            Inl e \<Rightarrow> (Inl e, d')
          | Inr _ \<Rightarrow>
              (Inr \<lparr>is_tenant_id = cc_tenant_id c, is_intent_id = cc_intent_id c,
                    is_revision = cc_revision c, is_tool = cc_tool c,
                    is_intent_digest = cc_intent_digest c, is_state = REQUESTED,
                    is_state_version = 1, is_created_at = ev_now ev\<rparr>, d')))"

definition repository_get :: "intent_key \<Rightarrow> db \<Rightarrow> exn + intent_row" where
  "repository_get k d = (case get_intent k d of None \<Rightarrow> Inl LookupError | Some i \<Rightarrow> Inr i)"

section \<open>EvaluationRepository\<close>

definition current_record :: "intent_key \<Rightarrow> risk_row \<Rightarrow> db \<Rightarrow> exn + evaluation_recorded" where
  "current_record k risk d =
     (case get_intent k d of
        None \<Rightarrow> Inl LookupError
      | Some i \<Rightarrow>
          (case scalar_one (policy_rows_for k d) of
             Inl e \<Rightarrow> Inl e
           | Inr p \<Rightarrow>
               Inr \<lparr>er_tenant_id = fst k, er_intent_id = fst (snd k), er_revision = snd (snd k),
                    er_state = ai_state i, er_state_version = ai_state_version i,
                    er_band = rr_band risk, er_disposition = pr_disposition p,
                    er_route = pr_route p\<rparr>))"

definition evaluation_transition ::
  "env \<Rightarrow> intent_key \<Rightarrow> string \<Rightarrow> string \<Rightarrow> intent_state \<Rightarrow> intent_state \<Rightarrow> string \<Rightarrow> int \<Rightarrow> transition_row" where
  "evaluation_transition ev k command_id correlation_id from_state to_state suffix sequence =
     \<lparr>st_tenant_id = fst k, st_intent_id = fst (snd k), st_intent_revision = snd (snd k),
      st_from_state = Some from_state, st_to_state = to_state, st_actor_type = ''system'',
      st_actor_id = ''risk-policy-engine'', st_command_id = command_id @ '':'' @ suffix,
      st_reason_code = ''evaluation_recorded'',
      st_metadata = [(''correlation_id'', JStr correlation_id)],
      st_sequence = sequence, st_occurred_at = ev_now ev\<rparr>"

definition evaluation_outbox :: "intent_key \<Rightarrow> string \<Rightarrow> string \<Rightarrow> transition_row \<Rightarrow> dict" where
  "evaluation_outbox k command_id correlation_id t =
     [(''tenant_id'', JStr (fst k)), (''intent_id'', JStr (uuid_str (fst (snd k)))),
      (''revision'', JInt (snd (snd k))),
      (''from_state'', case st_from_state t of None \<Rightarrow> JNull | Some s \<Rightarrow> JStr (state_value s)),
      (''to_state'', JStr (state_value (st_to_state t))),
      (''command_id'', JStr command_id), (''correlation_id'', JStr correlation_id)]"

definition risk_payload :: "intent_key \<Rightarrow> risk_evaluation \<Rightarrow> string \<Rightarrow> string \<Rightarrow> dict" where
  "risk_payload k risk command_id correlation_id =
     [(''tenant_id'', JStr (fst k)), (''intent_id'', JStr (uuid_str (fst (snd k)))),
      (''revision'', JInt (snd (snd k))), (''band'', JStr (band_value (rv_band risk))),
      (''factors'', JList (map JStr (rv_factors risk))),
      (''rule_version'', JStr (rv_rule_version risk)),
      (''command_id'', JStr (command_id @ '':risk'')), (''correlation_id'', JStr correlation_id)]"

definition policy_payload :: "intent_key \<Rightarrow> policy_evaluation \<Rightarrow> string \<Rightarrow> string \<Rightarrow> dict" where
  "policy_payload k policy command_id correlation_id =
     [(''tenant_id'', JStr (fst k)), (''intent_id'', JStr (uuid_str (fst (snd k)))),
      (''revision'', JInt (snd (snd k))),
      (''disposition'', JStr (disposition_value (pv_disposition policy))),
      (''route'', JStr (route_value (pv_route policy))),
      (''policy_version'', JStr (pv_policy_version policy)),
      (''command_id'', JStr (command_id @ '':policy'')), (''correlation_id'', JStr correlation_id)]"

definition risk_row_of :: "intent_key \<Rightarrow> risk_evaluation \<Rightarrow> risk_row" where
  "risk_row_of k risk =
     \<lparr>rr_tenant_id = fst k, rr_intent_id = fst (snd k), rr_intent_revision = snd (snd k),
      rr_generation = 1, rr_band = rv_band risk, rr_factors = rv_factors risk,
      rr_rule_version = rv_rule_version risk, rr_evaluated_context = rv_evaluated_context risk\<rparr>"

definition policy_row_of :: "intent_key \<Rightarrow> policy_evaluation \<Rightarrow> policy_row" where
  "policy_row_of k policy =
     \<lparr>pr_tenant_id = fst k, pr_intent_id = fst (snd k), pr_intent_revision = snd (snd k),
      pr_generation = 1, pr_disposition = pv_disposition policy, pr_route = pv_route policy,
      pr_required_roles = pv_required_roles policy, pr_required_scopes = pv_required_scopes policy,
      pr_obligations = pv_obligations policy, pr_reason_codes = pv_reason_codes policy,
      pr_policy_version = pv_policy_version policy,
      pr_approval_ttl_seconds = pv_approval_ttl_seconds policy\<rparr>"

definition routed_intent :: "env \<Rightarrow> policy_evaluation \<Rightarrow> intent_row \<Rightarrow> intent_row" where
  "routed_intent ev policy i =
     (let j = i\<lparr>ai_state := route_state (pv_disposition policy), ai_state_version := 4\<rparr>
      in (case pv_approval_ttl_seconds policy of
            None \<Rightarrow> j
          | Some ttl \<Rightarrow> j\<lparr>ai_approval_expires_at := Some (ev_now ev + seconds ttl)\<rparr>))"

definition evaluation_transitions ::
  "env \<Rightarrow> intent_key \<Rightarrow> string \<Rightarrow> string \<Rightarrow> policy_evaluation \<Rightarrow> transition_row list" where
  "evaluation_transitions ev k command_id correlation_id policy =
     [evaluation_transition ev k command_id correlation_id REQUESTED RISK_EVALUATED ''risk'' 2,
      evaluation_transition ev k command_id correlation_id RISK_EVALUATED POLICY_EVALUATED ''policy'' 3,
      evaluation_transition ev k command_id correlation_id POLICY_EVALUATED
        (route_state (pv_disposition policy)) ''route'' 4]"

definition record_rows ::
  "env \<Rightarrow> intent_key \<Rightarrow> risk_evaluation \<Rightarrow> policy_evaluation \<Rightarrow> string \<Rightarrow> string \<Rightarrow> intent_row \<Rightarrow> db \<Rightarrow> db" where
  "record_rows ev k risk policy command_id correlation_id i d =
     (let ts = evaluation_transitions ev k command_id correlation_id policy;
          d1 = d\<lparr>db_risk := db_risk d @ [risk_row_of k risk],
                 db_policy := db_policy d @ [policy_row_of k policy]\<rparr>;
          d2 = fold add_transition ts d1;
          d3 = add_outbox (ev_db_now ev) ''risk.evaluated'' (risk_payload k risk command_id correlation_id) d2;
          d4 = add_outbox (ev_db_now ev) ''policy.evaluated'' (policy_payload k policy command_id correlation_id) d3;
          d5 = fold (\<lambda>t. add_outbox (ev_db_now ev) ''intent.transitioned''
                 (evaluation_outbox k command_id correlation_id t)) ts d4
      in save_intent (routed_intent ev policy i) d5)"

definition record_evaluation ::
  "env \<Rightarrow> intent_key \<Rightarrow> risk_evaluation \<Rightarrow> policy_evaluation \<Rightarrow> string \<Rightarrow> string \<Rightarrow> db
     \<Rightarrow> (exn + evaluation_recorded) \<times> db" where
  "record_evaluation ev k risk policy command_id correlation_id d =
     (case scalar_one_or_none (risk_rows_for k d) of
        Inl e \<Rightarrow> (Inl e, d)
      | Inr (Some existing) \<Rightarrow> (current_record k existing d, d)
      | Inr None \<Rightarrow>
          (case get_intent k d of
             None \<Rightarrow> (Inl LookupError, d)
           | Some i \<Rightarrow>
               if ai_state i \<noteq> REQUESTED then (Inl ValueError, d)
               else
                 (let d' = record_rows ev k risk policy command_id correlation_id i d
                  in (case flush d' of
                        Inl e \<Rightarrow> (Inl e, d')
                      | Inr _ \<Rightarrow>
                          (Inr \<lparr>er_tenant_id = fst k, er_intent_id = fst (snd k), er_revision = snd (snd k),
                                er_state = route_state (pv_disposition policy), er_state_version = 4,
                                er_band = rv_band risk, er_disposition = pv_disposition policy,
                                er_route = pv_route policy\<rparr>, d')))))"

section \<open>PolicyBundleRepository\<close>

definition get_active :: "string \<Rightarrow> db \<Rightarrow> exn + policy_bundle option" where
  "get_active tenant d =
     (case scalar_one_or_none (filter (\<lambda>b. br_tenant_id b = tenant \<and> br_is_active b) (db_bundles d)) of
        Inl e \<Rightarrow> Inl e
      | Inr None \<Rightarrow> Inr None
      | Inr (Some b) \<Rightarrow> Inr (Some \<lparr>pb_version = br_version b, pb_rules = br_rules b\<rparr>))"

section \<open>Each write is a sequence of moves\<close>

lemma flush_unique: "flush d = Inr u \<Longrightarrow> unique_ok d \<and> references_ok d \<and> checks_ok d \<and> columns_fit d"
  by (simp add: flush_def split: if_splits)

lemma create_intent_rows_fields [simp]:
  "db_intents (create_intent_rows lc ev c d) = db_intents d @ [created_intent lc ev c]"
  "db_transitions (create_intent_rows lc ev c d) = db_transitions d @ [created_transition ev c]"
  "db_policy (create_intent_rows lc ev c d) = db_policy d"
  "db_risk (create_intent_rows lc ev c d) = db_risk d"
  "db_decisions (create_intent_rows lc ev c d) = db_decisions d"
  "db_executions (create_intent_rows lc ev c d) = db_executions d"
  "db_bundles (create_intent_rows lc ev c d) = db_bundles d"
  "db_roles (create_intent_rows lc ev c d) = db_roles d"
  "db_audit (create_intent_rows lc ev c d) = db_audit d"
  "db_idempotency (create_intent_rows lc ev c d) = db_idempotency d"
  by (simp_all add: create_intent_rows_def add_intent_def)

lemma created_key: "ai_key (created_intent lc ev c) = (cc_tenant_id c, cc_intent_id c, cc_revision c)"
  by (simp add: created_intent_def ai_key_def)

lemma create_Inr:
  "create lc ev c d = (Inr s, d') \<Longrightarrow> d' = create_intent_rows lc ev c d \<and> flush d' = Inr () \<and> is_state s = REQUESTED"
  by (auto simp: create_def Let_def split: sum.splits)

lemma create_evolves:
  assumes "create lc ev c d = (Inr s, d')"
  shows "evolves d d'"
proof -
  let ?i = "created_intent lc ev c"
  from create_Inr [OF assms] have d': "d' = create_intent_rows lc ev c d" and u: "unique_ok d'"
    using flush_unique by blast+
  then have "ai_key ?i \<notin> ai_key ` set (db_intents d)" by (simp add: unique_ok_def)
  then have "get_intent (ai_key ?i) d = None"
    unfolding get_intent_def find_None_iff by (metis image_eqI)
  moreover have "recorded_row ?i None REQUESTED 1 (created_transition ev c)"
    by (simp add: recorded_row_def created_transition_def created_intent_def ai_key_def st_key_def)
  ultimately have "moves d d'"
    by (intro moves.create [where i = ?i]) (simp_all add: d' created_intent_def)
  then show ?thesis by blast
qed

lemma routed_intent_fields [simp]:
  "ai_state (routed_intent ev p i) = route_state (pv_disposition p)"
  "ai_state_version (routed_intent ev p i) = 4"
  "ai_key (routed_intent ev p i) = ai_key i"
  "ai_intent_digest (routed_intent ev p i) = ai_intent_digest i"
  "ai_requester_id (routed_intent ev p i) = ai_requester_id i"
  "same_identity (routed_intent ev p i) i"
  by (simp_all add: routed_intent_def Let_def ai_key_def same_identity_def split: option.split)

lemma record_rows_fields [simp]:
  "db_intents (record_rows ev k r p c co i d) =
     upd_where (\<lambda>r. ai_key r = ai_key i) (\<lambda>_. routed_intent ev p i) (db_intents d)"
  "db_transitions (record_rows ev k r p c co i d) =
     db_transitions d @ evaluation_transitions ev k c co p"
  "db_policy (record_rows ev k r p c co i d) = db_policy d @ [policy_row_of k p]"
  "db_risk (record_rows ev k r p c co i d) = db_risk d @ [risk_row_of k r]"
  "db_decisions (record_rows ev k r p c co i d) = db_decisions d"
  "db_executions (record_rows ev k r p c co i d) = db_executions d"
  "db_bundles (record_rows ev k r p c co i d) = db_bundles d"
  "db_roles (record_rows ev k r p c co i d) = db_roles d"
  "db_audit (record_rows ev k r p c co i d) = db_audit d"
  "db_idempotency (record_rows ev k r p c co i d) = db_idempotency d"
  by (simp_all add: record_rows_def Let_def evaluation_transitions_def)

lemma evaluation_transition_recorded:
  "ai_key i = k \<Longrightarrow> recorded_row i (Some s) s' n (evaluation_transition ev k c co s s' x n)"
  by (auto simp: recorded_row_def evaluation_transition_def st_key_def)

lemma pr_key_policy_row_of [simp]: "pr_key (policy_row_of k p) = k"
  by (simp add: policy_row_of_def pr_key_def)

lemma policy_row_of_fields [simp]:
  "pr_generation (policy_row_of k p) = 1" "pr_disposition (policy_row_of k p) = pv_disposition p"
  "pr_route (policy_row_of k p) = pv_route p"
  by (simp_all add: policy_row_of_def)

lemma record_rows_moves:
  assumes "get_intent k d = Some i" and "ai_state i = REQUESTED"
  shows "moves d (record_rows ev k risk policy c co i d)"
proof -
  from assms(1) have i: "i \<in> set (db_intents d)" "ai_key i = k" by (auto dest: get_intent_SomeD)
  show ?thesis
    by (rule moves.route [OF i(1) assms(2), of "policy_row_of k policy"])
      (simp_all add: i(2) evaluation_transition_recorded evaluation_transitions_def)
qed

lemma record_evaluation_Inr:
  assumes "record_evaluation ev k risk policy c co d = (Inr r, d')"
  shows "d' = d \<or> (\<exists>i. get_intent k d = Some i \<and> ai_state i = REQUESTED \<and>
      d' = record_rows ev k risk policy c co i d \<and> flush d' = Inr ())"
proof (cases "scalar_one_or_none (risk_rows_for k d)")
  case (Inl e)
  with assms show ?thesis by (simp add: record_evaluation_def)
next
  case (Inr x)
  show ?thesis
  proof (cases "x = None \<and> get_intent k d \<noteq> None")
    case False
    with assms Inr show ?thesis by (cases x) (auto simp: record_evaluation_def)
  next
    case True
    then obtain i where i: "get_intent k d = Some i" by auto
    with assms Inr True show ?thesis
      by (cases "ai_state i = REQUESTED"; cases "flush (record_rows ev k risk policy c co i d)")
        (simp_all add: record_evaluation_def Let_def)
  qed
qed

lemma record_evaluation_evolves:
  "record_evaluation ev k risk policy c co d = (Inr r, d') \<Longrightarrow> evolves d d'"
  by (drule record_evaluation_Inr) (auto intro: record_rows_moves)

lemma get_active_SomeD:
  assumes "get_active tenant d = Inr (Some b)"
  shows "\<exists>r \<in> set (db_bundles d). br_tenant_id r = tenant \<and> br_is_active r \<and>
      pb_version b = br_version r \<and> pb_rules b = br_rules r"
proof -
  let ?rs = "filter (\<lambda>b. br_tenant_id b = tenant \<and> br_is_active b) (db_bundles d)"
  from assms obtain r where r: "scalar_one_or_none ?rs = Inr (Some r)"
      and b: "b = \<lparr>pb_version = br_version r, pb_rules = br_rules r\<rparr>"
    by (auto simp: get_active_def split: sum.splits option.splits)
  from r have "?rs = [r]" by (simp add: scalar_one_or_none_Inr)
  then have "r \<in> set ?rs" by simp
  with b show ?thesis by auto
qed

end
