(* ===== verification/Identity.thy ===== *)
theory Identity
  imports Json Domain_Errors
begin

text \<open>
  \<open>infrastructure/identity.py\<close>: the authenticated actor of a validated token, and the pure
  evaluation of current roles and scopes from role assignments. \<open>jwt.decode\<close> belongs to a library
  and is the parameter \<open>decode\<close>: the claims of a token that passes its checks, or \<open>None\<close>.

  Roles and scopes are evaluated by two separate loops in the source. The locale \<open>authority\<close> is
  their common contract: an active assignment contributes its grants, any other contributes nothing.
\<close>

record authenticated_actor =
  ac_actor_id :: string
  ac_tenant_id :: string
  ac_correlation_id :: string
  ac_scopes :: "string set"

definition make_actor :: "string \<Rightarrow> string \<Rightarrow> string \<Rightarrow> string set \<Rightarrow> exn + authenticated_actor" where
  "make_actor actor tenant correlation scopes =
     (if actor = [] \<or> tenant = [] then Inl IdentityValidationError
      else Inr \<lparr>ac_actor_id = actor, ac_tenant_id = tenant, ac_correlation_id = correlation,
                ac_scopes = scopes\<rparr>)"

text \<open>The white space \<open>str.split()\<close> splits on, as UTF-8.\<close>

definition white_space :: "string list" where
  "white_space =
     [[CHR 0x09], [CHR 0x0A], [CHR 0x0B], [CHR 0x0C], [CHR 0x0D], [CHR 0x1C], [CHR 0x1D], [CHR 0x1E],
      [CHR 0x1F], [CHR 0x20], [CHR 0xC2, CHR 0x85], [CHR 0xC2, CHR 0xA0], [CHR 0xE1, CHR 0x9A, CHR 0x80],
      [CHR 0xE2, CHR 0x80, CHR 0x80], [CHR 0xE2, CHR 0x80, CHR 0x81], [CHR 0xE2, CHR 0x80, CHR 0x82],
      [CHR 0xE2, CHR 0x80, CHR 0x83], [CHR 0xE2, CHR 0x80, CHR 0x84], [CHR 0xE2, CHR 0x80, CHR 0x85],
      [CHR 0xE2, CHR 0x80, CHR 0x86], [CHR 0xE2, CHR 0x80, CHR 0x87], [CHR 0xE2, CHR 0x80, CHR 0x88],
      [CHR 0xE2, CHR 0x80, CHR 0x89], [CHR 0xE2, CHR 0x80, CHR 0x8A], [CHR 0xE2, CHR 0x80, CHR 0xA8],
      [CHR 0xE2, CHR 0x80, CHR 0xA9], [CHR 0xE2, CHR 0x80, CHR 0xAF], [CHR 0xE2, CHR 0x81, CHR 0x9F],
      [CHR 0xE3, CHR 0x80, CHR 0x80]]"

fun split_parts :: "string list \<Rightarrow> string \<Rightarrow> string list" where
  "split_parts [] acc = (if acc = [] then [] else [acc])"
| "split_parts (p # ps) acc =
     (if p \<in> set white_space then (if acc = [] then [] else [acc]) @ split_parts ps []
      else split_parts ps (acc @ p))"

definition py_split :: "string \<Rightarrow> string list" where
  "py_split s = split_parts (utf8_chars s) []"

definition parse_scopes :: "json \<Rightarrow> string set" where
  "parse_scopes raw =
     (case raw of
        JStr s \<Rightarrow> set (py_split s)
      | JList xs \<Rightarrow> set (map py_str (filter truthy xs))
      | _ \<Rightarrow> {})"

definition validate_token ::
  "(string \<Rightarrow> string \<Rightarrow> string \<Rightarrow> string \<Rightarrow> dict option) \<Rightarrow> string \<Rightarrow> string \<Rightarrow> string \<Rightarrow> string
     \<Rightarrow> exn + authenticated_actor" where
  "validate_token decode token secret issuer audience =
     (case decode token secret issuer audience of
        None \<Rightarrow> Inl IdentityValidationError
      | Some claims \<Rightarrow>
          (case dget ''tenant'' claims of
             JStr tenant \<Rightarrow>
               (if tenant = [] then Inl IdentityValidationError
                else
                  (case map_of claims ''sub'' of
                     None \<Rightarrow> Inl LookupError
                   | Some sub \<Rightarrow>
                       make_actor (py_str sub) tenant
                         (py_str (dget_or ''correlation_id'' (JStr []) claims))
                         (parse_scopes (dget_or ''scope'' (dget_or ''scopes'' (JStr []) claims) claims))))
           | _ \<Rightarrow> Inl IdentityValidationError))"

lemma validate_token_Inr:
  assumes "validate_token decode token secret issuer audience = Inr a"
  shows "\<exists>claims sub. decode token secret issuer audience = Some claims \<and>
      dget ''tenant'' claims = JStr (ac_tenant_id a) \<and> ac_tenant_id a \<noteq> [] \<and>
      map_of claims ''sub'' = Some sub \<and> ac_actor_id a = py_str sub \<and> ac_actor_id a \<noteq> []"
  using assms
  by (auto simp: validate_token_def make_actor_def split: option.splits json.splits if_splits)

section \<open>Role assignments\<close>

record role_assignment =
  ro_role :: string
  ro_valid_from :: instant
  ro_valid_until :: "instant option"
  ro_revoked_at :: "instant option"
  ro_environments :: "string list"
  ro_scopes :: "string list"

fun evaluate_current_roles :: "role_assignment list \<Rightarrow> instant \<Rightarrow> string option \<Rightarrow> string set" where
  "evaluate_current_roles [] at environment = {}"
| "evaluate_current_roles (a # rest) at environment =
     (if ro_revoked_at a \<noteq> None then evaluate_current_roles rest at environment
      else if ro_valid_from a > at then evaluate_current_roles rest at environment
      else if (case ro_valid_until a of None \<Rightarrow> False | Some u \<Rightarrow> u \<le> at)
      then evaluate_current_roles rest at environment
      else if ro_environments a \<noteq> [] \<and>
              (case environment of None \<Rightarrow> True | Some e \<Rightarrow> e \<notin> set (ro_environments a))
      then evaluate_current_roles rest at environment
      else insert (ro_role a) (evaluate_current_roles rest at environment))"

fun evaluate_current_scopes :: "role_assignment list \<Rightarrow> instant \<Rightarrow> string option \<Rightarrow> string set" where
  "evaluate_current_scopes [] at environment = {}"
| "evaluate_current_scopes (a # rest) at environment =
     (if ro_revoked_at a \<noteq> None then evaluate_current_scopes rest at environment
      else if ro_valid_from a > at then evaluate_current_scopes rest at environment
      else if (case ro_valid_until a of None \<Rightarrow> False | Some u \<Rightarrow> u \<le> at)
      then evaluate_current_scopes rest at environment
      else if ro_environments a \<noteq> [] \<and>
              (case environment of None \<Rightarrow> True | Some e \<Rightarrow> e \<notin> set (ro_environments a))
      then evaluate_current_scopes rest at environment
      else set (ro_scopes a) \<union> evaluate_current_scopes rest at environment)"

definition require_role :: "string set \<Rightarrow> string \<Rightarrow> exn + unit" where
  "require_role roles required =
     (if required \<in> roles then Inr ()
      else Inl (raise_error ForbiddenError (''missing required role: '' @ required)))"

section \<open>The contract of both evaluations\<close>

definition in_force :: "role_assignment \<Rightarrow> instant \<Rightarrow> string option \<Rightarrow> bool" where
  "in_force a at environment \<longleftrightarrow>
     ro_revoked_at a = None \<and> ro_valid_from a \<le> at \<and>
     (case ro_valid_until a of None \<Rightarrow> True | Some u \<Rightarrow> at < u) \<and>
     (ro_environments a = [] \<or> (\<exists>e. environment = Some e \<and> e \<in> set (ro_environments a)))"

locale authority =
  fixes eval :: "role_assignment list \<Rightarrow> instant \<Rightarrow> string option \<Rightarrow> string set"
    and grants :: "role_assignment \<Rightarrow> string set"
  assumes eval_none: "eval [] at environment = {}"
    and eval_one: "eval (a # rest) at environment =
      (if in_force a at environment then grants a else {}) \<union> eval rest at environment"
begin

lemma eval_iff: "x \<in> eval asgs at environment \<longleftrightarrow> (\<exists>a \<in> set asgs. in_force a at environment \<and> x \<in> grants a)"
  by (induction asgs) (auto simp: eval_none eval_one)

lemma eval_mono: "set asgs \<subseteq> set bs \<Longrightarrow> eval asgs at environment \<subseteq> eval bs at environment"
  using eval_iff by blast

lemma eval_revoked:
  "\<forall>a \<in> set asgs. ro_revoked_at a \<noteq> None \<Longrightarrow> eval asgs at environment = {}"
  unfolding set_eq_iff eval_iff in_force_def by blast

lemma eval_expired:
  "\<forall>a \<in> set asgs. \<exists>u. ro_valid_until a = Some u \<and> u \<le> at \<Longrightarrow> eval asgs at environment = {}"
  by (force simp: eval_iff in_force_def)

end

interpretation role_authority: authority evaluate_current_roles "\<lambda>a. {ro_role a}"
  by unfold_locales (auto simp: in_force_def split: option.splits)

interpretation scope_authority: authority evaluate_current_scopes "\<lambda>a. set (ro_scopes a)"
  by unfold_locales (auto simp: in_force_def split: option.splits)

end
