(* ===== verification/Authorization.thy ===== *)
theory Authorization
  imports Identity Store
begin

text \<open>
  \<open>infrastructure/authorization.py\<close>: current authority from the role assignment table. An approver's
  standing at decision time is evaluated on the clock of the process; the gates of the worker
  evaluate it on the clock of the database.
\<close>

definition assignment_of :: "role_row \<Rightarrow> role_assignment" where
  "assignment_of row =
     \<lparr>ro_role = ra_role row, ro_valid_from = ra_valid_from row, ro_valid_until = ra_valid_until row,
      ro_revoked_at = ra_revoked_at row,
      ro_environments = (case ra_environments row of None \<Rightarrow> [] | Some es \<Rightarrow> es),
      ro_scopes = (case ra_scopes row of None \<Rightarrow> [] | Some ss \<Rightarrow> ss)\<rparr>"

definition load_assignments :: "db \<Rightarrow> string \<Rightarrow> string \<Rightarrow> role_assignment list" where
  "load_assignments d tenant pid =
     map assignment_of (filter (\<lambda>row. ra_tenant_id row = tenant \<and> ra_principal_id row = pid) (db_roles d))"

definition current_roles :: "env \<Rightarrow> db \<Rightarrow> authenticated_actor \<Rightarrow> string option \<Rightarrow> string set" where
  "current_roles ev d actor environment =
     evaluate_current_roles (load_assignments d (ac_tenant_id actor) (ac_actor_id actor)) (ev_now ev) environment"

definition current_scopes :: "env \<Rightarrow> db \<Rightarrow> authenticated_actor \<Rightarrow> string option \<Rightarrow> string set" where
  "current_scopes ev d actor environment =
     evaluate_current_scopes (load_assignments d (ac_tenant_id actor) (ac_actor_id actor)) (ev_now ev) environment"

definition scopes_for_principal :: "env \<Rightarrow> db \<Rightarrow> string \<Rightarrow> string \<Rightarrow> string option \<Rightarrow> string set" where
  "scopes_for_principal ev d tenant pid environment =
     evaluate_current_scopes (load_assignments d tenant pid) (ev_now ev) environment"

definition require_administrator :: "env \<Rightarrow> db \<Rightarrow> authenticated_actor \<Rightarrow> exn + unit" where
  "require_administrator ev d actor =
     (if ''administrator'' \<in> current_roles ev d actor None then Inr ()
      else Inl (raise_error ForbiddenError ''administrator role is required''))"

text \<open>What makes a row of the table give its role and scopes to a principal at an instant.\<close>

definition row_in_force :: "role_row \<Rightarrow> string \<Rightarrow> string \<Rightarrow> instant \<Rightarrow> string option \<Rightarrow> bool" where
  "row_in_force r tenant pid at environment \<longleftrightarrow>
     ra_tenant_id r = tenant \<and> ra_principal_id r = pid \<and> ra_revoked_at r = None \<and>
     ra_valid_from r \<le> at \<and> (case ra_valid_until r of None \<Rightarrow> True | Some u \<Rightarrow> at < u) \<and>
     (ra_environments r = None \<or> ra_environments r = Some [] \<or>
        (\<exists>e. environment = Some e \<and> (\<exists>es. ra_environments r = Some es \<and> e \<in> set es)))"

lemma row_in_force_assignment:
  "row_in_force r tenant pid at environment \<longleftrightarrow>
     ra_tenant_id r = tenant \<and> ra_principal_id r = pid \<and> in_force (assignment_of r) at environment"
  by (cases "ra_environments r") (auto simp: row_in_force_def in_force_def assignment_of_def)

lemma load_assignments_bex:
  "(\<exists>a \<in> set (load_assignments d tenant pid). in_force a at environment \<and> Q a) \<longleftrightarrow>
   (\<exists>r \<in> set (db_roles d). row_in_force r tenant pid at environment \<and> Q (assignment_of r))"
  by (simp add: load_assignments_def row_in_force_assignment) blast

lemma roles_iff:
  "x \<in> evaluate_current_roles (load_assignments d tenant pid) at environment \<longleftrightarrow>
     (\<exists>r \<in> set (db_roles d). row_in_force r tenant pid at environment \<and> ra_role r = x)"
  unfolding role_authority.eval_iff load_assignments_bex
  by (auto simp: assignment_of_def)

lemma scopes_iff:
  "x \<in> evaluate_current_scopes (load_assignments d tenant pid) at environment \<longleftrightarrow>
     (\<exists>r \<in> set (db_roles d). row_in_force r tenant pid at environment \<and>
        (\<exists>ss. ra_scopes r = Some ss \<and> x \<in> set ss))"
proof -
  have "x \<in> set (ro_scopes (assignment_of r)) \<longleftrightarrow> (\<exists>ss. ra_scopes r = Some ss \<and> x \<in> set ss)" for r
    by (cases "ra_scopes r") (simp_all add: assignment_of_def)
  then show ?thesis unfolding scope_authority.eval_iff load_assignments_bex by simp
qed

lemma load_assignments_cong: "db_roles d' = db_roles d \<Longrightarrow> load_assignments d' t p = load_assignments d t p"
  by (simp add: load_assignments_def)

text \<open>
  Current authority is exactly what the table grants now: an actor holds a role or a scope
  for an environment if and only if some assignment of that principal and tenant names it, is
  not revoked, has started, has not reached its end, and is unscoped or covers the environment.
  Administration needs an assignment that is not bound to any environment.
\<close>

theorem current_authority_exact:
  "(x \<in> current_roles ev d actor environment \<longleftrightarrow>
      (\<exists>r \<in> set (db_roles d). row_in_force r (ac_tenant_id actor) (ac_actor_id actor) (ev_now ev) environment \<and>
         ra_role r = x))
   \<and> (x \<in> current_scopes ev d actor environment \<longleftrightarrow>
      (\<exists>r \<in> set (db_roles d). row_in_force r (ac_tenant_id actor) (ac_actor_id actor) (ev_now ev) environment \<and>
         (\<exists>ss. ra_scopes r = Some ss \<and> x \<in> set ss)))
   \<and> (require_administrator ev d actor = Inr () \<longleftrightarrow>
      (\<exists>r \<in> set (db_roles d). row_in_force r (ac_tenant_id actor) (ac_actor_id actor) (ev_now ev) None \<and>
         ra_role r = ''administrator''))"
  by (simp add: current_roles_def current_scopes_def require_administrator_def roles_iff scopes_iff)

end
