(* ===== verification/Commands.thy ===== *)
theory Commands
  imports Repositories Authorization
begin

text \<open>
  The approval commands of \<open>application/commands.py\<close>: decisions and cancellation. A handler takes the
  session's database and returns its result with the database as its writes left it; the owner of
  the transaction (\<open>request\<close>) decides what is kept.
\<close>

record approval_decision_command =
  ad_tenant_id :: string
  ad_intent_id :: uuid
  ad_revision :: int
  ad_intent_digest :: string
  ad_level :: int
  ad_decision :: approval_decision
  ad_reason :: string
  ad_expected_state_version :: int
  ad_actor :: authenticated_actor
  ad_command_id :: string
  ad_obligations :: "(string \<times> string) list"

record cancel_intent_command =
  cn_tenant_id :: string
  cn_intent_id :: uuid
  cn_revision :: int
  cn_reason :: string
  cn_expected_state_version :: int
  cn_actor :: authenticated_actor
  cn_command_id :: string

definition ad_key :: "approval_decision_command \<Rightarrow> intent_key" where
  "ad_key c = (ad_tenant_id c, ad_intent_id c, ad_revision c)"

definition cn_key :: "cancel_intent_command \<Rightarrow> intent_key" where
  "cn_key c = (cn_tenant_id c, cn_intent_id c, cn_revision c)"

definition snapshot_of :: "intent_row \<Rightarrow> intent_snapshot" where
  "snapshot_of i =
     \<lparr>is_tenant_id = ai_tenant_id i, is_intent_id = ai_intent_id i, is_revision = ai_revision i,
      is_tool = ai_tool i, is_intent_digest = ai_intent_digest i, is_state = ai_state i,
      is_state_version = ai_state_version i, is_created_at = ai_created_at i\<rparr>"

definition load_locked_intent :: "env \<Rightarrow> intent_key \<Rightarrow> db \<Rightarrow> exn + intent_row" where
  "load_locked_intent ev k d =
     (if row_locked ev k
      then Inl (raise_error StateConflictError ''intent row is locked by another command'')
      else (case get_intent k d of
              None \<Rightarrow> Inl (raise_error NotFoundError ''intent revision not found'')
            | Some i \<Rightarrow> Inr i))"

definition required_role_for_level :: "approval_route \<Rightarrow> int \<Rightarrow> string list \<Rightarrow> string option" where
  "required_role_for_level route level required_roles =
     (if route = CRITICAL_TWO_STEP then
        (let index = level - 1
         in if 0 \<le> index \<and> index < int (length required_roles)
            then Some (required_roles ! nat index) else None)
      else if level = 1 \<and> required_roles \<noteq> [] then Some (hd required_roles)
      else None)"

section \<open>Recording a transition\<close>

record transition_args =
  ta_actor_type :: string
  ta_actor_id :: string
  ta_command_id :: string
  ta_reason_code :: string
  ta_occurred_at :: instant
  ta_created_at :: instant

definition suffixed_command :: "string \<Rightarrow> intent_state \<Rightarrow> int \<Rightarrow> string" where
  "suffixed_command command_id target sequence =
     command_id @ '':'' @ lower (state_value target) @ '':'' @ int_str sequence"

definition transition_row_of ::
  "transition_args \<Rightarrow> intent_row \<Rightarrow> intent_state \<Rightarrow> int \<Rightarrow> transition_row" where
  "transition_row_of a i target sequence =
     \<lparr>st_tenant_id = ai_tenant_id i, st_intent_id = ai_intent_id i, st_intent_revision = ai_revision i,
      st_from_state = Some (ai_state i), st_to_state = target, st_actor_type = ta_actor_type a,
      st_actor_id = ta_actor_id a, st_command_id = suffixed_command (ta_command_id a) target sequence,
      st_reason_code = ta_reason_code a, st_metadata = [], st_sequence = sequence,
      st_occurred_at = ta_occurred_at a\<rparr>"

definition command_payload :: "transition_args \<Rightarrow> intent_row \<Rightarrow> intent_state \<Rightarrow> dict" where
  "command_payload a i target =
     [(''tenant_id'', JStr (ai_tenant_id i)), (''intent_id'', JStr (uuid_str (ai_intent_id i))),
      (''revision'', JInt (ai_revision i)), (''from_state'', JStr (state_value (ai_state i))),
      (''to_state'', JStr (state_value target)), (''actor_id'', JStr (ta_actor_id a)),
      (''command_id'', JStr (ta_command_id a))]"

definition record_command_transition ::
  "transition_args \<Rightarrow> intent_row \<Rightarrow> intent_state \<Rightarrow> db \<Rightarrow> exn + (intent_row \<times> db)" where
  "record_command_transition a i target d =
     (case require_transition (ai_state i) target of
        Inl e \<Rightarrow> Inl e
      | Inr _ \<Rightarrow>
          (let sequence = next_sequence i d; i' = advance_intent i target
           in Inr (i', save_intent i'
                 (add_outbox (ta_created_at a) ''intent.transitioned'' (command_payload a i target)
                   (add_transition (transition_row_of a i target sequence) d)))))"

lemma transition_row_of_recorded: "recorded_row i (Some (ai_state i)) s n (transition_row_of a i s n)"
  by (simp add: recorded_row_def transition_row_of_def st_key_def ai_key_def)

interpretation command_recorder: transition_recorder record_command_transition
proof
  show "\<exists>m. record_command_transition a i s d = Inl (raise_error IllegalTransitionError m)"
    if "\<not> is_legal (ai_state i) s" for a i s d
    using that by (simp add: record_command_transition_def require_transition_def) blast
next
  show "\<exists>t now topic p. record_command_transition a i s d =
        Inr (advance_intent i s,
             save_intent (advance_intent i s) (add_outbox now topic p (add_transition t d))) \<and>
        recorded_row i (Some (ai_state i)) s (next_sequence i d) t \<and> outbox_about i s p"
    if "is_legal (ai_state i) s" for a i s d
    using that transition_row_of_recorded [of i s "next_sequence i d" a]
    by (fastforce simp: record_command_transition_def require_transition_def Let_def outbox_about_def
        command_payload_def)
qed

section \<open>Decisions\<close>

definition enforce_scopes :: "string set \<Rightarrow> string list \<Rightarrow> exn + unit" where
  "enforce_scopes actor_scopes required_scopes =
     (let missing = filter (\<lambda>s. s \<notin> actor_scopes) required_scopes
      in if missing \<noteq> []
         then Inl (raise_error ForbiddenError
                (''actor does not hold required scopes: '' @ join_with '', '' (sort missing)))
         else Inr ())"

definition enforce_obligations :: "(string \<times> string) list \<Rightarrow> string list \<Rightarrow> exn + unit" where
  "enforce_obligations provided required_obligations =
     (let missing = filter (\<lambda>n. case map_of provided n of None \<Rightarrow> True | Some v \<Rightarrow> v = []) required_obligations
      in if missing \<noteq> []
         then Inl (raise_error ForbiddenError
                (''mandatory obligations are not satisfied: '' @ join_with '', '' (sort missing)))
         else Inr ())"

definition level_one_approvers :: "intent_key \<Rightarrow> db \<Rightarrow> string list" where
  "level_one_approvers k d =
     map dr_actor_id (filter (\<lambda>r. dr_key r = k \<and> dr_level r = 1 \<and> dr_decision r = APPROVE) (db_decisions d))"

definition enforce_distinct_l1 :: "intent_row \<Rightarrow> string \<Rightarrow> db \<Rightarrow> exn + unit" where
  "enforce_distinct_l1 i actor_id d =
     (case scalar_one_or_none (level_one_approvers (ai_key i) d) of
        Inl e \<Rightarrow> Inl e
      | Inr None \<Rightarrow> Inr ()
      | Inr (Some l1) \<Rightarrow>
          (if l1 = actor_id
           then Inl (raise_error ForbiddenError ''L2 approver must differ from the L1 approver'')
           else Inr ()))"

definition resolve_target ::
  "intent_row \<Rightarrow> approval_route \<Rightarrow> approval_decision_command \<Rightarrow> db \<Rightarrow> exn + intent_state" where
  "resolve_target i route c d =
     (if ad_decision c = REJECT then
        (case require_transition (ai_state i) REJECTED of Inl e \<Rightarrow> Inl e | Inr _ \<Rightarrow> Inr REJECTED)
      else if ai_state i = PENDING_APPROVAL_1 then
        (if ad_level c \<noteq> 1
         then Inl (raise_error IllegalTransitionError ''level 1 decision is required in PENDING_APPROVAL_1'')
         else if route = CRITICAL_TWO_STEP then Inr APPROVED_BY_LEVEL_1
         else Inr APPROVED)
      else if ai_state i = PENDING_APPROVAL_2 then
        (if ad_level c \<noteq> 2
         then Inl (raise_error IllegalTransitionError ''level 2 decision is required in PENDING_APPROVAL_2'')
         else if route \<noteq> CRITICAL_TWO_STEP
         then Inl (raise_error IllegalTransitionError ''intent is not routed for critical two-step approval'')
         else (case enforce_distinct_l1 i (ac_actor_id (ad_actor c)) d of
                 Inl e \<Rightarrow> Inl e
               | Inr _ \<Rightarrow> Inr APPROVED))
      else Inl (raise_error IllegalTransitionError
             (''decision is not accepted in state '' @ state_value (ai_state i))))"

definition env_text :: "json \<Rightarrow> string option" where
  "env_text v = (case v of JStr s \<Rightarrow> Some s | _ \<Rightarrow> None)"

definition intent_environment :: "intent_row \<Rightarrow> json" where
  "intent_environment i = dget ''environment'' (ai_canonical_parameters i)"

text \<open>The window check of \<open>decide\<close>, on the clock of the database.\<close>

definition approval_expired :: "env \<Rightarrow> intent_row \<Rightarrow> bool" where
  "approval_expired ev i \<longleftrightarrow>
     ai_state i \<in> {PENDING_APPROVAL_1, APPROVED_BY_LEVEL_1, PENDING_APPROVAL_2, APPROVED} \<and>
     (case ai_approval_expires_at i of None \<Rightarrow> False | Some t \<Rightarrow> t \<le> ev_db_now ev)"

text \<open>The role check, and the checks of an approval; the result is the actor's current scopes.\<close>

definition decision_guards ::
  "env \<Rightarrow> approval_decision_command \<Rightarrow> intent_row \<Rightarrow> policy_row \<Rightarrow> db \<Rightarrow> exn + string set" where
  "decision_guards ev c i p d =
     (let environment = env_text (intent_environment i);
          roles = current_roles ev d (ad_actor c) environment;
          required = pr_required_roles p
      in if required \<noteq> [] \<and>
            (case required_role_for_level (pr_route p) (ad_level c) required of
               None \<Rightarrow> True | Some r \<Rightarrow> r \<notin> roles)
         then Inl (raise_error ForbiddenError ''actor does not hold the role required for this approval level'')
         else if ad_decision c \<noteq> APPROVE then Inr {}
         else
           (case enforce_scopes (ac_scopes (ad_actor c)) (pr_required_scopes p) of
              Inl e \<Rightarrow> Inl e
            | Inr _ \<Rightarrow>
                (let db_scopes = current_scopes ev d (ad_actor c) environment
                 in (case enforce_scopes db_scopes (pr_required_scopes p) of
                       Inl e \<Rightarrow> Inl e
                     | Inr _ \<Rightarrow>
                         (case enforce_obligations (ad_obligations c) (pr_obligations p) of
                            Inl e \<Rightarrow> Inl e
                          | Inr _ \<Rightarrow>
                              if ac_actor_id (ad_actor c) = ai_requester_id i
                              then Inl (raise_error ForbiddenError ''requester cannot approve their own intent'')
                              else Inr db_scopes)))))"

definition decision_row_of ::
  "env \<Rightarrow> approval_decision_command \<Rightarrow> intent_row \<Rightarrow> policy_row \<Rightarrow> string set \<Rightarrow> db \<Rightarrow> decision_row" where
  "decision_row_of ev c i p db_scopes d =
     \<lparr>dr_tenant_id = ad_tenant_id c, dr_intent_id = ad_intent_id c, dr_intent_revision = ad_revision c,
      dr_intent_digest = ad_intent_digest c, dr_level = ad_level c, dr_decision = ad_decision c,
      dr_actor_id = ac_actor_id (ad_actor c),
      dr_actor_roles_snapshot =
        sorted_list_of_set (current_roles ev d (ad_actor c) (env_text (intent_environment i))),
      dr_scope_snapshot =
        [(''environment'', intent_environment i),
         (''scopes'', JList (map JStr (sorted_list_of_set db_scopes))),
         (''token_scopes'', JList (map JStr (sorted_list_of_set (ac_scopes (ad_actor c))))),
         (''obligations'', JObj (map (\<lambda>(k, v). (k, JStr v)) (ad_obligations c)))],
      dr_reason = ad_reason c, dr_policy_version = pr_policy_version p,
      dr_decided_at = ev_db_now ev, dr_expires_at = ai_approval_expires_at i\<rparr>"

definition add_decision :: "decision_row \<Rightarrow> db \<Rightarrow> db" where
  "add_decision r d = d\<lparr>db_decisions := db_decisions d @ [r]\<rparr>"

definition human_args :: "env \<Rightarrow> approval_decision_command \<Rightarrow> transition_args" where
  "human_args ev c =
     \<lparr>ta_actor_type = ''human'', ta_actor_id = ac_actor_id (ad_actor c), ta_command_id = ad_command_id c,
      ta_reason_code = ''approval_'' @ lower (decision_value (ad_decision c)),
      ta_occurred_at = ev_db_now ev, ta_created_at = ev_db_now ev\<rparr>"

definition system_args :: "env \<Rightarrow> string \<Rightarrow> string \<Rightarrow> string \<Rightarrow> transition_args" where
  "system_args ev actor_id command_id reason =
     \<lparr>ta_actor_type = ''system'', ta_actor_id = actor_id, ta_command_id = command_id,
      ta_reason_code = reason, ta_occurred_at = ev_db_now ev, ta_created_at = ev_db_now ev\<rparr>"

text \<open>The writes of a decision that passed every check, in the order of the source.\<close>

definition apply_decision ::
  "env \<Rightarrow> approval_decision_command \<Rightarrow> intent_row \<Rightarrow> intent_state \<Rightarrow> db \<Rightarrow> exn + (intent_row \<times> db)" where
  "apply_decision ev c i target d =
     (case record_command_transition (human_args ev c) i target d of
        Inl e \<Rightarrow> Inl e
      | Inr (i1, d1) \<Rightarrow>
          (if ad_decision c = APPROVE \<and> target = APPROVED_BY_LEVEL_1
           then record_command_transition
                  (system_args ev ''approval-coordinator'' (ad_command_id c) ''level_2_request_published'')
                  i1 PENDING_APPROVAL_2 d1
           else Inr (i1, d1)))"

definition expire_on_decision ::
  "env \<Rightarrow> approval_decision_command \<Rightarrow> intent_row \<Rightarrow> db \<Rightarrow> (exn + intent_snapshot) \<times> db" where
  "expire_on_decision ev c i d =
     (case record_command_transition
             (system_args ev ''approval-clock'' (ad_command_id c) ''approval_ttl_elapsed'') i EXPIRED d of
        Inl e \<Rightarrow> (Inl e, d)
      | Inr (i', d') \<Rightarrow>
          (case flush d' of
             Inl e \<Rightarrow> (Inl e, d')
           | Inr _ \<Rightarrow> (Inl (raise_error ApprovalExpiredError ''approval window elapsed''), d')))"

definition decide_open ::
  "env \<Rightarrow> approval_decision_command \<Rightarrow> intent_row \<Rightarrow> db \<Rightarrow> (exn + intent_snapshot) \<times> db" where
  "decide_open ev c i d =
     (case scalar_one (policy_rows_for (ad_key c) d) of
        Inl e \<Rightarrow> (Inl e, d)
      | Inr p \<Rightarrow>
          (case decision_guards ev c i p d of
             Inl e \<Rightarrow> (Inl e, d)
           | Inr db_scopes \<Rightarrow>
               (case resolve_target i (pr_route p) c d of
                  Inl e \<Rightarrow> (Inl e, d)
                | Inr target \<Rightarrow>
                    (let d1 = add_decision (decision_row_of ev c i p db_scopes d) d
                     in (case apply_decision ev c i target d1 of
                           Inl e \<Rightarrow> (Inl e, d1)
                         | Inr (i', d') \<Rightarrow>
                             (case flush d' of
                                Inl e \<Rightarrow> (Inl e, d')
                              | Inr _ \<Rightarrow> (Inr (snapshot_of i'), d')))))))"

definition decide :: "env \<Rightarrow> approval_decision_command \<Rightarrow> db \<Rightarrow> (exn + intent_snapshot) \<times> db" where
  "decide ev c d =
     (if ad_tenant_id c \<noteq> ac_tenant_id (ad_actor c)
      then (Inl (raise_error NotFoundError ''intent revision not found''), d)
      else
        (case load_locked_intent ev (ad_key c) d of
           Inl e \<Rightarrow> (Inl e, d)
         | Inr i \<Rightarrow>
             if ai_state_version i \<noteq> ad_expected_state_version c
             then (Inl (raise_error StateConflictError ''expected state version does not match''), d)
             else if ai_intent_digest i \<noteq> ad_intent_digest c
             then (Inl (raise_error ApprovalStaleError ''decision digest does not match the current revision''), d)
             else if approval_expired ev i then expire_on_decision ev c i d
             else decide_open ev c i d))"

section \<open>Cancellation\<close>

definition cancel :: "env \<Rightarrow> cancel_intent_command \<Rightarrow> db \<Rightarrow> (exn + intent_snapshot) \<times> db" where
  "cancel ev c d =
     (if cn_tenant_id c \<noteq> ac_tenant_id (cn_actor c)
      then (Inl (raise_error NotFoundError ''intent revision not found''), d)
      else
        (case load_locked_intent ev (cn_key c) d of
           Inl e \<Rightarrow> (Inl e, d)
         | Inr i \<Rightarrow>
             if ai_state_version i \<noteq> cn_expected_state_version c
             then (Inl (raise_error StateConflictError ''expected state version does not match''), d)
             else if ai_state i \<notin> set cancellable_states
             then (Inl (raise_error IllegalTransitionError
                    (''cancellation is not accepted in state '' @ state_value (ai_state i))), d)
             else if ac_actor_id (cn_actor c) \<noteq> ai_requester_id i \<and>
                     ''administrator'' \<notin> current_roles ev d (cn_actor c) None
             then (Inl (raise_error ForbiddenError ''only the requester or an administrator may cancel''), d)
             else
               (case record_command_transition
                       \<lparr>ta_actor_type = ''human'', ta_actor_id = ac_actor_id (cn_actor c),
                        ta_command_id = cn_command_id c, ta_reason_code = ''cancelled'',
                        ta_occurred_at = ev_db_now ev, ta_created_at = ev_db_now ev\<rparr> i CANCELLED d of
                  Inl e \<Rightarrow> (Inl e, d)
                | Inr (i', d') \<Rightarrow>
                    (case flush d' of
                       Inl e \<Rightarrow> (Inl e, d')
                     | Inr _ \<Rightarrow> (Inr (snapshot_of i'), d')))))"

section \<open>What a handler's success means\<close>

lemma load_locked_intent_Inr:
  "load_locked_intent ev k d = Inr i \<longleftrightarrow> \<not> row_locked ev k \<and> get_intent k d = Some i"
  by (auto simp: load_locked_intent_def split: option.splits)

lemma decide_open_Inr:
  assumes "decide_open ev c i d = (Inr s, d')"
  shows "\<exists>p scopes target i'. policy_rows_for (ad_key c) d = [p] \<and>
      decision_guards ev c i p d = Inr scopes \<and> resolve_target i (pr_route p) c d = Inr target \<and>
      apply_decision ev c i target (add_decision (decision_row_of ev c i p scopes d) d) = Inr (i', d') \<and>
      flush d' = Inr () \<and> s = snapshot_of i'"
proof (cases "scalar_one (policy_rows_for (ad_key c) d)")
  case (Inl e)
  with assms show ?thesis by (simp add: decide_open_def)
next
  case p: (Inr p)
  show ?thesis
  proof (cases "decision_guards ev c i p d")
    case (Inl e)
    with assms p show ?thesis by (simp add: decide_open_def)
  next
    case g: (Inr scopes)
    show ?thesis
    proof (cases "resolve_target i (pr_route p) c d")
      case (Inl e)
      with assms p g show ?thesis by (simp add: decide_open_def)
    next
      case (Inr target)
      with assms p g show ?thesis
        by (auto simp: decide_open_def Let_def scalar_one_Inr split: sum.splits)
    qed
  qed
qed

lemma decide_Inr:
  assumes "decide ev c d = (Inr s, d')"
  shows "\<exists>i. get_intent (ad_key c) d = Some i \<and> ad_tenant_id c = ac_tenant_id (ad_actor c) \<and>
      ai_state_version i = ad_expected_state_version c \<and> ai_intent_digest i = ad_intent_digest c \<and>
      \<not> approval_expired ev i \<and> decide_open ev c i d = (Inr s, d')"
  using assms
  by (auto simp: decide_def expire_on_decision_def load_locked_intent_Inr
      split: sum.splits if_splits)

lemma resolve_target_Inr:
  assumes "resolve_target i route c d = Inr target"
  shows "(ad_decision c = REJECT \<and> target = REJECTED) \<or>
    (ad_decision c = APPROVE \<and> ai_state i = PENDING_APPROVAL_1 \<and> ad_level c = 1 \<and>
       target = (if route = CRITICAL_TWO_STEP then APPROVED_BY_LEVEL_1 else APPROVED)) \<or>
    (ad_decision c = APPROVE \<and> ai_state i = PENDING_APPROVAL_2 \<and> ad_level c = 2 \<and>
       route = CRITICAL_TWO_STEP \<and> enforce_distinct_l1 i (ac_actor_id (ad_actor c)) d = Inr () \<and>
       target = APPROVED)"
  using assms by (cases "ad_decision c") (auto simp: resolve_target_def split: if_splits sum.splits)

lemma enforce_scopes_Inr: "enforce_scopes have_scopes required = Inr u \<longleftrightarrow> set required \<subseteq> have_scopes"
  by (auto simp: enforce_scopes_def Let_def filter_empty_conv)

lemma enforce_obligations_Inr:
  "enforce_obligations provided required = Inr u \<longleftrightarrow>
     (\<forall>n \<in> set required. \<exists>v. map_of provided n = Some v \<and> v \<noteq> [])"
  by (auto simp: enforce_obligations_def Let_def filter_empty_conv split: option.splits)

lemma decision_guards_Inr:
  assumes "decision_guards ev c i p d = Inr scopes"
  shows "(pr_required_roles p \<noteq> [] \<longrightarrow>
      (\<exists>r. required_role_for_level (pr_route p) (ad_level c) (pr_required_roles p) = Some r \<and>
         r \<in> current_roles ev d (ad_actor c) (env_text (intent_environment i))))"
    and "ad_decision c = APPROVE \<Longrightarrow> ac_actor_id (ad_actor c) \<noteq> ai_requester_id i \<and>
      set (pr_required_scopes p) \<subseteq> ac_scopes (ad_actor c) \<and>
      set (pr_required_scopes p) \<subseteq> current_scopes ev d (ad_actor c) (env_text (intent_environment i)) \<and>
      (\<forall>n \<in> set (pr_obligations p). \<exists>v. map_of (ad_obligations c) n = Some v \<and> v \<noteq> [])"
  using assms
  by (auto simp: decision_guards_def Let_def enforce_scopes_Inr enforce_obligations_Inr
      split: if_splits sum.splits option.splits)

section \<open>Every decision is a sequence of moves\<close>

lemma add_decision_fields [simp]:
  "db_intents (add_decision r d) = db_intents d" "db_transitions (add_decision r d) = db_transitions d"
  "db_policy (add_decision r d) = db_policy d" "db_decisions (add_decision r d) = db_decisions d @ [r]"
  "db_executions (add_decision r d) = db_executions d" "db_roles (add_decision r d) = db_roles d"
  "db_idempotency (add_decision r d) = db_idempotency d" "db_audit (add_decision r d) = db_audit d"
  "db_bundles (add_decision r d) = db_bundles d" "db_outbox (add_decision r d) = db_outbox d"
  by (simp_all add: add_decision_def)

lemma get_intent_add_decision [simp]: "get_intent k (add_decision r d) = get_intent k d"
  by (simp add: get_intent_def)

lemma policy_rows_add_decision [simp]: "policy_rows_for k (add_decision r d) = policy_rows_for k d"
  by (simp add: policy_rows_for_def)

lemma evolves_add_decision: "evolves d (add_decision r d)"
  by (rule evolves_frame) auto

lemma decision_approves:
  assumes "ad_decision c = APPROVE" and "ai_key i = ad_key c" and "ai_intent_digest i = ad_intent_digest c"
    and "ac_actor_id (ad_actor c) \<noteq> ai_requester_id i" and "r = decision_row_of ev c i p sc d"
  shows "approved_by (add_decision r d) i (ad_level c) (ac_actor_id (ad_actor c))"
  using assms by (auto simp: approved_by_def decision_row_of_def dr_key_def ad_key_def)

lemma approved_by_add_decision: "approved_by d i l a \<Longrightarrow> approved_by (add_decision r d) i l a"
  by (auto simp: approved_by_def)

lemma distinct_l1:
  assumes "enforce_distinct_l1 i a d = Inr ()" and "approved_by d i 1 b"
  shows "b \<noteq> a"
proof
  assume "b = a"
  with assms(2) have "a \<in> set (level_one_approvers (ai_key i) d)"
    by (auto simp: approved_by_def level_one_approvers_def)
  moreover from assms(1) have "level_one_approvers (ai_key i) d = [] \<or>
      (\<exists>l. level_one_approvers (ai_key i) d = [l] \<and> l \<noteq> a)"
    by (auto simp: enforce_distinct_l1_def scalar_one_or_none_Inr split: sum.splits option.splits if_splits)
  ultimately show False by auto
qed

lemma decision_evidence:
  assumes ok: "db_ok d" and i: "get_intent (ad_key c) d = Some i"
    and dig: "ai_intent_digest i = ad_intent_digest c" and p: "policy_rows_for (ad_key c) d = [p]"
    and g: "decision_guards ev c i p d = Inr sc" and t: "resolve_target i (pr_route p) c d = Inr target"
  shows "evidence (add_decision (decision_row_of ev c i p sc d) d) i target"
proof -
  let ?d = "add_decision (decision_row_of ev c i p sc d) d" and ?a = "ac_actor_id (ad_actor c)"
  have key: "ai_key i = ad_key c" and mem: "i \<in> set (db_intents d)" using get_intent_SomeD [OF i] by auto
  have approve: "approved_by ?d i (ad_level c) ?a" if "ad_decision c = APPROVE"
    using decision_guards_Inr(2) [OF g that] decision_approves [OF that key dig] by blast
  from resolve_target_Inr [OF t] consider
      (reject) "target = REJECTED"
    | (first) "ad_decision c = APPROVE" "ad_level c = 1"
        "target = (if pr_route p = CRITICAL_TWO_STEP then APPROVED_BY_LEVEL_1 else APPROVED)"
    | (second) "ad_decision c = APPROVE" "ad_level c = 2" "ai_state i = PENDING_APPROVAL_2"
        "pr_route p = CRITICAL_TWO_STEP" "enforce_distinct_l1 i ?a d = Inr ()" "target = APPROVED"
    by blast
  then show ?thesis
  proof cases
    case reject
    then show ?thesis by (simp add: evidence_plain)
  next
    case first
    with approve have "approved_by ?d i 1 ?a" by simp
    with first p key show ?thesis by (auto simp: evidence_def)
  next
    case second
    have "intent_ok d i" using ok mem by (simp add: db_ok_def)
    with current_visited second(3) have "evidence d i PENDING_APPROVAL_2"
      unfolding intent_ok_def by metis
    then obtain b where b: "approved_by d i 1 b" by (auto simp: evidence_def)
    from distinct_l1 [OF second(5) b] have "b \<noteq> ?a" .
    moreover have "approved_by ?d i 1 b" by (rule approved_by_add_decision [OF b])
    moreover have "approved_by ?d i 2 ?a" using approve second by simp
    ultimately show ?thesis using second p key by (auto simp: evidence_def)
  qed
qed

lemma apply_decision_evolves:
  assumes a: "apply_decision ev c i target d = Inr (i', d')" and mem: "i \<in> set (db_intents d)"
    and e: "evidence d i target"
  shows "evolves d d'"
proof (cases "record_command_transition (human_args ev c) i target d")
  case (Inl e)
  with a show ?thesis by (simp add: apply_decision_def)
next
  case (Inr r)
  then obtain i1 d1 where r: "record_command_transition (human_args ev c) i target d = Inr (i1, d1)"
    by (cases r) auto
  have ev1: "evolves d d1" by (rule command_recorder.recorder_evolves [OF r mem e])
  show ?thesis
  proof (cases "ad_decision c = APPROVE \<and> target = APPROVED_BY_LEVEL_1")
    case False
    with a r ev1 show ?thesis by (auto simp: apply_decision_def)
  next
    case True
    from command_recorder.recorder_Inr [OF r] have i1: "i1 = advance_intent i target" by simp
    have "\<exists>a. approved_by d i 1 a" using e True by (simp add: evidence_def)
    then have "evidence d1 i1 PENDING_APPROVAL_2"
      using command_recorder.recorder_frame [OF r] i1 by (auto simp: evidence_def approved_by_def)
    with command_recorder.recorder_stored [OF r mem] a r True have "evolves d1 d'"
      by (auto simp: apply_decision_def intro: command_recorder.recorder_evolves)
    with ev1 show ?thesis by simp
  qed
qed

text \<open>The only error of these handlers that its owner commits is the expiry.\<close>

lemma plain_error:
  "scalar_one xs = Inl e \<Longrightarrow> \<not> persist_state e"
  "scalar_one_or_none ys = Inl e \<Longrightarrow> \<not> persist_state e"
  "flush d = Inl e \<Longrightarrow> \<not> persist_state e"
  "require_transition q target = Inl e \<Longrightarrow> \<not> persist_state e"
  "enforce_scopes h req = Inl e \<Longrightarrow> \<not> persist_state e"
  "enforce_obligations ob req = Inl e \<Longrightarrow> \<not> persist_state e"
  "load_locked_intent ev k d = Inl e \<Longrightarrow> \<not> persist_state e"
  by (cases xs rule: scalar_one.cases; auto)
    (cases ys rule: scalar_one_or_none.cases;
     auto simp: flush_def require_transition_def enforce_scopes_def enforce_obligations_def Let_def
       load_locked_intent_def split: if_splits option.splits)+

lemma decision_plain_error:
  "enforce_distinct_l1 i actor d = Inl e \<Longrightarrow> \<not> persist_state e"
  "resolve_target i route c d = Inl e \<Longrightarrow> \<not> persist_state e"
  "decision_guards ev c i p d = Inl e \<Longrightarrow> \<not> persist_state e"
  "record_command_transition a i target d = Inl e \<Longrightarrow> \<not> persist_state e"
  "apply_decision ev c i target d = Inl e \<Longrightarrow> \<not> persist_state e"
proof -
  show l1: "enforce_distinct_l1 i actor d = Inl e \<Longrightarrow> \<not> persist_state e" for i actor d e
    by (auto simp: enforce_distinct_l1_def split: sum.splits option.splits if_splits dest: plain_error)
  show "resolve_target i route c d = Inl e \<Longrightarrow> \<not> persist_state e"
    by (auto simp: resolve_target_def split: sum.splits if_splits dest: plain_error l1)
  show "decision_guards ev c i p d = Inl e \<Longrightarrow> \<not> persist_state e"
    by (auto simp: decision_guards_def Let_def split: sum.splits if_splits dest: plain_error)
  show rt: "record_command_transition a i target d = Inl e \<Longrightarrow> \<not> persist_state e" for a i target d e
    by (auto simp: record_command_transition_def Let_def split: sum.splits dest: plain_error)
  show "apply_decision ev c i target d = Inl e \<Longrightarrow> \<not> persist_state e"
    by (auto simp: apply_decision_def split: sum.splits if_splits dest: rt)
qed

lemma decide_open_plain_error:
  "decide_open ev c i d = (Inl e, d') \<Longrightarrow> \<not> persist_state e"
  by (auto simp: decide_open_def Let_def split: sum.splits dest: plain_error decision_plain_error)

lemma expire_on_decision_evolves:
  assumes "expire_on_decision ev c i d = (Inl e, d')" and "i \<in> set (db_intents d)" and "persist_state e"
  shows "evolves d d' \<and> flush d' = Inr () \<and> e = raise_error ApprovalExpiredError ''approval window elapsed'' \<and>
    (\<exists>a. record_command_transition a i EXPIRED d = Inr (advance_intent i EXPIRED, d'))"
proof -
  let ?a = "system_args ev ''approval-clock'' (ad_command_id c) ''approval_ttl_elapsed''"
  show ?thesis
  proof (cases "record_command_transition ?a i EXPIRED d")
    case (Inl x)
    with assms show ?thesis
      using decision_plain_error(4) by (auto simp: expire_on_decision_def)
  next
    case (Inr r)
    then obtain i1 d1 where r: "record_command_transition ?a i EXPIRED d = Inr (i1, d1)" by (cases r) auto
    have i1: "i1 = advance_intent i EXPIRED" using command_recorder.recorder_Inr [OF r] by simp
    have "evolves d d1"
      by (rule command_recorder.recorder_evolves [OF r assms(2)]) (simp add: evidence_plain)
    with assms r i1 show ?thesis
      using plain_error(3) by (auto simp: expire_on_decision_def split: sum.splits)
  qed
qed

lemma decide_Inl_persist:
  assumes "decide ev c d = (Inl e, d')" and "persist_state e"
  shows "\<exists>i. get_intent (ad_key c) d = Some i \<and> approval_expired ev i \<and>
      expire_on_decision ev c i d = (Inl e, d')"
  using assms plain_error(7) decide_open_plain_error
  by (auto simp: decide_def load_locked_intent_Inr split: sum.splits if_splits)

lemma decide_evolves:
  assumes "decide ev c d = (r, d')" and ok: "db_ok d" and pe: "\<And>e. r = Inl e \<Longrightarrow> persist_state e"
  shows "evolves d d'"
proof (cases r)
  case (Inl e)
  with assms(1) pe decide_Inl_persist obtain i
    where "get_intent (ad_key c) d = Some i" "expire_on_decision ev c i d = (Inl e, d')" by blast
  with expire_on_decision_evolves pe Inl show ?thesis by (metis get_intent_SomeD)
next
  case (Inr s)
  with assms(1) decide_Inr obtain i where i: "get_intent (ad_key c) d = Some i"
    "ai_intent_digest i = ad_intent_digest c" "decide_open ev c i d = (Inr s, d')" by metis
  from decide_open_Inr [OF i(3)] obtain p sc target i'
    where p: "policy_rows_for (ad_key c) d = [p]" "decision_guards ev c i p d = Inr sc"
      "resolve_target i (pr_route p) c d = Inr target"
      and a: "apply_decision ev c i target (add_decision (decision_row_of ev c i p sc d) d) = Inr (i', d')"
    by blast
  have "i \<in> set (db_intents (add_decision (decision_row_of ev c i p sc d) d))"
    using get_intent_SomeD [OF i(1)] by simp
  from apply_decision_evolves [OF a this decision_evidence [OF ok i(1,2) p]]
  show ?thesis using evolves_add_decision by (metis rtranclp_trans)
qed

lemma cancel_Inr:
  assumes "cancel ev c d = (Inr s, d')"
  shows "\<exists>i a. get_intent (cn_key c) d = Some i \<and> cn_tenant_id c = ac_tenant_id (cn_actor c) \<and>
      ai_state_version i = cn_expected_state_version c \<and> ai_state i \<in> set cancellable_states \<and>
      (ac_actor_id (cn_actor c) = ai_requester_id i \<or>
         ''administrator'' \<in> current_roles ev d (cn_actor c) None) \<and>
      record_command_transition a i CANCELLED d = Inr (advance_intent i CANCELLED, d') \<and>
      s = snapshot_of (advance_intent i CANCELLED) \<and> flush d' = Inr ()"
  using assms command_recorder.recorder_Inr
  by (auto simp: cancel_def load_locked_intent_Inr split: sum.splits if_splits)

lemma cancel_plain_error: "cancel ev c d = (Inl e, d') \<Longrightarrow> \<not> persist_state e"
  by (auto simp: cancel_def split: sum.splits if_splits dest: plain_error decision_plain_error)

lemma cancel_evolves: "cancel ev c d = (Inr s, d') \<Longrightarrow> evolves d d'"
  using cancel_Inr [of ev c d s d'] get_intent_SomeD
  by (blast intro: command_recorder.recorder_evolves evidence_plain plain_states)

end
