(* ===== verification/Scenario.thy ===== *)
theory Scenario
  imports Commands
begin

text \<open>
  A concrete run of the program that the witnesses share: tenant \<open>t\<close>, an intent to restart the
  service \<open>web\<close> requested by \<open>alice\<close>, the approver \<open>bob\<close>, the administrator \<open>root\<close> and the seed
  policy. Every database here is what the handlers return, starting from the empty tables.
\<close>

definition at_second :: "int \<Rightarrow> env" where
  "at_second n = \<lparr>ev_now = seconds n, ev_db_now = seconds n, ev_locked = []\<rparr>"

definition sample_sha :: "string \<Rightarrow> string" where
  "sample_sha s = ''h''"

definition sample_key :: intent_key where
  "sample_key = (''t'', 7, 1)"

definition sample_parameters :: tool_parameters where
  "sample_parameters = RestartServiceParameters STAGING ''web'' ROLLING"

definition role_grant :: "row_id \<Rightarrow> string \<Rightarrow> string \<Rightarrow> string list \<Rightarrow> role_row" where
  "role_grant n who role scopes =
     \<lparr>ra_id = n, ra_tenant_id = ''t'', ra_principal_id = who, ra_role = role, ra_environments = None,
      ra_scopes = Some scopes, ra_environments_key = [], ra_valid_from = 0, ra_valid_until = None,
      ra_revoked_at = None, ra_granted_by = ''root''\<rparr>"

definition actor_named :: "string \<Rightarrow> authenticated_actor" where
  "actor_named who = \<lparr>ac_actor_id = who, ac_tenant_id = ''t'', ac_correlation_id = [],
     ac_scopes = {''ops:write''}\<rparr>"

definition sample_empty :: db where
  "sample_empty = empty_db\<lparr>
     db_roles := [role_grant 0 ''bob'' ''approver'' [''ops:write''], role_grant 1 ''root'' ''administrator'' []],
     db_bundles := [\<lparr>br_id = 2, br_tenant_id = ''t'', br_version = ''policy-1'', br_rules = seed_rules,
                     br_is_active = True, br_created_at = 0\<rparr>],
     db_next_id := 3\<rparr>"

definition sample_create :: create_intent_command where
  "sample_create =
     \<lparr>cc_tenant_id = ''t'', cc_intent_id = 7, cc_revision = 1, cc_tool = RESTART_SERVICE,
      cc_canonical_parameters = model_dump sample_parameters, cc_intent_digest = ''h'',
      cc_requester_id = ''alice'', cc_requester_rationale = [], cc_source = DIRECT,
      cc_raw_proposal = None, cc_command_id = ''c0'', cc_correlation_id = ''x'', cc_actor_id = ''alice''\<rparr>"

definition sample_requested :: db where
  "sample_requested = snd (create id (at_second 10) sample_create sample_empty)"

definition sample_risk :: risk_evaluation where
  "sample_risk = evaluate_risk RESTART_SERVICE (model_dump sample_parameters) default_context"

definition sample_policy :: policy_evaluation where
  "sample_policy =
     (case evaluate_policy RESTART_SERVICE sample_risk (model_dump sample_parameters) seed_bundle of
        Inr e \<Rightarrow> e | Inl _ \<Rightarrow> blocked [] [])"

definition sample_evaluation :: "(exn + evaluation_recorded) \<times> db" where
  "sample_evaluation =
     record_evaluation (at_second 10) sample_key sample_risk sample_policy ''c0'' ''x'' sample_requested"

definition sample_pending :: db where
  "sample_pending = snd sample_evaluation"

text \<open>Evaluated forms, so that a witness that starts from one does not evaluate the run again.\<close>

lemma sample_evaluation_code [code]:
  "sample_evaluation =
     (Inr \<lparr>er_tenant_id = ''t'', er_intent_id = 7, er_revision = 1, er_state =
      PENDING_APPROVAL_1, er_state_version = 4, er_band = HIGH, er_disposition = REQUIRE_APPROVAL,
      er_route = SINGLE\<rparr>,
     \<lparr>db_intents = [\<lparr>ai_tenant_id = ''t'', ai_intent_id = 7, ai_revision = 1, ai_tool
     = RESTART_SERVICE, ai_canonical_parameters = [(''environment'', JStr ''staging''),
     (''service'', JStr ''web''), (''strategy'', JStr ''rolling'')], ai_intent_digest = ''h'',
     ai_requester_id = ''alice'', ai_requester_rationale = [], ai_raw_proposal = None, ai_source =
     DIRECT, ai_state = PENDING_APPROVAL_1, ai_state_version = 4, ai_approval_expires_at = Some
     910000000, ai_created_at = 10000000\<rparr>], db_transitions = [\<lparr>st_tenant_id = ''t'',
     st_intent_id = 7, st_intent_revision = 1, st_from_state = None, st_to_state = REQUESTED,
     st_actor_type = ''system'', st_actor_id = ''alice'', st_command_id = ''c0'', st_reason_code =
     ''intent_created'', st_metadata = [(''correlation_id'', JStr ''x'')], st_sequence = 1,
     st_occurred_at = 10000000\<rparr>, \<lparr>st_tenant_id = ''t'', st_intent_id = 7,
     st_intent_revision = 1, st_from_state = Some REQUESTED, st_to_state = RISK_EVALUATED,
     st_actor_type = ''system'', st_actor_id = ''risk-policy-engine'', st_command_id = ''c0:risk'',
     st_reason_code = ''evaluation_recorded'', st_metadata = [(''correlation_id'', JStr ''x'')],
     st_sequence = 2, st_occurred_at = 10000000\<rparr>, \<lparr>st_tenant_id = ''t'', st_intent_id
     = 7, st_intent_revision = 1, st_from_state = Some RISK_EVALUATED, st_to_state =
     POLICY_EVALUATED, st_actor_type = ''system'', st_actor_id = ''risk-policy-engine'',
     st_command_id = ''c0:policy'', st_reason_code = ''evaluation_recorded'', st_metadata =
     [(''correlation_id'', JStr ''x'')], st_sequence = 3, st_occurred_at = 10000000\<rparr>,
     \<lparr>st_tenant_id = ''t'', st_intent_id = 7, st_intent_revision = 1, st_from_state = Some
     POLICY_EVALUATED, st_to_state = PENDING_APPROVAL_1, st_actor_type = ''system'', st_actor_id =
     ''risk-policy-engine'', st_command_id = ''c0:route'', st_reason_code = ''evaluation_recorded'',
     st_metadata = [(''correlation_id'', JStr ''x'')], st_sequence = 4, st_occurred_at =
     10000000\<rparr>], db_idempotency = [], db_outbox = [\<lparr>ob_id = 3, ob_sequence = 1,
     ob_topic = ''intent.created'', ob_payload = [(''tenant_id'', JStr ''t''), (''intent_id'', JStr
     ''00000000-0000-0000-0000-000000000007''), (''revision'', JInt 1), (''tool'', JStr
     ''restart_service''), (''intent_digest'', JStr ''h''), (''command_id'', JStr ''c0''),
     (''correlation_id'', JStr ''x'')], ob_attempts = 0, ob_next_attempt_at = None, ob_published_at
     = None, ob_claimed_by = None, ob_claim_expires_at = None, ob_created_at = 10000000\<rparr>,
     \<lparr>ob_id = 4, ob_sequence = 2, ob_topic = ''risk.evaluated'', ob_payload =
     [(''tenant_id'', JStr ''t''), (''intent_id'', JStr ''00000000-0000-0000-0000-000000000007''),
     (''revision'', JInt 1), (''band'', JStr ''HIGH''), (''factors'', JList []), (''rule_version'',
     JStr ''risk-rules-1''), (''command_id'', JStr ''c0:risk''), (''correlation_id'', JStr ''x'')],
     ob_attempts = 0, ob_next_attempt_at = None, ob_published_at = None, ob_claimed_by = None,
     ob_claim_expires_at = None, ob_created_at = 10000000\<rparr>, \<lparr>ob_id = 5, ob_sequence =
     3, ob_topic = ''policy.evaluated'', ob_payload = [(''tenant_id'', JStr ''t''), (''intent_id'',
     JStr ''00000000-0000-0000-0000-000000000007''), (''revision'', JInt 1), (''disposition'', JStr
     ''REQUIRE_APPROVAL''), (''route'', JStr ''SINGLE''), (''policy_version'', JStr ''policy-1''),
     (''command_id'', JStr ''c0:policy''), (''correlation_id'', JStr ''x'')], ob_attempts = 0,
     ob_next_attempt_at = None, ob_published_at = None, ob_claimed_by = None, ob_claim_expires_at =
     None, ob_created_at = 10000000\<rparr>, \<lparr>ob_id = 6, ob_sequence = 4, ob_topic =
     ''intent.transitioned'', ob_payload = [(''tenant_id'', JStr ''t''), (''intent_id'', JStr
     ''00000000-0000-0000-0000-000000000007''), (''revision'', JInt 1), (''from_state'', JStr
     ''REQUESTED''), (''to_state'', JStr ''RISK_EVALUATED''), (''command_id'', JStr ''c0''),
     (''correlation_id'', JStr ''x'')], ob_attempts = 0, ob_next_attempt_at = None, ob_published_at
     = None, ob_claimed_by = None, ob_claim_expires_at = None, ob_created_at = 10000000\<rparr>,
     \<lparr>ob_id = 7, ob_sequence = 5, ob_topic = ''intent.transitioned'', ob_payload =
     [(''tenant_id'', JStr ''t''), (''intent_id'', JStr ''00000000-0000-0000-0000-000000000007''),
     (''revision'', JInt 1), (''from_state'', JStr ''RISK_EVALUATED''), (''to_state'', JStr
     ''POLICY_EVALUATED''), (''command_id'', JStr ''c0''), (''correlation_id'', JStr ''x'')],
     ob_attempts = 0, ob_next_attempt_at = None, ob_published_at = None, ob_claimed_by = None,
     ob_claim_expires_at = None, ob_created_at = 10000000\<rparr>, \<lparr>ob_id = 8, ob_sequence =
     6, ob_topic = ''intent.transitioned'', ob_payload = [(''tenant_id'', JStr ''t''),
     (''intent_id'', JStr ''00000000-0000-0000-0000-000000000007''), (''revision'', JInt 1),
     (''from_state'', JStr ''POLICY_EVALUATED''), (''to_state'', JStr ''PENDING_APPROVAL_1''),
     (''command_id'', JStr ''c0''), (''correlation_id'', JStr ''x'')], ob_attempts = 0,
     ob_next_attempt_at = None, ob_published_at = None, ob_claimed_by = None, ob_claim_expires_at =
     None, ob_created_at = 10000000\<rparr>], db_audit = [], db_risk = [\<lparr>rr_tenant_id =
     ''t'', rr_intent_id = 7, rr_intent_revision = 1, rr_generation = 1, rr_band = HIGH, rr_factors
     = [], rr_rule_version = ''risk-rules-1'', rr_evaluated_context = [(''environment'', JStr
     ''staging''), (''degraded_dependencies'', JBool False), (''policy_flags'', JList [])]\<rparr>],
     db_policy = [\<lparr>pr_tenant_id = ''t'', pr_intent_id = 7, pr_intent_revision = 1,
     pr_generation = 1, pr_disposition = REQUIRE_APPROVAL, pr_route = SINGLE, pr_required_roles =
     [''approver''], pr_required_scopes = [''ops:write''], pr_obligations =
     [''announce_in_incident_channel''], pr_reason_codes = [''approval_required''],
     pr_policy_version = ''policy-1'', pr_approval_ttl_seconds = Some 900\<rparr>], db_bundles =
     [\<lparr>br_id = 2, br_tenant_id = ''t'', br_version = ''policy-1'', br_rules =
     [(''approval_ttl_seconds'', JInt 900), (''tools'', JObj [(''inspect_service'', JObj
     [(''disposition'', JStr ''ALLOW'')]), (''restart_service'', JObj [(''disposition'', JStr
     ''REQUIRE_APPROVAL''), (''required_roles'', JList [JStr ''approver'']), (''obligations'', JList
     [JStr ''announce_in_incident_channel''])]), (''scale_service'', JObj [(''staging'', JObj
     [(''disposition'', JStr ''ALLOW'')]), (''production'', JObj [(''disposition'', JStr
     ''REQUIRE_APPROVAL''), (''required_roles'', JList [JStr ''approver''])])]),
     (''provision_resource'', JObj [(''disposition'', JStr ''REQUIRE_APPROVAL''),
     (''required_roles'', JList [JStr ''approver''])]), (''delete_resource'', JObj
     [(''disposition'', JStr ''REQUIRE_APPROVAL''), (''required_roles'', JList [JStr
     ''critical_approver_l1'', JStr ''critical_approver_l2'']), (''obligations'', JList [JStr
     ''require_change_ticket''])])])], br_is_active = True, br_created_at = 0\<rparr>], db_decisions
     = [], db_roles = [\<lparr>ra_id = 0, ra_tenant_id = ''t'', ra_principal_id = ''bob'', ra_role =
     ''approver'', ra_environments = None, ra_scopes = Some [''ops:write''], ra_environments_key =
     [], ra_valid_from = 0, ra_valid_until = None, ra_revoked_at = None, ra_granted_by =
     ''root''\<rparr>, \<lparr>ra_id = 1, ra_tenant_id = ''t'', ra_principal_id = ''root'', ra_role
     = ''administrator'', ra_environments = None, ra_scopes = Some [], ra_environments_key = [],
     ra_valid_from = 0, ra_valid_until = None, ra_revoked_at = None, ra_granted_by =
     ''root''\<rparr>], db_executions = [], db_next_id = 9, db_next_sequence = 7\<rparr>)"
  by code_simp

definition sample_decision :: approval_decision_command where
  "sample_decision =
     \<lparr>ad_tenant_id = ''t'', ad_intent_id = 7, ad_revision = 1, ad_intent_digest = ''h'', ad_level = 1,
      ad_decision = APPROVE, ad_reason = ''ok'', ad_expected_state_version = 4,
      ad_actor = actor_named ''bob'', ad_command_id = ''c1'',
      ad_obligations = [(''announce_in_incident_channel'', ''done'')]\<rparr>"

definition sample_approval :: "(exn + intent_snapshot) \<times> db" where
  "sample_approval =
     decide (at_second 20) sample_decision sample_pending"

definition sample_approved :: db where
  "sample_approved = snd sample_approval"

lemma sample_approval_code [code]:
  "sample_approval =
     (Inr \<lparr>is_tenant_id = ''t'', is_intent_id = 7, is_revision = 1, is_tool = RESTART_SERVICE,
      is_intent_digest = ''h'', is_state = APPROVED, is_state_version = 5, is_created_at =
      10000000\<rparr>,
     \<lparr>db_intents = [\<lparr>ai_tenant_id = ''t'', ai_intent_id = 7, ai_revision = 1, ai_tool
     = RESTART_SERVICE, ai_canonical_parameters = [(''environment'', JStr ''staging''),
     (''service'', JStr ''web''), (''strategy'', JStr ''rolling'')], ai_intent_digest = ''h'',
     ai_requester_id = ''alice'', ai_requester_rationale = [], ai_raw_proposal = None, ai_source =
     DIRECT, ai_state = APPROVED, ai_state_version = 5, ai_approval_expires_at = Some 910000000,
     ai_created_at = 10000000\<rparr>], db_transitions = [\<lparr>st_tenant_id = ''t'', st_intent_id
     = 7, st_intent_revision = 1, st_from_state = None, st_to_state = REQUESTED, st_actor_type =
     ''system'', st_actor_id = ''alice'', st_command_id = ''c0'', st_reason_code =
     ''intent_created'', st_metadata = [(''correlation_id'', JStr ''x'')], st_sequence = 1,
     st_occurred_at = 10000000\<rparr>, \<lparr>st_tenant_id = ''t'', st_intent_id = 7,
     st_intent_revision = 1, st_from_state = Some REQUESTED, st_to_state = RISK_EVALUATED,
     st_actor_type = ''system'', st_actor_id = ''risk-policy-engine'', st_command_id = ''c0:risk'',
     st_reason_code = ''evaluation_recorded'', st_metadata = [(''correlation_id'', JStr ''x'')],
     st_sequence = 2, st_occurred_at = 10000000\<rparr>, \<lparr>st_tenant_id = ''t'', st_intent_id
     = 7, st_intent_revision = 1, st_from_state = Some RISK_EVALUATED, st_to_state =
     POLICY_EVALUATED, st_actor_type = ''system'', st_actor_id = ''risk-policy-engine'',
     st_command_id = ''c0:policy'', st_reason_code = ''evaluation_recorded'', st_metadata =
     [(''correlation_id'', JStr ''x'')], st_sequence = 3, st_occurred_at = 10000000\<rparr>,
     \<lparr>st_tenant_id = ''t'', st_intent_id = 7, st_intent_revision = 1, st_from_state = Some
     POLICY_EVALUATED, st_to_state = PENDING_APPROVAL_1, st_actor_type = ''system'', st_actor_id =
     ''risk-policy-engine'', st_command_id = ''c0:route'', st_reason_code = ''evaluation_recorded'',
     st_metadata = [(''correlation_id'', JStr ''x'')], st_sequence = 4, st_occurred_at =
     10000000\<rparr>, \<lparr>st_tenant_id = ''t'', st_intent_id = 7, st_intent_revision = 1,
     st_from_state = Some PENDING_APPROVAL_1, st_to_state = APPROVED, st_actor_type = ''human'',
     st_actor_id = ''bob'', st_command_id = ''c1:approved:5'', st_reason_code =
     ''approval_approve'', st_metadata = [], st_sequence = 5, st_occurred_at = 20000000\<rparr>],
     db_idempotency = [], db_outbox = [\<lparr>ob_id = 3, ob_sequence = 1, ob_topic =
     ''intent.created'', ob_payload = [(''tenant_id'', JStr ''t''), (''intent_id'', JStr
     ''00000000-0000-0000-0000-000000000007''), (''revision'', JInt 1), (''tool'', JStr
     ''restart_service''), (''intent_digest'', JStr ''h''), (''command_id'', JStr ''c0''),
     (''correlation_id'', JStr ''x'')], ob_attempts = 0, ob_next_attempt_at = None, ob_published_at
     = None, ob_claimed_by = None, ob_claim_expires_at = None, ob_created_at = 10000000\<rparr>,
     \<lparr>ob_id = 4, ob_sequence = 2, ob_topic = ''risk.evaluated'', ob_payload =
     [(''tenant_id'', JStr ''t''), (''intent_id'', JStr ''00000000-0000-0000-0000-000000000007''),
     (''revision'', JInt 1), (''band'', JStr ''HIGH''), (''factors'', JList []), (''rule_version'',
     JStr ''risk-rules-1''), (''command_id'', JStr ''c0:risk''), (''correlation_id'', JStr ''x'')],
     ob_attempts = 0, ob_next_attempt_at = None, ob_published_at = None, ob_claimed_by = None,
     ob_claim_expires_at = None, ob_created_at = 10000000\<rparr>, \<lparr>ob_id = 5, ob_sequence =
     3, ob_topic = ''policy.evaluated'', ob_payload = [(''tenant_id'', JStr ''t''), (''intent_id'',
     JStr ''00000000-0000-0000-0000-000000000007''), (''revision'', JInt 1), (''disposition'', JStr
     ''REQUIRE_APPROVAL''), (''route'', JStr ''SINGLE''), (''policy_version'', JStr ''policy-1''),
     (''command_id'', JStr ''c0:policy''), (''correlation_id'', JStr ''x'')], ob_attempts = 0,
     ob_next_attempt_at = None, ob_published_at = None, ob_claimed_by = None, ob_claim_expires_at =
     None, ob_created_at = 10000000\<rparr>, \<lparr>ob_id = 6, ob_sequence = 4, ob_topic =
     ''intent.transitioned'', ob_payload = [(''tenant_id'', JStr ''t''), (''intent_id'', JStr
     ''00000000-0000-0000-0000-000000000007''), (''revision'', JInt 1), (''from_state'', JStr
     ''REQUESTED''), (''to_state'', JStr ''RISK_EVALUATED''), (''command_id'', JStr ''c0''),
     (''correlation_id'', JStr ''x'')], ob_attempts = 0, ob_next_attempt_at = None, ob_published_at
     = None, ob_claimed_by = None, ob_claim_expires_at = None, ob_created_at = 10000000\<rparr>,
     \<lparr>ob_id = 7, ob_sequence = 5, ob_topic = ''intent.transitioned'', ob_payload =
     [(''tenant_id'', JStr ''t''), (''intent_id'', JStr ''00000000-0000-0000-0000-000000000007''),
     (''revision'', JInt 1), (''from_state'', JStr ''RISK_EVALUATED''), (''to_state'', JStr
     ''POLICY_EVALUATED''), (''command_id'', JStr ''c0''), (''correlation_id'', JStr ''x'')],
     ob_attempts = 0, ob_next_attempt_at = None, ob_published_at = None, ob_claimed_by = None,
     ob_claim_expires_at = None, ob_created_at = 10000000\<rparr>, \<lparr>ob_id = 8, ob_sequence =
     6, ob_topic = ''intent.transitioned'', ob_payload = [(''tenant_id'', JStr ''t''),
     (''intent_id'', JStr ''00000000-0000-0000-0000-000000000007''), (''revision'', JInt 1),
     (''from_state'', JStr ''POLICY_EVALUATED''), (''to_state'', JStr ''PENDING_APPROVAL_1''),
     (''command_id'', JStr ''c0''), (''correlation_id'', JStr ''x'')], ob_attempts = 0,
     ob_next_attempt_at = None, ob_published_at = None, ob_claimed_by = None, ob_claim_expires_at =
     None, ob_created_at = 10000000\<rparr>, \<lparr>ob_id = 9, ob_sequence = 7, ob_topic =
     ''intent.transitioned'', ob_payload = [(''tenant_id'', JStr ''t''), (''intent_id'', JStr
     ''00000000-0000-0000-0000-000000000007''), (''revision'', JInt 1), (''from_state'', JStr
     ''PENDING_APPROVAL_1''), (''to_state'', JStr ''APPROVED''), (''actor_id'', JStr ''bob''),
     (''command_id'', JStr ''c1'')], ob_attempts = 0, ob_next_attempt_at = None, ob_published_at =
     None, ob_claimed_by = None, ob_claim_expires_at = None, ob_created_at = 20000000\<rparr>],
     db_audit = [], db_risk = [\<lparr>rr_tenant_id = ''t'', rr_intent_id = 7, rr_intent_revision =
     1, rr_generation = 1, rr_band = HIGH, rr_factors = [], rr_rule_version = ''risk-rules-1'',
     rr_evaluated_context = [(''environment'', JStr ''staging''), (''degraded_dependencies'', JBool
     False), (''policy_flags'', JList [])]\<rparr>], db_policy = [\<lparr>pr_tenant_id = ''t'',
     pr_intent_id = 7, pr_intent_revision = 1, pr_generation = 1, pr_disposition = REQUIRE_APPROVAL,
     pr_route = SINGLE, pr_required_roles = [''approver''], pr_required_scopes = [''ops:write''],
     pr_obligations = [''announce_in_incident_channel''], pr_reason_codes = [''approval_required''],
     pr_policy_version = ''policy-1'', pr_approval_ttl_seconds = Some 900\<rparr>], db_bundles =
     [\<lparr>br_id = 2, br_tenant_id = ''t'', br_version = ''policy-1'', br_rules =
     [(''approval_ttl_seconds'', JInt 900), (''tools'', JObj [(''inspect_service'', JObj
     [(''disposition'', JStr ''ALLOW'')]), (''restart_service'', JObj [(''disposition'', JStr
     ''REQUIRE_APPROVAL''), (''required_roles'', JList [JStr ''approver'']), (''obligations'', JList
     [JStr ''announce_in_incident_channel''])]), (''scale_service'', JObj [(''staging'', JObj
     [(''disposition'', JStr ''ALLOW'')]), (''production'', JObj [(''disposition'', JStr
     ''REQUIRE_APPROVAL''), (''required_roles'', JList [JStr ''approver''])])]),
     (''provision_resource'', JObj [(''disposition'', JStr ''REQUIRE_APPROVAL''),
     (''required_roles'', JList [JStr ''approver''])]), (''delete_resource'', JObj
     [(''disposition'', JStr ''REQUIRE_APPROVAL''), (''required_roles'', JList [JStr
     ''critical_approver_l1'', JStr ''critical_approver_l2'']), (''obligations'', JList [JStr
     ''require_change_ticket''])])])], br_is_active = True, br_created_at = 0\<rparr>], db_decisions
     = [\<lparr>dr_tenant_id = ''t'', dr_intent_id = 7, dr_intent_revision = 1, dr_intent_digest =
     ''h'', dr_level = 1, dr_decision = APPROVE, dr_actor_id = ''bob'', dr_actor_roles_snapshot =
     [''approver''], dr_scope_snapshot = [(''environment'', JStr ''staging''), (''scopes'', JList
     [JStr ''ops:write'']), (''token_scopes'', JList [JStr ''ops:write'']), (''obligations'', JObj
     [(''announce_in_incident_channel'', JStr ''done'')])], dr_reason = ''ok'', dr_policy_version =
     ''policy-1'', dr_decided_at = 20000000, dr_expires_at = Some 910000000\<rparr>], db_roles =
     [\<lparr>ra_id = 0, ra_tenant_id = ''t'', ra_principal_id = ''bob'', ra_role = ''approver'',
     ra_environments = None, ra_scopes = Some [''ops:write''], ra_environments_key = [],
     ra_valid_from = 0, ra_valid_until = None, ra_revoked_at = None, ra_granted_by =
     ''root''\<rparr>, \<lparr>ra_id = 1, ra_tenant_id = ''t'', ra_principal_id = ''root'', ra_role
     = ''administrator'', ra_environments = None, ra_scopes = Some [], ra_environments_key = [],
     ra_valid_from = 0, ra_valid_until = None, ra_revoked_at = None, ra_granted_by =
     ''root''\<rparr>], db_executions = [], db_next_id = 10, db_next_sequence = 8\<rparr>)"
  by code_simp

text \<open>Each step of the run succeeds.\<close>

fun succeeds :: "(exn + 'a) \<times> db \<Rightarrow> bool" where
  "succeeds (Inr a, d) = True"
| "succeeds (Inl e, d) = False"

lemma succeeds_iff: "succeeds p \<longleftrightarrow> (\<exists>a. fst p = Inr a)"
  by (cases p rule: succeeds.cases) auto

lemma sample_created: "succeeds (create id (at_second 10) sample_create sample_empty)"
  by code_simp

lemma sample_evaluated:
  "succeeds (record_evaluation (at_second 10) sample_key sample_risk sample_policy ''c0'' ''x'' sample_requested)"
  unfolding sample_evaluation_def [symmetric] sample_evaluation_code by simp

lemma sample_decided: "succeeds (decide (at_second 20) sample_decision sample_pending)"
  unfolding sample_approval_def [symmetric] sample_approval_code by simp

lemma succeedsE:
  assumes "succeeds p"
  obtains a where "p = (Inr a, snd p)"
  using assms by (cases p rule: succeeds.cases) auto

lemma sample_db_ok: "db_ok sample_pending" "db_ok sample_approved"
proof -
  have "db_ok sample_empty" by (simp add: db_ok_def sample_empty_def empty_db_def)
  moreover have "evolves sample_empty sample_requested"
    using sample_created by (rule succeedsE) (auto simp: sample_requested_def intro: create_evolves)
  moreover have "evolves sample_requested sample_pending"
    using sample_evaluated by (rule succeedsE) (auto simp: sample_pending_def sample_evaluation_def intro: record_evaluation_evolves)
  ultimately show pending: "db_ok sample_pending" using evolves_db_ok by blast
  obtain a where "decide (at_second 20) sample_decision sample_pending = (Inr a, sample_approved)"
    using sample_decided by (rule succeedsE) (simp add: sample_approved_def sample_approval_def)
  from decide_evolves [OF this pending] pending show "db_ok sample_approved"
    using evolves_db_ok by blast
qed

end
