(* ===== verification/Approval_Safety.thy ===== *)
theory Approval_Safety
  imports Scenario
begin

text \<open>
  What the approval commands promise: which decisions are accepted and what they leave behind, how
  an elapsed window is recorded, and who may cancel when.
\<close>

definition decided_state :: "approval_decision_command \<Rightarrow> approval_route \<Rightarrow> intent_state" where
  "decided_state c route =
     (if ad_decision c = REJECT then REJECTED
      else if route = CRITICAL_TWO_STEP \<and> ad_level c = 1 then PENDING_APPROVAL_2 else APPROVED)"

text \<open>The row after the decision; the first approval of a critical route takes two transitions.\<close>

definition decided_row :: "approval_decision_command \<Rightarrow> approval_route \<Rightarrow> intent_row \<Rightarrow> intent_row" where
  "decided_row c route i =
     (if decided_state c route = PENDING_APPROVAL_2
      then advance_intent (advance_intent i APPROVED_BY_LEVEL_1) PENDING_APPROVAL_2
      else advance_intent i (decided_state c route))"

lemma decided_row_fields [simp]:
  "ai_key (decided_row c route i) = ai_key i" "ai_state (decided_row c route i) = decided_state c route"
  by (simp_all add: decided_row_def)

lemma record_command_facts:
  assumes "record_command_transition a i s d = Inr (i', d')"
  shows "db_decisions d' = db_decisions d \<and> i' = advance_intent i s \<and>
    get_intent k d' = (if k = ai_key i then map_option (\<lambda>_. advance_intent i s) (get_intent k d) else get_intent k d)"
proof -
  have "i' = advance_intent i s" using command_recorder.recorder_Inr [OF assms] by simp
  moreover have "db_decisions d' = db_decisions d" by (rule command_recorder.recorder_frame [OF assms])
  moreover have "get_intent k d' =
      (if k = ai_key i then map_option (\<lambda>_. i') (get_intent k d) else get_intent k d)" for k
    using command_recorder.recorder_get [OF assms, of k] by (cases "get_intent k d") auto
  ultimately show ?thesis by simp
qed

lemma apply_decision_result:
  assumes "apply_decision ev c i target d = Inr (i', d')"
  shows "db_decisions d' = db_decisions d \<and>
     i' = (if ad_decision c = APPROVE \<and> target = APPROVED_BY_LEVEL_1
           then advance_intent (advance_intent i target) PENDING_APPROVAL_2 else advance_intent i target) \<and>
     get_intent k d' = (if k = ai_key i then map_option (\<lambda>_. i') (get_intent k d) else get_intent k d)"
proof (cases "record_command_transition (human_args ev c) i target d")
  case (Inl e)
  with assms show ?thesis by (simp add: apply_decision_def)
next
  case (Inr r)
  then obtain i1 d1 where r: "record_command_transition (human_args ev c) i target d = Inr (i1, d1)"
    by (cases r) auto
  note one = record_command_facts [OF r, of k]
  show ?thesis
  proof (cases "ad_decision c = APPROVE \<and> target = APPROVED_BY_LEVEL_1")
    case False
    with assms r have "i1 = i'" "d1 = d'" by (auto simp: apply_decision_def split: if_splits)
    with one False show ?thesis by auto
  next
    case True
    with assms r have "record_command_transition
        (system_args ev ''approval-coordinator'' (ad_command_id c) ''level_2_request_published'')
        i1 PENDING_APPROVAL_2 d1 = Inr (i', d')" by (simp add: apply_decision_def)
    from record_command_facts [OF this, of k] one True show ?thesis by (auto simp: option.map_comp comp_def)
  qed
qed

text \<open>What the source accepts in which state; the distinctness of the two approvers is over the decision rows.\<close>

lemma resolve_target_accepts:
  assumes "resolve_target i route c d = Inr target"
  shows "ad_decision c = REJECT \<Longrightarrow> is_legal (ai_state i) REJECTED \<and> target = REJECTED"
    and "ad_decision c = APPROVE \<Longrightarrow>
      ai_state i = PENDING_APPROVAL_1 \<and> ad_level c = 1 \<and>
        target = (if route = CRITICAL_TWO_STEP then APPROVED_BY_LEVEL_1 else APPROVED) \<or>
      ai_state i = PENDING_APPROVAL_2 \<and> ad_level c = 2 \<and> route = CRITICAL_TWO_STEP \<and> target = APPROVED \<and>
        (\<forall>x \<in> set (db_decisions d).
           dr_key x = ai_key i \<and> dr_level x = 1 \<and> dr_decision x = APPROVE \<longrightarrow> dr_actor_id x \<noteq> ac_actor_id (ad_actor c))"
proof -
  show "ad_decision c = REJECT \<Longrightarrow> is_legal (ai_state i) REJECTED \<and> target = REJECTED"
    using assms by (auto simp: resolve_target_def require_transition_def split: if_splits)
  have "l \<noteq> a" if "enforce_distinct_l1 i a d = Inr ()" "l \<in> set (level_one_approvers (ai_key i) d)" for l a
    using that by (auto simp: enforce_distinct_l1_def scalar_one_or_none_Inr split: sum.splits option.splits if_splits)
  then show "ad_decision c = APPROVE \<Longrightarrow>
      ai_state i = PENDING_APPROVAL_1 \<and> ad_level c = 1 \<and>
        target = (if route = CRITICAL_TWO_STEP then APPROVED_BY_LEVEL_1 else APPROVED) \<or>
      ai_state i = PENDING_APPROVAL_2 \<and> ad_level c = 2 \<and> route = CRITICAL_TWO_STEP \<and> target = APPROVED \<and>
        (\<forall>x \<in> set (db_decisions d).
           dr_key x = ai_key i \<and> dr_level x = 1 \<and> dr_decision x = APPROVE \<longrightarrow> dr_actor_id x \<noteq> ac_actor_id (ad_actor c))"
    using resolve_target_Inr [OF assms] by (auto simp: level_one_approvers_def)
qed

text \<open>
  C8. An accepted decision passed every guard: it names the current version and digest of an intent
  of the actor's own tenant, the approval window is open, and the actor currently holds the one role
  the route demands at that level. An approval comes from someone who is not the requester, who
  carries every required scope both in the token and in the role table and answers every
  obligation; it is of level 1 in PENDING_APPROVAL_1, or of level 2 in PENDING_APPROVAL_2 on the critical
  route and then by another person than every recorded approver of level 1. A rejection is made in a state that
  may be rejected. The decision leaves exactly one new decision row, bound to that actor, level and
  digest, and the stored intent is the old row moved to the state that the route prescribes; the
  answer is its snapshot, and no other intent is changed.
\<close>

theorem decide_accepts_only_authorized:
  assumes "decide ev c d = (Inr s, d')"
  shows "\<exists>i p r. get_intent (ad_key c) d = Some i \<and> policy_rows_for (ad_key c) d = [p] \<and>
      ad_tenant_id c = ac_tenant_id (ad_actor c) \<and>
      ai_state_version i = ad_expected_state_version c \<and> ai_intent_digest i = ad_intent_digest c \<and>
      \<not> approval_expired ev i \<and>
      (pr_required_roles p \<noteq> [] \<longrightarrow>
         (\<exists>role. required_role_for_level (pr_route p) (ad_level c) (pr_required_roles p) = Some role \<and>
            role \<in> current_roles ev d (ad_actor c) (env_text (intent_environment i)))) \<and>
      (ad_decision c = REJECT \<longrightarrow> is_legal (ai_state i) REJECTED) \<and>
      (ad_decision c = APPROVE \<longrightarrow>
         ac_actor_id (ad_actor c) \<noteq> ai_requester_id i \<and>
         set (pr_required_scopes p) \<subseteq> ac_scopes (ad_actor c) \<inter>
            current_scopes ev d (ad_actor c) (env_text (intent_environment i)) \<and>
         (\<forall>n \<in> set (pr_obligations p). \<exists>v. map_of (ad_obligations c) n = Some v \<and> v \<noteq> []) \<and>
         (ai_state i = PENDING_APPROVAL_1 \<and> ad_level c = 1 \<or>
          ai_state i = PENDING_APPROVAL_2 \<and> ad_level c = 2 \<and> pr_route p = CRITICAL_TWO_STEP \<and>
            (\<forall>x \<in> set (db_decisions d). dr_key x = ad_key c \<and> dr_level x = 1 \<and> dr_decision x = APPROVE \<longrightarrow>
               dr_actor_id x \<noteq> ac_actor_id (ad_actor c)))) \<and>
      db_decisions d' = db_decisions d @ [r] \<and> dr_key r = ad_key c \<and> dr_level r = ad_level c \<and>
      dr_decision r = ad_decision c \<and> dr_actor_id r = ac_actor_id (ad_actor c) \<and>
      dr_intent_digest r = ai_intent_digest i \<and>
      is_state s = decided_state c (pr_route p) \<and> s = snapshot_of (decided_row c (pr_route p) i) \<and>
      (\<forall>k. get_intent k d' = (if k = ad_key c then Some (decided_row c (pr_route p) i) else get_intent k d))"
proof -
  from decide_Inr [OF assms] obtain i where i: "get_intent (ad_key c) d = Some i"
      "ad_tenant_id c = ac_tenant_id (ad_actor c)" "ai_state_version i = ad_expected_state_version c"
      "ai_intent_digest i = ad_intent_digest c" "\<not> approval_expired ev i"
    and o: "decide_open ev c i d = (Inr s, d')" by blast
  from decide_open_Inr [OF o] obtain p sc target i'
    where p: "policy_rows_for (ad_key c) d = [p]" and g: "decision_guards ev c i p d = Inr sc"
      and t: "resolve_target i (pr_route p) c d = Inr target"
      and a: "apply_decision ev c i target (add_decision (decision_row_of ev c i p sc d) d) = Inr (i', d')"
      and s: "s = snapshot_of i'" by blast
  let ?r = "decision_row_of ev c i p sc d"
  have key: "ai_key i = ad_key c" using get_intent_SomeD [OF i(1)] by simp
  have r: "dr_key ?r = ad_key c" "dr_level ?r = ad_level c" "dr_decision ?r = ad_decision c"
      "dr_actor_id ?r = ac_actor_id (ad_actor c)" "dr_intent_digest ?r = ai_intent_digest i"
    using i(4) by (simp_all add: decision_row_of_def dr_key_def ad_key_def)
  note acc = resolve_target_accepts [OF t, unfolded key]
  have i': "i' = decided_row c (pr_route p) i"
    using acc apply_decision_result [OF a]
    by (cases "ad_decision c") (auto simp: decided_row_def decided_state_def)
  have get: "get_intent k d' = (if k = ad_key c then Some i' else get_intent k d)" for k
    using apply_decision_result [OF a, of k] i(1) key by simp
  have "is_state s = decided_state c (pr_route p)" by (simp add: s i' snapshot_of_def)
  moreover have "db_decisions d' = db_decisions d @ [?r]" using apply_decision_result [OF a] by simp
  ultimately show ?thesis
    using i p r decision_guards_Inr [OF g] acc get s unfolding i'
    by (intro exI [of _ i] exI [of _ p] exI [of _ ?r] conjI allI) (auto simp del: split_paired_All)
qed

lemma decide_accepts_only_authorized_witness:
  "\<exists>i. get_intent sample_key sample_pending = Some i \<and>
     ac_actor_id (ad_actor sample_decision) \<noteq> ai_requester_id i"
proof -
  obtain a where "decide (at_second 20) sample_decision sample_pending = (Inr a, sample_approved)"
    using sample_decided by (rule succeedsE) (simp add: sample_approved_def sample_approval_def)
  from decide_accepts_only_authorized [OF this] show ?thesis
    by (auto simp: sample_key_def ad_key_def sample_decision_def)
qed

section \<open>The elapsed window\<close>

lemma expired_legal: "approval_expired ev i \<Longrightarrow> is_legal (ai_state i) EXPIRED"
  by (auto simp: approval_expired_def is_legal_def)

text \<open>
  C29. A decision that arrives after the approval window is refused, and the refusal is durable: the
  request commits the intent as EXPIRED with its version raised and no decision recorded, so a
  retry observes EXPIRED. Only a write the database itself refuses leaves the intent as it was.
\<close>

theorem late_decision_expires:
  assumes i: "get_intent (ad_key c) d = Some i" and t: "ad_tenant_id c = ac_tenant_id (ad_actor c)"
    and l: "\<not> row_locked ev (ad_key c)" and v: "ai_state_version i = ad_expected_state_version c"
    and g: "ai_intent_digest i = ad_intent_digest c" and e: "approval_expired ev i"
  shows "case request (decide ev c) d of
      (Inl x, d') \<Rightarrow>
        (is_class ApprovalExpiredError x \<and> get_intent (ad_key c) d' = Some (advance_intent i EXPIRED) \<and>
         db_decisions d' = db_decisions d)
        \<or> ((x = DataError \<or> x = IntegrityError) \<and> d' = d)
    | (Inr s, d') \<Rightarrow> False"
proof -
  let ?a = "system_args ev ''approval-clock'' (ad_command_id c) ''approval_ttl_elapsed''"
  have dec: "decide ev c d = expire_on_decision ev c i d"
    using i t l v g e by (simp add: decide_def load_locked_intent_def)
  from command_recorder.recorder_total [OF expired_legal [OF e]] obtain d1
    where r: "record_command_transition ?a i EXPIRED d = Inr (advance_intent i EXPIRED, d1)" by blast
  have get: "get_intent (ad_key c) d1 = Some (advance_intent i EXPIRED)"
    using command_recorder.recorder_get [OF r, of "ad_key c"] i get_intent_SomeD [OF i] by simp
  show ?thesis
  proof (cases "flush d1")
    case (Inr u)
    then show ?thesis
      using dec r get command_recorder.recorder_frame [OF r]
      by (simp add: expire_on_decision_def request_def run_transaction_def)
  next
    case (Inl x)
    then have "x = DataError \<or> x = IntegrityError" by (auto simp: flush_def split: if_splits)
    with Inl show ?thesis
      using dec r by (auto simp: expire_on_decision_def request_def run_transaction_def)
  qed
qed

lemma late_decision_expires_witness:
  "\<exists>x d'. request (decide (at_second 5000) sample_decision) sample_pending = (Inl x, d') \<and>
     is_class ApprovalExpiredError x"
proof -
  obtain i where i: "get_intent (ad_key sample_decision) sample_pending = Some i"
    and f: "ai_state_version i = 4" "ai_intent_digest i = ''h''" "approval_expired (at_second 5000) i"
  proof -
    have "case get_intent (ad_key sample_decision) sample_pending of
        Some i \<Rightarrow> ai_state_version i = 4 \<and> ai_intent_digest i = ''h'' \<and> approval_expired (at_second 5000) i
      | None \<Rightarrow> False" by code_simp
    then show ?thesis using that by (auto split: option.splits)
  qed
  have pre: "ad_tenant_id sample_decision = ac_tenant_id (ad_actor sample_decision)"
    "\<not> row_locked (at_second 5000) (ad_key sample_decision)"
    "ad_expected_state_version sample_decision = 4" "ad_intent_digest sample_decision = ''h''"
    by code_simp+
  have run: "case fst (request (decide (at_second 5000) sample_decision) sample_pending) of
      Inl x \<Rightarrow> x \<noteq> DataError \<and> x \<noteq> IntegrityError | Inr s \<Rightarrow> True" by code_simp
  obtain r d' where rq: "request (decide (at_second 5000) sample_decision) sample_pending = (r, d')"
    by (rule prod.exhaust)
  from late_decision_expires [OF i pre(1,2)] f pre(3,4) rq
  have "case (r, d') of (Inl x, d') \<Rightarrow> is_class ApprovalExpiredError x \<or> x = DataError \<or> x = IntegrityError
     | (Inr s, d') \<Rightarrow> False" by (auto split: sum.splits)
  with run rq show ?thesis by (cases r) auto
qed

section \<open>Cancellation\<close>

text \<open>
  C30. Cancellation is accepted only before the execution claim, only from the requester or a current
  administrator of the same tenant, and only against the version the caller saw; it moves the
  intent to CANCELLED, records no decision and starts no execution.
\<close>

theorem cancel_only_before_claim:
  assumes "cancel ev c d = (Inr s, d')"
  shows "\<exists>i. get_intent (cn_key c) d = Some i \<and> cn_tenant_id c = ac_tenant_id (cn_actor c) \<and>
      ai_state_version i = cn_expected_state_version c \<and>
      \<not> past_claim (ai_state i) \<and> ai_state i \<noteq> REVALIDATING \<and>
      (ac_actor_id (cn_actor c) = ai_requester_id i \<or> require_administrator ev d (cn_actor c) = Inr ()) \<and>
      get_intent (cn_key c) d' = Some (advance_intent i CANCELLED) \<and> is_state s = CANCELLED \<and>
      db_decisions d' = db_decisions d \<and> db_executions d' = db_executions d"
proof -
  from cancel_Inr [OF assms] obtain i a where i: "get_intent (cn_key c) d = Some i"
    and f: "cn_tenant_id c = ac_tenant_id (cn_actor c)" "ai_state_version i = cn_expected_state_version c"
      "ai_state i \<in> set cancellable_states"
      "ac_actor_id (cn_actor c) = ai_requester_id i \<or> ''administrator'' \<in> current_roles ev d (cn_actor c) None"
    and r: "record_command_transition a i CANCELLED d = Inr (advance_intent i CANCELLED, d')"
    and s: "s = snapshot_of (advance_intent i CANCELLED)" by blast
  have "\<not> past_claim (ai_state i) \<and> ai_state i \<noteq> REVALIDATING"
    using f(3) by (auto simp: cancellable_states_def past_claim_def)
  moreover have "get_intent (cn_key c) d' = Some (advance_intent i CANCELLED)"
    using command_recorder.recorder_get [OF r, of "cn_key c"] i get_intent_SomeD [OF i] by simp
  ultimately show ?thesis
    using i f s command_recorder.recorder_frame [OF r]
    by (auto simp: require_administrator_def snapshot_of_def)
qed

definition sample_cancel :: cancel_intent_command where
  "sample_cancel = \<lparr>cn_tenant_id = ''t'', cn_intent_id = 7, cn_revision = 1, cn_reason = ''no'',
     cn_expected_state_version = 4, cn_actor = actor_named ''alice'', cn_command_id = ''c9''\<rparr>"

lemma cancel_only_before_claim_witness:
  "\<exists>s d'. cancel (at_second 20) sample_cancel sample_pending = (Inr s, d') \<and> is_state s = CANCELLED"
proof -
  have "succeeds (cancel (at_second 20) sample_cancel sample_pending)" by code_simp
  then obtain s where c: "cancel (at_second 20) sample_cancel sample_pending =
      (Inr s, snd (cancel (at_second 20) sample_cancel sample_pending))" by (rule succeedsE)
  from cancel_only_before_claim [OF c] c show ?thesis by (metis fst_conv)
qed

end
