(* ===== verification/Adapters.thy ===== *)
theory Adapters
  imports Json Domain_Enums Domain_Errors "HOL-Library.AList"
begin

text \<open>
  \<open>adapters/base.py\<close> and \<open>adapters/demo.py\<close>: the data an adapter exchanges with the worker, the query
  that denies every target, and the in-memory demo provider.

  The locale \<open>adapter\<close> states what the worker relies on: a refused command leaves the provider
  unchanged, the operation key makes delivery idempotent, and a provider record once written is
  what a later status lookup reports. The demo provider is its instance.
\<close>

record target_snapshot =
  ts_found :: bool
  ts_identity :: dict
  ts_health :: string
  ts_facts :: dict
  ts_resource_version :: "string option"

record adapter_command =
  am_operation_key :: string
  am_precondition_token :: string
  am_parameters :: dict
  am_resource_version :: "string option"

record adapter_result =
  ar_outcome :: string
  ar_provider_operation_id :: "string option"
  ar_summary :: dict
  ar_error_code :: "string option"

definition denying_fetch :: "tool_name \<Rightarrow> dict \<Rightarrow> target_snapshot" where
  "denying_fetch tool parameters =
     \<lparr>ts_found = False, ts_identity = [], ts_health = ''unknown'', ts_facts = [], ts_resource_version = None\<rparr>"

section \<open>The demo provider\<close>

definition PROVIDER_FAILURE_SERVICE :: string where
  "PROVIDER_FAILURE_SERVICE = ''boom-api''"

definition TIMEOUT_AFTER_SEND_SERVICE :: string where
  "TIMEOUT_AFTER_SEND_SERVICE = ''timeout-api''"

definition HOSTILE_PARAMETER_KEYS :: "string list" where
  "HOSTILE_PARAMETER_KEYS =
     [''credentials'', ''credential'', ''token'', ''secret'', ''password'', ''api_key'', ''apikey'',
      ''shell_command'', ''command'', ''url'', ''endpoint'', ''host'']"

record demo_operation =
  do_tool :: string
  do_outcome :: string
  do_provider_operation_id :: string
  do_summary :: dict
  do_error_code :: "string option"

record demo_state =
  dm_operations :: "(string \<times> demo_operation) list"
  dm_target_versions :: "(string \<times> string) list"

definition empty_demo :: demo_state where
  "empty_demo = \<lparr>dm_operations = [], dm_target_versions = []\<rparr>"

definition provider_operation_id :: "(string \<Rightarrow> string) \<Rightarrow> string \<Rightarrow> string" where
  "provider_operation_id sha operation_key = ''prov-'' @ take 12 (sha operation_key)"

text \<open>The identity fields a command names, in the order given.\<close>

definition identity_fields :: "string list \<Rightarrow> dict \<Rightarrow> dict" where
  "identity_fields fs parameters =
     map (\<lambda>f. (f, dget f parameters)) (filter (\<lambda>f. dget f parameters \<noteq> JNull) fs)"

definition target_key :: "tool_name \<Rightarrow> dict \<Rightarrow> string" where
  "target_key tool parameters =
     tool_value tool @ '':['' @
     join_with '', '' (map (\<lambda>(k, v). ''('' @ repr_str k @ '', '' @ py_repr v @ '')'')
       (identity_fields [''name'', ''resource_id'', ''service''] parameters)) @ '']''"

definition version_of :: "string \<Rightarrow> demo_state \<Rightarrow> string" where
  "version_of key s = (case map_of (dm_target_versions s) key of Some v \<Rightarrow> v | None \<Rightarrow> ''v1'')"

definition put_version :: "string \<Rightarrow> string \<Rightarrow> demo_state \<Rightarrow> demo_state" where
  "put_version key v s = s\<lparr>dm_target_versions := AList.update key v (dm_target_versions s)\<rparr>"

definition rotate_target :: "tool_name \<Rightarrow> dict \<Rightarrow> demo_state \<Rightarrow> string \<times> demo_state" where
  "rotate_target tool parameters s =
     (let key = target_key tool parameters;
          current = (case map_of (dm_target_versions s) key of Some v \<Rightarrow> v | None \<Rightarrow> ''v0'');
          version = CHR ''v'' # nat_str (str_nat (tl current) + 1)
      in (version, put_version key version s))"

definition demo_fetch :: "tool_name \<Rightarrow> dict \<Rightarrow> demo_state \<Rightarrow> target_snapshot \<times> demo_state" where
  "demo_fetch tool parameters s =
     (let key = target_key tool parameters; version = version_of key s
      in (\<lparr>ts_found = True,
           ts_identity = identity_fields [''service'', ''name'', ''resource_id''] parameters,
           ts_health = ''healthy'', ts_facts = [], ts_resource_version = Some version\<rparr>,
          put_version key version s))"

definition put_operation :: "string \<Rightarrow> demo_operation \<Rightarrow> demo_state \<Rightarrow> demo_state" where
  "put_operation key r s = s\<lparr>dm_operations := AList.update key r (dm_operations s)\<rparr>"

definition demo_send :: "(string \<Rightarrow> string) \<Rightarrow> tool_name \<Rightarrow> adapter_command \<Rightarrow> demo_operation \<times> adapter_result" where
  "demo_send sha tool c =
     (let pid = provider_operation_id sha (am_operation_key c);
          t = (''tool'', JStr (tool_value tool));
          service = dget ''service'' (am_parameters c)
      in if service = JStr TIMEOUT_AFTER_SEND_SERVICE then
           (\<lparr>do_tool = tool_value tool, do_outcome = ''SUCCEEDED'', do_provider_operation_id = pid,
             do_summary = [(''applied'', JBool True), t], do_error_code = None\<rparr>,
            \<lparr>ar_outcome = ''UNKNOWN'', ar_provider_operation_id = Some pid,
             ar_summary = [(''reason'', JStr ''timeout_after_send''), t], ar_error_code = None\<rparr>)
         else if service = JStr PROVIDER_FAILURE_SERVICE then
           (\<lparr>do_tool = tool_value tool, do_outcome = ''FAILED'', do_provider_operation_id = pid,
             do_summary = [(''applied'', JBool False), t], do_error_code = Some ''DEMO_PROVIDER_FAILURE''\<rparr>,
            \<lparr>ar_outcome = ''FAILED'', ar_provider_operation_id = Some pid,
             ar_summary = [(''applied'', JBool False), t], ar_error_code = Some ''DEMO_PROVIDER_FAILURE''\<rparr>)
         else
           (\<lparr>do_tool = tool_value tool, do_outcome = ''SUCCEEDED'', do_provider_operation_id = pid,
             do_summary = [(''applied'', JBool True), t, (''parameters'', JObj (am_parameters c))],
             do_error_code = None\<rparr>,
            \<lparr>ar_outcome = ''SUCCEEDED'', ar_provider_operation_id = Some pid,
             ar_summary = [(''applied'', JBool True), t], ar_error_code = None\<rparr>))"

definition demo_execute ::
  "(string \<Rightarrow> string) \<Rightarrow> tool_name \<Rightarrow> adapter_command \<Rightarrow> demo_state \<Rightarrow> (exn + adapter_result) \<times> demo_state" where
  "demo_execute sha tool c s =
     (case map_of (dm_operations s) (am_operation_key c) of
        Some r \<Rightarrow>
          (Inr \<lparr>ar_outcome = do_outcome r, ar_provider_operation_id = Some (do_provider_operation_id r),
                ar_summary = dupdate [(''duplicate_delivery'', JBool True)] (do_summary r),
                ar_error_code = do_error_code r\<rparr>, s)
      | None \<Rightarrow>
          if list_ex (\<lambda>k. map_of (am_parameters c) k \<noteq> None) HOSTILE_PARAMETER_KEYS
          then (Inl AdapterPreSendError, s)
          else
            (let key = target_key tool (am_parameters c);
                 current = version_of key s;
                 s1 = put_version key current s
             in if am_resource_version c \<noteq> None \<and> am_resource_version c \<noteq> Some current
                then (Inl AdapterPreSendError, s1)
                else (let (r, answer) = demo_send sha tool c
                      in (Inr answer, put_operation (am_operation_key c) r s1))))"

definition demo_lookup_status ::
  "tool_name \<Rightarrow> string \<Rightarrow> string option \<Rightarrow> demo_state \<Rightarrow> adapter_result" where
  "demo_lookup_status tool operation_key provider_id s =
     (case map_of (dm_operations s) operation_key of
        None \<Rightarrow>
          \<lparr>ar_outcome = ''UNKNOWN'', ar_provider_operation_id = provider_id,
           ar_summary = [(''evidence'', JStr ''none''), (''tool'', JStr (tool_value tool))], ar_error_code = None\<rparr>
      | Some r \<Rightarrow>
          \<lparr>ar_outcome = do_outcome r, ar_provider_operation_id = Some (do_provider_operation_id r),
           ar_summary = [(''evidence'', JStr ''provider_record''), (''tool'', JStr (tool_value tool))],
           ar_error_code = None\<rparr>)"

section \<open>The contract of an adapter\<close>

text \<open>
  \<open>recorded\<close> is what the provider knows of an operation key: the outcome it will report.
\<close>

locale adapter =
  fixes execute :: "tool_name \<Rightarrow> adapter_command \<Rightarrow> 's \<Rightarrow> (exn + adapter_result) \<times> 's"
    and lookup :: "tool_name \<Rightarrow> string \<Rightarrow> string option \<Rightarrow> 's \<Rightarrow> adapter_result"
    and recorded :: "'s \<Rightarrow> string \<Rightarrow> string option"
  assumes refused: "execute t c s = (Inl AdapterPreSendError, s') \<Longrightarrow> recorded s' = recorded s"
    and performed: "execute t c s = (Inr r, s') \<Longrightarrow>
      (\<exists>out. recorded s' (am_operation_key c) = Some out) \<and>
      (\<forall>k. k \<noteq> am_operation_key c \<longrightarrow> recorded s' k = recorded s k)"
    and kept: "recorded s k = Some out \<Longrightarrow> recorded (snd (execute t c s)) k = Some out"
    and duplicate: "recorded s (am_operation_key c) = Some out \<Longrightarrow>
      \<exists>r. execute t c s = (Inr r, s) \<and> ar_outcome r = out"
    and reported: "recorded s k = Some out \<Longrightarrow> ar_outcome (lookup t k p s) = out"
    and unknown: "recorded s k = None \<Longrightarrow> ar_outcome (lookup t k p s) = ''UNKNOWN''"
begin

lemma second_delivery:
  assumes "execute t c s = (Inr r, s')" and "am_operation_key c' = am_operation_key c"
  shows "snd (execute t' c' s') = s'"
  using performed [OF assms(1)] duplicate [of s' c' _ t'] assms(2) by fastforce

lemma lookup_after:
  assumes "execute t c s = (Inr r, s')"
  shows "\<exists>out. recorded s' (am_operation_key c) = Some out \<and>
     ar_outcome (lookup t (am_operation_key c) p s') = out"
  using performed [OF assms] reported by blast

lemma lookup_stable:
  "recorded s k = Some out \<Longrightarrow> ar_outcome (lookup t' k p (snd (execute t c s))) = out"
  by (rule reported) (rule kept)

end

definition demo_recorded :: "demo_state \<Rightarrow> string \<Rightarrow> string option" where
  "demo_recorded s k = map_option do_outcome (map_of (dm_operations s) k)"

lemma demo_recorded_put_version [simp]: "demo_recorded (put_version key v s) = demo_recorded s"
  by (simp add: demo_recorded_def put_version_def fun_eq_iff)

lemma dm_operations_put_version [simp]: "dm_operations (put_version key v s) = dm_operations s"
  by (simp add: put_version_def)

lemma demo_recorded_put_operation [simp]:
  "demo_recorded (put_operation key r s) = (demo_recorded s)(key \<mapsto> do_outcome r)"
  by (auto simp: demo_recorded_def put_operation_def update_conv fun_eq_iff)

lemma demo_execute_unrecorded:
  assumes "demo_recorded s (am_operation_key c) = None"
  shows "demo_execute sha t c s =
     (let s1 = put_version (target_key t (am_parameters c)) (version_of (target_key t (am_parameters c)) s) s
      in if list_ex (\<lambda>k. map_of (am_parameters c) k \<noteq> None) HOSTILE_PARAMETER_KEYS then (Inl AdapterPreSendError, s)
         else if am_resource_version c \<noteq> None \<and>
                 am_resource_version c \<noteq> Some (version_of (target_key t (am_parameters c)) s)
         then (Inl AdapterPreSendError, s1)
         else (Inr (snd (demo_send sha t c)), put_operation (am_operation_key c) (fst (demo_send sha t c)) s1))"
  using assms by (simp add: demo_execute_def demo_recorded_def Let_def split_beta)

lemma demo_execute_recorded:
  assumes "demo_recorded s (am_operation_key c) = Some out"
  shows "\<exists>r. demo_execute sha t c s = (Inr r, s) \<and> ar_outcome r = out"
  using assms by (auto simp: demo_execute_def demo_recorded_def)

interpretation demo: adapter "demo_execute sha" demo_lookup_status demo_recorded for sha
proof
  fix t c s s'
  show "demo_recorded s' = demo_recorded s"
    if "demo_execute sha t c s = (Inl AdapterPreSendError, s')"
    using that demo_execute_recorded [of s c _ sha t]
    by (cases "demo_recorded s (am_operation_key c)")
      (auto simp: demo_execute_unrecorded Let_def split: if_splits)
next
  fix t c s r s'
  assume e: "demo_execute sha t c s = (Inr r, s')"
  show "(\<exists>out. demo_recorded s' (am_operation_key c) = Some out) \<and>
      (\<forall>k. k \<noteq> am_operation_key c \<longrightarrow> demo_recorded s' k = demo_recorded s k)"
    using e demo_execute_recorded [of s c _ sha t]
    by (cases "demo_recorded s (am_operation_key c)")
      (auto simp: demo_execute_unrecorded Let_def split: if_splits)
next
  fix s k out t c
  assume k: "demo_recorded s k = Some out"
  show "demo_recorded (snd (demo_execute sha t c s)) k = Some out"
  proof (cases "demo_recorded s (am_operation_key c)")
    case None
    with k show ?thesis by (auto simp: demo_execute_unrecorded Let_def)
  next
    case (Some a)
    from demo_execute_recorded [OF this, of sha t] k show ?thesis by auto
  qed
next
  show "\<exists>r. demo_execute sha t c s = (Inr r, s) \<and> ar_outcome r = out"
    if "demo_recorded s (am_operation_key c) = Some out" for s c out t
    by (rule demo_execute_recorded [OF that])
qed (auto simp: demo_recorded_def demo_lookup_status_def split: option.splits)

text \<open>
  The demo provider performs an operation key at most once: after a command that was answered,
  a second delivery under the same key changes nothing, and the status lookup reports the recorded
  outcome from then on, whatever other commands are delivered in between.
\<close>

theorem demo_delivery_idempotent:
  assumes "demo_execute sha t c s = (Inr r, s')"
  shows "snd (demo_execute sha t' (c\<lparr>am_precondition_token := tok, am_resource_version := v\<rparr>) s') = s'
    \<and> (\<exists>out. ar_outcome (demo_lookup_status t (am_operation_key c) p s') = out \<and>
         ar_outcome (demo_lookup_status t (am_operation_key c) p (snd (demo_execute sha t2 c2 s'))) = out)"
proof
  show "snd (demo_execute sha t' (c\<lparr>am_precondition_token := tok, am_resource_version := v\<rparr>) s') = s'"
    by (rule demo.second_delivery [OF assms]) simp
  from demo.lookup_after [OF assms, of p] obtain out
    where r: "demo_recorded s' (am_operation_key c) = Some out"
      and l: "ar_outcome (demo_lookup_status t (am_operation_key c) p s') = out" by blast
  from demo.lookup_stable [OF r, of t p sha t2 c2] l
  show "\<exists>out. ar_outcome (demo_lookup_status t (am_operation_key c) p s') = out \<and>
      ar_outcome (demo_lookup_status t (am_operation_key c) p (snd (demo_execute sha t2 c2 s'))) = out"
    by simp
qed

definition demo_restart :: adapter_command where
  "demo_restart = \<lparr>am_operation_key = ''t:1'', am_precondition_token = [],
     am_parameters = [(''service'', JStr ''web'')], am_resource_version = Some ''v1''\<rparr>"

lemma demo_delivery_idempotent_witness:
  "\<exists>r s'. demo_execute id RESTART_SERVICE demo_restart empty_demo = (Inr r, s') \<and>
     snd (demo_execute id RESTART_SERVICE demo_restart s') = s'"
proof -
  have "case fst (demo_execute id RESTART_SERVICE demo_restart empty_demo) of Inr r \<Rightarrow> True | Inl e \<Rightarrow> False"
    by code_simp
  then obtain r s' where e: "demo_execute id RESTART_SERVICE demo_restart empty_demo = (Inr r, s')"
    by (cases "demo_execute id RESTART_SERVICE demo_restart empty_demo") (auto split: sum.splits)
  from demo_delivery_idempotent [OF e, of RESTART_SERVICE "am_resource_version demo_restart"
      "am_precondition_token demo_restart"] e
  show ?thesis by simp
qed

text \<open>
  A command whose resource version is not the provider's current one is refused before the
  send, and so is one that carries a credential-like parameter: the provider's operations and
  target versions read the same afterwards.
\<close>

theorem demo_refuses_without_effect:
  assumes "demo_recorded s (am_operation_key c) = None"
    and "(\<exists>v. am_resource_version c = Some v \<and> v \<noteq> version_of (target_key t (am_parameters c)) s) \<or>
      (\<exists>k \<in> set HOSTILE_PARAMETER_KEYS. map_of (am_parameters c) k \<noteq> None)"
  shows "fst (demo_execute sha t c s) = Inl AdapterPreSendError \<and>
    dm_operations (snd (demo_execute sha t c s)) = dm_operations s \<and>
    (\<forall>key. version_of key (snd (demo_execute sha t c s)) = version_of key s)"
proof -
  have v: "version_of key (put_version k (version_of k s) s) = version_of key s" for key k
    by (simp add: version_of_def put_version_def update_conv)
  from assms(2) show ?thesis
    by (auto simp: demo_execute_unrecorded [OF assms(1)] Let_def list_ex_iff v)
qed

lemma demo_refuses_without_effect_witness:
  "fst (demo_execute id RESTART_SERVICE (demo_restart\<lparr>am_resource_version := Some ''v9''\<rparr>) empty_demo)
     = Inl AdapterPreSendError"
  using demo_refuses_without_effect
    [of empty_demo "demo_restart\<lparr>am_resource_version := Some ''v9''\<rparr>" RESTART_SERVICE id]
  by (simp add: demo_recorded_def empty_demo_def version_of_def)

end
