(* ===== verification/Revalidation.thy ===== *)
theory Revalidation
  imports Commands Adapters
begin

text \<open>
  \<open>application/revalidation.py\<close>: the claim of an executable intent, the fetch of the live target and
  the gates before a permit. The source runs three transactions: \<open>claim\<close> (phase 1), then with no
  lock held the fetch (phase 2), then \<open>revalidate\<close> (phase 3) or \<open>fail_after_fetch_failure\<close>. They are
  separate here, so that what other transactions commit in between is part of the model; the
  whole method is \<open>claim_and_revalidate\<close>, whose argument \<open>meanwhile\<close> is their effect.

  The outcome of each fetch attempt (timeout and pause included) is given by the environment. A lock conflict is raised as the
  \<open>StateConflictError\<close> that \<open>claim_and_revalidate\<close> translates it to.
\<close>

definition DEFAULT_CLAIM_LEASE_SECONDS :: int where
  "DEFAULT_CLAIM_LEASE_SECONDS = 60"

definition TARGET_FETCH_ATTEMPTS :: nat where
  "TARGET_FETCH_ATTEMPTS = 2"

record execution_permit =
  pm_tenant_id :: string
  pm_intent_id :: uuid
  pm_revision :: int
  pm_intent_digest :: string
  pm_tool :: tool_name
  pm_typed_parameters :: dict
  pm_operation_key :: string
  pm_precondition_token :: string
  pm_resource_version :: "string option"
  pm_execution_id :: row_id
  pm_issued_at :: instant

record revalidation_failure =
  rf_state :: intent_state
  rf_reason_code :: string
  rf_execution_id :: row_id

definition pm_key :: "execution_permit \<Rightarrow> intent_key" where
  "pm_key p = (pm_tenant_id p, pm_intent_id p, pm_revision p)"

definition operation_key_for :: "intent_key \<Rightarrow> string" where
  "operation_key_for k = fst k @ '':'' @ uuid_str (fst (snd k)) @ '':'' @ int_str (snd (snd k))"

definition recompute_digest :: "(string \<Rightarrow> string) \<Rightarrow> intent_row \<Rightarrow> string" where
  "recompute_digest sha i =
     sha (dumps_sorted
       (JObj [(''digest_version'', JStr ''1''), (''tenant_id'', JStr (ai_tenant_id i)),
              (''requester_id'', JStr (ai_requester_id i)), (''tool'', JStr (tool_value (ai_tool i))),
              (''revision'', JInt (ai_revision i)), (''parameters'', JObj (ai_canonical_parameters i))]))"

definition is_stricter :: "policy_disposition \<Rightarrow> policy_disposition \<Rightarrow> bool" where
  "is_stricter current original \<longleftrightarrow> original < current"

definition route_stricter :: "approval_route \<Rightarrow> approval_route \<Rightarrow> bool" where
  "route_stricter current original \<longleftrightarrow> original < current"

definition policy_stricter :: "policy_evaluation \<Rightarrow> policy_row \<Rightarrow> bool" where
  "policy_stricter current original \<longleftrightarrow>
     is_stricter (pv_disposition current) (pr_disposition original) \<or>
     route_stricter (pv_route current) (pr_route original) \<or>
     \<not> set (pv_required_roles current) \<subseteq> set (pr_required_roles original) \<or>
     \<not> set (pv_required_scopes current) \<subseteq> set (pr_required_scopes original) \<or>
     \<not> set (pv_obligations current) \<subseteq> set (pr_obligations original) \<or>
     (case (pv_approval_ttl_seconds current, pr_approval_ttl_seconds original) of
        (Some c, Some t) \<Rightarrow> c < t
      | _ \<Rightarrow> False)"

definition TARGET_IDENTITY_FIELDS :: "string list" where
  "TARGET_IDENTITY_FIELDS = [''service'', ''resource_id'', ''name'']"

section \<open>The checks of the gates\<close>

definition approver_failure_reason ::
  "db \<Rightarrow> string \<Rightarrow> string \<Rightarrow> string list \<Rightarrow> string list \<Rightarrow> instant \<Rightarrow> string option \<Rightarrow> string option" where
  "approver_failure_reason d tenant actor required_roles required_scopes at environment =
     (let assignments = load_assignments d tenant actor
      in if required_roles \<noteq> [] \<and>
            \<not> list_ex (\<lambda>r. r \<in> evaluate_current_roles assignments at environment) required_roles
         then Some ''approver_no_longer_authorized''
         else if required_scopes \<noteq> [] \<and>
                 \<not> set required_scopes \<subseteq> evaluate_current_scopes assignments at environment
         then Some ''approver_scopes_revoked''
         else None)"

text \<open>\<open>level_actor.setdefault\<close>: the first decision of each level counts.\<close>

definition level_actor :: "int \<Rightarrow> decision_row list \<Rightarrow> string option" where
  "level_actor level ds = map_option dr_actor_id (find (\<lambda>r. dr_level r = level) ds)"

definition critical_levels_failure_reason ::
  "db \<Rightarrow> intent_row \<Rightarrow> decision_row list \<Rightarrow> string list \<Rightarrow> string list \<Rightarrow> instant \<Rightarrow> string option" where
  "critical_levels_failure_reason d i ds required_roles required_scopes at =
     (if length required_roles < 2 then Some ''approver_no_longer_authorized''
      else
        (let environment = env_text (intent_environment i)
         in (case (level_actor 1 ds, level_actor 2 ds) of
               (Some a1, Some a2) \<Rightarrow>
                 (if a1 = a2 then Some ''approver_no_longer_authorized''
                  else
                    (case approver_failure_reason d (ai_tenant_id i) a1 [required_roles ! 0]
                            required_scopes at environment of
                       Some reason \<Rightarrow> Some reason
                     | None \<Rightarrow>
                         approver_failure_reason d (ai_tenant_id i) a2 [required_roles ! 1]
                           required_scopes at environment))
             | _ \<Rightarrow> Some ''approver_no_longer_authorized'')))"

text \<open>The loop of the single route: authorised approvers are counted, the last failure is kept.\<close>

fun count_authorized ::
  "(string \<Rightarrow> string option) \<Rightarrow> decision_row list \<Rightarrow> nat \<Rightarrow> string option \<Rightarrow> nat \<times> string option" where
  "count_authorized failure [] n last_reason = (n, last_reason)"
| "count_authorized failure (r # rs) n last_reason =
     (case failure (dr_actor_id r) of
        None \<Rightarrow> count_authorized failure rs (n + 1) last_reason
      | Some reason \<Rightarrow> count_authorized failure rs n (Some reason))"

definition approving_decisions :: "intent_key \<Rightarrow> db \<Rightarrow> decision_row list" where
  "approving_decisions k d = filter (\<lambda>r. dr_key r = k \<and> dr_decision r = APPROVE) (db_decisions d)"

definition approval_gate :: "env \<Rightarrow> intent_row \<Rightarrow> policy_row \<Rightarrow> db \<Rightarrow> string option" where
  "approval_gate ev i p d =
     (let ds = approving_decisions (ai_key i) d; environment = env_text (intent_environment i)
      in (case pr_route p of
            NONE \<Rightarrow> None
          | CRITICAL_TWO_STEP \<Rightarrow>
              critical_levels_failure_reason d i ds (pr_required_roles p) (pr_required_scopes p) (ev_db_now ev)
          | SINGLE \<Rightarrow>
              (let (n, last_reason) =
                 count_authorized
                   (\<lambda>a. approver_failure_reason d (ai_tenant_id i) a (pr_required_roles p)
                          (pr_required_scopes p) (ev_db_now ev) environment) ds 0 None
               in if n < 1
                  then Some (case last_reason of None \<Rightarrow> ''approver_no_longer_authorized'' | Some r \<Rightarrow> r)
                  else None)))"

fun identity_mismatch :: "string list \<Rightarrow> dict \<Rightarrow> dict \<Rightarrow> bool" where
  "identity_mismatch [] parameters identity = False"
| "identity_mismatch (f # fs) parameters identity =
     (let expected = dget f parameters
      in if expected \<noteq> JNull \<and> dget f identity \<noteq> expected then True
         else identity_mismatch fs parameters identity)"

definition check_preconditions :: "dict \<Rightarrow> target_snapshot \<Rightarrow> string option" where
  "check_preconditions parameters snapshot =
     (if \<not> ts_found snapshot then Some ''target_missing''
      else if ts_health snapshot = ''degraded'' then Some ''target_degraded''
      else if identity_mismatch TARGET_IDENTITY_FIELDS parameters (ts_identity snapshot)
      then Some ''target_replaced''
      else None)"

text \<open>What a gate answers: a failure with the state it leads to, or the stored snapshot.\<close>

definition snapshot_dict :: "target_snapshot \<Rightarrow> dict" where
  "snapshot_dict s =
     [(''identity'', JObj (ts_identity s)), (''health'', JStr (ts_health s)), (''facts'', JObj (ts_facts s)),
      (''resource_version'', case ts_resource_version s of None \<Rightarrow> JNull | Some v \<Rightarrow> JStr v)]"

definition revalidate_gates ::
  "(string \<Rightarrow> string) \<Rightarrow> env \<Rightarrow> intent_row \<Rightarrow> policy_bundle \<Rightarrow> target_snapshot \<Rightarrow> db
     \<Rightarrow> exn + (intent_state \<times> string) option" where
  "revalidate_gates sha ev i bundle snapshot d =
     (if recompute_digest sha i \<noteq> ai_intent_digest i then Inr (Some (STALE, ''digest_mismatch''))
      else
        (case scalar_one (policy_rows_for (ai_key i) d) of
           Inl e \<Rightarrow> Inl e
         | Inr p \<Rightarrow>
             if (case ai_approval_expires_at i of None \<Rightarrow> False | Some t \<Rightarrow> t \<le> ev_db_now ev)
             then Inr (Some (EXPIRED, ''approval_ttl_elapsed''))
             else
               (case approval_gate ev i p d of
                  Some reason \<Rightarrow> Inr (Some (STALE, reason))
                | None \<Rightarrow>
                    (let risk = evaluate_risk (ai_tool i) (ai_canonical_parameters i) default_context
                     in (case evaluate_policy (ai_tool i) risk (ai_canonical_parameters i) bundle of
                           Inl e \<Rightarrow> Inl e
                         | Inr current \<Rightarrow>
                             if pv_disposition current = BLOCK
                             then Inr (Some (STALE, ''policy_now_blocks''))
                             else if policy_stricter current p \<and> pv_disposition current \<noteq> ALLOW
                             then Inr (Some (STALE, ''policy_route_stricter''))
                             else
                               (case check_preconditions (ai_canonical_parameters i) snapshot of
                                  Some reason \<Rightarrow> Inr (Some (STALE, reason))
                                | None \<Rightarrow> Inr None))))))"

section \<open>Recording a transition\<close>

definition worker_args :: "env \<Rightarrow> string \<Rightarrow> string \<Rightarrow> string \<Rightarrow> transition_args" where
  "worker_args ev worker_id command_id reason =
     \<lparr>ta_actor_type = ''system'', ta_actor_id = worker_id, ta_command_id = command_id,
      ta_reason_code = reason, ta_occurred_at = ev_db_now ev, ta_created_at = ev_db_now ev\<rparr>"

definition revalidation_payload :: "transition_args \<Rightarrow> intent_row \<Rightarrow> intent_state \<Rightarrow> dict" where
  "revalidation_payload a i target =
     [(''tenant_id'', JStr (ai_tenant_id i)), (''intent_id'', JStr (uuid_str (ai_intent_id i))),
      (''revision'', JInt (ai_revision i)), (''from_state'', JStr (state_value (ai_state i))),
      (''to_state'', JStr (state_value target)), (''reason_code'', JStr (ta_reason_code a)),
      (''actor_id'', JStr (ta_actor_id a)), (''command_id'', JStr (ta_command_id a))]"

definition record_revalidation_transition ::
  "transition_args \<Rightarrow> intent_row \<Rightarrow> intent_state \<Rightarrow> db \<Rightarrow> exn + (intent_row \<times> db)" where
  "record_revalidation_transition a i target d =
     (case require_transition (ai_state i) target of
        Inl e \<Rightarrow> Inl e
      | Inr _ \<Rightarrow>
          (let sequence = next_sequence i d; i' = advance_intent i target
           in Inr (i', save_intent i'
                 (add_outbox (ta_created_at a) ''intent.transitioned'' (revalidation_payload a i target)
                   (add_transition (transition_row_of a i target sequence) d)))))"

interpretation revalidation_recorder: transition_recorder record_revalidation_transition
proof
  show "\<exists>m. record_revalidation_transition a i s d = Inl (raise_error IllegalTransitionError m)"
    if "\<not> is_legal (ai_state i) s" for a i s d
    using that by (simp add: record_revalidation_transition_def require_transition_def) blast
next
  show "\<exists>t now topic p. record_revalidation_transition a i s d =
        Inr (advance_intent i s,
             save_intent (advance_intent i s) (add_outbox now topic p (add_transition t d))) \<and>
        recorded_row i (Some (ai_state i)) s (next_sequence i d) t \<and> outbox_about i s p"
    if "is_legal (ai_state i) s" for a i s d
    using that transition_row_of_recorded [of i s "next_sequence i d" a]
    by (fastforce simp: record_revalidation_transition_def require_transition_def Let_def
        outbox_about_def revalidation_payload_def)
qed

section \<open>Phase 1: the claim\<close>

definition executions_for :: "intent_key \<Rightarrow> db \<Rightarrow> execution_row list" where
  "executions_for k d =
     filter (\<lambda>x. xr_intent_id x = fst (snd k) \<and> xr_intent_revision x = snd (snd k)) (db_executions d)"

definition new_execution :: "intent_key \<Rightarrow> instant \<Rightarrow> row_id \<Rightarrow> execution_row" where
  "new_execution k lease_end n =
     \<lparr>xr_id = n, xr_tenant_id = fst k, xr_intent_id = fst (snd k), xr_intent_revision = snd (snd k),
      xr_operation_key = operation_key_for k, xr_attempt = 1, xr_status = EX_CLAIMED,
      xr_provider_operation_id = None, xr_precondition_snapshot = None,
      xr_claim_expires_at = Some lease_end, xr_started_at = None, xr_finished_at = None,
      xr_error_code = None, xr_result_summary = None, xr_reconcile_attempts = 0,
      xr_next_reconcile_at = None\<rparr>"

definition add_execution :: "execution_row \<Rightarrow> db \<Rightarrow> db" where
  "add_execution x d = d\<lparr>db_executions := db_executions d @ [x], db_next_id := db_next_id d + 1\<rparr>"

definition retake :: "instant \<Rightarrow> execution_row \<Rightarrow> execution_row" where
  "retake lease_end x =
     x\<lparr>xr_attempt := xr_attempt x + 1, xr_status := EX_CLAIMED, xr_claim_expires_at := Some lease_end,
       xr_error_code := None\<rparr>"

definition claim_execution :: "env \<Rightarrow> intent_key \<Rightarrow> int \<Rightarrow> db \<Rightarrow> exn + db" where
  "claim_execution ev k lease_seconds d =
     (let lease_end = ev_db_now ev + seconds lease_seconds
      in (case scalar_one_or_none (executions_for k d) of
            Inl e \<Rightarrow> Inl e
          | Inr (Some x) \<Rightarrow>
              (if xr_status x = EX_CLAIMED \<and>
                  (case xr_claim_expires_at x of None \<Rightarrow> False | Some t \<Rightarrow> t > ev_db_now ev)
               then Inl (raise_error StateConflictError ''execution already claimed by another worker'')
               else Inr (save_execution (retake lease_end x) d))
          | Inr None \<Rightarrow> Inr (add_execution (new_execution k lease_end (db_next_id d)) d)))"

definition select_for_update :: "env \<Rightarrow> intent_key \<Rightarrow> db \<Rightarrow> exn + intent_row" where
  "select_for_update ev k d =
     (if row_locked ev k
      then Inl (raise_error StateConflictError ''row lock or serialization conflict; retry'')
      else (case get_intent k d of
              None \<Rightarrow> Inl (raise_error NotFoundError ''intent revision not found'')
            | Some i \<Rightarrow> Inr i))"

definition claim ::
  "env \<Rightarrow> intent_key \<Rightarrow> string \<Rightarrow> string \<Rightarrow> int \<Rightarrow> db \<Rightarrow> (exn + (tool_name \<times> dict)) \<times> db" where
  "claim ev k worker_id command_id lease_seconds d =
     (case select_for_update ev k d of
        Inl e \<Rightarrow> (Inl e, d)
      | Inr i \<Rightarrow>
          if ai_state i \<noteq> AUTO_APPROVED \<and> ai_state i \<noteq> APPROVED
          then (Inl (raise_error StateConflictError
                 (''intent is not executable in state '' @ state_value (ai_state i))), d)
          else
            (case claim_execution ev k lease_seconds d of
               Inl e \<Rightarrow> (Inl e, d)
             | Inr d1 \<Rightarrow>
                 (case record_revalidation_transition (worker_args ev worker_id command_id ''execution_claimed'')
                         i REVALIDATING d1 of
                    Inl e \<Rightarrow> (Inl e, d1)
                  | Inr (i', d2) \<Rightarrow> (Inr (ai_tool i', ai_canonical_parameters i'), d2))))"

section \<open>Phase 2: the fetch\<close>

text \<open>At most \<open>TARGET_FETCH_ATTEMPTS\<close> attempts; the reason of the last failure is kept.\<close>

fun fetch_target :: "(nat \<Rightarrow> exn + target_snapshot) \<Rightarrow> nat \<Rightarrow> nat \<Rightarrow> string \<Rightarrow> string + target_snapshot" where
  "fetch_target fetch 0 attempt reason = Inl reason"
| "fetch_target fetch (Suc n) attempt reason =
     (case fetch attempt of
        Inr s \<Rightarrow> Inr s
      | Inl e \<Rightarrow> fetch_target fetch n (attempt + 1)
          (if e = TimeoutError then ''target_fetch_timeout'' else ''target_fetch_failed''))"

section \<open>Phase 3: the gates\<close>

text \<open>
  \<open>json.dumps\<close> with its default \<open>ensure_ascii\<close>: every character outside printable ASCII is escaped.
\<close>

definition code_point :: "string \<Rightarrow> int" where
  "code_point p =
     (case map of_char p of
        [a] \<Rightarrow> a
      | [a, b] \<Rightarrow> (a - 192) * 64 + (b - 128)
      | [a, b, c] \<Rightarrow> (a - 224) * 4096 + (b - 128) * 64 + (c - 128)
      | [a, b, c, e] \<Rightarrow> (a - 240) * 262144 + (b - 128) * 4096 + (c - 128) * 64 + (e - 128)
      | _ \<Rightarrow> 0)"

definition ascii_escape :: "string \<Rightarrow> string" where
  "ascii_escape p =
     (let n = code_point p
      in if 32 \<le> n \<and> n \<le> 126 then p
         else if n < 65536 then [CHR 0x5C, CHR ''u''] @ hex_str 4 (nat n)
         else [CHR 0x5C, CHR ''u''] @ hex_str 4 (nat (55296 + (n - 65536) div 1024)) @
              [CHR 0x5C, CHR ''u''] @ hex_str 4 (nat (56320 + (n - 65536) mod 1024)))"

definition dumps_ascii :: "json \<Rightarrow> string" where
  "dumps_ascii v = concat (map ascii_escape (utf8_chars (dumps_sorted v)))"

definition claimed_row :: "env \<Rightarrow> intent_key \<Rightarrow> db \<Rightarrow> exn + (intent_row \<times> execution_row)" where
  "claimed_row ev k d =
     (case select_for_update ev k d of
        Inl e \<Rightarrow> Inl e
      | Inr i \<Rightarrow>
          if ai_state i \<noteq> REVALIDATING
          then Inl (raise_error StateConflictError
                 (''claim lost while fetching target: '' @ state_value (ai_state i)))
          else (case scalar_one (executions_for k d) of
                  Inl e \<Rightarrow> Inl e
                | Inr x \<Rightarrow> Inr (i, x)))"

definition fail_execution :: "env \<Rightarrow> string \<Rightarrow> execution_row \<Rightarrow> execution_row" where
  "fail_execution ev reason x =
     x\<lparr>xr_status := EX_FAILED, xr_error_code := Some reason, xr_finished_at := Some (ev_db_now ev)\<rparr>"

definition record_failure ::
  "env \<Rightarrow> string \<Rightarrow> string \<Rightarrow> intent_row \<Rightarrow> execution_row \<Rightarrow> intent_state \<Rightarrow> string \<Rightarrow> db
     \<Rightarrow> (exn + revalidation_failure) \<times> db" where
  "record_failure ev worker_id command_id i x target reason d =
     (case record_revalidation_transition (worker_args ev worker_id command_id reason) i target d of
        Inl e \<Rightarrow> (Inl e, d)
      | Inr (i', d1) \<Rightarrow>
          (Inr \<lparr>rf_state = target, rf_reason_code = reason, rf_execution_id = xr_id x\<rparr>,
           save_execution (fail_execution ev reason x) d1))"

definition fail_after_fetch_failure ::
  "env \<Rightarrow> intent_key \<Rightarrow> string \<Rightarrow> string \<Rightarrow> string \<Rightarrow> db \<Rightarrow> (exn + revalidation_failure) \<times> db" where
  "fail_after_fetch_failure ev k worker_id command_id reason d =
     (case claimed_row ev k d of
        Inl e \<Rightarrow> (Inl e, d)
      | Inr (i, x) \<Rightarrow> record_failure ev worker_id command_id i x STALE reason d)"

definition issue_permit ::
  "(string \<Rightarrow> string) \<Rightarrow> env \<Rightarrow> intent_key \<Rightarrow> intent_row \<Rightarrow> execution_row \<Rightarrow> execution_permit" where
  "issue_permit sha ev k i x =
     (let stored = (case xr_precondition_snapshot x of None \<Rightarrow> JNull | Some s \<Rightarrow> JObj s);
          fields_stored = (case xr_precondition_snapshot x of None \<Rightarrow> [] | Some s \<Rightarrow> s)
      in \<lparr>pm_tenant_id = fst k, pm_intent_id = fst (snd k), pm_revision = snd (snd k),
          pm_intent_digest = ai_intent_digest i, pm_tool = ai_tool i,
          pm_typed_parameters = ai_canonical_parameters i, pm_operation_key = operation_key_for k,
          pm_precondition_token = sha (dumps_ascii stored),
          pm_resource_version = env_text (dget ''resource_version'' fields_stored),
          pm_execution_id = xr_id x, pm_issued_at = ev_db_now ev\<rparr>)"

definition start_execution :: "env \<Rightarrow> target_snapshot \<Rightarrow> execution_row \<Rightarrow> execution_row" where
  "start_execution ev snapshot x =
     x\<lparr>xr_precondition_snapshot := Some (snapshot_dict snapshot), xr_status := EX_EXECUTING,
       xr_started_at := Some (ev_db_now ev)\<rparr>"

definition revalidate ::
  "(string \<Rightarrow> string) \<Rightarrow> env \<Rightarrow> intent_key \<Rightarrow> string \<Rightarrow> string \<Rightarrow> policy_bundle \<Rightarrow> target_snapshot \<Rightarrow> db
     \<Rightarrow> (exn + (revalidation_failure + execution_permit)) \<times> db" where
  "revalidate sha ev k worker_id command_id bundle snapshot d =
     (case claimed_row ev k d of
        Inl e \<Rightarrow> (Inl e, d)
      | Inr (i, x) \<Rightarrow>
          (case revalidate_gates sha ev i bundle snapshot d of
             Inl e \<Rightarrow> (Inl e, d)
           | Inr (Some (target, reason)) \<Rightarrow>
               (case record_failure ev worker_id command_id i x target reason d of
                  (Inl e, d1) \<Rightarrow> (Inl e, d1)
                | (Inr f, d1) \<Rightarrow> (Inr (Inl f), d1))
           | Inr None \<Rightarrow>
               (case record_revalidation_transition
                       (worker_args ev worker_id command_id ''revalidation_passed'') i EXECUTING d of
                  Inl e \<Rightarrow> (Inl e, d)
                | Inr (i', d1) \<Rightarrow>
                    (let x' = start_execution ev snapshot x; d2 = save_execution x' d1
                     in (case flush d2 of
                           Inl e \<Rightarrow> (Inl e, d2)
                         | Inr _ \<Rightarrow> (Inr (Inr (issue_permit sha ev k i' x')), d2))))))"

section \<open>The whole method\<close>

definition claim_and_revalidate ::
  "(string \<Rightarrow> string) \<Rightarrow> env \<Rightarrow> env \<Rightarrow> intent_key \<Rightarrow> string \<Rightarrow> string \<Rightarrow> policy_bundle
     \<Rightarrow> (tool_name \<Rightarrow> dict \<Rightarrow> nat \<Rightarrow> exn + target_snapshot) \<Rightarrow> (db \<Rightarrow> db) \<Rightarrow> db
     \<Rightarrow> (exn + (revalidation_failure + execution_permit)) \<times> db" where
  "claim_and_revalidate sha ev ev' k worker_id command_id bundle fetch meanwhile d =
     (case transaction (claim ev k worker_id command_id DEFAULT_CLAIM_LEASE_SECONDS) d of
        (Inl e, d1) \<Rightarrow> (Inl e, d1)
      | (Inr (tool, parameters), d1) \<Rightarrow>
          (case fetch_target (fetch tool parameters) TARGET_FETCH_ATTEMPTS 1 ''target_fetch_failed'' of
             Inl reason \<Rightarrow>
               (case transaction (fail_after_fetch_failure ev' k worker_id command_id reason) (meanwhile d1) of
                  (Inl e, d2) \<Rightarrow> (Inl e, d2)
                | (Inr f, d2) \<Rightarrow> (Inr (Inl f), d2))
           | Inr snapshot \<Rightarrow>
               transaction (revalidate sha ev' k worker_id command_id bundle snapshot) (meanwhile d1)))"

section \<open>The claim\<close>

lemma add_execution_fields [simp]:
  "db_intents (add_execution x d) = db_intents d" "db_transitions (add_execution x d) = db_transitions d"
  "db_policy (add_execution x d) = db_policy d" "db_decisions (add_execution x d) = db_decisions d"
  "db_executions (add_execution x d) = db_executions d @ [x]" "db_roles (add_execution x d) = db_roles d"
  "db_bundles (add_execution x d) = db_bundles d" "get_intent k (add_execution x d) = get_intent k d"
  by (simp_all add: add_execution_def get_intent_def)

lemma claim_execution_frame:
  assumes "claim_execution ev k lease d = Inr d1"
  shows "db_intents d1 = db_intents d" "db_transitions d1 = db_transitions d"
    "db_policy d1 = db_policy d" "db_decisions d1 = db_decisions d" "db_roles d1 = db_roles d"
    "db_bundles d1 = db_bundles d"
  using assms
  by (auto simp: claim_execution_def Let_def split: sum.splits option.splits if_splits)

lemma select_for_update_Inr:
  "select_for_update ev k d = Inr i \<longleftrightarrow> \<not> row_locked ev k \<and> get_intent k d = Some i"
  by (auto simp: select_for_update_def split: option.splits)

lemma claim_Inr:
  assumes "claim ev k w c lease d = (Inr r, d')"
  shows "\<exists>i d1. get_intent k d = Some i \<and> \<not> row_locked ev k \<and>
      (ai_state i = AUTO_APPROVED \<or> ai_state i = APPROVED) \<and>
      claim_execution ev k lease d = Inr d1 \<and>
      record_revalidation_transition (worker_args ev w c ''execution_claimed'') i REVALIDATING d1 =
        Inr (advance_intent i REVALIDATING, d')"
  using assms revalidation_recorder.recorder_Inr
  by (auto simp: claim_def select_for_update_Inr split: sum.splits if_splits)

lemma claim_evolves:
  assumes "claim ev k w c lease d = (Inr r, d')"
  shows "evolves d d'"
proof -
  from claim_Inr [OF assms] obtain i d1 where i: "get_intent k d = Some i"
    and c: "claim_execution ev k lease d = Inr d1"
    and r: "record_revalidation_transition (worker_args ev w c ''execution_claimed'') i REVALIDATING d1 =
        Inr (advance_intent i REVALIDATING, d')" by blast
  have "evolves d d1" by (rule evolves_frame) (simp_all add: claim_execution_frame [OF c])
  moreover have "i \<in> set (db_intents d1)"
    using get_intent_SomeD [OF i] claim_execution_frame [OF c] by simp
  with r have "evolves d1 d'"
    by (rule revalidation_recorder.recorder_evolves) (simp add: evidence_plain)
  ultimately show ?thesis by simp
qed

section \<open>The gates\<close>

definition holds_role :: "db \<Rightarrow> string \<Rightarrow> string \<Rightarrow> string \<Rightarrow> instant \<Rightarrow> string option \<Rightarrow> bool" where
  "holds_role d tenant actor role at environment \<longleftrightarrow>
     (\<exists>r \<in> set (db_roles d). row_in_force r tenant actor at environment \<and> ra_role r = role)"

definition holds_scope :: "db \<Rightarrow> string \<Rightarrow> string \<Rightarrow> string \<Rightarrow> instant \<Rightarrow> string option \<Rightarrow> bool" where
  "holds_scope d tenant actor sc at environment \<longleftrightarrow>
     (\<exists>r \<in> set (db_roles d). row_in_force r tenant actor at environment \<and>
        (\<exists>ss. ra_scopes r = Some ss \<and> sc \<in> set ss))"

definition authorized :: "db \<Rightarrow> string \<Rightarrow> string \<Rightarrow> string list \<Rightarrow> string list \<Rightarrow> instant \<Rightarrow> string option \<Rightarrow> bool" where
  "authorized d tenant actor roles scopes at environment \<longleftrightarrow>
     (roles = [] \<or> (\<exists>r \<in> set roles. holds_role d tenant actor r at environment)) \<and>
     (\<forall>sc \<in> set scopes. holds_scope d tenant actor sc at environment)"

lemma approver_failure_reason_None:
  "approver_failure_reason d tenant actor roles scopes at environment = None \<longleftrightarrow>
     authorized d tenant actor roles scopes at environment"
  by (auto simp: approver_failure_reason_def Let_def list_ex_iff authorized_def holds_role_def
      holds_scope_def roles_iff scopes_iff subset_iff)

lemma count_authorized_fst:
  "fst (count_authorized f rs n l) = n + length (filter (\<lambda>r. f (dr_actor_id r) = None) rs)"
  by (induction f rs n l rule: count_authorized.induct) (auto split: option.splits)

definition approvals_stand :: "env \<Rightarrow> intent_row \<Rightarrow> policy_row \<Rightarrow> db \<Rightarrow> bool" where
  "approvals_stand ev i p d \<longleftrightarrow>
     (let environment = env_text (intent_environment i); at = ev_db_now ev;
          roles = pr_required_roles p; scopes = pr_required_scopes p; tenant = ai_tenant_id i
      in (case pr_route p of
            NONE \<Rightarrow> True
          | SINGLE \<Rightarrow>
              (\<exists>r \<in> set (approving_decisions (ai_key i) d).
                 authorized d tenant (dr_actor_id r) roles scopes at environment)
          | CRITICAL_TWO_STEP \<Rightarrow>
              (\<exists>r1 \<in> set (approving_decisions (ai_key i) d). \<exists>r2 \<in> set (approving_decisions (ai_key i) d).
                 dr_level r1 = 1 \<and> dr_level r2 = 2 \<and> dr_actor_id r1 \<noteq> dr_actor_id r2 \<and> 2 \<le> length roles \<and>
                 authorized d tenant (dr_actor_id r1) [roles ! 0] scopes at environment \<and>
                 authorized d tenant (dr_actor_id r2) [roles ! 1] scopes at environment)))"

lemma level_actor_Some:
  "level_actor l ds = Some a \<Longrightarrow> \<exists>r \<in> set ds. dr_level r = l \<and> dr_actor_id r = a"
  unfolding level_actor_def by (auto dest!: find_SomeD)

lemma critical_levels_None:
  assumes "critical_levels_failure_reason d i ds roles scopes at = None"
  shows "\<exists>a1 a2. level_actor 1 ds = Some a1 \<and> level_actor 2 ds = Some a2 \<and> a1 \<noteq> a2 \<and> 2 \<le> length roles \<and>
      authorized d (ai_tenant_id i) a1 [roles ! 0] scopes at (env_text (intent_environment i)) \<and>
      authorized d (ai_tenant_id i) a2 [roles ! 1] scopes at (env_text (intent_environment i))"
  using assms
  by (auto simp: critical_levels_failure_reason_def Let_def approver_failure_reason_None
      split: if_splits option.splits)

lemma approval_gate_None:
  assumes "approval_gate ev i p d = None"
  shows "approvals_stand ev i p d"
proof (cases "pr_route p")
  case NONE
  then show ?thesis by (simp add: approvals_stand_def Let_def)
next
  case SINGLE
  let ?f = "\<lambda>a. approver_failure_reason d (ai_tenant_id i) a (pr_required_roles p)
     (pr_required_scopes p) (ev_db_now ev) (env_text (intent_environment i))"
  from assms SINGLE have "0 < fst (count_authorized ?f (approving_decisions (ai_key i) d) 0 None)"
    by (auto simp: approval_gate_def Let_def split: prod.splits if_splits option.splits)
  then have "filter (\<lambda>r. ?f (dr_actor_id r) = None) (approving_decisions (ai_key i) d) \<noteq> []"
    by (simp add: count_authorized_fst)
  then obtain r where "r \<in> set (approving_decisions (ai_key i) d)" "?f (dr_actor_id r) = None"
    unfolding filter_empty_conv by blast
  with SINGLE show ?thesis
    by (auto simp: approvals_stand_def Let_def approver_failure_reason_None)
next
  case CRITICAL_TWO_STEP
  let ?ds = "approving_decisions (ai_key i) d"
  from assms CRITICAL_TWO_STEP
  have "critical_levels_failure_reason d i ?ds (pr_required_roles p) (pr_required_scopes p) (ev_db_now ev) = None"
    by (simp add: approval_gate_def Let_def)
  from critical_levels_None [OF this] obtain a1 a2
    where a: "level_actor 1 ?ds = Some a1" "level_actor 2 ?ds = Some a2" "a1 \<noteq> a2" "2 \<le> length (pr_required_roles p)"
      "authorized d (ai_tenant_id i) a1 [pr_required_roles p ! 0] (pr_required_scopes p) (ev_db_now ev)
         (env_text (intent_environment i))"
      "authorized d (ai_tenant_id i) a2 [pr_required_roles p ! 1] (pr_required_scopes p) (ev_db_now ev)
         (env_text (intent_environment i))" by blast
  from level_actor_Some [OF a(1)] level_actor_Some [OF a(2)] a(3-6) CRITICAL_TWO_STEP
  show ?thesis by (auto simp: approvals_stand_def Let_def)
qed

definition target_matches :: "dict \<Rightarrow> target_snapshot \<Rightarrow> bool" where
  "target_matches parameters snapshot \<longleftrightarrow>
     ts_found snapshot \<and> ts_health snapshot \<noteq> ''degraded'' \<and>
     (\<forall>f \<in> {''service'', ''resource_id'', ''name''}.
        dget f parameters = JNull \<or> dget f (ts_identity snapshot) = dget f parameters)"

lemma check_preconditions_None: "check_preconditions parameters snapshot = None \<longleftrightarrow> target_matches parameters snapshot"
  by (simp add: check_preconditions_def target_matches_def TARGET_IDENTITY_FIELDS_def Let_def)

definition window_open :: "env \<Rightarrow> intent_row \<Rightarrow> bool" where
  "window_open ev i \<longleftrightarrow> (case ai_approval_expires_at i of None \<Rightarrow> True | Some t \<Rightarrow> ev_db_now ev < t)"

definition policy_stands :: "intent_row \<Rightarrow> policy_row \<Rightarrow> policy_bundle \<Rightarrow> bool" where
  "policy_stands i p bundle \<longleftrightarrow>
     (\<exists>current. evaluate_policy (ai_tool i)
         (evaluate_risk (ai_tool i) (ai_canonical_parameters i) default_context)
         (ai_canonical_parameters i) bundle = Inr current \<and>
       pv_disposition current \<noteq> BLOCK \<and> (policy_stricter current p \<longrightarrow> pv_disposition current = ALLOW))"

lemma revalidate_gates_None:
  assumes "revalidate_gates sha ev i bundle snapshot d = Inr None"
  shows "\<exists>p. recompute_digest sha i = ai_intent_digest i \<and> policy_rows_for (ai_key i) d = [p] \<and>
      window_open ev i \<and> approvals_stand ev i p d \<and> policy_stands i p bundle \<and>
      target_matches (ai_canonical_parameters i) snapshot"
  using assms
  by (auto simp: revalidate_gates_def Let_def scalar_one_Inr window_open_def policy_stands_def
      check_preconditions_None approval_gate_None
      split: if_splits sum.splits option.splits)

lemma revalidate_gates_states:
  "revalidate_gates sha ev i bundle snapshot d = Inr (Some (s, reason)) \<Longrightarrow> s = STALE \<or> s = EXPIRED"
  by (auto simp: revalidate_gates_def Let_def split: if_splits sum.splits option.splits)

section \<open>The results of the transactions\<close>

lemma claimed_row_Inr:
  "claimed_row ev k d = Inr (i, x) \<longleftrightarrow>
     \<not> row_locked ev k \<and> get_intent k d = Some i \<and> ai_state i = REVALIDATING \<and> executions_for k d = [x]"
  by (cases "select_for_update ev k d")
    (auto simp: claimed_row_def select_for_update_Inr scalar_one_Inr select_for_update_def
      split: sum.splits option.splits if_splits)

lemma record_failure_Inr:
  assumes "record_failure ev w c i x target reason d = (Inr f, d')"
  shows "rf_state f = target \<and> rf_reason_code f = reason \<and> rf_execution_id f = xr_id x \<and>
    (\<exists>d1. record_revalidation_transition (worker_args ev w c reason) i target d = Inr (advance_intent i target, d1) \<and>
       d' = save_execution (fail_execution ev reason x) d1)"
  using assms revalidation_recorder.recorder_Inr
  by (auto simp: record_failure_def split: sum.splits)

lemma evolves_save_execution: "evolves d (save_execution x d)"
  by (rule evolves_frame) simp_all

lemma record_failure_evolves:
  assumes "record_failure ev w c i x target reason d = (Inr f, d')" and "i \<in> set (db_intents d)"
    and "plain_state target"
  shows "evolves d d'"
proof -
  from record_failure_Inr [OF assms(1)] obtain d1
    where r: "record_revalidation_transition (worker_args ev w c reason) i target d = Inr (advance_intent i target, d1)"
      and d': "d' = save_execution (fail_execution ev reason x) d1" by blast
  from revalidation_recorder.recorder_evolves [OF r assms(2) evidence_plain [OF assms(3)]]
  show ?thesis unfolding d' using evolves_save_execution by (rule rtranclp_trans)
qed

lemma fail_after_fetch_failure_Inr:
  assumes "fail_after_fetch_failure ev k w c reason d = (Inr f, d')"
  shows "\<exists>i x. claimed_row ev k d = Inr (i, x) \<and> record_failure ev w c i x STALE reason d = (Inr f, d')"
  using assms by (auto simp: fail_after_fetch_failure_def split: sum.splits)

lemma revalidate_permit:
  assumes "revalidate sha ev k w c bundle snapshot d = (Inr (Inr pm), d')"
  shows "\<exists>i x d1. claimed_row ev k d = Inr (i, x) \<and>
      revalidate_gates sha ev i bundle snapshot d = Inr None \<and>
      record_revalidation_transition (worker_args ev w c ''revalidation_passed'') i EXECUTING d =
        Inr (advance_intent i EXECUTING, d1) \<and>
      d' = save_execution (start_execution ev snapshot x) d1 \<and> flush d' = Inr () \<and>
      pm = issue_permit sha ev k (advance_intent i EXECUTING) (start_execution ev snapshot x)"
  using assms revalidation_recorder.recorder_Inr
  by (auto simp: revalidate_def Let_def split: sum.splits prod.splits option.splits)

lemma revalidate_failure:
  assumes "revalidate sha ev k w c bundle snapshot d = (Inr (Inl f), d')"
  shows "\<exists>i x target reason. claimed_row ev k d = Inr (i, x) \<and>
      revalidate_gates sha ev i bundle snapshot d = Inr (Some (target, reason)) \<and>
      record_failure ev w c i x target reason d = (Inr f, d')"
  using assms
  by (auto simp: revalidate_def Let_def split: sum.splits prod.splits option.splits)

lemma fail_after_fetch_failure_evolves:
  assumes "fail_after_fetch_failure ev k w c reason d = (Inr f, d')"
  shows "evolves d d'"
proof -
  from fail_after_fetch_failure_Inr [OF assms] obtain i x where c: "claimed_row ev k d = Inr (i, x)"
    and r: "record_failure ev w c i x STALE reason d = (Inr f, d')" by blast
  from c have "i \<in> set (db_intents d)" by (auto simp: claimed_row_Inr dest: get_intent_SomeD)
  with record_failure_evolves [OF r] show ?thesis by simp
qed

lemma revalidate_evolves:
  assumes "revalidate sha ev k w c bundle snapshot d = (Inr r, d')"
  shows "evolves d d'"
proof (cases r)
  case (Inl f)
  with assms revalidate_failure obtain i x target reason
    where c: "claimed_row ev k d = Inr (i, x)"
      and g: "revalidate_gates sha ev i bundle snapshot d = Inr (Some (target, reason))"
      and r: "record_failure ev w c i x target reason d = (Inr f, d')" by metis
  from revalidate_gates_states [OF g] have "plain_state target" by auto
  moreover from c have "i \<in> set (db_intents d)" by (auto simp: claimed_row_Inr dest: get_intent_SomeD)
  ultimately show ?thesis using record_failure_evolves [OF r] by blast
next
  case (Inr pm)
  with assms revalidate_permit obtain i x d1
    where c: "claimed_row ev k d = Inr (i, x)"
      and r: "record_revalidation_transition (worker_args ev w c ''revalidation_passed'') i EXECUTING d =
        Inr (advance_intent i EXECUTING, d1)"
      and d': "d' = save_execution (start_execution ev snapshot x) d1" by metis
  from c have "i \<in> set (db_intents d)" by (auto simp: claimed_row_Inr dest: get_intent_SomeD)
  from revalidation_recorder.recorder_evolves [OF r this] have "evolves d d1" by (simp add: evidence_plain)
  then show ?thesis unfolding d' using evolves_save_execution by (rule rtranclp_trans)
qed

end
