(* ===== verification/Scenario_Run.thy ===== *)
theory Scenario_Run
  imports Revalidation Scenario
begin

text \<open>
  The run of \<open>Scenario\<close> continued up to the permit. The two databases are what the worker's
  transactions return; their evaluated form is kept as a code equation, so that a witness that
  starts from one of them does not evaluate the run again.
\<close>

definition sample_snapshot :: target_snapshot where
  "sample_snapshot = fst (demo_fetch RESTART_SERVICE (model_dump sample_parameters) empty_demo)"

definition sample_claimed :: db where
  "sample_claimed =
     snd (transaction (claim (at_second 30) sample_key ''worker'' ''c2'' 60) sample_approved)"

lemma sample_claimed_code [code]:
  "sample_claimed =
     \<lparr>db_intents = [\<lparr>ai_tenant_id = ''t'', ai_intent_id = 7, ai_revision = 1, ai_tool
     = RESTART_SERVICE, ai_canonical_parameters = [(''environment'', JStr ''staging''),
     (''service'', JStr ''web''), (''strategy'', JStr ''rolling'')], ai_intent_digest = ''h'',
     ai_requester_id = ''alice'', ai_requester_rationale = [], ai_raw_proposal = None, ai_source =
     DIRECT, ai_state = REVALIDATING, ai_state_version = 6, ai_approval_expires_at = Some 910000000,
     ai_created_at = 10000000\<rparr>], db_transitions = [\<lparr>st_tenant_id = ''t'', st_intent_id
     = 7, st_intent_revision = 1, st_from_state = None, st_to_state = REQUESTED, st_actor_type =
     ''system'', st_actor_id = ''alice'', st_command_id = ''c0'', st_reason_code =
     ''intent_created'', st_metadata = [(''correlation_id'', JStr ''x'')], st_sequence = 1,
     st_occurred_at = 10000000\<rparr>, \<lparr>st_tenant_id = ''t'', st_intent_id = 7,
     st_intent_revision = 1, st_from_state = Some REQUESTED, st_to_state = RISK_EVALUATED,
     st_actor_type = ''system'', st_actor_id = ''risk-policy-engine'', st_command_id = ''c0:risk'',
     st_reason_code = ''evaluation_recorded'', st_metadata = [(''correlation_id'', JStr ''x'')],
     st_sequence = 2, st_occurred_at = 10000000\<rparr>, \<lparr>st_tenant_id = ''t'', st_intent_id
     = 7, st_intent_revision = 1, st_from_state = Some RISK_EVALUATED, st_to_state =
     POLICY_EVALUATED, st_actor_type = ''system'', st_actor_id = ''risk-policy-engine'',
     st_command_id = ''c0:policy'', st_reason_code = ''evaluation_recorded'', st_metadata =
     [(''correlation_id'', JStr ''x'')], st_sequence = 3, st_occurred_at = 10000000\<rparr>,
     \<lparr>st_tenant_id = ''t'', st_intent_id = 7, st_intent_revision = 1, st_from_state = Some
     POLICY_EVALUATED, st_to_state = PENDING_APPROVAL_1, st_actor_type = ''system'', st_actor_id =
     ''risk-policy-engine'', st_command_id = ''c0:route'', st_reason_code = ''evaluation_recorded'',
     st_metadata = [(''correlation_id'', JStr ''x'')], st_sequence = 4, st_occurred_at =
     10000000\<rparr>, \<lparr>st_tenant_id = ''t'', st_intent_id = 7, st_intent_revision = 1,
     st_from_state = Some PENDING_APPROVAL_1, st_to_state = APPROVED, st_actor_type = ''human'',
     st_actor_id = ''bob'', st_command_id = ''c1:approved:5'', st_reason_code =
     ''approval_approve'', st_metadata = [], st_sequence = 5, st_occurred_at = 20000000\<rparr>,
     \<lparr>st_tenant_id = ''t'', st_intent_id = 7, st_intent_revision = 1, st_from_state = Some
     APPROVED, st_to_state = REVALIDATING, st_actor_type = ''system'', st_actor_id = ''worker'',
     st_command_id = ''c2:revalidating:6'', st_reason_code = ''execution_claimed'', st_metadata =
     [], st_sequence = 6, st_occurred_at = 30000000\<rparr>], db_idempotency = [], db_outbox =
     [\<lparr>ob_id = 3, ob_sequence = 1, ob_topic = ''intent.created'', ob_payload =
     [(''tenant_id'', JStr ''t''), (''intent_id'', JStr ''00000000-0000-0000-0000-000000000007''),
     (''revision'', JInt 1), (''tool'', JStr ''restart_service''), (''intent_digest'', JStr ''h''),
     (''command_id'', JStr ''c0''), (''correlation_id'', JStr ''x'')], ob_attempts = 0,
     ob_next_attempt_at = None, ob_published_at = None, ob_claimed_by = None, ob_claim_expires_at =
     None, ob_created_at = 10000000\<rparr>, \<lparr>ob_id = 4, ob_sequence = 2, ob_topic =
     ''risk.evaluated'', ob_payload = [(''tenant_id'', JStr ''t''), (''intent_id'', JStr
     ''00000000-0000-0000-0000-000000000007''), (''revision'', JInt 1), (''band'', JStr ''HIGH''),
     (''factors'', JList []), (''rule_version'', JStr ''risk-rules-1''), (''command_id'', JStr
     ''c0:risk''), (''correlation_id'', JStr ''x'')], ob_attempts = 0, ob_next_attempt_at = None,
     ob_published_at = None, ob_claimed_by = None, ob_claim_expires_at = None, ob_created_at =
     10000000\<rparr>, \<lparr>ob_id = 5, ob_sequence = 3, ob_topic = ''policy.evaluated'',
     ob_payload = [(''tenant_id'', JStr ''t''), (''intent_id'', JStr
     ''00000000-0000-0000-0000-000000000007''), (''revision'', JInt 1), (''disposition'', JStr
     ''REQUIRE_APPROVAL''), (''route'', JStr ''SINGLE''), (''policy_version'', JStr ''policy-1''),
     (''command_id'', JStr ''c0:policy''), (''correlation_id'', JStr ''x'')], ob_attempts = 0,
     ob_next_attempt_at = None, ob_published_at = None, ob_claimed_by = None, ob_claim_expires_at =
     None, ob_created_at = 10000000\<rparr>, \<lparr>ob_id = 6, ob_sequence = 4, ob_topic =
     ''intent.transitioned'', ob_payload = [(''tenant_id'', JStr ''t''), (''intent_id'', JStr
     ''00000000-0000-0000-0000-000000000007''), (''revision'', JInt 1), (''from_state'', JStr
     ''REQUESTED''), (''to_state'', JStr ''RISK_EVALUATED''), (''command_id'', JStr ''c0''),
     (''correlation_id'', JStr ''x'')], ob_attempts = 0, ob_next_attempt_at = None, ob_published_at
     = None, ob_claimed_by = None, ob_claim_expires_at = None, ob_created_at = 10000000\<rparr>,
     \<lparr>ob_id = 7, ob_sequence = 5, ob_topic = ''intent.transitioned'', ob_payload =
     [(''tenant_id'', JStr ''t''), (''intent_id'', JStr ''00000000-0000-0000-0000-000000000007''),
     (''revision'', JInt 1), (''from_state'', JStr ''RISK_EVALUATED''), (''to_state'', JStr
     ''POLICY_EVALUATED''), (''command_id'', JStr ''c0''), (''correlation_id'', JStr ''x'')],
     ob_attempts = 0, ob_next_attempt_at = None, ob_published_at = None, ob_claimed_by = None,
     ob_claim_expires_at = None, ob_created_at = 10000000\<rparr>, \<lparr>ob_id = 8, ob_sequence =
     6, ob_topic = ''intent.transitioned'', ob_payload = [(''tenant_id'', JStr ''t''),
     (''intent_id'', JStr ''00000000-0000-0000-0000-000000000007''), (''revision'', JInt 1),
     (''from_state'', JStr ''POLICY_EVALUATED''), (''to_state'', JStr ''PENDING_APPROVAL_1''),
     (''command_id'', JStr ''c0''), (''correlation_id'', JStr ''x'')], ob_attempts = 0,
     ob_next_attempt_at = None, ob_published_at = None, ob_claimed_by = None, ob_claim_expires_at =
     None, ob_created_at = 10000000\<rparr>, \<lparr>ob_id = 9, ob_sequence = 7, ob_topic =
     ''intent.transitioned'', ob_payload = [(''tenant_id'', JStr ''t''), (''intent_id'', JStr
     ''00000000-0000-0000-0000-000000000007''), (''revision'', JInt 1), (''from_state'', JStr
     ''PENDING_APPROVAL_1''), (''to_state'', JStr ''APPROVED''), (''actor_id'', JStr ''bob''),
     (''command_id'', JStr ''c1'')], ob_attempts = 0, ob_next_attempt_at = None, ob_published_at =
     None, ob_claimed_by = None, ob_claim_expires_at = None, ob_created_at = 20000000\<rparr>,
     \<lparr>ob_id = 11, ob_sequence = 8, ob_topic = ''intent.transitioned'', ob_payload =
     [(''tenant_id'', JStr ''t''), (''intent_id'', JStr ''00000000-0000-0000-0000-000000000007''),
     (''revision'', JInt 1), (''from_state'', JStr ''APPROVED''), (''to_state'', JStr
     ''REVALIDATING''), (''reason_code'', JStr ''execution_claimed''), (''actor_id'', JStr
     ''worker''), (''command_id'', JStr ''c2'')], ob_attempts = 0, ob_next_attempt_at = None,
     ob_published_at = None, ob_claimed_by = None, ob_claim_expires_at = None, ob_created_at =
     30000000\<rparr>], db_audit = [], db_risk = [\<lparr>rr_tenant_id = ''t'', rr_intent_id = 7,
     rr_intent_revision = 1, rr_generation = 1, rr_band = HIGH, rr_factors = [], rr_rule_version =
     ''risk-rules-1'', rr_evaluated_context = [(''environment'', JStr ''staging''),
     (''degraded_dependencies'', JBool False), (''policy_flags'', JList [])]\<rparr>], db_policy =
     [\<lparr>pr_tenant_id = ''t'', pr_intent_id = 7, pr_intent_revision = 1, pr_generation = 1,
     pr_disposition = REQUIRE_APPROVAL, pr_route = SINGLE, pr_required_roles = [''approver''],
     pr_required_scopes = [''ops:write''], pr_obligations = [''announce_in_incident_channel''],
     pr_reason_codes = [''approval_required''], pr_policy_version = ''policy-1'',
     pr_approval_ttl_seconds = Some 900\<rparr>], db_bundles = [\<lparr>br_id = 2, br_tenant_id =
     ''t'', br_version = ''policy-1'', br_rules = seed_rules, br_is_active = True, br_created_at =
     0\<rparr>], db_decisions = [\<lparr>dr_tenant_id = ''t'', dr_intent_id = 7, dr_intent_revision
     = 1, dr_intent_digest = ''h'', dr_level = 1, dr_decision = APPROVE, dr_actor_id = ''bob'',
     dr_actor_roles_snapshot = [''approver''], dr_scope_snapshot = [(''environment'', JStr
     ''staging''), (''scopes'', JList [JStr ''ops:write'']), (''token_scopes'', JList [JStr
     ''ops:write'']), (''obligations'', JObj [(''announce_in_incident_channel'', JStr ''done'')])],
     dr_reason = ''ok'', dr_policy_version = ''policy-1'', dr_decided_at = 20000000, dr_expires_at =
     Some 910000000\<rparr>], db_roles = [\<lparr>ra_id = 0, ra_tenant_id = ''t'', ra_principal_id =
     ''bob'', ra_role = ''approver'', ra_environments = None, ra_scopes = Some [''ops:write''],
     ra_environments_key = [], ra_valid_from = 0, ra_valid_until = None, ra_revoked_at = None,
     ra_granted_by = ''root''\<rparr>, \<lparr>ra_id = 1, ra_tenant_id = ''t'', ra_principal_id =
     ''root'', ra_role = ''administrator'', ra_environments = None, ra_scopes = Some [],
     ra_environments_key = [], ra_valid_from = 0, ra_valid_until = None, ra_revoked_at = None,
     ra_granted_by = ''root''\<rparr>], db_executions = [\<lparr>xr_id = 10, xr_tenant_id = ''t'',
     xr_intent_id = 7, xr_intent_revision = 1, xr_operation_key =
     ''t:00000000-0000-0000-0000-000000000007:1'', xr_attempt = 1, xr_status = EX_CLAIMED,
     xr_provider_operation_id = None, xr_precondition_snapshot = None, xr_claim_expires_at = Some
     90000000, xr_started_at = None, xr_finished_at = None, xr_error_code = None, xr_result_summary
     = None, xr_reconcile_attempts = 0, xr_next_reconcile_at = None\<rparr>], db_next_id = 12,
     db_next_sequence = 9\<rparr>"
  by code_simp

definition sample_permitted :: "(exn + (revalidation_failure + execution_permit)) \<times> db" where
  "sample_permitted =
     transaction (revalidate sample_sha (at_second 31) sample_key ''worker'' ''c2'' seed_bundle sample_snapshot)
       sample_claimed"

definition sample_permit :: execution_permit where
  "sample_permit =
     \<lparr>pm_tenant_id = ''t'', pm_intent_id = 7, pm_revision = 1, pm_intent_digest = ''h'',
      pm_tool = RESTART_SERVICE, pm_typed_parameters = [(''environment'', JStr ''staging''),
      (''service'', JStr ''web''), (''strategy'', JStr ''rolling'')], pm_operation_key =
      ''t:00000000-0000-0000-0000-000000000007:1'', pm_precondition_token = ''h'',
      pm_resource_version = Some ''v1'', pm_execution_id = 10, pm_issued_at = 31000000\<rparr>"

definition sample_running :: db where
  "sample_running = snd sample_permitted"

lemma sample_permitted_code [code]:
  "sample_permitted =
     (Inr (Inr sample_permit), \<lparr>db_intents = [\<lparr>ai_tenant_id = ''t'', ai_intent_id = 7, ai_revision = 1, ai_tool
     = RESTART_SERVICE, ai_canonical_parameters = [(''environment'', JStr ''staging''),
     (''service'', JStr ''web''), (''strategy'', JStr ''rolling'')], ai_intent_digest = ''h'',
     ai_requester_id = ''alice'', ai_requester_rationale = [], ai_raw_proposal = None, ai_source =
     DIRECT, ai_state = EXECUTING, ai_state_version = 7, ai_approval_expires_at = Some 910000000,
     ai_created_at = 10000000\<rparr>], db_transitions = [\<lparr>st_tenant_id = ''t'', st_intent_id
     = 7, st_intent_revision = 1, st_from_state = None, st_to_state = REQUESTED, st_actor_type =
     ''system'', st_actor_id = ''alice'', st_command_id = ''c0'', st_reason_code =
     ''intent_created'', st_metadata = [(''correlation_id'', JStr ''x'')], st_sequence = 1,
     st_occurred_at = 10000000\<rparr>, \<lparr>st_tenant_id = ''t'', st_intent_id = 7,
     st_intent_revision = 1, st_from_state = Some REQUESTED, st_to_state = RISK_EVALUATED,
     st_actor_type = ''system'', st_actor_id = ''risk-policy-engine'', st_command_id = ''c0:risk'',
     st_reason_code = ''evaluation_recorded'', st_metadata = [(''correlation_id'', JStr ''x'')],
     st_sequence = 2, st_occurred_at = 10000000\<rparr>, \<lparr>st_tenant_id = ''t'', st_intent_id
     = 7, st_intent_revision = 1, st_from_state = Some RISK_EVALUATED, st_to_state =
     POLICY_EVALUATED, st_actor_type = ''system'', st_actor_id = ''risk-policy-engine'',
     st_command_id = ''c0:policy'', st_reason_code = ''evaluation_recorded'', st_metadata =
     [(''correlation_id'', JStr ''x'')], st_sequence = 3, st_occurred_at = 10000000\<rparr>,
     \<lparr>st_tenant_id = ''t'', st_intent_id = 7, st_intent_revision = 1, st_from_state = Some
     POLICY_EVALUATED, st_to_state = PENDING_APPROVAL_1, st_actor_type = ''system'', st_actor_id =
     ''risk-policy-engine'', st_command_id = ''c0:route'', st_reason_code = ''evaluation_recorded'',
     st_metadata = [(''correlation_id'', JStr ''x'')], st_sequence = 4, st_occurred_at =
     10000000\<rparr>, \<lparr>st_tenant_id = ''t'', st_intent_id = 7, st_intent_revision = 1,
     st_from_state = Some PENDING_APPROVAL_1, st_to_state = APPROVED, st_actor_type = ''human'',
     st_actor_id = ''bob'', st_command_id = ''c1:approved:5'', st_reason_code =
     ''approval_approve'', st_metadata = [], st_sequence = 5, st_occurred_at = 20000000\<rparr>,
     \<lparr>st_tenant_id = ''t'', st_intent_id = 7, st_intent_revision = 1, st_from_state = Some
     APPROVED, st_to_state = REVALIDATING, st_actor_type = ''system'', st_actor_id = ''worker'',
     st_command_id = ''c2:revalidating:6'', st_reason_code = ''execution_claimed'', st_metadata =
     [], st_sequence = 6, st_occurred_at = 30000000\<rparr>, \<lparr>st_tenant_id = ''t'',
     st_intent_id = 7, st_intent_revision = 1, st_from_state = Some REVALIDATING, st_to_state =
     EXECUTING, st_actor_type = ''system'', st_actor_id = ''worker'', st_command_id =
     ''c2:executing:7'', st_reason_code = ''revalidation_passed'', st_metadata = [], st_sequence =
     7, st_occurred_at = 31000000\<rparr>], db_idempotency = [], db_outbox = [\<lparr>ob_id = 3,
     ob_sequence = 1, ob_topic = ''intent.created'', ob_payload = [(''tenant_id'', JStr ''t''),
     (''intent_id'', JStr ''00000000-0000-0000-0000-000000000007''), (''revision'', JInt 1),
     (''tool'', JStr ''restart_service''), (''intent_digest'', JStr ''h''), (''command_id'', JStr
     ''c0''), (''correlation_id'', JStr ''x'')], ob_attempts = 0, ob_next_attempt_at = None,
     ob_published_at = None, ob_claimed_by = None, ob_claim_expires_at = None, ob_created_at =
     10000000\<rparr>, \<lparr>ob_id = 4, ob_sequence = 2, ob_topic = ''risk.evaluated'', ob_payload
     = [(''tenant_id'', JStr ''t''), (''intent_id'', JStr ''00000000-0000-0000-0000-000000000007''),
     (''revision'', JInt 1), (''band'', JStr ''HIGH''), (''factors'', JList []), (''rule_version'',
     JStr ''risk-rules-1''), (''command_id'', JStr ''c0:risk''), (''correlation_id'', JStr ''x'')],
     ob_attempts = 0, ob_next_attempt_at = None, ob_published_at = None, ob_claimed_by = None,
     ob_claim_expires_at = None, ob_created_at = 10000000\<rparr>, \<lparr>ob_id = 5, ob_sequence =
     3, ob_topic = ''policy.evaluated'', ob_payload = [(''tenant_id'', JStr ''t''), (''intent_id'',
     JStr ''00000000-0000-0000-0000-000000000007''), (''revision'', JInt 1), (''disposition'', JStr
     ''REQUIRE_APPROVAL''), (''route'', JStr ''SINGLE''), (''policy_version'', JStr ''policy-1''),
     (''command_id'', JStr ''c0:policy''), (''correlation_id'', JStr ''x'')], ob_attempts = 0,
     ob_next_attempt_at = None, ob_published_at = None, ob_claimed_by = None, ob_claim_expires_at =
     None, ob_created_at = 10000000\<rparr>, \<lparr>ob_id = 6, ob_sequence = 4, ob_topic =
     ''intent.transitioned'', ob_payload = [(''tenant_id'', JStr ''t''), (''intent_id'', JStr
     ''00000000-0000-0000-0000-000000000007''), (''revision'', JInt 1), (''from_state'', JStr
     ''REQUESTED''), (''to_state'', JStr ''RISK_EVALUATED''), (''command_id'', JStr ''c0''),
     (''correlation_id'', JStr ''x'')], ob_attempts = 0, ob_next_attempt_at = None, ob_published_at
     = None, ob_claimed_by = None, ob_claim_expires_at = None, ob_created_at = 10000000\<rparr>,
     \<lparr>ob_id = 7, ob_sequence = 5, ob_topic = ''intent.transitioned'', ob_payload =
     [(''tenant_id'', JStr ''t''), (''intent_id'', JStr ''00000000-0000-0000-0000-000000000007''),
     (''revision'', JInt 1), (''from_state'', JStr ''RISK_EVALUATED''), (''to_state'', JStr
     ''POLICY_EVALUATED''), (''command_id'', JStr ''c0''), (''correlation_id'', JStr ''x'')],
     ob_attempts = 0, ob_next_attempt_at = None, ob_published_at = None, ob_claimed_by = None,
     ob_claim_expires_at = None, ob_created_at = 10000000\<rparr>, \<lparr>ob_id = 8, ob_sequence =
     6, ob_topic = ''intent.transitioned'', ob_payload = [(''tenant_id'', JStr ''t''),
     (''intent_id'', JStr ''00000000-0000-0000-0000-000000000007''), (''revision'', JInt 1),
     (''from_state'', JStr ''POLICY_EVALUATED''), (''to_state'', JStr ''PENDING_APPROVAL_1''),
     (''command_id'', JStr ''c0''), (''correlation_id'', JStr ''x'')], ob_attempts = 0,
     ob_next_attempt_at = None, ob_published_at = None, ob_claimed_by = None, ob_claim_expires_at =
     None, ob_created_at = 10000000\<rparr>, \<lparr>ob_id = 9, ob_sequence = 7, ob_topic =
     ''intent.transitioned'', ob_payload = [(''tenant_id'', JStr ''t''), (''intent_id'', JStr
     ''00000000-0000-0000-0000-000000000007''), (''revision'', JInt 1), (''from_state'', JStr
     ''PENDING_APPROVAL_1''), (''to_state'', JStr ''APPROVED''), (''actor_id'', JStr ''bob''),
     (''command_id'', JStr ''c1'')], ob_attempts = 0, ob_next_attempt_at = None, ob_published_at =
     None, ob_claimed_by = None, ob_claim_expires_at = None, ob_created_at = 20000000\<rparr>,
     \<lparr>ob_id = 11, ob_sequence = 8, ob_topic = ''intent.transitioned'', ob_payload =
     [(''tenant_id'', JStr ''t''), (''intent_id'', JStr ''00000000-0000-0000-0000-000000000007''),
     (''revision'', JInt 1), (''from_state'', JStr ''APPROVED''), (''to_state'', JStr
     ''REVALIDATING''), (''reason_code'', JStr ''execution_claimed''), (''actor_id'', JStr
     ''worker''), (''command_id'', JStr ''c2'')], ob_attempts = 0, ob_next_attempt_at = None,
     ob_published_at = None, ob_claimed_by = None, ob_claim_expires_at = None, ob_created_at =
     30000000\<rparr>, \<lparr>ob_id = 12, ob_sequence = 9, ob_topic = ''intent.transitioned'',
     ob_payload = [(''tenant_id'', JStr ''t''), (''intent_id'', JStr
     ''00000000-0000-0000-0000-000000000007''), (''revision'', JInt 1), (''from_state'', JStr
     ''REVALIDATING''), (''to_state'', JStr ''EXECUTING''), (''reason_code'', JStr
     ''revalidation_passed''), (''actor_id'', JStr ''worker''), (''command_id'', JStr ''c2'')],
     ob_attempts = 0, ob_next_attempt_at = None, ob_published_at = None, ob_claimed_by = None,
     ob_claim_expires_at = None, ob_created_at = 31000000\<rparr>], db_audit = [], db_risk =
     [\<lparr>rr_tenant_id = ''t'', rr_intent_id = 7, rr_intent_revision = 1, rr_generation = 1,
     rr_band = HIGH, rr_factors = [], rr_rule_version = ''risk-rules-1'', rr_evaluated_context =
     [(''environment'', JStr ''staging''), (''degraded_dependencies'', JBool False),
     (''policy_flags'', JList [])]\<rparr>], db_policy = [\<lparr>pr_tenant_id = ''t'', pr_intent_id
     = 7, pr_intent_revision = 1, pr_generation = 1, pr_disposition = REQUIRE_APPROVAL, pr_route =
     SINGLE, pr_required_roles = [''approver''], pr_required_scopes = [''ops:write''],
     pr_obligations = [''announce_in_incident_channel''], pr_reason_codes = [''approval_required''],
     pr_policy_version = ''policy-1'', pr_approval_ttl_seconds = Some 900\<rparr>], db_bundles =
     [\<lparr>br_id = 2, br_tenant_id = ''t'', br_version = ''policy-1'', br_rules = seed_rules,
     br_is_active = True, br_created_at = 0\<rparr>], db_decisions = [\<lparr>dr_tenant_id = ''t'',
     dr_intent_id = 7, dr_intent_revision = 1, dr_intent_digest = ''h'', dr_level = 1, dr_decision =
     APPROVE, dr_actor_id = ''bob'', dr_actor_roles_snapshot = [''approver''], dr_scope_snapshot =
     [(''environment'', JStr ''staging''), (''scopes'', JList [JStr ''ops:write'']),
     (''token_scopes'', JList [JStr ''ops:write'']), (''obligations'', JObj
     [(''announce_in_incident_channel'', JStr ''done'')])], dr_reason = ''ok'', dr_policy_version =
     ''policy-1'', dr_decided_at = 20000000, dr_expires_at = Some 910000000\<rparr>], db_roles =
     [\<lparr>ra_id = 0, ra_tenant_id = ''t'', ra_principal_id = ''bob'', ra_role = ''approver'',
     ra_environments = None, ra_scopes = Some [''ops:write''], ra_environments_key = [],
     ra_valid_from = 0, ra_valid_until = None, ra_revoked_at = None, ra_granted_by =
     ''root''\<rparr>, \<lparr>ra_id = 1, ra_tenant_id = ''t'', ra_principal_id = ''root'', ra_role
     = ''administrator'', ra_environments = None, ra_scopes = Some [], ra_environments_key = [],
     ra_valid_from = 0, ra_valid_until = None, ra_revoked_at = None, ra_granted_by =
     ''root''\<rparr>], db_executions = [\<lparr>xr_id = 10, xr_tenant_id = ''t'', xr_intent_id = 7,
     xr_intent_revision = 1, xr_operation_key = ''t:00000000-0000-0000-0000-000000000007:1'',
     xr_attempt = 1, xr_status = EX_EXECUTING, xr_provider_operation_id = None,
     xr_precondition_snapshot = Some [(''identity'', JObj [(''service'', JStr ''web'')]),
     (''health'', JStr ''healthy''), (''facts'', JObj []), (''resource_version'', JStr ''v1'')],
     xr_claim_expires_at = Some 90000000, xr_started_at = Some 31000000, xr_finished_at = None,
     xr_error_code = None, xr_result_summary = None, xr_reconcile_attempts = 0, xr_next_reconcile_at
     = None\<rparr>], db_next_id = 13, db_next_sequence = 10\<rparr>)"
  by code_simp

lemma sample_permit_issued: "sample_permitted = (Inr (Inr sample_permit), sample_running)"
  unfolding sample_running_def sample_permitted_code by simp

end
