(* ===== verification/Permit_Safety.thy ===== *)
theory Permit_Safety
  imports Scenario_Run
begin

text \<open>
  What the execution gate promises: a permit rests on every gate, a failed fetch is recorded, the
  operation key names one revision, and the digest gate accepts what creation produced exactly
  when the stored identity is already in normal form.
\<close>

section \<open>Owners of a worker transaction\<close>

lemma transaction_Inr:
  "transaction h d = (Inr a, d') \<longleftrightarrow> h d = (Inr a, d') \<and> flush d' = Inr ()"
  by (auto simp: transaction_def begin_block_def split: prod.splits sum.splits)

lemma transaction_Inl: "transaction h d = (Inl e, d') \<Longrightarrow> d' = d"
  by (auto simp: transaction_def begin_block_def split: prod.splits sum.splits)

section \<open>Permits\<close>

text \<open>
  C7. A permit is issued only if every gate holds at that moment on the durable state: the stored
  digest is the digest of the stored data, the approval window is open, the approvals still stand
  (for a single route an approver, for a critical one two different persons at the two levels,
  each with the role of the level and every required scope in the current role table), the policy
  does not block and is not stricter, and the live target exists, is not degraded and carries
  every identity field of the approved parameters. With the permit the intent is EXECUTING and
  its execution row says so, before any adapter is called.
\<close>

theorem permit_requires_every_gate:
  assumes "transaction (revalidate sha ev k w c bundle snapshot) d = (Inr (Inr pm), d')"
  shows "\<exists>i x p. get_intent k d = Some i \<and> ai_state i = REVALIDATING \<and>
      recompute_digest sha i = ai_intent_digest i \<and> policy_rows_for k d = [p] \<and>
      window_open ev i \<and> approvals_stand ev i p d \<and> policy_stands i p bundle \<and>
      target_matches (ai_canonical_parameters i) snapshot \<and>
      pm_key pm = k \<and> pm_intent_digest pm = ai_intent_digest i \<and>
      pm_typed_parameters pm = ai_canonical_parameters i \<and> pm_operation_key pm = operation_key_for k \<and>
      pm_resource_version pm = ts_resource_version snapshot \<and>
      get_intent k d' = Some (advance_intent i EXECUTING) \<and>
      executions_for k d = [x] \<and> pm_execution_id pm = xr_id x \<and>
      start_execution ev snapshot x \<in> set (db_executions d')"
proof -
  from assms have rv: "revalidate sha ev k w c bundle snapshot d = (Inr (Inr pm), d')"
    by (simp add: transaction_Inr)
  from revalidate_permit [OF rv] obtain i x d1 where cr: "claimed_row ev k d = Inr (i, x)"
    and g: "revalidate_gates sha ev i bundle snapshot d = Inr None"
    and r: "record_revalidation_transition (worker_args ev w c ''revalidation_passed'') i EXECUTING d =
        Inr (advance_intent i EXECUTING, d1)"
    and d': "d' = save_execution (start_execution ev snapshot x) d1"
    and pm: "pm = issue_permit sha ev k (advance_intent i EXECUTING) (start_execution ev snapshot x)" by blast
  from cr have i: "get_intent k d = Some i" and st: "ai_state i = REVALIDATING"
    and x: "executions_for k d = [x]" by (simp_all add: claimed_row_Inr)
  have k: "ai_key i = k" using get_intent_SomeD [OF i] by simp
  from revalidate_gates_None [OF g] obtain p where gates: "recompute_digest sha i = ai_intent_digest i"
      "policy_rows_for k d = [p]" "window_open ev i" "approvals_stand ev i p d" "policy_stands i p bundle"
      "target_matches (ai_canonical_parameters i) snapshot" by (auto simp: k)
  have get: "get_intent k d' = Some (advance_intent i EXECUTING)"
    using revalidation_recorder.recorder_get [OF r, of k] i k d' by simp
  have "x \<in> set (executions_for k d)" by (simp add: x)
  then have "x \<in> set (db_executions d1)"
    using revalidation_recorder.recorder_frame [OF r] by (simp add: executions_for_def)
  then have ex: "start_execution ev snapshot x \<in> set (db_executions d')"
    unfolding d' by (auto simp: set_upd_where start_execution_def)
  have res: "pm_resource_version pm = ts_resource_version snapshot"
    by (cases "ts_resource_version snapshot")
      (simp_all add: pm issue_permit_def start_execution_def snapshot_dict_def env_text_def dget_def dget_or_def)
  show ?thesis
    using i st gates get ex x res
    by (auto simp: pm issue_permit_def pm_key_def start_execution_def)
qed

lemma permit_requires_every_gate_witness:
  "\<exists>i. get_intent sample_key sample_claimed = Some i \<and> recompute_digest sample_sha i = ai_intent_digest i \<and>
     window_open (at_second 31) i \<and> get_intent sample_key sample_running = Some (advance_intent i EXECUTING)"
  using permit_requires_every_gate [OF sample_permit_issued [unfolded sample_permitted_def]] by blast

section \<open>The operation key\<close>

lemma colon_split:
  assumes "xs @ CHR '':'' # ys = xs' @ CHR '':'' # ys'" and "CHR '':'' \<notin> set xs" and "CHR '':'' \<notin> set xs'"
  shows "xs = xs' \<and> ys = ys'"
  using assms
proof (induction xs arbitrary: xs')
  case Nil
  then show ?case by (cases xs') auto
next
  case (Cons x xs)
  then show ?case by (cases xs') auto
qed

lemma operation_key_parts:
  assumes "operation_key_for (t, u, r) = operation_key_for (t', u', r')"
  shows "t = t' \<and> u = u' \<and> r = r'"
proof -
  have int_colon: "CHR '':'' \<notin> set (rev (int_str n))" for n
    using int_str_chars [of "CHR '':''" n] by (auto simp: is_digit_def)
  have uuid_colon: "CHR '':'' \<notin> set (rev (uuid_str v))" for v
    using uuid_str_not_colon by simp
  have "rev (int_str r) @ CHR '':'' # (rev (uuid_str u) @ CHR '':'' # rev t) =
      rev (int_str r') @ CHR '':'' # (rev (uuid_str u') @ CHR '':'' # rev t')"
    using arg_cong [OF assms, of rev] by (simp add: operation_key_for_def)
  from colon_split [OF this int_colon int_colon]
  have r: "rev (int_str r) = rev (int_str r')"
    and rest: "rev (uuid_str u) @ CHR '':'' # rev t = rev (uuid_str u') @ CHR '':'' # rev t'" by auto
  from colon_split [OF rest uuid_colon uuid_colon] r show ?thesis by simp
qed

text \<open>
  The operation key that the provider deduplicates on is different for different revisions:
  neither another tenant, nor another intent, nor another revision can share it.
\<close>

theorem operation_key_injective: "operation_key_for k = operation_key_for k' \<longleftrightarrow> k = k'"
  using operation_key_parts by (cases k; cases k') auto

section \<open>A failed fetch\<close>

text \<open>
  When the target cannot be read, the claim is not left hanging: the intent leaves REVALIDATING for STALE with the reason on
  a FAILED execution, in one transaction. Only a lost claim or a write that the database refuses
  leaves the database as it was.
\<close>

theorem fetch_failure_leaves_no_claim:
  assumes "get_intent k d = Some i" and "ai_state i = REVALIDATING" and "\<not> row_locked ev k"
    and "executions_for k d = [x]"
  shows "case transaction (fail_after_fetch_failure ev k w c reason) d of
      (Inr f, d') \<Rightarrow>
        rf_state f = STALE \<and> rf_reason_code f = reason \<and>
        get_intent k d' = Some (advance_intent i STALE) \<and>
        fail_execution ev reason x \<in> set (db_executions d')
    | (Inl e, d') \<Rightarrow> (e = DataError \<or> e = IntegrityError) \<and> d' = d"
proof -
  have cr: "claimed_row ev k d = Inr (i, x)" using assms by (simp add: claimed_row_Inr)
  have "is_legal (ai_state i) STALE" using assms(2) by (simp add: is_legal_def)
  from revalidation_recorder.recorder_total [OF this] obtain d1
    where r: "record_revalidation_transition (worker_args ev w c reason) i STALE d = Inr (advance_intent i STALE, d1)"
    by blast
  let ?d = "save_execution (fail_execution ev reason x) d1"
  have run: "fail_after_fetch_failure ev k w c reason d =
      (Inr \<lparr>rf_state = STALE, rf_reason_code = reason, rf_execution_id = xr_id x\<rparr>, ?d)"
    by (simp add: fail_after_fetch_failure_def cr record_failure_def r)
  have "x \<in> set (executions_for k d)" by (simp add: assms(4))
  then have "x \<in> set (db_executions d1)"
    using revalidation_recorder.recorder_frame [OF r] by (simp add: executions_for_def)
  then have ex: "fail_execution ev reason x \<in> set (db_executions ?d)"
    by (auto simp: set_upd_where fail_execution_def)
  have get: "get_intent k ?d = Some (advance_intent i STALE)"
    using revalidation_recorder.recorder_get [OF r, of k] assms(1) get_intent_SomeD [OF assms(1)] by simp
  show ?thesis
  proof (cases "flush ?d")
    case (Inl e)
    then have "e = DataError \<or> e = IntegrityError" by (auto simp: flush_def split: if_splits)
    with Inl show ?thesis by (simp add: transaction_def begin_block_def run)
  next
    case (Inr u)
    with ex get show ?thesis by (simp add: transaction_def begin_block_def run)
  qed
qed

section \<open>The digest gate\<close>

lemma normalize_id: "normalize (\<lambda>a. a) v = v"
proof (induction v)
  case (JObj kvs)
  have "(case kv of (k, w) \<Rightarrow> (k, normalize (\<lambda>a. a) w)) = kv" if "kv \<in> set kvs" for kv
    using JObj that by (cases kv) auto
  then show ?case by (auto intro!: map_idI)
qed (auto intro!: map_idI)

text \<open>
  The gate recomputes the digest without the normalisation that creation applied. For an intent
  as creation stores it the gate passes when tenant and requester are already in normal form; when
  one of them is not, the recomputed digest differs, unless it is a hash collision.
\<close>

theorem digest_gate_needs_normal_form:
  assumes c: "canonicalize sha nfc tool tenant requester revision p = Inr ci"
    and ok: "parameters_ok p" and nfc: "\<And>s. is_ascii s \<Longrightarrow> nfc s = s"
    and i: "ai_tool i = tool" "ai_tenant_id i = tenant" "ai_requester_id i = requester"
      "ai_revision i = revision" "ai_canonical_parameters i = ci_parameters ci"
      "ai_intent_digest i = ci_digest ci"
  shows "(nfc tenant = tenant \<and> nfc requester = requester \<longrightarrow> recompute_digest sha i = ai_intent_digest i)
    \<and> (nfc tenant \<noteq> tenant \<or> nfc requester \<noteq> requester \<longrightarrow>
         recompute_digest sha i \<noteq> ai_intent_digest i \<or>
         (\<exists>x y. collision sha x y))"
proof -
  let ?e = "\<lambda>n q. envelope tool n q revision (model_dump p)"
  have tool: "nfc (tool_value tool) = tool_value tool" "nfc DIGEST_VERSION = DIGEST_VERSION"
    by (rule nfc, simp)+ (rule nfc, simp add: is_ascii_def DIGEST_VERSION_def)
  have norm: "normalize nfc (?e tenant requester) = ?e (nfc tenant) (nfc requester)"
    using normalize_model_dump [OF ok nfc] by (simp add: envelope_def tool)
  have rec: "recompute_digest sha i = sha (dumps_sorted (?e tenant requester))"
    using c i by (simp add: recompute_digest_def envelope_def DIGEST_VERSION_def canonicalize_Inr)
  have dig: "ai_intent_digest i = sha (dumps_sorted (?e (nfc tenant) (nfc requester)))"
    using c i norm by (simp add: canonicalize_Inr canonical_envelope_def)
  have "dumps_sorted (?e tenant requester) \<noteq> dumps_sorted (?e (nfc tenant) (nfc requester))"
    if "nfc tenant \<noteq> tenant \<or> nfc requester \<noteq> requester"
  proof
    assume "dumps_sorted (?e tenant requester) = dumps_sorted (?e (nfc tenant) (nfc requester))"
    then have eq: "sort_json (?e tenant requester) = sort_json (?e (nfc tenant) (nfc requester))"
      by (subst (asm) dumps_sorted_inject) (simp_all del: float_free.simps)
    have idn: "normalize id v = v" for v using normalize_id by (simp add: id_def)
    from envelope_members(1,2) [of id] eq idn that show False by (metis id_apply)
  qed
  with rec dig show ?thesis unfolding collision_def by metis
qed

lemma digest_gate_needs_normal_form_witness:
  "\<exists>ci i. canonicalize id (\<lambda>s. if s = [CHR 0xC5] then ''A'' else s) RESTART_SERVICE [CHR 0xC5] ''r'' 1
       sample_parameters = Inr ci \<and> ai_intent_digest i = ci_digest ci \<and>
     ai_canonical_parameters i = ci_parameters ci \<and> recompute_digest id i \<noteq> ai_intent_digest i"
proof -
  let ?nfc = "\<lambda>s. if s = [CHR 0xC5] then ''A'' else s"
  obtain ci where c: "canonicalize id ?nfc RESTART_SERVICE [CHR 0xC5] ''r'' 1 sample_parameters = Inr ci"
    by (simp add: canonicalize_def sample_parameters_def Let_def)
  have ok: "parameters_ok sample_parameters" by code_simp
  have ascii: "is_ascii s \<Longrightarrow> ?nfc s = s" for s by (auto simp: is_ascii_def)
  have nfc: "?nfc [CHR 0xC5] \<noteq> [CHR 0xC5]" by simp
  define i :: intent_row where "i = undefined\<lparr>ai_tool := RESTART_SERVICE, ai_tenant_id := [CHR 0xC5],
      ai_requester_id := ''r'', ai_revision := 1, ai_canonical_parameters := ci_parameters ci,
      ai_intent_digest := ci_digest ci\<rparr>"
  have i: "ai_tool i = RESTART_SERVICE" "ai_tenant_id i = [CHR 0xC5]" "ai_requester_id i = ''r''"
      "ai_revision i = 1" "ai_canonical_parameters i = ci_parameters ci" "ai_intent_digest i = ci_digest ci"
    by (simp_all add: i_def)
  have "\<not> (\<exists>x y. collision id x y)" by (auto simp: collision_def)
  with digest_gate_needs_normal_form [OF c ok ascii i] nfc have "recompute_digest id i \<noteq> ai_intent_digest i"
    by blast
  with c i show ?thesis by blast
qed

section \<open>A malformed bundle\<close>

text \<open>
  If evaluation of the active bundle raises, the gate does not turn that into a failure: the
  transaction is undone and the exception leaves it, so the intent stays REVALIDATING, and from
  there no later claim, by any worker at any time, gets hold of it.
\<close>

theorem malformed_bundle_strands_claim:
  assumes "get_intent k d = Some i" and "ai_state i = REVALIDATING" and "\<not> row_locked ev k"
    and "executions_for k d = [x]" and "recompute_digest sha i = ai_intent_digest i"
    and "policy_rows_for k d = [p]" and "window_open ev i" and "approval_gate ev i p d = None"
    and "evaluate_policy (ai_tool i) (evaluate_risk (ai_tool i) (ai_canonical_parameters i) default_context)
      (ai_canonical_parameters i) bundle = Inl e"
  shows "transaction (revalidate sha ev k w c bundle snapshot) d = (Inl e, d) \<and>
    (\<forall>ev' w' c' lease. \<exists>e'. transaction (claim ev' k w' c' lease) d = (Inl e', d))"
proof
  have k: "ai_key i = k" using get_intent_SomeD [OF assms(1)] by simp
  have cr: "claimed_row ev k d = Inr (i, x)" using assms by (simp add: claimed_row_Inr)
  have "\<not> (case ai_approval_expires_at i of None \<Rightarrow> False | Some t \<Rightarrow> t \<le> ev_db_now ev)"
    using assms(7) by (auto simp: window_open_def split: option.splits)
  moreover have "scalar_one (policy_rows_for (ai_key i) d) = Inr p" by (simp add: k assms(6) scalar_one_Inr)
  ultimately have "revalidate_gates sha ev i bundle snapshot d = Inl e"
    using assms(5,8,9) by (simp add: revalidate_gates_def Let_def)
  then show "transaction (revalidate sha ev k w c bundle snapshot) d = (Inl e, d)"
    by (simp add: transaction_def begin_block_def revalidate_def cr)
  show "\<forall>ev' w' c' lease. \<exists>e'. transaction (claim ev' k w' c' lease) d = (Inl e', d)"
    using assms(1,2)
    by (simp add: transaction_def begin_block_def claim_def select_for_update_def)
qed

definition malformed_bundle :: policy_bundle where
  "malformed_bundle = \<lparr>pb_version = ''policy-2'',
     pb_rules = [(''tools'', JObj [(''restart_service'', JObj [(''required_roles'', JInt 5)])])]\<rparr>"

lemma malformed_bundle_strands_claim_witness:
  "\<exists>e. transaction (revalidate sample_sha (at_second 31) sample_key ''worker'' ''c2'' malformed_bundle
     sample_snapshot) sample_claimed = (Inl e, sample_claimed)"
proof -
  have pre: "case get_intent sample_key sample_claimed of None \<Rightarrow> False | Some i \<Rightarrow>
      ai_state i = REVALIDATING \<and> recompute_digest sample_sha i = ai_intent_digest i \<and> window_open (at_second 31) i \<and>
      list_all (\<lambda>p. approval_gate (at_second 31) i p sample_claimed = None)
        (policy_rows_for sample_key sample_claimed) \<and>
      isl (evaluate_policy (ai_tool i) (evaluate_risk (ai_tool i) (ai_canonical_parameters i) default_context)
        (ai_canonical_parameters i) malformed_bundle)" by code_simp
  have one: "\<not> row_locked (at_second 31) sample_key" "length (executions_for sample_key sample_claimed) = 1"
    "length (policy_rows_for sample_key sample_claimed) = 1" by code_simp+
  from one obtain x p where x: "executions_for sample_key sample_claimed = [x]"
    and p: "policy_rows_for sample_key sample_claimed = [p]" by (auto simp: length_Suc_conv)
  from pre p obtain i e where i: "get_intent sample_key sample_claimed = Some i" "ai_state i = REVALIDATING"
      "recompute_digest sample_sha i = ai_intent_digest i" "window_open (at_second 31) i"
      "approval_gate (at_second 31) i p sample_claimed = None"
      "evaluate_policy (ai_tool i) (evaluate_risk (ai_tool i) (ai_canonical_parameters i) default_context)
        (ai_canonical_parameters i) malformed_bundle = Inl e"
    by (auto simp: isl_def split: option.splits)
  from malformed_bundle_strands_claim [OF i(1,2) one(1) x i(3) p i(4-6)] show ?thesis by blast
qed

end
