(* ===== verification/Execution.thy ===== *)
theory Execution
  imports Revalidation
begin

text \<open>
  \<open>application/execution.py\<close>: the one path from a permit to the provider. The adapter is an argument,
  a function on a provider state, so that what was sent is visible in the result even when the
  transaction that should record the outcome is undone. \<open>execute_permit\<close> is the method,
  \<open>worker_execute\<close> the transaction the worker runs it in (\<open>_execute\<close> of \<open>worker.py\<close>).
\<close>

section \<open>Classification\<close>

definition classify_outcome ::
  "adapter_result option \<Rightarrow> exn option \<Rightarrow> exn + (execution_outcome \<times> string option)" where
  "classify_outcome result err =
     (case err of
        Some e \<Rightarrow>
          (if e = TimeoutError then Inr (OUT_UNKNOWN, Some ''adapter_timeout_after_send'')
           else if e = AdapterPreSendError then Inr (OUT_FAILED, Some ''adapter_pre_send_rejected'')
           else Inr (OUT_UNKNOWN, Some ''adapter_unavailable''))
      | None \<Rightarrow>
          (case result of
             None \<Rightarrow> Inr (OUT_UNKNOWN, Some ''no_adapter_result'')
           | Some r \<Rightarrow>
               (case outcome_of (ar_outcome r) of
                  None \<Rightarrow> Inl ValueError
                | Some out \<Rightarrow> Inr (out, ar_error_code r))))"

record execution_record =
  ex_execution_id :: row_id
  ex_intent_id :: uuid
  ex_revision :: int
  ex_state :: intent_state
  ex_outcome :: execution_outcome
  ex_provider_operation_id :: "string option"
  ex_error_code :: "string option"
  ex_summary :: dict

fun target_state :: "execution_outcome \<Rightarrow> intent_state" where
  "target_state OUT_SUCCEEDED = SUCCEEDED"
| "target_state OUT_FAILED = FAILED"
| "target_state OUT_UNKNOWN = EXECUTION_UNKNOWN"

fun outcome_status :: "execution_outcome \<Rightarrow> exec_status" where
  "outcome_status OUT_SUCCEEDED = EX_SUCCEEDED"
| "outcome_status OUT_FAILED = EX_FAILED"
| "outcome_status OUT_UNKNOWN = EX_UNKNOWN"

section \<open>Recording a transition\<close>

definition outcome_payload :: "transition_args \<Rightarrow> intent_row \<Rightarrow> intent_state \<Rightarrow> dict" where
  "outcome_payload a i target =
     [(''tenant_id'', JStr (ai_tenant_id i)), (''intent_id'', JStr (uuid_str (ai_intent_id i))),
      (''revision'', JInt (ai_revision i)), (''to_state'', JStr (state_value target)),
      (''command_id'', JStr (ta_command_id a))]"

definition record_execution_transition ::
  "transition_args \<Rightarrow> intent_row \<Rightarrow> intent_state \<Rightarrow> db \<Rightarrow> exn + (intent_row \<times> db)" where
  "record_execution_transition a i target d =
     (case require_transition (ai_state i) target of
        Inl e \<Rightarrow> Inl e
      | Inr _ \<Rightarrow>
          (let sequence = next_sequence i d; i' = advance_intent i target
           in Inr (i', save_intent i'
                 (add_outbox (ta_created_at a) (''execution.'' @ lower (state_value target)) (outcome_payload a i target)
                   (add_transition (transition_row_of a i target sequence) d)))))"

interpretation execution_recorder: transition_recorder record_execution_transition
proof
  show "\<exists>m. record_execution_transition a i s d = Inl (raise_error IllegalTransitionError m)"
    if "\<not> is_legal (ai_state i) s" for a i s d
    using that by (simp add: record_execution_transition_def require_transition_def) blast
next
  show "\<exists>t now topic p. record_execution_transition a i s d =
        Inr (advance_intent i s,
             save_intent (advance_intent i s) (add_outbox now topic p (add_transition t d))) \<and>
        recorded_row i (Some (ai_state i)) s (next_sequence i d) t \<and> outbox_about i s p"
    if "is_legal (ai_state i) s" for a i s d
    using that transition_row_of_recorded [of i s "next_sequence i d" a]
    by (fastforce simp: record_execution_transition_def require_transition_def Let_def
        outbox_about_def outcome_payload_def)
qed

section \<open>Executing a permit\<close>

definition get_execution :: "row_id \<Rightarrow> db \<Rightarrow> execution_row option" where
  "get_execution n d = find (\<lambda>x. xr_id x = n) (db_executions d)"

text \<open>The rows the method reads and the check it makes before the send.\<close>

definition executing_rows :: "execution_permit \<Rightarrow> db \<Rightarrow> exn + (execution_row \<times> intent_row)" where
  "executing_rows pm d =
     (case get_execution (pm_execution_id pm) d of
        None \<Rightarrow> Inl NoResultFound
      | Some x \<Rightarrow>
          (case get_intent (pm_key pm) d of
             None \<Rightarrow> Inl NoResultFound
           | Some i \<Rightarrow>
               (if ai_state i \<noteq> EXECUTING
                then Inl (raise_error StateConflictError (''intent is not executing: '' @ state_value (ai_state i)))
                else Inr (x, i))))"

definition command_of_permit :: "execution_permit \<Rightarrow> adapter_command" where
  "command_of_permit pm =
     \<lparr>am_operation_key = pm_operation_key pm, am_precondition_token = pm_precondition_token pm,
      am_parameters = pm_typed_parameters pm, am_resource_version = pm_resource_version pm\<rparr>"

definition execution_args :: "env \<Rightarrow> string \<Rightarrow> string \<Rightarrow> string \<Rightarrow> transition_args" where
  "execution_args ev worker_id command_id reason =
     \<lparr>ta_actor_type = ''system'', ta_actor_id = worker_id, ta_command_id = command_id,
      ta_reason_code = reason, ta_occurred_at = ev_now ev, ta_created_at = ev_db_now ev\<rparr>"

definition outcome_reason :: "execution_outcome \<Rightarrow> string option \<Rightarrow> string" where
  "outcome_reason out error_code =
     (case error_code of
        None \<Rightarrow> ''execution_'' @ lower (outcome_value out)
      | Some c \<Rightarrow> if c = [] then ''execution_'' @ lower (outcome_value out) else c)"

definition finish_execution ::
  "(string \<Rightarrow> string) \<Rightarrow> env \<Rightarrow> execution_outcome \<Rightarrow> string option \<Rightarrow> adapter_result option \<Rightarrow> execution_row
     \<Rightarrow> execution_row" where
  "finish_execution lc ev out error_code result x =
     x\<lparr>xr_status := outcome_status out,
       xr_provider_operation_id := (case result of None \<Rightarrow> None | Some r \<Rightarrow> ar_provider_operation_id r),
       xr_error_code := error_code, xr_finished_at := Some (ev_now ev),
       xr_result_summary := (case result of None \<Rightarrow> xr_result_summary x
         | Some r \<Rightarrow> Some (sanitize_raw_proposal lc (JObj (ar_summary r))))\<rparr>"

definition record_outcome ::
  "(string \<Rightarrow> string) \<Rightarrow> env \<Rightarrow> execution_permit \<Rightarrow> string \<Rightarrow> string \<Rightarrow> execution_row \<Rightarrow> intent_row
     \<Rightarrow> exn + adapter_result \<Rightarrow> db \<Rightarrow> (exn + execution_record) \<times> db" where
  "record_outcome lc ev pm worker_id command_id x i answer d =
     (let result = (case answer of Inl _ \<Rightarrow> None | Inr r \<Rightarrow> Some r);
          err = (case answer of Inl e \<Rightarrow> Some e | Inr _ \<Rightarrow> None)
      in (case classify_outcome result err of
            Inl e \<Rightarrow> (Inl e, d)
          | Inr (out, error_code) \<Rightarrow>
              (case record_execution_transition
                      (execution_args ev worker_id command_id (outcome_reason out error_code)) i (target_state out) d of
                 Inl e \<Rightarrow> (Inl e, d)
               | Inr (i', d1) \<Rightarrow>
                   (let x' = finish_execution lc ev out error_code result x; d2 = save_execution x' d1
                    in (case flush d2 of
                          Inl e \<Rightarrow> (Inl e, d2)
                        | Inr _ \<Rightarrow>
                            (Inr \<lparr>ex_execution_id = xr_id x', ex_intent_id = pm_intent_id pm,
                                  ex_revision = pm_revision pm, ex_state = target_state out, ex_outcome = out,
                                  ex_provider_operation_id = xr_provider_operation_id x',
                                  ex_error_code = error_code,
                                  ex_summary = (case xr_result_summary x' of None \<Rightarrow> [] | Some s \<Rightarrow> s)\<rparr>, d2))))))"

definition execute_permit ::
  "(tool_name \<Rightarrow> adapter_command \<Rightarrow> 's \<Rightarrow> (exn + adapter_result) \<times> 's) \<Rightarrow> (string \<Rightarrow> string) \<Rightarrow> env
     \<Rightarrow> execution_permit \<Rightarrow> string \<Rightarrow> string \<Rightarrow> db \<Rightarrow> 's \<Rightarrow> (exn + execution_record) \<times> db \<times> 's" where
  "execute_permit send lc ev pm worker_id command_id d s =
     (case executing_rows pm d of
        Inl e \<Rightarrow> (Inl e, d, s)
      | Inr (x, i) \<Rightarrow>
          (let (answer, s') = send (pm_tool pm) (command_of_permit pm) s;
               (r, d') = record_outcome lc ev pm worker_id command_id x i answer d
           in (r, d', s')))"

text \<open>The transaction around it: an undone outcome does not undo the send.\<close>

definition worker_execute ::
  "(tool_name \<Rightarrow> adapter_command \<Rightarrow> 's \<Rightarrow> (exn + adapter_result) \<times> 's) \<Rightarrow> (string \<Rightarrow> string) \<Rightarrow> env
     \<Rightarrow> execution_permit \<Rightarrow> string \<Rightarrow> string \<Rightarrow> db \<Rightarrow> 's \<Rightarrow> (exn + execution_record) \<times> db \<times> 's" where
  "worker_execute send lc ev pm worker_id command_id d s =
     (let (r, d', s') = execute_permit send lc ev pm worker_id command_id d s;
          (r', d'') = transaction (\<lambda>_. (r, d')) d
      in (r', d'', s'))"

section \<open>What a classified outcome rests on\<close>

lemma classify_SUCCEEDED:
  "classify_outcome result err = Inr (OUT_SUCCEEDED, c) \<Longrightarrow>
     err = None \<and> (\<exists>r. result = Some r \<and> ar_outcome r = ''SUCCEEDED'')"
  by (auto simp: classify_outcome_def dest: outcome_of_SomeD split: option.splits if_splits)

text \<open>
  An outcome is never guessed. SUCCEEDED is concluded only from a provider answer that says
  so; FAILED only from such an answer or from a refusal before the send; every other error, the
  timeout after the send included, is UNKNOWN. The only answer that is not classified is one with
  an outcome outside the three values.
\<close>

theorem classify_never_guesses:
  "((\<exists>c. classify_outcome result err = Inr (OUT_SUCCEEDED, c)) \<longleftrightarrow>
      err = None \<and> (\<exists>r. result = Some r \<and> ar_outcome r = ''SUCCEEDED''))
    \<and> ((\<exists>c. classify_outcome result err = Inr (OUT_FAILED, c)) \<longleftrightarrow>
      err = Some AdapterPreSendError \<or> err = None \<and> (\<exists>r. result = Some r \<and> ar_outcome r = ''FAILED''))
    \<and> ((\<exists>e. classify_outcome result err = Inl e) \<longleftrightarrow>
      err = None \<and> (\<exists>r. result = Some r \<and> ar_outcome r \<notin> {''SUCCEEDED'', ''FAILED'', ''UNKNOWN''}))"
proof (cases err)
  case None
  have "outcome_of s = Some t \<longleftrightarrow> s = outcome_value t" for s t
    using outcome_of_SomeD by auto
  moreover have "outcome_of s = None \<longleftrightarrow> s \<notin> {''SUCCEEDED'', ''FAILED'', ''UNKNOWN''}" for s
    by (auto simp: outcome_of_def)
  moreover have "outcome_value t \<in> {''SUCCEEDED'', ''FAILED'', ''UNKNOWN''}"
    "outcome_value t = ''SUCCEEDED'' \<longleftrightarrow> t = OUT_SUCCEEDED" "outcome_value t = ''FAILED'' \<longleftrightarrow> t = OUT_FAILED" for t
    by (cases t; simp)+
  ultimately show ?thesis
    using None by (cases result) (auto simp: classify_outcome_def split: option.splits)
qed (auto simp: classify_outcome_def)

section \<open>The writes\<close>

lemma get_execution_SomeD: "get_execution n d = Some x \<Longrightarrow> x \<in> set (db_executions d) \<and> xr_id x = n"
  unfolding get_execution_def by (drule find_SomeD) simp

lemma executing_rows_Inr:
  "executing_rows pm d = Inr (x, i) \<longleftrightarrow>
     get_execution (pm_execution_id pm) d = Some x \<and> get_intent (pm_key pm) d = Some i \<and> ai_state i = EXECUTING"
  by (auto simp: executing_rows_def split: option.splits)

lemma target_state_legal: "is_legal EXECUTING (target_state out)"
  by (cases out) (simp_all add: is_legal_def)

lemma target_state_plain [simp]: "plain_state (target_state out)"
  by (cases out) simp_all

lemma finish_execution_id [simp]: "xr_id (finish_execution lc ev out code result x) = xr_id x"
  by (simp add: finish_execution_def)

lemma record_outcome_cases:
  assumes "ai_state i = EXECUTING"
  obtains (refused) e where "classify_outcome (case answer of Inl _ \<Rightarrow> None | Inr r \<Rightarrow> Some r)
        (case answer of Inl e \<Rightarrow> Some e | Inr _ \<Rightarrow> None) = Inl e"
      and "record_outcome lc ev pm w c x i answer d = (Inl e, d)"
  | (classified) out code d1 where "classify_outcome (case answer of Inl _ \<Rightarrow> None | Inr r \<Rightarrow> Some r)
        (case answer of Inl e \<Rightarrow> Some e | Inr _ \<Rightarrow> None) = Inr (out, code)"
      and "record_execution_transition (execution_args ev w c (outcome_reason out code)) i (target_state out) d =
        Inr (advance_intent i (target_state out), d1)"
      and "snd (record_outcome lc ev pm w c x i answer d) =
        save_execution (finish_execution lc ev out code (case answer of Inl _ \<Rightarrow> None | Inr r \<Rightarrow> Some r) x) d1"
      and "\<And>r. fst (record_outcome lc ev pm w c x i answer d) = Inr r \<Longrightarrow>
        ex_outcome r = out \<and> ex_state r = target_state out \<and> flush (snd (record_outcome lc ev pm w c x i answer d)) = Inr ()"
      and "\<And>e. fst (record_outcome lc ev pm w c x i answer d) = Inl e \<Longrightarrow>
        flush (snd (record_outcome lc ev pm w c x i answer d)) = Inl e"
proof -
  let ?res = "case answer of Inl _ \<Rightarrow> None | Inr r \<Rightarrow> Some r"
  let ?err = "case answer of Inl e \<Rightarrow> Some e | Inr _ \<Rightarrow> None"
  show thesis
  proof (cases "classify_outcome ?res ?err")
    case (Inl e)
    then show thesis by (intro refused [of e]) (simp_all add: record_outcome_def)
  next
    case (Inr p)
    then obtain out code where cl: "classify_outcome ?res ?err = Inr (out, code)" by (cases p) auto
    have "is_legal (ai_state i) (target_state out)" using assms target_state_legal by simp
    from execution_recorder.recorder_total [OF this] obtain d1
      where r: "record_execution_transition (execution_args ev w c (outcome_reason out code)) i (target_state out) d =
        Inr (advance_intent i (target_state out), d1)" by blast
    let ?d2 = "save_execution (finish_execution lc ev out code ?res x) d1"
    have "snd (record_outcome lc ev pm w c x i answer d) = ?d2"
      and "(case fst (record_outcome lc ev pm w c x i answer d) of
          Inr r \<Rightarrow> ex_outcome r = out \<and> ex_state r = target_state out \<and> flush ?d2 = Inr ()
        | Inl e \<Rightarrow> flush ?d2 = Inl e)"
      by (simp_all add: record_outcome_def cl r Let_def split: sum.splits)
    then show thesis by (intro classified [OF cl r]) simp_all
  qed
qed

lemma record_outcome_evolves:
  assumes "record_outcome lc ev pm w c x i answer d = (Inr r, d')" and "ai_state i = EXECUTING"
    and "i \<in> set (db_intents d)"
  shows "evolves d d'"
proof (rule record_outcome_cases [OF assms(2), of answer lc ev pm w c x d])
  fix e
  assume "record_outcome lc ev pm w c x i answer d = (Inl e, d)"
  with assms(1) show ?thesis by simp
next
  fix out code d1
  assume r: "record_execution_transition (execution_args ev w c (outcome_reason out code)) i (target_state out) d =
      Inr (advance_intent i (target_state out), d1)"
    and d': "snd (record_outcome lc ev pm w c x i answer d) =
      save_execution (finish_execution lc ev out code (case answer of Inl _ \<Rightarrow> None | Inr r \<Rightarrow> Some r) x) d1"
  from execution_recorder.recorder_evolves [OF r assms(3)] have "evolves d d1" by (simp add: evidence_plain)
  with d' assms(1) show ?thesis using evolves_save_execution by (metis rtranclp_trans snd_conv)
qed

lemma worker_execute_cases:
  assumes "worker_execute send lc ev pm w c d s = (r, d', s')"
  obtains (unsent) e where "executing_rows pm d = Inl e" and "r = Inl e" and "d' = d" and "s' = s"
  | (sent) x i answer where "executing_rows pm d = Inr (x, i)"
      and "send (pm_tool pm) (command_of_permit pm) s = (answer, s')"
      and "transaction (record_outcome lc ev pm w c x i answer) d = (r, d')"
proof (cases "executing_rows pm d")
  case (Inl e)
  with assms show ?thesis
    by (intro unsent [of e]) (simp_all add: worker_execute_def execute_permit_def transaction_def begin_block_def)
next
  case (Inr p)
  obtain x i where p: "p = (x, i)" by (cases p)
  obtain answer s1 where a: "send (pm_tool pm) (command_of_permit pm) s = (answer, s1)" by (rule prod.exhaust)
  obtain q d1 where q: "record_outcome lc ev pm w c x i answer d = (q, d1)" by (rule prod.exhaust)
  from Inr p a q assms show ?thesis
    by (intro sent [of x i answer])
      (auto simp: worker_execute_def execute_permit_def transaction_def begin_block_def split: prod.splits)
qed

lemma worker_execute_evolves:
  assumes "worker_execute send lc ev pm w c d s = (r, d', s')"
  shows "evolves d d'"
  using assms
proof (cases rule: worker_execute_cases)
  case (sent x i answer)
  from sent(1) have i: "ai_state i = EXECUTING" "i \<in> set (db_intents d)"
    by (auto simp: executing_rows_Inr dest: get_intent_SomeD)
  show ?thesis
  proof (cases r)
    case (Inl e)
    with sent(3) have "d' = d" by (auto simp: transaction_def begin_block_def split: prod.splits sum.splits)
    then show ?thesis by simp
  next
    case (Inr q)
    with sent(3) have "record_outcome lc ev pm w c x i answer d = (Inr q, d')"
      by (auto simp: transaction_def begin_block_def split: prod.splits sum.splits)
    from record_outcome_evolves [OF this i] show ?thesis .
  qed
qed simp

end
