(* ===== verification/Reconciliation.thy ===== *)
theory Reconciliation
  imports Execution
begin

text \<open>
  \<open>application/reconciliation.py\<close>: an unknown outcome is resolved from provider evidence only. The
  provider's status lookup is an argument. As for execution, \<open>reconcile\<close> is the method; the worker
  runs it in a transaction of its own.
\<close>

definition MAX_RECONCILE_ATTEMPTS :: int where
  "MAX_RECONCILE_ATTEMPTS = 5"

definition RECONCILE_BACKOFF_BASE_SECONDS :: int where
  "RECONCILE_BACKOFF_BASE_SECONDS = 5"

definition RECONCILE_BACKOFF_CEILING_SECONDS :: int where
  "RECONCILE_BACKOFF_CEILING_SECONDS = 300"

definition reconcile_backoff_seconds :: "int \<Rightarrow> int" where
  "reconcile_backoff_seconds attempts =
     (if attempts < 1 then RECONCILE_BACKOFF_BASE_SECONDS
      else (let backoff = RECONCILE_BACKOFF_BASE_SECONDS * 2 ^ nat (attempts - 1)
            in min backoff RECONCILE_BACKOFF_CEILING_SECONDS))"

record reconciliation_result =
  rn_execution_id :: row_id
  rn_outcome :: execution_outcome
  rn_state :: intent_state
  rn_escalated :: bool
  rn_summary :: dict

definition record_reconciliation_transition ::
  "transition_args \<Rightarrow> intent_row \<Rightarrow> intent_state \<Rightarrow> db \<Rightarrow> exn + (intent_row \<times> db)" where
  "record_reconciliation_transition a i target d =
     (case require_transition (ai_state i) target of
        Inl e \<Rightarrow> Inl e
      | Inr _ \<Rightarrow>
          (let sequence = next_sequence i d; i' = advance_intent i target
           in Inr (i', save_intent i'
                 (add_outbox (ta_created_at a) ''execution.reconciled'' (outcome_payload a i target)
                   (add_transition (transition_row_of a i target sequence) d)))))"

interpretation reconciliation_recorder: transition_recorder record_reconciliation_transition
proof
  show "\<exists>m. record_reconciliation_transition a i s d = Inl (raise_error IllegalTransitionError m)"
    if "\<not> is_legal (ai_state i) s" for a i s d
    using that by (simp add: record_reconciliation_transition_def require_transition_def) blast
next
  show "\<exists>t now topic p. record_reconciliation_transition a i s d =
        Inr (advance_intent i s,
             save_intent (advance_intent i s) (add_outbox now topic p (add_transition t d))) \<and>
        recorded_row i (Some (ai_state i)) s (next_sequence i d) t \<and> outbox_about i s p"
    if "is_legal (ai_state i) s" for a i s d
    using that transition_row_of_recorded [of i s "next_sequence i d" a]
    by (fastforce simp: record_reconciliation_transition_def require_transition_def Let_def
        outbox_about_def outcome_payload_def)
qed

section \<open>The method\<close>

text \<open>The execution must exist and its intent must await reconciliation.\<close>

definition unknown_rows :: "row_id \<Rightarrow> db \<Rightarrow> exn + (execution_row \<times> intent_row)" where
  "unknown_rows n d =
     (case get_execution n d of
        None \<Rightarrow> Inl (raise_error NotFoundError ''execution not found'')
      | Some x \<Rightarrow>
          (case get_intent (xr_key x) d of
             None \<Rightarrow> Inl NoResultFound
           | Some i \<Rightarrow>
               (if ai_state i \<noteq> EXECUTION_UNKNOWN
                then Inl (raise_error StateConflictError
                  (''execution is not awaiting reconciliation: '' @ state_value (ai_state i)))
                else Inr (x, i))))"

text \<open>What counts as evidence when the lookup itself fails.\<close>

definition evidence_of :: "execution_row \<Rightarrow> exn + adapter_result \<Rightarrow> adapter_result" where
  "evidence_of x answer =
     (case answer of
        Inr r \<Rightarrow> r
      | Inl _ \<Rightarrow> \<lparr>ar_outcome = ''UNKNOWN'', ar_provider_operation_id = xr_provider_operation_id x,
                  ar_summary = [(''evidence'', JStr ''provider_unavailable'')], ar_error_code = None\<rparr>)"

definition postpone_execution ::
  "(string \<Rightarrow> string) \<Rightarrow> env \<Rightarrow> adapter_result \<Rightarrow> execution_row \<Rightarrow> execution_row" where
  "postpone_execution lc ev ans x =
     (let attempts = xr_reconcile_attempts x + 1; exhausted = (attempts \<ge> MAX_RECONCILE_ATTEMPTS)
      in x\<lparr>xr_reconcile_attempts := attempts, xr_status := EX_UNKNOWN,
           xr_next_reconcile_at :=
             (if exhausted then None else Some (ev_now ev + seconds (reconcile_backoff_seconds attempts))),
           xr_result_summary := Some (sanitize_raw_proposal lc
             (JObj [(''escalated'', JBool True), (''evidence'', JObj (ar_summary ans)),
                    (''reconcile_attempts'', JInt attempts), (''reconcile_exhausted'', JBool exhausted)])),
           xr_error_code := (if exhausted then Some ''reconcile_attempts_exhausted'' else xr_error_code x)\<rparr>)"

definition exhausted_payload :: "execution_row \<Rightarrow> int \<Rightarrow> string \<Rightarrow> dict" where
  "exhausted_payload x attempts command_id =
     [(''tenant_id'', JStr (xr_tenant_id x)), (''intent_id'', JStr (uuid_str (xr_intent_id x))),
      (''revision'', JInt (xr_intent_revision x)), (''attempts'', JInt attempts),
      (''command_id'', JStr command_id)]"

definition summary_of :: "execution_row \<Rightarrow> dict" where
  "summary_of x = (case xr_result_summary x of None \<Rightarrow> [] | Some s \<Rightarrow> s)"

definition postpone ::
  "(string \<Rightarrow> string) \<Rightarrow> env \<Rightarrow> string \<Rightarrow> execution_row \<Rightarrow> adapter_result \<Rightarrow> db
     \<Rightarrow> (exn + reconciliation_result) \<times> db" where
  "postpone lc ev command_id x ans d =
     (let x' = postpone_execution lc ev ans x;
          d1 = save_execution x' d;
          d2 = (if xr_reconcile_attempts x' \<ge> MAX_RECONCILE_ATTEMPTS
                then add_outbox (ev_db_now ev) ''execution.reconciliation_exhausted''
                       (exhausted_payload x (xr_reconcile_attempts x') command_id) d1
                else d1)
      in (case flush d2 of
            Inl e \<Rightarrow> (Inl e, d2)
          | Inr _ \<Rightarrow>
              (Inr \<lparr>rn_execution_id = xr_id x', rn_outcome = OUT_UNKNOWN, rn_state = EXECUTION_UNKNOWN,
                    rn_escalated = True, rn_summary = summary_of x'\<rparr>, d2)))"

definition resolved_state :: "execution_outcome \<Rightarrow> intent_state" where
  "resolved_state out = (if out = OUT_SUCCEEDED then SUCCEEDED else FAILED)"

definition or_else :: "string option \<Rightarrow> string option \<Rightarrow> string option" where
  "or_else a b = (case a of None \<Rightarrow> b | Some s \<Rightarrow> if s = [] then b else a)"

definition resolve_execution ::
  "(string \<Rightarrow> string) \<Rightarrow> env \<Rightarrow> execution_outcome \<Rightarrow> adapter_result \<Rightarrow> execution_row \<Rightarrow> execution_row" where
  "resolve_execution lc ev out ans x =
     x\<lparr>xr_status := outcome_status out,
       xr_provider_operation_id := or_else (ar_provider_operation_id ans) (xr_provider_operation_id x),
       xr_finished_at := Some (ev_now ev),
       xr_result_summary := Some (sanitize_raw_proposal lc (JObj (ar_summary ans))),
       xr_next_reconcile_at := None, xr_error_code := None\<rparr>"

definition resolve ::
  "(string \<Rightarrow> string) \<Rightarrow> env \<Rightarrow> string \<Rightarrow> string \<Rightarrow> execution_row \<Rightarrow> intent_row \<Rightarrow> adapter_result \<Rightarrow> db
     \<Rightarrow> (exn + reconciliation_result) \<times> db" where
  "resolve lc ev worker_id command_id x i ans d =
     (case outcome_of (ar_outcome ans) of
        None \<Rightarrow> (Inl ValueError, d)
      | Some out \<Rightarrow>
          (case record_reconciliation_transition
                  (execution_args ev worker_id command_id (''reconciled_'' @ lower (outcome_value out)))
                  i (resolved_state out) d of
             Inl e \<Rightarrow> (Inl e, d)
           | Inr (i', d1) \<Rightarrow>
               (let x' = resolve_execution lc ev out ans x; d2 = save_execution x' d1
                in (case flush d2 of
                      Inl e \<Rightarrow> (Inl e, d2)
                    | Inr _ \<Rightarrow>
                        (Inr \<lparr>rn_execution_id = xr_id x', rn_outcome = out, rn_state = resolved_state out,
                              rn_escalated = False, rn_summary = summary_of x'\<rparr>, d2)))))"

definition reconcile ::
  "(tool_name \<Rightarrow> string \<Rightarrow> string option \<Rightarrow> exn + adapter_result) \<Rightarrow> (string \<Rightarrow> string) \<Rightarrow> env \<Rightarrow> row_id
     \<Rightarrow> string \<Rightarrow> string \<Rightarrow> db \<Rightarrow> (exn + reconciliation_result) \<times> db" where
  "reconcile lookup lc ev n worker_id command_id d =
     (case unknown_rows n d of
        Inl e \<Rightarrow> (Inl e, d)
      | Inr (x, i) \<Rightarrow>
          (let answer = lookup (ai_tool i) (xr_operation_key x) (xr_provider_operation_id x);
               ans = evidence_of x answer
           in if isl answer \<or> ar_outcome ans = ''UNKNOWN''
              then postpone lc ev command_id x ans d
              else resolve lc ev worker_id command_id x i ans d))"

section \<open>What reconciliation concludes\<close>

lemma unknown_rows_Inr:
  "unknown_rows n d = Inr (x, i) \<longleftrightarrow>
     get_execution n d = Some x \<and> get_intent (xr_key x) d = Some i \<and> ai_state i = EXECUTION_UNKNOWN"
  by (auto simp: unknown_rows_def split: option.splits)

lemma resolved_state_plain [simp]: "plain_state (resolved_state out)"
  by (simp add: resolved_state_def)

lemma resolve_Inr:
  assumes "resolve lc ev w c x i ans d = (Inr r, d')"
  shows "\<exists>out d1. ar_outcome ans = outcome_value out \<and> rn_outcome r = out \<and> rn_state r = resolved_state out \<and>
      \<not> rn_escalated r \<and> flush d' = Inr () \<and>
      record_reconciliation_transition (execution_args ev w c (''reconciled_'' @ lower (outcome_value out)))
        i (resolved_state out) d = Inr (advance_intent i (resolved_state out), d1) \<and>
      d' = save_execution (resolve_execution lc ev out ans x) d1"
  using assms reconciliation_recorder.recorder_Inr
  by (fastforce simp: resolve_def Let_def dest: outcome_of_SomeD split: option.splits sum.splits prod.splits)

lemma postpone_Inr:
  assumes "postpone lc ev c x ans d = (Inr r, d')"
  shows "rn_outcome r = OUT_UNKNOWN \<and> rn_state r = EXECUTION_UNKNOWN \<and> rn_escalated r \<and> flush d' = Inr () \<and>
      db_intents d' = db_intents d \<and> db_transitions d' = db_transitions d \<and> db_policy d' = db_policy d \<and>
      db_decisions d' = db_decisions d \<and>
      db_executions d' = db_executions (save_execution (postpone_execution lc ev ans x) d)"
  using assms
  by (simp add: postpone_def Let_def split: sum.splits if_splits) auto

lemma reconcile_cases:
  assumes "reconcile lookup lc ev n w c d = (Inr r, d')"
  obtains (postponed) x i where "unknown_rows n d = Inr (x, i)"
      and "\<And>a. lookup (ai_tool i) (xr_operation_key x) (xr_provider_operation_id x) = Inr a \<Longrightarrow> ar_outcome a = ''UNKNOWN''"
      and "postpone lc ev c x (evidence_of x
        (lookup (ai_tool i) (xr_operation_key x) (xr_provider_operation_id x))) d = (Inr r, d')"
  | (resolved) x i a where "unknown_rows n d = Inr (x, i)"
      and "lookup (ai_tool i) (xr_operation_key x) (xr_provider_operation_id x) = Inr a"
      and "ar_outcome a \<noteq> ''UNKNOWN''" and "resolve lc ev w c x i a d = (Inr r, d')"
proof (cases "unknown_rows n d")
  case (Inl e)
  with assms show ?thesis by (simp add: reconcile_def)
next
  case (Inr p)
  then obtain x i where xi: "unknown_rows n d = Inr (x, i)" by (cases p) auto
  let ?ans = "lookup (ai_tool i) (xr_operation_key x) (xr_provider_operation_id x)"
  show ?thesis
  proof (cases ?ans)
    case (Inl e)
    with assms xi show ?thesis by (intro postponed [OF xi]) (simp_all add: reconcile_def Let_def)
  next
    case (Inr a)
    show ?thesis
    proof (cases "ar_outcome a = ''UNKNOWN''")
      case True
      with assms xi Inr show ?thesis
        by (intro postponed [OF xi]) (simp_all add: reconcile_def Let_def evidence_of_def)
    next
      case False
      with assms xi Inr show ?thesis
        by (intro resolved [OF xi Inr]) (simp_all add: reconcile_def Let_def evidence_of_def)
    qed
  qed
qed

lemma reconcile_evolves:
  assumes "reconcile lookup lc ev n w c d = (Inr r, d')"
  shows "evolves d d'"
  using assms
proof (cases rule: reconcile_cases)
  case (postponed x i)
  then show ?thesis by (intro evolves_frame) (use postpone_Inr [OF postponed(3)] in simp_all)
next
  case (resolved x i a)
  from resolve_Inr [OF resolved(4)] obtain out d1
    where t: "record_reconciliation_transition (execution_args ev w c (''reconciled_'' @ lower (outcome_value out)))
        i (resolved_state out) d = Inr (advance_intent i (resolved_state out), d1)"
      and d': "d' = save_execution (resolve_execution lc ev out a x) d1" by blast
  from resolved(1) have "i \<in> set (db_intents d)" by (auto simp: unknown_rows_Inr dest: get_intent_SomeD)
  from reconciliation_recorder.recorder_evolves [OF t this] have "evolves d d1" by (simp add: evidence_plain)
  then show ?thesis unfolding d' using evolves_save_execution by (rule rtranclp_trans)
qed

section \<open>The schedule of attempts\<close>

text \<open>
  Waiting times between automatic attempts start at five seconds, never fall, double until the
  ceiling and never exceed 300 seconds.
\<close>

theorem reconcile_backoff_bounds:
  "5 \<le> reconcile_backoff_seconds n \<and> reconcile_backoff_seconds n \<le> 300 \<and>
   reconcile_backoff_seconds n \<le> reconcile_backoff_seconds (n + 1) \<and>
   reconcile_backoff_seconds (n + 1) =
     (if n < 1 then 5 else min (2 * reconcile_backoff_seconds n) 300)"
proof -
  have p: "1 \<le> (2::int) ^ m" for m by simp
  have "nat n = Suc (nat (n - 1))" if "1 \<le> n" using that by simp
  then show ?thesis
    using p [of "nat (n - 1)"] p [of "nat n"]
    by (auto simp: reconcile_backoff_seconds_def RECONCILE_BACKOFF_BASE_SECONDS_def
        RECONCILE_BACKOFF_CEILING_SECONDS_def Let_def min_def)
qed

end
