(* ===== verification/Execution_Safety.thy ===== *)
theory Execution_Safety
  imports Reconciliation Scenario_Run
begin

text \<open>
  What execution and reconciliation promise together: a permit is used once, an outcome is recorded
  with the send or the intent stays EXECUTING, and an unknown outcome is settled by evidence only.
\<close>

section \<open>A permit is used once\<close>

text \<open>
  C9. If the worker records an outcome, the intent was EXECUTING in the database before the send,
  the provider was called once with exactly the permit's command, the recorded state is that
  outcome's, and nobody can send for the same permit again, under any identity and at any time.
\<close>

theorem execution_recorded_once:
  assumes "worker_execute send lc ev pm w c d s = (Inr r, d', s')"
  shows "\<exists>i answer. get_intent (pm_key pm) d = Some i \<and> ai_state i = EXECUTING \<and>
      send (pm_tool pm) (command_of_permit pm) s = (answer, s') \<and>
      get_intent (pm_key pm) d' = Some (advance_intent i (target_state (ex_outcome r))) \<and>
      (ex_outcome r = OUT_SUCCEEDED \<longrightarrow> (\<exists>a. answer = Inr a \<and> ar_outcome a = ''SUCCEEDED'')) \<and>
      (\<forall>send' lc' ev' w' c' s''. \<exists>e. worker_execute send' lc' ev' pm w' c' d' (s'' :: 's) = (Inl e, d', s''))"
  using assms
proof (cases rule: worker_execute_cases)
  case (unsent e)
  then show ?thesis by simp
next
  case (sent x i answer)
  then have i: "get_intent (pm_key pm) d = Some i" "ai_state i = EXECUTING"
    by (auto simp: executing_rows_Inr)
  from sent(3) have ro: "record_outcome lc ev pm w c x i answer d = (Inr r, d')"
    by (auto simp: transaction_def begin_block_def split: prod.splits sum.splits)
  show ?thesis
  proof (rule record_outcome_cases [OF i(2), of answer lc ev pm w c x d])
    fix e
    assume "record_outcome lc ev pm w c x i answer d = (Inl e, d)"
    with ro show ?thesis by simp
  next
    fix out code d1
    let ?res = "case answer of Inl _ \<Rightarrow> None | Inr r \<Rightarrow> Some r"
    let ?err = "case answer of Inl e \<Rightarrow> Some e | Inr _ \<Rightarrow> None"
    assume cl: "classify_outcome ?res ?err = Inr (out, code)"
      and t: "record_execution_transition (execution_args ev w c (outcome_reason out code)) i (target_state out) d =
        Inr (advance_intent i (target_state out), d1)"
      and d2: "snd (record_outcome lc ev pm w c x i answer d) = save_execution (finish_execution lc ev out code ?res x) d1"
      and out: "\<And>r. fst (record_outcome lc ev pm w c x i answer d) = Inr r \<Longrightarrow>
        ex_outcome r = out \<and> ex_state r = target_state out \<and> flush (snd (record_outcome lc ev pm w c x i answer d)) = Inr ()"
    from ro out have o: "ex_outcome r = out" by simp
    have get: "get_intent (pm_key pm) d' = Some (advance_intent i (target_state out))"
      using execution_recorder.recorder_get [OF t, of "pm_key pm"] i get_intent_SomeD [OF i(1)] d2 ro by simp
    have "target_state out \<noteq> EXECUTING" by (cases out) simp_all
    with get have "\<exists>e. executing_rows pm d' = Inl e" by (simp add: executing_rows_def split: option.split)
    then have again: "\<forall>send' lc' ev' w' c' s''. \<exists>e. worker_execute send' lc' ev' pm w' c' d' (s'' :: 's) = (Inl e, d', s'')"
      by (auto simp: worker_execute_def execute_permit_def transaction_def begin_block_def)
    have "\<exists>a. answer = Inr a \<and> ar_outcome a = ''SUCCEEDED''" if "out = OUT_SUCCEEDED"
      using cl that classify_SUCCEEDED [of ?res ?err code] by (cases answer) auto
    with i sent(2) get o again show ?thesis by auto
  qed
qed

definition sample_timeout :: "tool_name \<Rightarrow> adapter_command \<Rightarrow> nat \<Rightarrow> (exn + adapter_result) \<times> nat" where
  "sample_timeout tool c sends = (Inl TimeoutError, sends + 1)"

definition sample_unknown_run :: "(exn + execution_record) \<times> db \<times> nat" where
  "sample_unknown_run =
     worker_execute sample_timeout id (at_second 40) sample_permit ''worker'' ''c2'' sample_running 0"

definition sample_unknown :: db where
  "sample_unknown = fst (snd sample_unknown_run)"

lemma sample_unknown_run_code [code]:
  "sample_unknown_run =
     (Inr \<lparr>ex_execution_id = 10, ex_intent_id = 7, ex_revision = 1, ex_state = EXECUTION_UNKNOWN,
      ex_outcome = OUT_UNKNOWN, ex_provider_operation_id = None, ex_error_code = Some
      ''adapter_timeout_after_send'', ex_summary = []\<rparr>,
     \<lparr>db_intents = [\<lparr>ai_tenant_id = ''t'', ai_intent_id = 7, ai_revision = 1, ai_tool =
     RESTART_SERVICE, ai_canonical_parameters = [(''environment'', JStr ''staging''), (''service'',
     JStr ''web''), (''strategy'', JStr ''rolling'')], ai_intent_digest = ''h'', ai_requester_id =
     ''alice'', ai_requester_rationale = [], ai_raw_proposal = None, ai_source = DIRECT, ai_state =
     EXECUTION_UNKNOWN, ai_state_version = 8, ai_approval_expires_at = Some 910000000, ai_created_at =
     10000000\<rparr>], db_transitions = [\<lparr>st_tenant_id = ''t'', st_intent_id = 7,
     st_intent_revision = 1, st_from_state = None, st_to_state = REQUESTED, st_actor_type = ''system'',
     st_actor_id = ''alice'', st_command_id = ''c0'', st_reason_code = ''intent_created'', st_metadata
     = [(''correlation_id'', JStr ''x'')], st_sequence = 1, st_occurred_at = 10000000\<rparr>,
     \<lparr>st_tenant_id = ''t'', st_intent_id = 7, st_intent_revision = 1, st_from_state = Some
     REQUESTED, st_to_state = RISK_EVALUATED, st_actor_type = ''system'', st_actor_id =
     ''risk-policy-engine'', st_command_id = ''c0:risk'', st_reason_code = ''evaluation_recorded'',
     st_metadata = [(''correlation_id'', JStr ''x'')], st_sequence = 2, st_occurred_at =
     10000000\<rparr>, \<lparr>st_tenant_id = ''t'', st_intent_id = 7, st_intent_revision = 1,
     st_from_state = Some RISK_EVALUATED, st_to_state = POLICY_EVALUATED, st_actor_type = ''system'',
     st_actor_id = ''risk-policy-engine'', st_command_id = ''c0:policy'', st_reason_code =
     ''evaluation_recorded'', st_metadata = [(''correlation_id'', JStr ''x'')], st_sequence = 3,
     st_occurred_at = 10000000\<rparr>, \<lparr>st_tenant_id = ''t'', st_intent_id = 7,
     st_intent_revision = 1, st_from_state = Some POLICY_EVALUATED, st_to_state = PENDING_APPROVAL_1,
     st_actor_type = ''system'', st_actor_id = ''risk-policy-engine'', st_command_id = ''c0:route'',
     st_reason_code = ''evaluation_recorded'', st_metadata = [(''correlation_id'', JStr ''x'')],
     st_sequence = 4, st_occurred_at = 10000000\<rparr>, \<lparr>st_tenant_id = ''t'', st_intent_id =
     7, st_intent_revision = 1, st_from_state = Some PENDING_APPROVAL_1, st_to_state = APPROVED,
     st_actor_type = ''human'', st_actor_id = ''bob'', st_command_id = ''c1:approved:5'',
     st_reason_code = ''approval_approve'', st_metadata = [], st_sequence = 5, st_occurred_at =
     20000000\<rparr>, \<lparr>st_tenant_id = ''t'', st_intent_id = 7, st_intent_revision = 1,
     st_from_state = Some APPROVED, st_to_state = REVALIDATING, st_actor_type = ''system'', st_actor_id
     = ''worker'', st_command_id = ''c2:revalidating:6'', st_reason_code = ''execution_claimed'',
     st_metadata = [], st_sequence = 6, st_occurred_at = 30000000\<rparr>, \<lparr>st_tenant_id =
     ''t'', st_intent_id = 7, st_intent_revision = 1, st_from_state = Some REVALIDATING, st_to_state =
     EXECUTING, st_actor_type = ''system'', st_actor_id = ''worker'', st_command_id =
     ''c2:executing:7'', st_reason_code = ''revalidation_passed'', st_metadata = [], st_sequence = 7,
     st_occurred_at = 31000000\<rparr>, \<lparr>st_tenant_id = ''t'', st_intent_id = 7,
     st_intent_revision = 1, st_from_state = Some EXECUTING, st_to_state = EXECUTION_UNKNOWN,
     st_actor_type = ''system'', st_actor_id = ''worker'', st_command_id = ''c2:execution_unknown:8'',
     st_reason_code = ''adapter_timeout_after_send'', st_metadata = [], st_sequence = 8, st_occurred_at
     = 40000000\<rparr>], db_idempotency = [], db_outbox = [\<lparr>ob_id = 3, ob_sequence = 1,
     ob_topic = ''intent.created'', ob_payload = [(''tenant_id'', JStr ''t''), (''intent_id'', JStr
     ''00000000-0000-0000-0000-000000000007''), (''revision'', JInt 1), (''tool'', JStr
     ''restart_service''), (''intent_digest'', JStr ''h''), (''command_id'', JStr ''c0''),
     (''correlation_id'', JStr ''x'')], ob_attempts = 0, ob_next_attempt_at = None, ob_published_at =
     None, ob_claimed_by = None, ob_claim_expires_at = None, ob_created_at = 10000000\<rparr>,
     \<lparr>ob_id = 4, ob_sequence = 2, ob_topic = ''risk.evaluated'', ob_payload = [(''tenant_id'',
     JStr ''t''), (''intent_id'', JStr ''00000000-0000-0000-0000-000000000007''), (''revision'', JInt
     1), (''band'', JStr ''HIGH''), (''factors'', JList []), (''rule_version'', JStr ''risk-rules-1''),
     (''command_id'', JStr ''c0:risk''), (''correlation_id'', JStr ''x'')], ob_attempts = 0,
     ob_next_attempt_at = None, ob_published_at = None, ob_claimed_by = None, ob_claim_expires_at =
     None, ob_created_at = 10000000\<rparr>, \<lparr>ob_id = 5, ob_sequence = 3, ob_topic =
     ''policy.evaluated'', ob_payload = [(''tenant_id'', JStr ''t''), (''intent_id'', JStr
     ''00000000-0000-0000-0000-000000000007''), (''revision'', JInt 1), (''disposition'', JStr
     ''REQUIRE_APPROVAL''), (''route'', JStr ''SINGLE''), (''policy_version'', JStr ''policy-1''),
     (''command_id'', JStr ''c0:policy''), (''correlation_id'', JStr ''x'')], ob_attempts = 0,
     ob_next_attempt_at = None, ob_published_at = None, ob_claimed_by = None, ob_claim_expires_at =
     None, ob_created_at = 10000000\<rparr>, \<lparr>ob_id = 6, ob_sequence = 4, ob_topic =
     ''intent.transitioned'', ob_payload = [(''tenant_id'', JStr ''t''), (''intent_id'', JStr
     ''00000000-0000-0000-0000-000000000007''), (''revision'', JInt 1), (''from_state'', JStr
     ''REQUESTED''), (''to_state'', JStr ''RISK_EVALUATED''), (''command_id'', JStr ''c0''),
     (''correlation_id'', JStr ''x'')], ob_attempts = 0, ob_next_attempt_at = None, ob_published_at =
     None, ob_claimed_by = None, ob_claim_expires_at = None, ob_created_at = 10000000\<rparr>,
     \<lparr>ob_id = 7, ob_sequence = 5, ob_topic = ''intent.transitioned'', ob_payload =
     [(''tenant_id'', JStr ''t''), (''intent_id'', JStr ''00000000-0000-0000-0000-000000000007''),
     (''revision'', JInt 1), (''from_state'', JStr ''RISK_EVALUATED''), (''to_state'', JStr
     ''POLICY_EVALUATED''), (''command_id'', JStr ''c0''), (''correlation_id'', JStr ''x'')],
     ob_attempts = 0, ob_next_attempt_at = None, ob_published_at = None, ob_claimed_by = None,
     ob_claim_expires_at = None, ob_created_at = 10000000\<rparr>, \<lparr>ob_id = 8, ob_sequence = 6,
     ob_topic = ''intent.transitioned'', ob_payload = [(''tenant_id'', JStr ''t''), (''intent_id'',
     JStr ''00000000-0000-0000-0000-000000000007''), (''revision'', JInt 1), (''from_state'', JStr
     ''POLICY_EVALUATED''), (''to_state'', JStr ''PENDING_APPROVAL_1''), (''command_id'', JStr ''c0''),
     (''correlation_id'', JStr ''x'')], ob_attempts = 0, ob_next_attempt_at = None, ob_published_at =
     None, ob_claimed_by = None, ob_claim_expires_at = None, ob_created_at = 10000000\<rparr>,
     \<lparr>ob_id = 9, ob_sequence = 7, ob_topic = ''intent.transitioned'', ob_payload =
     [(''tenant_id'', JStr ''t''), (''intent_id'', JStr ''00000000-0000-0000-0000-000000000007''),
     (''revision'', JInt 1), (''from_state'', JStr ''PENDING_APPROVAL_1''), (''to_state'', JStr
     ''APPROVED''), (''actor_id'', JStr ''bob''), (''command_id'', JStr ''c1'')], ob_attempts = 0,
     ob_next_attempt_at = None, ob_published_at = None, ob_claimed_by = None, ob_claim_expires_at =
     None, ob_created_at = 20000000\<rparr>, \<lparr>ob_id = 11, ob_sequence = 8, ob_topic =
     ''intent.transitioned'', ob_payload = [(''tenant_id'', JStr ''t''), (''intent_id'', JStr
     ''00000000-0000-0000-0000-000000000007''), (''revision'', JInt 1), (''from_state'', JStr
     ''APPROVED''), (''to_state'', JStr ''REVALIDATING''), (''reason_code'', JStr
     ''execution_claimed''), (''actor_id'', JStr ''worker''), (''command_id'', JStr ''c2'')],
     ob_attempts = 0, ob_next_attempt_at = None, ob_published_at = None, ob_claimed_by = None,
     ob_claim_expires_at = None, ob_created_at = 30000000\<rparr>, \<lparr>ob_id = 12, ob_sequence = 9,
     ob_topic = ''intent.transitioned'', ob_payload = [(''tenant_id'', JStr ''t''), (''intent_id'',
     JStr ''00000000-0000-0000-0000-000000000007''), (''revision'', JInt 1), (''from_state'', JStr
     ''REVALIDATING''), (''to_state'', JStr ''EXECUTING''), (''reason_code'', JStr
     ''revalidation_passed''), (''actor_id'', JStr ''worker''), (''command_id'', JStr ''c2'')],
     ob_attempts = 0, ob_next_attempt_at = None, ob_published_at = None, ob_claimed_by = None,
     ob_claim_expires_at = None, ob_created_at = 31000000\<rparr>, \<lparr>ob_id = 13, ob_sequence =
     10, ob_topic = ''execution.execution_unknown'', ob_payload = [(''tenant_id'', JStr ''t''),
     (''intent_id'', JStr ''00000000-0000-0000-0000-000000000007''), (''revision'', JInt 1),
     (''to_state'', JStr ''EXECUTION_UNKNOWN''), (''command_id'', JStr ''c2'')], ob_attempts = 0,
     ob_next_attempt_at = None, ob_published_at = None, ob_claimed_by = None, ob_claim_expires_at =
     None, ob_created_at = 40000000\<rparr>], db_audit = [], db_risk = [\<lparr>rr_tenant_id = ''t'',
     rr_intent_id = 7, rr_intent_revision = 1, rr_generation = 1, rr_band = HIGH, rr_factors = [],
     rr_rule_version = ''risk-rules-1'', rr_evaluated_context = [(''environment'', JStr ''staging''),
     (''degraded_dependencies'', JBool False), (''policy_flags'', JList [])]\<rparr>], db_policy =
     [\<lparr>pr_tenant_id = ''t'', pr_intent_id = 7, pr_intent_revision = 1, pr_generation = 1,
     pr_disposition = REQUIRE_APPROVAL, pr_route = SINGLE, pr_required_roles = [''approver''],
     pr_required_scopes = [''ops:write''], pr_obligations = [''announce_in_incident_channel''],
     pr_reason_codes = [''approval_required''], pr_policy_version = ''policy-1'',
     pr_approval_ttl_seconds = Some 900\<rparr>], db_bundles = [\<lparr>br_id = 2, br_tenant_id =
     ''t'', br_version = ''policy-1'', br_rules = [(''approval_ttl_seconds'', JInt 900), (''tools'',
     JObj [(''inspect_service'', JObj [(''disposition'', JStr ''ALLOW'')]), (''restart_service'', JObj
     [(''disposition'', JStr ''REQUIRE_APPROVAL''), (''required_roles'', JList [JStr ''approver'']),
     (''obligations'', JList [JStr ''announce_in_incident_channel''])]), (''scale_service'', JObj
     [(''staging'', JObj [(''disposition'', JStr ''ALLOW'')]), (''production'', JObj [(''disposition'',
     JStr ''REQUIRE_APPROVAL''), (''required_roles'', JList [JStr ''approver''])])]),
     (''provision_resource'', JObj [(''disposition'', JStr ''REQUIRE_APPROVAL''), (''required_roles'',
     JList [JStr ''approver''])]), (''delete_resource'', JObj [(''disposition'', JStr
     ''REQUIRE_APPROVAL''), (''required_roles'', JList [JStr ''critical_approver_l1'', JStr
     ''critical_approver_l2'']), (''obligations'', JList [JStr ''require_change_ticket''])])])],
     br_is_active = True, br_created_at = 0\<rparr>], db_decisions = [\<lparr>dr_tenant_id = ''t'',
     dr_intent_id = 7, dr_intent_revision = 1, dr_intent_digest = ''h'', dr_level = 1, dr_decision =
     APPROVE, dr_actor_id = ''bob'', dr_actor_roles_snapshot = [''approver''], dr_scope_snapshot =
     [(''environment'', JStr ''staging''), (''scopes'', JList [JStr ''ops:write'']), (''token_scopes'',
     JList [JStr ''ops:write'']), (''obligations'', JObj [(''announce_in_incident_channel'', JStr
     ''done'')])], dr_reason = ''ok'', dr_policy_version = ''policy-1'', dr_decided_at = 20000000,
     dr_expires_at = Some 910000000\<rparr>], db_roles = [\<lparr>ra_id = 0, ra_tenant_id = ''t'',
     ra_principal_id = ''bob'', ra_role = ''approver'', ra_environments = None, ra_scopes = Some
     [''ops:write''], ra_environments_key = [], ra_valid_from = 0, ra_valid_until = None, ra_revoked_at
     = None, ra_granted_by = ''root''\<rparr>, \<lparr>ra_id = 1, ra_tenant_id = ''t'', ra_principal_id
     = ''root'', ra_role = ''administrator'', ra_environments = None, ra_scopes = Some [],
     ra_environments_key = [], ra_valid_from = 0, ra_valid_until = None, ra_revoked_at = None,
     ra_granted_by = ''root''\<rparr>], db_executions = [\<lparr>xr_id = 10, xr_tenant_id = ''t'',
     xr_intent_id = 7, xr_intent_revision = 1, xr_operation_key =
     ''t:00000000-0000-0000-0000-000000000007:1'', xr_attempt = 1, xr_status = EX_UNKNOWN,
     xr_provider_operation_id = None, xr_precondition_snapshot = Some [(''identity'', JObj
     [(''service'', JStr ''web'')]), (''health'', JStr ''healthy''), (''facts'', JObj []),
     (''resource_version'', JStr ''v1'')], xr_claim_expires_at = Some 90000000, xr_started_at = Some
     31000000, xr_finished_at = Some 40000000, xr_error_code = Some ''adapter_timeout_after_send'',
     xr_result_summary = None, xr_reconcile_attempts = 0, xr_next_reconcile_at = None\<rparr>],
     db_next_id = 14, db_next_sequence = 11\<rparr>, 1)"
  by code_simp

lemma execution_recorded_once_witness:
  "\<exists>i. get_intent (pm_key sample_permit) sample_unknown = Some (advance_intent i EXECUTION_UNKNOWN)"
proof -
  obtain r where run: "worker_execute sample_timeout id (at_second 40) sample_permit ''worker'' ''c2'' sample_running 0
      = (Inr r, sample_unknown, 1)" and r: "ex_outcome r = OUT_UNKNOWN"
    unfolding sample_unknown_def sample_unknown_run_def [symmetric] sample_unknown_run_code by simp
  from execution_recorded_once [OF run] r show ?thesis by auto
qed

section \<open>Evidence\<close>

text \<open>
  C31. Reconciliation resolves an outcome only on the provider's word: if it leaves the intent
  SUCCEEDED or FAILED, the status lookup answered with exactly that outcome; on an error or an
  answer UNKNOWN the intent and its history stay as they are, EXECUTION_UNKNOWN, and the attempt is
  counted.
\<close>

theorem reconcile_needs_evidence:
  assumes "transaction (reconcile lookup lc ev n w c) d = (Inr r, d')"
  shows "\<exists>x i. get_execution n d = Some x \<and> get_intent (xr_key x) d = Some i \<and> ai_state i = EXECUTION_UNKNOWN \<and>
     ((rn_state r \<in> {SUCCEEDED, FAILED} \<and> \<not> rn_escalated r \<and>
         get_intent (xr_key x) d' = Some (advance_intent i (rn_state r)) \<and>
         (\<exists>a. lookup (ai_tool i) (xr_operation_key x) (xr_provider_operation_id x) = Inr a \<and>
            ar_outcome a = outcome_value (rn_outcome r) \<and>
            (rn_state r = SUCCEEDED \<longleftrightarrow> ar_outcome a = ''SUCCEEDED'')))
      \<or> (rn_state r = EXECUTION_UNKNOWN \<and> rn_escalated r \<and> get_intent (xr_key x) d' = Some i \<and>
         db_transitions d' = db_transitions d \<and>
         (\<forall>a. lookup (ai_tool i) (xr_operation_key x) (xr_provider_operation_id x) = Inr a \<longrightarrow>
            ar_outcome a = ''UNKNOWN'') \<and>
         (\<exists>x' \<in> set (db_executions d'). xr_id x' = n \<and> xr_status x' = EX_UNKNOWN \<and>
            xr_reconcile_attempts x' = xr_reconcile_attempts x + 1)))"
proof -
  from assms have rec: "reconcile lookup lc ev n w c d = (Inr r, d')"
    by (auto simp: transaction_def begin_block_def split: prod.splits sum.splits)
  then show ?thesis
  proof (cases rule: reconcile_cases)
    case (postponed x i)
    then have x: "x \<in> set (db_executions d)" "xr_id x = n"
      by (auto simp: unknown_rows_Inr dest: get_execution_SomeD)
    let ?ans = "evidence_of x (lookup (ai_tool i) (xr_operation_key x) (xr_provider_operation_id x))"
    note p = postpone_Inr [OF postponed(3)]
    have "postpone_execution lc ev ?ans x \<in> set (db_executions d')"
      using x p by (auto simp: set_upd_where postpone_execution_def Let_def)
    then have ex: "\<exists>x' \<in> set (db_executions d'). xr_id x' = n \<and> xr_status x' = EX_UNKNOWN \<and>
            xr_reconcile_attempts x' = xr_reconcile_attempts x + 1"
      by (rule rev_bexI) (simp add: postpone_execution_def Let_def x(2))
    have "get_intent (xr_key x) d' = get_intent (xr_key x) d" using p by (simp add: get_intent_def)
    with postponed(1,2) p ex show ?thesis by (auto simp: unknown_rows_Inr)
  next
    case (resolved x i a)
    from resolve_Inr [OF resolved(4)] obtain out d1
      where o: "ar_outcome a = outcome_value out" "rn_outcome r = out" "rn_state r = resolved_state out" "\<not> rn_escalated r"
        and t: "record_reconciliation_transition (execution_args ev w c (''reconciled_'' @ lower (outcome_value out)))
          i (resolved_state out) d = Inr (advance_intent i (resolved_state out), d1)"
        and d': "d' = save_execution (resolve_execution lc ev out a x) d1" by blast
    from resolved(1) have i: "get_execution n d = Some x" "get_intent (xr_key x) d = Some i"
        "ai_state i = EXECUTION_UNKNOWN" by (auto simp: unknown_rows_Inr)
    have "get_intent (xr_key x) d' = Some (advance_intent i (resolved_state out))"
      using reconciliation_recorder.recorder_get [OF t, of "xr_key x"] i get_intent_SomeD [OF i(2)] d' by simp
    moreover have "resolved_state out = SUCCEEDED \<longleftrightarrow> outcome_value out = ''SUCCEEDED''"
      by (cases out) (simp_all add: resolved_state_def)
    moreover have "resolved_state out \<in> {SUCCEEDED, FAILED}" by (simp add: resolved_state_def)
    ultimately show ?thesis using i resolved(2) o by auto
  qed
qed

definition sample_evidence :: "tool_name \<Rightarrow> string \<Rightarrow> string option \<Rightarrow> exn + adapter_result" where
  "sample_evidence tool key pid =
     Inr \<lparr>ar_outcome = ''SUCCEEDED'', ar_provider_operation_id = Some ''p1'', ar_summary = [], ar_error_code = None\<rparr>"

lemma reconcile_needs_evidence_witness:
  "\<exists>r d'. transaction (reconcile sample_evidence id (at_second 50) (pm_execution_id sample_permit) ''worker'' ''c3'')
      sample_unknown = (Inr r, d') \<and> rn_state r \<in> {SUCCEEDED, FAILED, EXECUTION_UNKNOWN}"
proof -
  let ?run = "transaction (reconcile sample_evidence id (at_second 50) (pm_execution_id sample_permit) ''worker'' ''c3'')
      sample_unknown"
  have "succeeds ?run" by code_simp
  then obtain r where run: "?run = (Inr r, snd ?run)" by (rule succeedsE)
  from reconcile_needs_evidence [OF run] have "rn_state r \<in> {SUCCEEDED, FAILED, EXECUTION_UNKNOWN}" by blast
  with run show ?thesis by blast
qed

end
