(* ===== verification/Audit_Chain.thy ===== *)
theory Audit_Chain
  imports Store "HOL-Library.Sublist"
begin

text \<open>
  \<open>infrastructure/audit.py\<close>: hash-linked evidence. Every event of an aggregate (tenant and aggregate id)
  carries the hash of its canonical body, and the body holds the hash of the event before it.
  \<open>append\<close> writes an event, \<open>verify_aggregate_chain\<close> recomputes the chain. The advisory lock of the
  source serialises appends; here an append is one step.
\<close>

section \<open>Timestamps\<close>

text \<open>\<open>datetime.isoformat\<close> of an instant in UTC, by the proleptic Gregorian calendar.\<close>

definition pad_left :: "nat \<Rightarrow> int \<Rightarrow> string" where
  "pad_left w n = (let s = int_str n in replicate (w - length s) (CHR ''0'') @ s)"

definition civil_date :: "int \<Rightarrow> int \<times> int \<times> int" where
  "civil_date days =
     (let z = days + 719468; era = z div 146097; doe = z mod 146097;
          yoe = (doe - doe div 1460 + doe div 36524 - doe div 146096) div 365;
          doy = doe - (365 * yoe + yoe div 4 - yoe div 100);
          mp = (5 * doy + 2) div 153;
          day = doy - (153 * mp + 2) div 5 + 1;
          month = (if mp < 10 then mp + 3 else mp - 9)
      in (yoe + era * 400 + (if month \<le> 2 then 1 else 0), month, day))"

definition isoformat :: "instant \<Rightarrow> string" where
  "isoformat t =
     (let (y, m, dd) = civil_date (t div seconds 86400);
          us = t mod seconds 86400; s = us div 1000000; frac = us mod 1000000
      in pad_left 4 y @ ''-'' @ pad_left 2 m @ ''-'' @ pad_left 2 dd @ ''T'' @
         pad_left 2 (s div 3600) @ '':'' @ pad_left 2 (s mod 3600 div 60) @ '':'' @ pad_left 2 (s mod 60) @
         (if frac = 0 then [] else CHR ''.'' # pad_left 6 frac) @ ''+00:00'')"

section \<open>Event hashes\<close>

record audit_args =
  aa_tenant_id :: string
  aa_aggregate_id :: uuid
  aa_aggregate_revision :: int
  aa_event_type :: string
  aa_actor_id :: string
  aa_occurred_at :: instant
  aa_attributes :: dict
  aa_correlation_id :: "string option"
  aa_causation_id :: "string option"
  aa_policy_version :: "string option"
  aa_risk_version :: "string option"

fun json_opt :: "string option \<Rightarrow> json" where
  "json_opt None = JNull"
| "json_opt (Some s) = JStr s"

definition event_body :: "audit_args \<Rightarrow> int \<Rightarrow> string \<Rightarrow> dict" where
  "event_body a sequence previous_hash =
     [(''aggregate_id'', JStr (uuid_str (aa_aggregate_id a))),
      (''aggregate_revision'', JInt (aa_aggregate_revision a)), (''actor_id'', JStr (aa_actor_id a)),
      (''attributes'', JObj (aa_attributes a)), (''causation_id'', json_opt (aa_causation_id a)),
      (''correlation_id'', json_opt (aa_correlation_id a)), (''event_type'', JStr (aa_event_type a)),
      (''occurred_at'', JStr (isoformat (aa_occurred_at a))),
      (''policy_version'', json_opt (aa_policy_version a)), (''previous_hash'', JStr previous_hash),
      (''revision'', JInt sequence), (''risk_version'', json_opt (aa_risk_version a)),
      (''sequence'', JInt sequence), (''tenant_id'', JStr (aa_tenant_id a))]"

definition canonical_event_body :: "audit_args \<Rightarrow> int \<Rightarrow> string \<Rightarrow> string" where
  "canonical_event_body a sequence previous_hash = dumps_sorted (JObj (event_body a sequence previous_hash))"

definition compute_event_hash :: "(string \<Rightarrow> string) \<Rightarrow> audit_args \<Rightarrow> int \<Rightarrow> string \<Rightarrow> string" where
  "compute_event_hash sha a sequence previous_hash = sha (canonical_event_body a sequence previous_hash)"

section \<open>Appending\<close>

record audit_event =
  av_event_id :: row_id
  av_tenant_id :: string
  av_aggregate_id :: uuid
  av_sequence :: int
  av_event_type :: string
  av_event_hash :: string
  av_occurred_at :: instant
  av_attributes :: dict

definition event_of_row :: "audit_row \<Rightarrow> audit_event" where
  "event_of_row r =
     \<lparr>av_event_id = ae_event_id r, av_tenant_id = ae_tenant_id r, av_aggregate_id = ae_aggregate_id r,
      av_sequence = ae_sequence r, av_event_type = ae_event_type r, av_event_hash = ae_event_hash r,
      av_occurred_at = ae_occurred_at r, av_attributes = ae_attributes r\<rparr>"

definition chain_rows :: "string \<Rightarrow> uuid \<Rightarrow> db \<Rightarrow> audit_row list" where
  "chain_rows tenant aggregate d =
     filter (\<lambda>r. ae_tenant_id r = tenant \<and> ae_aggregate_id r = aggregate) (db_audit d)"

text \<open>\<open>order_by(sequence)\<close>; the row with the largest number is the last.\<close>

definition chain_of :: "string \<Rightarrow> uuid \<Rightarrow> db \<Rightarrow> audit_row list" where
  "chain_of tenant aggregate d = sort_key ae_sequence (chain_rows tenant aggregate d)"

definition genesis_hash :: string where
  "genesis_hash = replicate 64 (CHR ''0'')"

definition row_of_event ::
  "(string \<Rightarrow> string) \<Rightarrow> audit_args \<Rightarrow> row_id \<Rightarrow> int \<Rightarrow> string \<Rightarrow> audit_row" where
  "row_of_event sha a n sequence previous_hash =
     \<lparr>ae_event_id = n, ae_tenant_id = aa_tenant_id a, ae_aggregate_id = aa_aggregate_id a,
      ae_aggregate_revision = aa_aggregate_revision a, ae_sequence = sequence,
      ae_event_type = aa_event_type a, ae_actor_id = aa_actor_id a, ae_occurred_at = aa_occurred_at a,
      ae_correlation_id = aa_correlation_id a, ae_causation_id = aa_causation_id a,
      ae_policy_version = aa_policy_version a, ae_risk_version = aa_risk_version a,
      ae_attributes = aa_attributes a, ae_previous_hash = previous_hash,
      ae_event_hash = compute_event_hash sha a sequence previous_hash\<rparr>"

definition existing_event :: "audit_args \<Rightarrow> db \<Rightarrow> exn + audit_row option" where
  "existing_event a d =
     (case aa_causation_id a of
        None \<Rightarrow> Inr None
      | Some c \<Rightarrow>
          scalar_one_or_none
            (filter (\<lambda>r. ae_causation_id r = Some c) (chain_rows (aa_tenant_id a) (aa_aggregate_id a) d)))"

definition next_event :: "(string \<Rightarrow> string) \<Rightarrow> audit_args \<Rightarrow> db \<Rightarrow> audit_row" where
  "next_event sha a d =
     (let rows = chain_of (aa_tenant_id a) (aa_aggregate_id a) d;
          sequence = (if rows = [] then 1 else ae_sequence (last rows) + 1);
          previous_hash = (if rows = [] then genesis_hash else ae_event_hash (last rows))
      in row_of_event sha a (db_next_id d) sequence previous_hash)"

definition add_event :: "audit_row \<Rightarrow> db \<Rightarrow> db" where
  "add_event r d = d\<lparr>db_audit := db_audit d @ [r], db_next_id := db_next_id d + 1\<rparr>"

definition append_event ::
  "(string \<Rightarrow> string) \<Rightarrow> audit_args \<Rightarrow> db \<Rightarrow> (exn + audit_event) \<times> db" where
  "append_event sha a d =
     (case existing_event a d of
        Inl e \<Rightarrow> (Inl e, d)
      | Inr (Some r) \<Rightarrow> (Inr (event_of_row r), d)
      | Inr None \<Rightarrow>
          (let r = next_event sha a d; d' = add_event r d
           in (case flush d' of
                 Inl e \<Rightarrow> (Inl e, d')
               | Inr _ \<Rightarrow> (Inr (event_of_row r), d'))))"

definition aggregate_count :: "string \<Rightarrow> uuid \<Rightarrow> db \<Rightarrow> int" where
  "aggregate_count tenant aggregate d = int (length (chain_rows tenant aggregate d))"

section \<open>Verification\<close>

definition args_of_row :: "audit_row \<Rightarrow> audit_args" where
  "args_of_row r =
     \<lparr>aa_tenant_id = ae_tenant_id r, aa_aggregate_id = ae_aggregate_id r,
      aa_aggregate_revision = ae_aggregate_revision r, aa_event_type = ae_event_type r,
      aa_actor_id = ae_actor_id r, aa_occurred_at = ae_occurred_at r, aa_attributes = ae_attributes r,
      aa_correlation_id = ae_correlation_id r, aa_causation_id = ae_causation_id r,
      aa_policy_version = ae_policy_version r, aa_risk_version = ae_risk_version r\<rparr>"

definition recomputed_hash :: "(string \<Rightarrow> string) \<Rightarrow> audit_row \<Rightarrow> string" where
  "recomputed_hash sha r = compute_event_hash sha (args_of_row r) (ae_sequence r) (ae_previous_hash r)"

fun verify_rows :: "(string \<Rightarrow> string) \<Rightarrow> string \<Rightarrow> int \<Rightarrow> audit_row list \<Rightarrow> string option" where
  "verify_rows sha previous_hash expected [] = None"
| "verify_rows sha previous_hash expected (r # rs) =
     (if ae_sequence r \<noteq> expected then Some (''sequence gap at '' @ int_str (ae_sequence r))
      else if ae_previous_hash r \<noteq> previous_hash
      then Some (''broken link at sequence '' @ int_str (ae_sequence r))
      else if ae_event_hash r \<noteq> recomputed_hash sha r
      then Some (''hash mismatch at sequence '' @ int_str (ae_sequence r))
      else verify_rows sha (ae_event_hash r) (expected + 1) rs)"

definition verify_aggregate_chain ::
  "(string \<Rightarrow> string) \<Rightarrow> string \<Rightarrow> uuid \<Rightarrow> db \<Rightarrow> bool \<times> string option" where
  "verify_aggregate_chain sha tenant aggregate d =
     (let rows = chain_of tenant aggregate d
      in if rows = [] then (False, Some ''empty audit chain'')
         else (case verify_rows sha genesis_hash 1 rows of
                 Some problem \<Rightarrow> (False, Some problem)
               | None \<Rightarrow> (True, None)))"

section \<open>Valid chains\<close>

text \<open>The verification loop, as a property of each position.\<close>

lemma verify_rows_append:
  "verify_rows sha p n (rs @ [r]) = None \<longleftrightarrow>
     verify_rows sha p n rs = None \<and> ae_sequence r = n + int (length rs) \<and>
     ae_previous_hash r = (if rs = [] then p else ae_event_hash (last rs)) \<and> ae_event_hash r = recomputed_hash sha r"
  by (induction rs arbitrary: p n) (auto simp: algebra_simps)

lemma verify_rows_sequences:
  "verify_rows sha p n rs = None \<Longrightarrow> map ae_sequence rs = map (\<lambda>k. n + int k) [0..<length rs]"
proof (induction rs rule: rev_induct)
  case (snoc r rs)
  then show ?case by (simp add: verify_rows_append)
qed simp

lemma verify_chain_True:
  "verify_aggregate_chain sha t a d = (True, None) \<longleftrightarrow>
     chain_of t a d \<noteq> [] \<and> verify_rows sha genesis_hash 1 (chain_of t a d) = None"
  by (simp add: verify_aggregate_chain_def Let_def split: option.splits)

lemma args_of_row_event [simp]: "args_of_row (row_of_event sha a n q p) = a"
  by (cases a) (simp add: args_of_row_def row_of_event_def)

lemma row_of_event_fields [simp]:
  "ae_tenant_id (row_of_event sha a n q p) = aa_tenant_id a"
  "ae_aggregate_id (row_of_event sha a n q p) = aa_aggregate_id a"
  "ae_causation_id (row_of_event sha a n q p) = aa_causation_id a"
  "ae_sequence (row_of_event sha a n q p) = q" "ae_previous_hash (row_of_event sha a n q p) = p"
  "ae_event_hash (row_of_event sha a n q p) = recomputed_hash sha (row_of_event sha a n q p)"
proof -
  show "ae_event_hash (row_of_event sha a n q p) = recomputed_hash sha (row_of_event sha a n q p)"
    unfolding recomputed_hash_def args_of_row_event by (simp add: row_of_event_def)
qed (simp_all add: row_of_event_def)

lemma chain_rows_add:
  "chain_rows t a (add_event r d) =
     chain_rows t a d @ (if ae_tenant_id r = t \<and> ae_aggregate_id r = a then [r] else [])"
  by (simp add: chain_rows_def add_event_def)

lemma sort_key_snoc:
  assumes "\<And>x. x \<in> set xs \<Longrightarrow> f x < f y"
  shows "sort_key f (xs @ [y]) = sort_key f xs @ [y]"
proof -
  have "insort_key f x (ys @ [y]) = insort_key f x ys @ [y]" if "f x < f y" for x ys
    using that by (induction ys) auto
  with assms show ?thesis by (induction xs) auto
qed

lemma chain_of_next:
  assumes "verify_rows sha genesis_hash 1 (chain_of (aa_tenant_id a) (aa_aggregate_id a) d) = None"
  shows "chain_of (aa_tenant_id a) (aa_aggregate_id a) (add_event (next_event sha a d) d) =
      chain_of (aa_tenant_id a) (aa_aggregate_id a) d @ [next_event sha a d]
    \<and> verify_rows sha genesis_hash 1
        (chain_of (aa_tenant_id a) (aa_aggregate_id a) (add_event (next_event sha a d) d)) = None"
proof -
  let ?c = "chain_of (aa_tenant_id a) (aa_aggregate_id a) d" and ?r = "next_event sha a d"
  note seq = verify_rows_sequences [OF assms]
  have last: "ae_sequence (last ?c) = int (length ?c)" if "?c \<noteq> []"
  proof -
    from that have "0 < length ?c" by simp
    then obtain n where n: "length ?c = Suc n" using gr0_implies_Suc by blast
    have "last (map ae_sequence ?c) = 1 + int n" by (simp add: seq n)
    with that n show ?thesis by (simp add: last_map)
  qed
  then have r: "ae_sequence ?r = 1 + int (length ?c)" by (simp add: next_event_def Let_def)
  have small: "ae_sequence x < ae_sequence ?r" if "x \<in> set ?c" for x
  proof -
    have "ae_sequence x \<in> set (map ae_sequence ?c)" using that by auto
    then show ?thesis unfolding seq r by auto
  qed
  have c: "chain_of (aa_tenant_id a) (aa_aggregate_id a) (add_event ?r d) = ?c @ [?r]"
    using small
    by (simp add: chain_of_def chain_rows_add sort_key_snoc) (simp add: next_event_def Let_def)
  have "ae_previous_hash ?r = (if ?c = [] then genesis_hash else ae_event_hash (last ?c))"
    "ae_event_hash ?r = recomputed_hash sha ?r" by (simp_all add: next_event_def Let_def)
  with r assms c show ?thesis by (simp add: verify_rows_append)
qed

lemma append_event_cases:
  assumes "append_event sha a d = (Inr e, d')"
  obtains (existing) c r where "aa_causation_id a = Some c" and "d' = d" and "e = event_of_row r"
      and "filter (\<lambda>r. ae_causation_id r = Some c) (chain_rows (aa_tenant_id a) (aa_aggregate_id a) d) = [r]"
  | (added) "d' = add_event (next_event sha a d) d" and "e = event_of_row (next_event sha a d)"
      and "flush d' = Inr ()"
      and "\<And>c. aa_causation_id a = Some c \<Longrightarrow>
        filter (\<lambda>r. ae_causation_id r = Some c) (chain_rows (aa_tenant_id a) (aa_aggregate_id a) d) = []"
proof (cases "existing_event a d")
  case (Inl x)
  with assms show ?thesis by (simp add: append_event_def)
next
  case (Inr q)
  show ?thesis
  proof (cases q)
    case None
    with Inr assms show ?thesis
      by (intro added)
        (auto simp: append_event_def Let_def existing_event_def scalar_one_or_none_Inr split: sum.splits option.splits)
  next
    case (Some r)
    with Inr obtain c where "aa_causation_id a = Some c"
      and "filter (\<lambda>r. ae_causation_id r = Some c) (chain_rows (aa_tenant_id a) (aa_aggregate_id a) d) = [r]"
      by (auto simp: existing_event_def scalar_one_or_none_Inr split: option.splits)
    with Inr Some assms show ?thesis by (intro existing [of c r]) (simp_all add: append_event_def)
  qed
qed

text \<open>
  C32. An append keeps every chain verifiable: if the chain of an aggregate is empty or verifies, it
  verifies after any append, to this or another aggregate, and a valid chain only grows at its end.
\<close>

theorem append_keeps_chains_valid:
  assumes "append_event sha a d = (Inr e, d')"
    and "chain_of t g d = [] \<or> verify_aggregate_chain sha t g d = (True, None)"
  shows "(chain_of t g d' = [] \<or> verify_aggregate_chain sha t g d' = (True, None)) \<and>
    prefix (chain_of t g d) (chain_of t g d') \<and>
    chain_of (aa_tenant_id a) (aa_aggregate_id a) d' \<noteq> []"
proof -
  from assms(2) have v: "verify_rows sha genesis_hash 1 (chain_of t g d) = None"
    by (auto simp: verify_chain_True)
  have nonempty: "chain_of u h d'' \<noteq> [] \<longleftrightarrow> chain_rows u h d'' \<noteq> []" for u h d''
    by (metis chain_of_def set_empty set_sort)
  from assms(1) show ?thesis
  proof (cases rule: append_event_cases)
    case (existing c r)
    have "r \<in> set (filter (\<lambda>r. ae_causation_id r = Some c) (chain_rows (aa_tenant_id a) (aa_aggregate_id a) d))"
      by (simp add: existing(4))
    then have "r \<in> set (chain_rows (aa_tenant_id a) (aa_aggregate_id a) d)" by simp
    with existing(2) assms(2) nonempty show ?thesis by auto
  next
    case added
    let ?r = "next_event sha a d"
    have key: "ae_tenant_id ?r = aa_tenant_id a" "ae_aggregate_id ?r = aa_aggregate_id a"
      by (simp_all add: next_event_def Let_def)
    then have "chain_rows (aa_tenant_id a) (aa_aggregate_id a) d' \<noteq> []" by (simp add: added(1) chain_rows_add)
    moreover have "verify_rows sha genesis_hash 1 (chain_of t g d') = None \<and> prefix (chain_of t g d) (chain_of t g d')"
    proof (cases "t = aa_tenant_id a \<and> g = aa_aggregate_id a")
      case True
      with v have v': "verify_rows sha genesis_hash 1 (chain_of (aa_tenant_id a) (aa_aggregate_id a) d) = None" by simp
      note next_chain = chain_of_next [OF v']
      from True conjunct1 [OF next_chain] conjunct2 [OF next_chain] show ?thesis
        unfolding added(1) by (metis prefix_def)
    next
      case False
      with key v added(1) show ?thesis by (auto simp: chain_of_def chain_rows_add)
    qed
    ultimately show ?thesis using nonempty by (auto simp: verify_chain_True)
  qed
qed

definition sample_event :: audit_args where
  "sample_event = \<lparr>aa_tenant_id = ''t'', aa_aggregate_id = 7, aa_aggregate_revision = 1,
     aa_event_type = ''intent_created'', aa_actor_id = ''alice'', aa_occurred_at = 0,
     aa_attributes = [(''tenant_id'', JStr ''t'')], aa_correlation_id = None, aa_causation_id = Some ''m1'',
     aa_policy_version = None, aa_risk_version = None\<rparr>"

lemma append_keeps_chains_valid_witness:
  "\<exists>d'. append_event (\<lambda>s. ''h'') sample_event empty_db = (Inr (event_of_row (next_event (\<lambda>s. ''h'') sample_event empty_db)), d') \<and>
     verify_aggregate_chain (\<lambda>s. ''h'') ''t'' 7 d' = (True, None)"
proof -
  have "flush (add_event (next_event (\<lambda>s. ''h'') sample_event empty_db) empty_db) = Inr ()"
    "existing_event sample_event empty_db = Inr None" by code_simp+
  then obtain d' where d': "append_event (\<lambda>s. ''h'') sample_event empty_db =
      (Inr (event_of_row (next_event (\<lambda>s. ''h'') sample_event empty_db)), d')"
    by (simp add: append_event_def Let_def)
  have "chain_of ''t'' 7 empty_db = []" by (simp add: chain_of_def chain_rows_def empty_db_def)
  then have "chain_of ''t'' 7 d' \<noteq> [] \<and> verify_aggregate_chain (\<lambda>s. ''h'') ''t'' 7 d' = (True, None)"
    using append_keeps_chains_valid [OF d', of "''t''" 7] by (auto simp: sample_event_def)
  with d' show ?thesis by blast
qed

section \<open>What the chain proves\<close>

text \<open>Two rows say the same: every column that enters the hash, attributes up to the order of keys.\<close>

definition same_event :: "audit_row \<Rightarrow> audit_row \<Rightarrow> bool" where
  "same_event r r' \<longleftrightarrow>
     ae_tenant_id r = ae_tenant_id r' \<and> ae_aggregate_id r = ae_aggregate_id r' \<and>
     ae_aggregate_revision r = ae_aggregate_revision r' \<and> ae_sequence r = ae_sequence r' \<and>
     ae_event_type r = ae_event_type r' \<and> ae_actor_id r = ae_actor_id r' \<and>
     isoformat (ae_occurred_at r) = isoformat (ae_occurred_at r') \<and>
     ae_correlation_id r = ae_correlation_id r' \<and> ae_causation_id r = ae_causation_id r' \<and>
     ae_policy_version r = ae_policy_version r' \<and> ae_risk_version r = ae_risk_version r' \<and>
     sort_json (JObj (ae_attributes r)) = sort_json (JObj (ae_attributes r')) \<and>
     ae_previous_hash r = ae_previous_hash r'"

text \<open>The text that is hashed for a row, and two rows whose texts differ and hash alike.\<close>

definition hashed_text :: "audit_row \<Rightarrow> string" where
  "hashed_text r = canonical_event_body (args_of_row r) (ae_sequence r) (ae_previous_hash r)"

definition collides :: "(string \<Rightarrow> string) \<Rightarrow> audit_row \<Rightarrow> audit_row \<Rightarrow> bool" where
  "collides sha r r' \<longleftrightarrow> hashed_text r \<noteq> hashed_text r' \<and> sha (hashed_text r) = sha (hashed_text r')"

lemma json_opt_sort [simp]: "sort_json (json_opt v) = json_opt v"
  by (cases v) simp_all

lemma json_opt_float_free [simp]: "float_free (json_opt v)"
  by (cases v) simp_all

lemma json_opt_inj [simp]: "json_opt v = json_opt w \<longleftrightarrow> v = w"
  by (cases v; cases w) simp_all

lemma event_body_keys: "distinct (map fst (event_body a n p))"
  by (simp add: event_body_def)

lemma event_body_float_free: "float_free (JObj (event_body a n p)) = float_free (JObj (aa_attributes a))"
  by (simp add: event_body_def)

lemma recomputed_hash_inject:
  assumes "recomputed_hash sha r = recomputed_hash sha r'" and "\<not> collides sha r r'"
    and "float_free (JObj (ae_attributes r))" and "float_free (JObj (ae_attributes r'))"
  shows "same_event r r'"
proof -
  let ?b = "\<lambda>r. event_body (args_of_row r) (ae_sequence r) (ae_previous_hash r)"
  have attrs: "aa_attributes (args_of_row r) = ae_attributes r" for r by (simp add: args_of_row_def)
  have "canonical_event_body (args_of_row r) (ae_sequence r) (ae_previous_hash r) =
      canonical_event_body (args_of_row r') (ae_sequence r') (ae_previous_hash r')"
    using assms(1,2) unfolding recomputed_hash_def compute_event_hash_def collides_def hashed_text_def by blast
  then have "sort_json (JObj (?b r)) = sort_json (JObj (?b r'))"
    unfolding canonical_event_body_def
    by (subst (asm) dumps_sorted_inject) (use assms(3,4) in \<open>simp_all only: event_body_float_free attrs\<close>)
  from sort_json_JObj_members [OF this event_body_keys event_body_keys]
  have mem: "map_option sort_json (map_of (?b r) k) = map_option sort_json (map_of (?b r') k)" for k .
  show ?thesis
    using mem [of "''aggregate_id''"] mem [of "''aggregate_revision''"] mem [of "''actor_id''"]
      mem [of "''attributes''"] mem [of "''causation_id''"] mem [of "''correlation_id''"]
      mem [of "''event_type''"] mem [of "''occurred_at''"] mem [of "''policy_version''"]
      mem [of "''previous_hash''"] mem [of "''risk_version''"] mem [of "''sequence''"] mem [of "''tenant_id''"]
    by (simp add: same_event_def event_body_def args_of_row_def del: sort_json.simps(2))
qed

text \<open>
  C11. A chain is tamper-evident up to its last hash: if two chains verify and end in the same hash,
  they have the same length and say the same at every position, or two of their rows exhibit a
  collision of SHA-256.
\<close>

theorem chain_tamper_evident:
  assumes "verify_rows sha genesis_hash 1 rs = None" and "verify_rows sha genesis_hash 1 rs' = None"
    and "rs \<noteq> []" and "rs' \<noteq> []" and "ae_event_hash (last rs) = ae_event_hash (last rs')"
    and "\<And>r. r \<in> set rs \<union> set rs' \<Longrightarrow> float_free (JObj (ae_attributes r))"
  shows "list_all2 same_event rs rs' \<or> (\<exists>r \<in> set rs. \<exists>r' \<in> set rs'. collides sha r r')"
  using assms
proof (induction rs arbitrary: rs' rule: rev_induct)
  case (snoc r rs)
  from snoc.prems(4) obtain ss s where rs': "rs' = ss @ [s]" by (cases rs' rule: rev_cases) auto
  note v = snoc.prems(1) [unfolded verify_rows_append] snoc.prems(2) [unfolded rs' verify_rows_append]
  have hash: "recomputed_hash sha r = recomputed_hash sha s" using v snoc.prems(5) rs' by simp
  have mem: "r \<in> set (rs @ [r]) \<union> set rs'" "s \<in> set (rs @ [r]) \<union> set rs'" using rs' by simp_all
  show ?case
  proof (cases "collides sha r s")
    case True
    with rs' show ?thesis by auto
  next
    case no: False
    have same: "same_event r s"
      by (rule recomputed_hash_inject [OF hash no snoc.prems(6) [OF mem(1)] snoc.prems(6) [OF mem(2)]])
    then have len: "length rs = length ss" and prev: "ae_previous_hash r = ae_previous_hash s"
      using v by (simp_all add: same_event_def)
    show ?thesis
    proof (cases "rs = []")
      case True
      with len same rs' show ?thesis by simp
    next
      case False
      with len have "ss \<noteq> []" by auto
      with False v prev have "ae_event_hash (last rs) = ae_event_hash (last ss)" by simp
      from snoc.IH [OF _ _ False \<open>ss \<noteq> []\<close> this] v snoc.prems(6) rs'
      have "list_all2 same_event rs ss \<or> (\<exists>r \<in> set rs. \<exists>r' \<in> set ss. collides sha r r')" by auto
      with same rs' show ?thesis by (auto intro: list_all2_appendI)
    qed
  qed
qed simp

lemma chain_tamper_evident_witness:
  "list_all2 same_event [row_of_event id sample_event 0 1 genesis_hash] [row_of_event id sample_event 5 1 genesis_hash]"
proof -
  let ?rs = "[row_of_event id sample_event 0 1 genesis_hash]" and ?rs' = "[row_of_event id sample_event 5 1 genesis_hash]"
  have "list_all2 same_event ?rs ?rs' \<or> (\<exists>r \<in> set ?rs. \<exists>r' \<in> set ?rs'. collides id r r')"
  proof (rule chain_tamper_evident [of id])
    show "verify_rows id genesis_hash 1 ?rs = None" "verify_rows id genesis_hash 1 ?rs' = None" by simp_all
    show "ae_event_hash (last ?rs) = ae_event_hash (last ?rs')" by (simp add: row_of_event_def)
    show "float_free (JObj (ae_attributes r))" if "r \<in> set ?rs \<union> set ?rs'" for r
      using that by (auto simp: row_of_event_def sample_event_def)
  qed simp_all
  then show ?thesis by (simp add: collides_def)
qed

text \<open>
  What the chain does not prove: its end is not anchored, and the hash takes no secret. The last
  row of a verified chain can be replaced by any other event, hashed anew, and the chain verifies;
  and a verified chain still verifies when its end is cut off.
\<close>

theorem chain_end_not_anchored:
  assumes "verify_rows sha p n (rs @ [r]) = None"
  shows "verify_rows sha p n (rs @ [row_of_event sha a (ae_event_id r) (ae_sequence r) (ae_previous_hash r)]) = None
    \<and> verify_rows sha p n rs = None"
  using assms by (simp add: verify_rows_append)

lemma chain_end_not_anchored_witness:
  "verify_rows id genesis_hash 1 ([] @ [row_of_event id (sample_event\<lparr>aa_actor_id := ''mallory''\<rparr>) 0 1 genesis_hash]) = None"
  using chain_end_not_anchored
    [of id genesis_hash 1 "[]" "row_of_event id sample_event 0 1 genesis_hash" "sample_event\<lparr>aa_actor_id := ''mallory''\<rparr>"]
  by (simp add: row_of_event_def recomputed_hash_def args_of_row_def sample_event_def)

text \<open>
  Appending is idempotent per cause: an event appended for an outbox message is found again by
  every later append for the same message and aggregate, which changes nothing, whatever the
  repeated call says.
\<close>

theorem append_idempotent:
  assumes "append_event sha a d = (Inr e, d')" and "aa_causation_id a = Some c"
    and "aa_tenant_id b = aa_tenant_id a" and "aa_aggregate_id b = aa_aggregate_id a"
    and "aa_causation_id b = Some c"
  shows "append_event sha b d' = (Inr e, d')"
  using assms(1)
proof (cases rule: append_event_cases)
  case (existing c' r)
  with assms show ?thesis by (simp add: append_event_def existing_event_def)
next
  case added
  let ?r = "next_event sha a d"
  have "ae_tenant_id ?r = aa_tenant_id a" "ae_aggregate_id ?r = aa_aggregate_id a" "ae_causation_id ?r = Some c"
    using assms(2) by (simp_all add: next_event_def Let_def)
  with added assms(2-5) show ?thesis
    by (simp add: append_event_def existing_event_def chain_rows_add)
qed

lemma append_idempotent_witness:
  "\<exists>e d'. append_event (\<lambda>s. ''h'') sample_event empty_db = (Inr e, d') \<and>
     append_event (\<lambda>s. ''h'') (sample_event\<lparr>aa_actor_id := ''mallory''\<rparr>) d' = (Inr e, d')"
proof -
  have "flush (add_event (next_event (\<lambda>s. ''h'') sample_event empty_db) empty_db) = Inr ()"
    "existing_event sample_event empty_db = Inr None" by code_simp+
  then obtain e d' where d': "append_event (\<lambda>s. ''h'') sample_event empty_db = (Inr e, d')"
    by (simp add: append_event_def Let_def)
  from append_idempotent [OF d', of "''m1''" "sample_event\<lparr>aa_actor_id := ''mallory''\<rparr>"] d'
  show ?thesis by (simp add: sample_event_def)
qed

end
