(* ===== verification/Outbox.thy ===== *)
theory Outbox
  imports Audit_Chain
begin

text \<open>
  \<open>infrastructure/outbox.py\<close> and \<open>infrastructure/notification.py\<close>: the publisher that turns committed outbox
  rows into audit events and notifications. A batch is claimed with a lease in one transaction,
  each message is delivered with none open, and its row is finalised or rescheduled in another.

  The sink is an argument (a function on a sink state). \<open>library\<close> holds what the code takes from
  Python's library beyond what is defined here: \<open>uuid.uuid5\<close> in the URL namespace, and \<open>int\<close> and
  \<open>uuid.UUID\<close> on arguments the program itself never writes into a payload.
\<close>

record library =
  lb_uuid5 :: "string \<Rightarrow> uuid"
  lb_int :: "json \<Rightarrow> exn + int"
  lb_uuid :: "json \<Rightarrow> exn + uuid"

section \<open>Notification sinks\<close>

record notification_request =
  nr_tenant_id :: string
  nr_intent_id :: string
  nr_revision :: int
  nr_to_state :: string
  nr_correlation_id :: string

record notification_message =
  nm_notification_id :: string
  nm_subject :: string
  nm_body :: string

definition notification_id :: "library \<Rightarrow> notification_request \<Rightarrow> string" where
  "notification_id lib q =
     uuid_hex (lb_uuid5 lib (''notification:'' @ nr_tenant_id q @ '':'' @ nr_intent_id q @ '':'' @
       int_str (nr_revision q) @ '':'' @ nr_to_state q))"

definition render_notification :: "library \<Rightarrow> notification_request \<Rightarrow> notification_message" where
  "render_notification lib q =
     \<lparr>nm_notification_id = notification_id lib q,
      nm_subject = ''Approval requested for intent '' @ nr_intent_id q @ '' (revision '' @ int_str (nr_revision q) @ '')'',
      nm_body = ''State '' @ nr_to_state q @ '': an operational action awaits authorization. '' @
        ''Review the exact digest at /v1/intents/'' @ nr_intent_id q @ '' before approving.''\<rparr>"

text \<open>The logging sink keeps no state; the log lines are not modelled.\<close>

definition logging_sink :: "library \<Rightarrow> notification_request \<Rightarrow> 's \<Rightarrow> (exn + string) \<times> 's" where
  "logging_sink lib q s = (Inr (nm_notification_id (render_notification lib q)), s)"

definition recording_sink ::
  "library \<Rightarrow> notification_request \<Rightarrow> notification_message list \<Rightarrow> (exn + string) \<times> notification_message list" where
  "recording_sink lib q deliveries =
     (let m = render_notification lib q in (Inr (nm_notification_id m), deliveries @ [m]))"

definition failing_sink :: "notification_request \<Rightarrow> 's \<Rightarrow> (exn + string) \<times> 's" where
  "failing_sink q s = (Inl RuntimeError, s)"

section \<open>The claim\<close>

definition AUDIT_TOPICS :: "string list" where
  "AUDIT_TOPICS =
     [''intent.created'', ''intent.transitioned'', ''risk.evaluated'', ''policy.evaluated'',
      ''execution.succeeded'', ''execution.failed'', ''execution.executing'', ''execution.execution_unknown'',
      ''execution.reconciled'', ''execution.reconciliation_exhausted'', ''administration.role_changed'',
      ''administration.policy_changed'', ''notification.delivered'']"

definition NOTIFICATION_TOPICS :: "string list" where
  "NOTIFICATION_TOPICS = [''intent.transitioned'']"

definition NOTIFICATION_STATES :: "string list" where
  "NOTIFICATION_STATES = [''PENDING_APPROVAL_1'', ''PENDING_APPROVAL_2'']"

definition batch_limit :: nat where
  "batch_limit = 100"

definition retry_backoff_seconds :: int where
  "retry_backoff_seconds = 5"

definition claim_lease_seconds :: int where
  "claim_lease_seconds = 60"

definition passed :: "instant option \<Rightarrow> instant \<Rightarrow> bool" where
  "passed t now \<longleftrightarrow> (case t of None \<Rightarrow> True | Some u \<Rightarrow> u \<le> now)"

definition message_due :: "instant \<Rightarrow> outbox_row \<Rightarrow> bool" where
  "message_due now r \<longleftrightarrow>
     ob_published_at r = None \<and> passed (ob_next_attempt_at r) now \<and> passed (ob_claim_expires_at r) now"

definition due_messages :: "row_id list \<Rightarrow> instant \<Rightarrow> db \<Rightarrow> outbox_row list" where
  "due_messages locked now d =
     take batch_limit
       (sort_key ob_sequence (filter (\<lambda>r. message_due now r \<and> ob_id r \<notin> set locked) (db_outbox d)))"

definition lease_message :: "instant \<Rightarrow> string \<Rightarrow> outbox_row \<Rightarrow> outbox_row" where
  "lease_message now worker_id r =
     r\<lparr>ob_attempts := ob_attempts r + 1, ob_claimed_by := Some worker_id,
       ob_claim_expires_at := Some (now + seconds claim_lease_seconds)\<rparr>"

definition claim_messages ::
  "env \<Rightarrow> row_id list \<Rightarrow> string \<Rightarrow> db \<Rightarrow> (exn + row_id list) \<times> db" where
  "claim_messages ev locked worker_id d =
     (let ids = map ob_id (due_messages locked (ev_now ev) d)
      in (Inr ids, d\<lparr>db_outbox :=
            upd_where (\<lambda>r. ob_id r \<in> set ids) (lease_message (ev_now ev) worker_id) (db_outbox d)\<rparr>))"

section \<open>Delivery\<close>

definition get_message :: "row_id \<Rightarrow> db \<Rightarrow> outbox_row option" where
  "get_message n d = find (\<lambda>r. ob_id r = n) (db_outbox d)"

fun replace_str :: "string \<Rightarrow> string \<Rightarrow> string \<Rightarrow> string" where
  "replace_str p q [] = []"
| "replace_str p q (c # s) =
     (if p \<noteq> [] \<and> starts_with p (c # s) then q @ replace_str p q (drop (length p - 1) s)
      else c # replace_str p q s)"

definition event_type_of :: "string \<Rightarrow> string" where
  "event_type_of topic =
     (case map_of
        [(''intent.created'', ''intent_created''), (''intent.transitioned'', ''state_transitioned''),
         (''risk.evaluated'', ''risk_evaluated''), (''policy.evaluated'', ''policy_evaluated''),
         (''notification.delivered'', ''notification_delivered'')] topic of
        Some t \<Rightarrow> t
      | None \<Rightarrow>
          replace_str ''administration.'' ''administration_'' (replace_str ''execution.'' ''execution_'' topic))"

text \<open>Text columns take a string; a NULL is possible only where the column is nullable.\<close>

fun text_column :: "json \<Rightarrow> exn + string" where
  "text_column (JStr s) = Inr s"
| "text_column JNull = Inl IntegrityError"
| "text_column v = Inl DataError"

fun nullable_column :: "json \<Rightarrow> exn + string option" where
  "nullable_column (JStr s) = Inr (Some s)"
| "nullable_column JNull = Inr None"
| "nullable_column v = Inl DataError"

definition int_value :: "library \<Rightarrow> json \<Rightarrow> exn + int" where
  "int_value lib v = (case v of JInt n \<Rightarrow> Inr n | _ \<Rightarrow> lb_int lib v)"

definition uuid_value :: "library \<Rightarrow> json \<Rightarrow> exn + uuid" where
  "uuid_value lib v =
     (case v of
        JStr s \<Rightarrow> if uuid_str (uuid_parse s) = s then Inr (uuid_parse s) else lb_uuid lib v
      | _ \<Rightarrow> lb_uuid lib v)"

definition aggregate_of :: "library \<Rightarrow> dict \<Rightarrow> exn + uuid" where
  "aggregate_of lib payload =
     (case map_of payload ''intent_id'' of
        Some v \<Rightarrow> uuid_value lib v
      | None \<Rightarrow> Inr (lb_uuid5 lib (''administration:'' @ py_str (dget ''tenant_id'' payload))))"

text \<open>The arguments of the audit append, or the exception that building them raises.\<close>

definition audit_args_of :: "library \<Rightarrow> outbox_row \<Rightarrow> exn + audit_args" where
  "audit_args_of lib r =
     (let p = ob_payload r
      in (case (aggregate_of lib p, int_value lib (dget_or ''revision'' (JInt 1) p),
                text_column (dget_or ''tenant_id'' (JStr ''tenant-1'') p),
                nullable_column (dget ''correlation_id'' p),
                nullable_column (dget ''policy_version'' p), nullable_column (dget ''rule_version'' p)) of
            (Inr aggregate, Inr revision, Inr tenant, Inr correlation, Inr policy, Inr risk) \<Rightarrow>
              Inr \<lparr>aa_tenant_id = tenant, aa_aggregate_id = aggregate, aa_aggregate_revision = revision,
                   aa_event_type = event_type_of (ob_topic r),
                   aa_actor_id = py_str (dget_or ''actor_id'' (dget_or ''command_id'' (JStr ''system'') p) p),
                   aa_occurred_at = ob_created_at r, aa_attributes = p, aa_correlation_id = correlation,
                   aa_causation_id = Some (row_id_str (ob_id r)), aa_policy_version = policy,
                   aa_risk_version = risk\<rparr>
          | (Inl e, _) \<Rightarrow> Inl e
          | (_, Inl e, _) \<Rightarrow> Inl e
          | (_, _, Inl e, _) \<Rightarrow> Inl e
          | (_, _, _, Inl e, _) \<Rightarrow> Inl e
          | (_, _, _, _, Inl e, _) \<Rightarrow> Inl e
          | (_, _, _, _, _, Inl e) \<Rightarrow> Inl e))"

definition deliver_audit ::
  "library \<Rightarrow> (string \<Rightarrow> string) \<Rightarrow> row_id \<Rightarrow> db \<Rightarrow> (exn + nat) \<times> db" where
  "deliver_audit lib sha n d =
     (case get_message n d of
        None \<Rightarrow> (Inr 0, d)
      | Some r \<Rightarrow>
          (if ob_published_at r \<noteq> None then (Inr 0, d)
           else (case audit_args_of lib r of
                   Inl e \<Rightarrow> (Inl e, d)
                 | Inr a \<Rightarrow>
                     (case append_event sha a d of
                        (Inl e, d') \<Rightarrow> (Inl e, d')
                      | (Inr _, d') \<Rightarrow> (Inr 1, d')))))"

definition notification_wanted :: "outbox_row \<Rightarrow> bool" where
  "notification_wanted r \<longleftrightarrow>
     ob_topic r \<in> set NOTIFICATION_TOPICS \<and>
     (case dget ''to_state'' (ob_payload r) of JStr s \<Rightarrow> s \<in> set NOTIFICATION_STATES | _ \<Rightarrow> False)"

definition request_of :: "library \<Rightarrow> dict \<Rightarrow> exn + notification_request" where
  "request_of lib p =
     (case int_value lib (dget_or ''revision'' (JInt 1) p) of
        Inl e \<Rightarrow> Inl e
      | Inr revision \<Rightarrow>
          Inr \<lparr>nr_tenant_id = py_str (dget ''tenant_id'' p), nr_intent_id = py_str (dget ''intent_id'' p),
               nr_revision = revision, nr_to_state = py_str (dget ''to_state'' p),
               nr_correlation_id = py_str (dget ''command_id'' p)\<rparr>)"

definition delivered_payload :: "dict \<Rightarrow> string \<Rightarrow> string \<Rightarrow> dict" where
  "delivered_payload p nid worker_id =
     [(''tenant_id'', dget ''tenant_id'' p), (''intent_id'', dget ''intent_id'' p),
      (''notification_id'', JStr nid), (''delivered_by'', JStr worker_id)]"

definition notify_and_record ::
  "library \<Rightarrow> (notification_request \<Rightarrow> 's \<Rightarrow> (exn + string) \<times> 's) \<Rightarrow> env \<Rightarrow> string \<Rightarrow> outbox_row \<Rightarrow> db \<Rightarrow> 's
     \<Rightarrow> (exn + nat) \<times> db \<times> 's" where
  "notify_and_record lib notify ev worker_id r d s =
     (if \<not> notification_wanted r then (Inr 0, d, s)
      else (case request_of lib (ob_payload r) of
              Inl e \<Rightarrow> (Inl e, d, s)
            | Inr q \<Rightarrow>
                (case notify q s of
                   (Inl e, s') \<Rightarrow> (Inl e, d, s')
                 | (Inr nid, s') \<Rightarrow>
                     (case transaction (\<lambda>d. (Inr (), add_outbox (ev_db_now ev) ''notification.delivered''
                               (delivered_payload (ob_payload r) nid worker_id) d)) d of
                        (Inl e, d') \<Rightarrow> (Inl e, d', s')
                      | (Inr _, d') \<Rightarrow> (Inr 1, d', s')))))"

text \<open>\<open>_deliver\<close>: the counts of audit events and notifications, or the exception that ended it.\<close>

definition deliver ::
  "library \<Rightarrow> (string \<Rightarrow> string) \<Rightarrow> (notification_request \<Rightarrow> 's \<Rightarrow> (exn + string) \<times> 's) \<Rightarrow> env \<Rightarrow> string
     \<Rightarrow> row_id \<Rightarrow> db \<Rightarrow> 's \<Rightarrow> (exn + nat \<times> nat) \<times> db \<times> 's" where
  "deliver lib sha notify ev worker_id n d s =
     (case get_message n d of
        None \<Rightarrow> (Inr (0, 0), d, s)
      | Some r \<Rightarrow>
          (case (if ob_topic r \<in> set AUDIT_TOPICS then transaction (deliver_audit lib sha n) d else (Inr 0, d)) of
             (Inl e, d1) \<Rightarrow> (Inl e, d1, s)
           | (Inr audited, d1) \<Rightarrow>
               (case notify_and_record lib notify ev worker_id r d1 s of
                  (Inl e, d2, s') \<Rightarrow> (Inl e, d2, s')
                | (Inr notified, d2, s') \<Rightarrow> (Inr (audited, notified), d2, s'))))"

definition owned_update ::
  "string \<Rightarrow> row_id \<Rightarrow> (outbox_row \<Rightarrow> outbox_row) \<Rightarrow> db \<Rightarrow> (exn + unit) \<times> db" where
  "owned_update worker_id n f d =
     (case get_message n d of
        None \<Rightarrow> (Inr (), d)
      | Some r \<Rightarrow>
          (if ob_published_at r \<noteq> None \<or> ob_claimed_by r \<noteq> Some worker_id then (Inr (), d)
           else (Inr (), d\<lparr>db_outbox := upd_where (\<lambda>r. ob_id r = n) f (db_outbox d)\<rparr>)))"

definition finalize :: "env \<Rightarrow> string \<Rightarrow> row_id \<Rightarrow> db \<Rightarrow> (exn + unit) \<times> db" where
  "finalize ev worker_id n =
     owned_update worker_id n
       (\<lambda>r. r\<lparr>ob_published_at := Some (ev_now ev), ob_claimed_by := None, ob_claim_expires_at := None\<rparr>)"

definition reschedule :: "env \<Rightarrow> string \<Rightarrow> row_id \<Rightarrow> db \<Rightarrow> (exn + unit) \<times> db" where
  "reschedule ev worker_id n =
     owned_update worker_id n
       (\<lambda>r. r\<lparr>ob_next_attempt_at := Some (ev_now ev + seconds retry_backoff_seconds),
              ob_claimed_by := None, ob_claim_expires_at := None\<rparr>)"

record publication =
  pb_audited :: nat
  pb_notified :: nat
  pb_failed :: nat

text \<open>One message of the loop of \<open>publish_pending\<close>.\<close>

definition publish_message ::
  "library \<Rightarrow> (string \<Rightarrow> string) \<Rightarrow> (notification_request \<Rightarrow> 's \<Rightarrow> (exn + string) \<times> 's) \<Rightarrow> env \<Rightarrow> string
     \<Rightarrow> row_id \<Rightarrow> publication \<Rightarrow> db \<Rightarrow> 's \<Rightarrow> (exn + publication) \<times> db \<times> 's" where
  "publish_message lib sha notify ev worker_id n stats d s =
     (case deliver lib sha notify ev worker_id n d s of
        (Inl _, d1, s') \<Rightarrow>
          (case transaction (reschedule ev worker_id n) d1 of
             (Inl e, d2) \<Rightarrow> (Inl e, d2, s')
           | (Inr _, d2) \<Rightarrow> (Inr (stats\<lparr>pb_failed := pb_failed stats + 1\<rparr>), d2, s'))
      | (Inr (audited, notified), d1, s') \<Rightarrow>
          (case transaction (finalize ev worker_id n) d1 of
             (Inl e, d2) \<Rightarrow> (Inl e, d2, s')
           | (Inr _, d2) \<Rightarrow>
               (Inr (stats\<lparr>pb_audited := pb_audited stats + audited, pb_notified := pb_notified stats + notified\<rparr>),
                d2, s')))"

fun publish_messages ::
  "library \<Rightarrow> (string \<Rightarrow> string) \<Rightarrow> (notification_request \<Rightarrow> 's \<Rightarrow> (exn + string) \<times> 's) \<Rightarrow> (row_id \<Rightarrow> env)
     \<Rightarrow> string \<Rightarrow> row_id list \<Rightarrow> publication \<Rightarrow> db \<Rightarrow> 's \<Rightarrow> (exn + publication) \<times> db \<times> 's" where
  "publish_messages lib sha notify evs worker_id [] stats d s = (Inr stats, d, s)"
| "publish_messages lib sha notify evs worker_id (n # ns) stats d s =
     (case publish_message lib sha notify (evs n) worker_id n stats d s of
        (Inl e, d', s') \<Rightarrow> (Inl e, d', s')
      | (Inr stats', d', s') \<Rightarrow> publish_messages lib sha notify evs worker_id ns stats' d' s')"

definition publish_pending ::
  "library \<Rightarrow> (string \<Rightarrow> string) \<Rightarrow> (notification_request \<Rightarrow> 's \<Rightarrow> (exn + string) \<times> 's) \<Rightarrow> env \<Rightarrow> (row_id \<Rightarrow> env)
     \<Rightarrow> row_id list \<Rightarrow> string \<Rightarrow> db \<Rightarrow> 's \<Rightarrow> (exn + publication) \<times> db \<times> 's" where
  "publish_pending lib sha notify ev evs locked worker_id d s =
     (case transaction (claim_messages ev locked worker_id) d of
        (Inl e, d1) \<Rightarrow> (Inl e, d1, s)
      | (Inr ids, d1) \<Rightarrow>
          publish_messages lib sha notify evs worker_id ids
            \<lparr>pb_audited = 0, pb_notified = 0, pb_failed = 0\<rparr> d1 s)"

end
