(* ===== verification/Outbox_Safety.thy ===== *)
theory Outbox_Safety
  imports Outbox History
begin

text \<open>
  What the publisher promises: it writes nothing but audit events and outbox rows, a lease keeps a
  claimed message from a second claim, and a message is never lost: its row is marked published
  only after its audit event is in the store.
\<close>

section \<open>What the publisher leaves alone\<close>

definition same_core :: "db \<Rightarrow> db \<Rightarrow> bool" where
  "same_core d d' \<longleftrightarrow>
     db_intents d' = db_intents d \<and> db_transitions d' = db_transitions d \<and> db_risk d' = db_risk d \<and>
     db_policy d' = db_policy d \<and> db_decisions d' = db_decisions d \<and> db_executions d' = db_executions d \<and>
     db_roles d' = db_roles d \<and> db_bundles d' = db_bundles d \<and> db_idempotency d' = db_idempotency d"

lemma same_core_refl [simp]: "same_core d d"
  by (simp add: same_core_def)

lemma same_core_trans: "same_core d d' \<Longrightarrow> same_core d' d'' \<Longrightarrow> same_core d d''"
  by (simp add: same_core_def)

lemma same_core_outbox [simp]:
  "same_core d (add_outbox n t p d)" "same_core d (add_event r d)" "same_core d (d\<lparr>db_outbox := rs\<rparr>)"
  by (simp_all add: same_core_def add_event_def)

lemma same_core_evolves: "same_core d d' \<Longrightarrow> evolves d d'"
  by (rule evolves_frame) (simp_all add: same_core_def)

text \<open>A transaction leaves alone what its handler leaves alone.\<close>

lemma transaction_keeps:
  assumes "transaction h d = (r, d')" and "\<And>r d'. h d = (r, d') \<Longrightarrow> P d'" and "P d"
  shows "P d'"
proof -
  obtain q d1 where h: "h d = (q, d1)" by (rule prod.exhaust)
  with assms show ?thesis by (auto simp: transaction_def begin_block_def split: sum.splits)
qed

lemma append_event_core: "append_event sha a d = (r, d') \<Longrightarrow> same_core d d' \<and> db_outbox d' = db_outbox d"
  by (auto simp: append_event_def Let_def add_event_def same_core_def split: sum.splits option.splits)

lemma deliver_audit_core: "deliver_audit lib sha n d = (r, d') \<Longrightarrow> same_core d d' \<and> db_outbox d' = db_outbox d"
  using append_event_core
  by (auto simp: deliver_audit_def split: option.splits if_splits sum.splits prod.splits)

lemma get_message_outbox: "db_outbox d' = db_outbox d \<Longrightarrow> get_message n d' = get_message n d"
  by (simp add: get_message_def)

lemma get_message_add: "get_message n d = Some r \<Longrightarrow> get_message n (add_outbox t tp p d) = Some r"
  by (simp add: get_message_def add_outbox_def find_append)

lemma notify_and_record_core:
  assumes "notify_and_record lib notify ev w r d s = (q, d', s')"
  shows "same_core d d' \<and> db_audit d' = db_audit d \<and> (get_message n d = Some m \<longrightarrow> get_message n d' = Some m)"
proof -
  have "same_core d d2 \<and> db_audit d2 = db_audit d \<and> (get_message n d = Some m \<longrightarrow> get_message n d2 = Some m)"
    if "transaction (\<lambda>d. (Inr (), add_outbox t tp p d)) d = (x, d2)" for t tp p x d2
    using that by (rule transaction_keeps) (auto simp: get_message_add)
  with assms show ?thesis
    by (auto simp: notify_and_record_def split: if_splits sum.splits prod.splits)
qed

text \<open>A delivery that does not fail has put the audit event in the store.\<close>

definition audited :: "row_id \<Rightarrow> db \<Rightarrow> bool" where
  "audited n d \<longleftrightarrow> (\<exists>e \<in> set (db_audit d). ae_causation_id e = Some (row_id_str n))"

lemma append_event_present:
  assumes "append_event sha a d = (Inr e, d')" and "aa_causation_id a = Some c"
  shows "\<exists>r \<in> set (db_audit d'). ae_causation_id r = Some c"
  using assms(1)
proof (cases rule: append_event_cases)
  case (existing c' r)
  then have "r \<in> set (filter (\<lambda>r. ae_causation_id r = Some c') (chain_rows (aa_tenant_id a) (aa_aggregate_id a) d))"
    by simp
  then have "r \<in> set (db_audit d) \<and> ae_causation_id r = Some c'" by (simp add: chain_rows_def)
  with existing(1,2) assms(2) show ?thesis by auto
next
  case added
  with assms(2) show ?thesis by (auto simp: add_event_def next_event_def Let_def)
qed

lemma audit_args_of_cause: "audit_args_of lib r = Inr a \<Longrightarrow> aa_causation_id a = Some (row_id_str (ob_id r))"
  by (auto simp: audit_args_of_def Let_def split: sum.splits)

lemma deliver_audit_present:
  assumes "transaction (deliver_audit lib sha n) d = (Inr k, d')" and "get_message n d = Some r"
    and "ob_published_at r = None"
  shows "audited n d'"
proof -
  from assms(1) have h: "deliver_audit lib sha n d = (Inr k, d')"
    by (auto simp: transaction_def begin_block_def split: prod.splits sum.splits)
  have id: "ob_id r = n" using assms(2) unfolding get_message_def by (drule_tac find_SomeD) simp
  show ?thesis
  proof (cases "audit_args_of lib r")
    case (Inl e)
    with h assms show ?thesis by (simp add: deliver_audit_def)
  next
    case (Inr a)
    with h assms obtain e where "append_event sha a d = (Inr e, d')"
      by (auto simp: deliver_audit_def split: prod.splits sum.splits)
    from append_event_present [OF this audit_args_of_cause [OF Inr]] id show ?thesis
      by (auto simp: audited_def)
  qed
qed

lemma deliver_facts:
  assumes "deliver lib sha notify ev w n d s = (q, d', s')" and "get_message n d = Some r"
    and "ob_published_at r = None"
  shows "same_core d d' \<and> get_message n d' = Some r \<and>
     ((\<exists>c. q = Inr c) \<longrightarrow> ob_topic r \<in> set AUDIT_TOPICS \<longrightarrow> audited n d')"
proof -
  let ?a = "if ob_topic r \<in> set AUDIT_TOPICS then transaction (deliver_audit lib sha n) d else (Inr 0, d)"
  obtain q1 d1 where a: "?a = (q1, d1)" by (rule prod.exhaust)
  have one: "same_core d d1 \<and> get_message n d1 = Some r"
  proof (cases "ob_topic r \<in> set AUDIT_TOPICS")
    case True
    with a have t: "transaction (deliver_audit lib sha n) d = (q1, d1)" by simp
    have "same_core d d1 \<and> db_outbox d1 = db_outbox d"
      by (rule transaction_keeps [OF t, of "\<lambda>x. same_core d x \<and> db_outbox x = db_outbox d"])
        (erule deliver_audit_core, simp)
    with assms(2) get_message_outbox [of d1 d] show ?thesis by simp
  next
    case False
    with a assms(2) show ?thesis by simp
  qed
  have present: "audited n d1" if "ob_topic r \<in> set AUDIT_TOPICS" "q1 = Inr k" for k
    using a that deliver_audit_present [OF _ assms(2,3)] by auto
  show ?thesis
  proof (cases q1)
    case (Inl e)
    with assms(1,2) a one show ?thesis by (auto simp: deliver_def)
  next
    case (Inr k)
    obtain q2 d2 s2 where n: "notify_and_record lib notify ev w r d1 s = (q2, d2, s2)" by (metis prod_cases3)
    from notify_and_record_core [OF n, of n r] one have "same_core d d2 \<and> get_message n d2 = Some r \<and> db_audit d2 = db_audit d1"
      using same_core_trans by blast
    moreover have "d' = d2" using assms(1,2) a n Inr by (simp add: deliver_def split: sum.splits)
    ultimately show ?thesis using present Inr by (auto simp: audited_def)
  qed
qed

lemma owned_update_core: "owned_update w n f d = (q, d') \<Longrightarrow> same_core d d' \<and> db_audit d' = db_audit d"
  by (auto simp: owned_update_def split: option.splits if_splits)

lemma owned_update_get:
  assumes "owned_update w n f d = (Inr u, d')" and "get_message n d = Some r" and "ob_published_at r = None"
    and "ob_claimed_by r = Some w" and "\<And>r. ob_id (f r) = ob_id r"
  shows "get_message n d' = Some (f r)"
  using assms find_upd_where_same [of "\<lambda>r. ob_id r = n" f "db_outbox d"]
  by (auto simp: owned_update_def get_message_def)

section \<open>The exact effect of a turn\<close>

text \<open>
  A delivery adds at most one audit event, caused by the message, and at most one outbox row, the
  record of the notification; it changes no row that was there.
\<close>

definition audit_grows :: "row_id \<Rightarrow> db \<Rightarrow> db \<Rightarrow> bool" where
  "audit_grows n d d' \<longleftrightarrow>
     (\<exists>events. db_audit d' = db_audit d @ events \<and> length events \<le> 1 \<and>
        (\<forall>e \<in> set events. ae_causation_id e = Some (row_id_str n)))"

definition delivery_record :: "string \<Rightarrow> outbox_row \<Rightarrow> outbox_row \<Rightarrow> bool" where
  "delivery_record w r x \<longleftrightarrow>
     ob_topic x = ''notification.delivered'' \<and> ob_published_at x = None \<and> ob_claimed_by x = None \<and>
     (\<exists>nid. ob_payload x = delivered_payload (ob_payload r) nid w)"

lemma audit_grows_refl [simp]: "db_audit d' = db_audit d \<Longrightarrow> audit_grows n d d'"
  by (simp add: audit_grows_def)

lemma append_event_grows:
  "append_event sha a d = (q, d') \<Longrightarrow> aa_causation_id a = Some (row_id_str n) \<Longrightarrow> audit_grows n d d'"
  by (auto simp: append_event_def Let_def add_event_def next_event_def row_of_event_def audit_grows_def
      split: sum.splits option.splits)

lemma deliver_audit_grows: "deliver_audit lib sha n d = (q, d') \<Longrightarrow> audit_grows n d d'"
  using append_event_grows audit_args_of_cause
  by (auto simp: deliver_audit_def get_message_def split: option.splits if_splits sum.splits prod.splits
      dest!: find_SomeD)

lemma record_delivery_exact:
  assumes "transaction (\<lambda>d. (Inr (), add_outbox t ''notification.delivered''
      (delivered_payload (ob_payload r) nid w) d)) d = (q, d')"
  shows "\<exists>news. db_outbox d' = db_outbox d @ news \<and> list_all (delivery_record w r) news \<and>
    length news = (if \<exists>k. q = Inr k then 1 else 0)"
proof (cases q)
  case (Inl e)
  with assms have "d' = d" by (auto simp: transaction_def begin_block_def split: sum.splits)
  with Inl show ?thesis by simp
next
  case (Inr k)
  with assms have "d' = add_outbox t ''notification.delivered'' (delivered_payload (ob_payload r) nid w) d"
    by (auto simp: transaction_def begin_block_def split: sum.splits)
  with Inr show ?thesis by (auto simp: add_outbox_def delivery_record_def)
qed

lemma notify_and_record_exact:
  assumes "notify_and_record lib notify ev w r d s = (q, d', s')"
  shows "\<exists>news. db_outbox d' = db_outbox d @ news \<and> list_all (delivery_record w r) news \<and>
    length news = (if notification_wanted r \<and> (\<exists>k. q = Inr k) then 1 else 0)"
proof -
  have none: ?thesis if "d' = d" "\<not> (notification_wanted r \<and> (\<exists>k. q = Inr k))"
    using that by (intro exI [of _ "[]"]) simp
  show ?thesis
  proof (cases "notification_wanted r")
    case False
    with assms none show ?thesis by (simp add: notify_and_record_def)
  next
    case True
    show ?thesis
    proof (cases "request_of lib (ob_payload r)")
      case (Inl e)
      with assms True none show ?thesis by (auto simp: notify_and_record_def)
    next
      case req: (Inr nq)
      obtain y s1 where y: "notify nq s = (y, s1)" by (rule prod.exhaust)
      show ?thesis
      proof (cases y)
        case (Inl e)
        with assms True req y none show ?thesis by (auto simp: notify_and_record_def)
      next
        case (Inr nid)
        obtain z d1 where z: "transaction (\<lambda>d. (Inr (), add_outbox (ev_db_now ev) ''notification.delivered''
            (delivered_payload (ob_payload r) nid w) d)) d = (z, d1)" by (rule prod.exhaust)
        with assms True req y Inr have "d' = d1" "(\<exists>k. q = Inr k) = (\<exists>k. z = Inr k)"
          by (auto simp: notify_and_record_def split: sum.splits)
        with record_delivery_exact [OF z] True show ?thesis by simp
      qed
    qed
  qed
qed

lemma deliver_exact:
  assumes "deliver lib sha notify ev w n d s = (q, d', s')" and "get_message n d = Some r"
  shows "audit_grows n d d' \<and>
    (\<exists>news. db_outbox d' = db_outbox d @ news \<and> list_all (delivery_record w r) news \<and>
       length news = (if notification_wanted r \<and> (\<exists>k. q = Inr k) then 1 else 0))"
proof -
  let ?a = "if ob_topic r \<in> set AUDIT_TOPICS then transaction (deliver_audit lib sha n) d else (Inr 0, d)"
  obtain q1 d1 where a: "?a = (q1, d1)" by (rule prod.exhaust)
  have one: "audit_grows n d d1 \<and> db_outbox d1 = db_outbox d"
  proof (cases "ob_topic r \<in> set AUDIT_TOPICS")
    case True
    with a have t: "transaction (deliver_audit lib sha n) d = (q1, d1)" by simp
    show ?thesis
      by (rule transaction_keeps [OF t, of "\<lambda>x. audit_grows n d x \<and> db_outbox x = db_outbox d"])
        (use deliver_audit_grows deliver_audit_core in blast, simp)
  next
    case False
    with a show ?thesis by simp
  qed
  show ?thesis
  proof (cases q1)
    case (Inl e)
    with assms a one show ?thesis by (auto simp: deliver_def)
  next
    case (Inr k)
    obtain q2 d2 s2 where n: "notify_and_record lib notify ev w r d1 s = (q2, d2, s2)" by (metis prod_cases3)
    have same: "d' = d2" "(\<exists>k. q = Inr k) = (\<exists>k. q2 = Inr k)"
      using assms a n Inr by (auto simp: deliver_def split: sum.splits)
    have "db_audit d2 = db_audit d1" using notify_and_record_core [OF n] by simp
    with one have "audit_grows n d d'" by (simp add: audit_grows_def same(1))
    with one notify_and_record_exact [OF n] show ?thesis unfolding same by simp
  qed
qed

text \<open>What is written for the turn: one update of row \<open>n\<close> and nothing of any other row.\<close>

definition released :: "outbox_row \<Rightarrow> outbox_row" where
  "released r = r\<lparr>ob_claimed_by := None, ob_claim_expires_at := None\<rparr>"

lemma owned_update_exact:
  assumes "transaction (owned_update w n f) d = (Inr u, d')" and "get_message n d = Some r"
    and "ob_published_at r = None" and "ob_claimed_by r = Some w"
  shows "db_outbox d' = upd_where (\<lambda>x. ob_id x = n) f (db_outbox d)"
proof -
  have "owned_update w n f d = (Inr (), d\<lparr>db_outbox := upd_where (\<lambda>x. ob_id x = n) f (db_outbox d)\<rparr>)"
    using assms(2-4) by (simp add: owned_update_def)
  with assms(1) show ?thesis by (auto simp: transaction_def begin_block_def split: sum.splits)
qed

lemma owned_update_transaction_frame:
  "transaction (owned_update w n f) d = (q, d') \<Longrightarrow> same_core d d' \<and> db_audit d' = db_audit d"
  by (erule transaction_keeps) (use owned_update_core in \<open>blast, simp\<close>)

lemma get_message_upd_where:
  assumes "db_outbox d' = upd_where (\<lambda>x. ob_id x = n) f (db_outbox d @ news)" and "\<And>r. ob_id (f r) = ob_id r"
    and "get_message m d = Some x"
  shows "get_message m d' = Some (if m = n then f x else x)"
proof (cases "m = n")
  case True
  have "find (\<lambda>x. ob_id x = n) (db_outbox d') = map_option f (find (\<lambda>x. ob_id x = n) (db_outbox d @ news))"
    unfolding assms(1) by (rule find_upd_where_same) (simp add: assms(2))
  with True assms(3) show ?thesis by (simp add: get_message_def find_append)
next
  case False
  have "find (\<lambda>x. ob_id x = m) (db_outbox d') = find (\<lambda>x. ob_id x = m) (db_outbox d @ news)"
    unfolding assms(1) by (rule find_upd_where_other) (use False assms(2) in auto)
  with False assms(3) show ?thesis by (simp add: get_message_def find_append)
qed

section \<open>Nothing is lost\<close>

text \<open>
  C12. A message the publisher owns is never lost, and neither is any other. After its turn the
  message either is published, and then the store holds its audit event if its topic is an audited
  one and the record of its notification if it asks for one, or it is due again five seconds later with its
  lease given up and no notification recorded. If the database refuses the last write, the turn ends in that
  exception and the row is as it was, so that its lease runs out. Nothing else changes: the outbox is the old one with this
  update of this row and at most the one new row, every other message is as it was, the audit events
  are the old ones and at most one caused by this message, and no other table is touched.
\<close>

theorem publish_message_no_loss:
  assumes "publish_message lib sha notify ev w n stats d s = (result, d', s')"
    and "get_message n d = Some r" and "ob_published_at r = None" and "ob_claimed_by r = Some w"
  shows "same_core d d' \<and> audit_grows n d d' \<and>
    (\<exists>f news.
       (case result of
          Inr _ \<Rightarrow>
            f = (\<lambda>x. released (x\<lparr>ob_published_at := Some (ev_now ev)\<rparr>)) \<and>
              (ob_topic r \<in> set AUDIT_TOPICS \<longrightarrow> audited n d') \<and> length news = (if notification_wanted r then 1 else 0) \<or>
            f = (\<lambda>x. released (x\<lparr>ob_next_attempt_at := Some (ev_now ev + seconds 5)\<rparr>)) \<and> news = []
        | Inl _ \<Rightarrow> f = (\<lambda>x. x) \<and> length news \<le> 1) \<and>
       get_message n d' = Some (f r) \<and> list_all (delivery_record w r) news \<and>
       db_outbox d' = upd_where (\<lambda>x. ob_id x = n) f (db_outbox d @ news)) \<and>
    (\<forall>m x. m \<noteq> n \<longrightarrow> get_message m d = Some x \<longrightarrow> get_message m d' = Some x)"
proof -
  obtain q d1 s1 where q: "deliver lib sha notify ev w n d s = (q, d1, s1)" by (metis prod_cases3)
  note f = deliver_facts [OF q assms(2,3)]
  from deliver_exact [OF q assms(2)] obtain news where g: "audit_grows n d d1"
    and news: "db_outbox d1 = db_outbox d @ news" "list_all (delivery_record w r) news"
      "length news = (if notification_wanted r \<and> (\<exists>k. q = Inr k) then 1 else 0)" by blast
  have refused: ?thesis if "transaction h d1 = (Inl e, d')" and "result = Inl e" for h :: "db \<Rightarrow> (exn + unit) \<times> db" and e
  proof -
    have "d' = d1" using that(1) by (auto simp: transaction_def begin_block_def split: prod.splits sum.splits)
    then have o: "db_outbox d' = upd_where (\<lambda>x. ob_id x = n) (\<lambda>x. x) (db_outbox d @ news)"
      using news(1) by (simp add: upd_where_def)
    have "length news \<le> 1" using news(3) by simp
    with o news(2) f g \<open>d' = d1\<close> get_message_upd_where [OF o _ assms(2)] get_message_upd_where [OF o] that(2)
    show ?thesis by (intro conjI exI [of _ "\<lambda>x. x"] exI [of _ news] allI impI) simp_all
  qed
  have turn: ?thesis
    if res: "result = Inr stats'" and t: "transaction (owned_update w n h) d1 = (Inr u, d')" and id: "\<And>r. ob_id (h r) = ob_id r"
      and h: "h = (\<lambda>x. released (x\<lparr>ob_published_at := Some (ev_now ev)\<rparr>)) \<and> (\<exists>k. q = Inr k) \<or>
        h = (\<lambda>x. released (x\<lparr>ob_next_attempt_at := Some (ev_now ev + seconds 5)\<rparr>)) \<and> \<not> (\<exists>k. q = Inr k)"
    for h u stats'
  proof -
    have o: "db_outbox d' = upd_where (\<lambda>x. ob_id x = n) h (db_outbox d @ news)"
      using owned_update_exact [OF t _ assms(3,4)] f news(1) by simp
    have fr: "same_core d1 d'" "db_audit d' = db_audit d1" using owned_update_transaction_frame [OF t] by simp_all
    have "same_core d d'" using f fr(1) same_core_trans by blast
    moreover have "audit_grows n d d'" using g fr(2) by (simp add: audit_grows_def)
    moreover have "(h = (\<lambda>x. released (x\<lparr>ob_published_at := Some (ev_now ev)\<rparr>)) \<and>
          (ob_topic r \<in> set AUDIT_TOPICS \<longrightarrow> audited n d') \<and> length news = (if notification_wanted r then 1 else 0)) \<or>
        (h = (\<lambda>x. released (x\<lparr>ob_next_attempt_at := Some (ev_now ev + seconds 5)\<rparr>)) \<and> news = [])"
      using h f news(3) fr(2) by (auto simp: audited_def)
    ultimately show ?thesis
      using o news(2) get_message_upd_where [OF o id assms(2)] get_message_upd_where [OF o id] res
      by (intro conjI exI [of _ h] exI [of _ news] allI impI) simp_all
  qed
  show ?thesis
  proof (cases q)
    case (Inl e)
    obtain u d2 where u: "transaction (reschedule ev w n) d1 = (u, d2)" by (rule prod.exhaust)
    with assms(1) q Inl have d2: "d' = d2" by (cases u; simp add: publish_message_def)
    show ?thesis
    proof (cases u)
      case no: (Inl x)
      with assms(1) q Inl u have "result = Inl x" by (simp add: publish_message_def)
      with refused u no d2 show ?thesis by blast
    next
      case (Inr y)
      with assms(1) q \<open>q = Inl e\<close> u have "result = Inr (stats\<lparr>pb_failed := pb_failed stats + 1\<rparr>)"
        by (simp add: publish_message_def)
      from turn [OF this, of _ y] u Inr \<open>q = Inl e\<close> show ?thesis
        by (auto simp: d2 reschedule_def released_def retry_backoff_seconds_def)
    qed
  next
    case (Inr c)
    obtain a k where c: "c = (a, k)" by (cases c)
    obtain u d2 where u: "transaction (finalize ev w n) d1 = (u, d2)" by (rule prod.exhaust)
    with assms(1) q Inr c have d2: "d' = d2" by (cases u; simp add: publish_message_def)
    show ?thesis
    proof (cases u)
      case (Inl x)
      with assms(1) q \<open>q = Inr c\<close> c u have "result = Inl x" by (simp add: publish_message_def)
      with refused u Inl d2 show ?thesis by blast
    next
      case yes: (Inr y)
      with assms(1) q Inr c u obtain st where "result = Inr st" by (auto simp: publish_message_def)
      from turn [OF this, of _ y] u yes Inr show ?thesis
        by (auto simp: d2 finalize_def released_def)
    qed
  qed
qed

definition sample_library :: library where
  "sample_library = \<lparr>lb_uuid5 = (\<lambda>s. 9), lb_int = (\<lambda>v. Inl ValueError), lb_uuid = (\<lambda>v. Inl ValueError)\<rparr>"

definition sample_outbox :: db where
  "sample_outbox = snd (claim_messages \<lparr>ev_now = 0, ev_db_now = 0, ev_locked = []\<rparr> [] ''p''
     (add_outbox 0 ''execution.failed'' [(''tenant_id'', JStr ''t''), (''intent_id'', JStr (uuid_str 7))] empty_db))"

lemma publish_message_no_loss_witness:
  "\<exists>d'. get_message 0 d' \<noteq> None \<and>
     fst (publish_message sample_library (\<lambda>x. ''h'') (logging_sink sample_library)
       \<lparr>ev_now = 1, ev_db_now = 1, ev_locked = []\<rparr> ''p'' 0 \<lparr>pb_audited = 0, pb_notified = 0, pb_failed = 0\<rparr>
       sample_outbox ()) = Inr \<lparr>pb_audited = 1, pb_notified = 0, pb_failed = 0\<rparr>"
proof -
  let ?run = "publish_message sample_library (\<lambda>x. ''h'') (logging_sink sample_library)
       \<lparr>ev_now = 1, ev_db_now = 1, ev_locked = []\<rparr> ''p'' 0 \<lparr>pb_audited = 0, pb_notified = 0, pb_failed = 0\<rparr>
       sample_outbox ()"
  have run: "fst ?run = Inr \<lparr>pb_audited = 1, pb_notified = 0, pb_failed = 0\<rparr>" by code_simp
  have pre: "case get_message 0 sample_outbox of None \<Rightarrow> False
      | Some r \<Rightarrow> ob_published_at r = None \<and> ob_claimed_by r = Some ''p''" by code_simp
  then obtain r where r: "get_message 0 sample_outbox = Some r" "ob_published_at r = None" "ob_claimed_by r = Some ''p''"
    by (auto split: option.splits)
  have "?run = (Inr \<lparr>pb_audited = 1, pb_notified = 0, pb_failed = 0\<rparr>, fst (snd ?run), snd (snd ?run))"
    using run by (metis prod.collapse)
  from publish_message_no_loss [OF this r] have "get_message 0 (fst (snd ?run)) \<noteq> None" by auto
  with run show ?thesis by blast
qed

section \<open>Leases\<close>

text \<open>
  C33. A claim takes at most 100 unpublished messages that are due, in sequence order, and leases
  them for sixty seconds: no claim in that time, by any worker, takes one of them again.
\<close>

theorem claim_messages_exclusive:
  assumes "claim_messages ev locked w d = (Inr ids, d')" and "ev_now ev' < ev_now ev + seconds 60"
    and "claim_messages ev' locked' w' d' = (Inr ids', d'')" and "distinct (map ob_id (db_outbox d))"
  shows "set ids \<inter> set ids' = {} \<and> length ids \<le> 100 \<and>
    (\<forall>n \<in> set ids. \<exists>r. get_message n d = Some r \<and> message_due (ev_now ev) r)"
proof -
  let ?due = "due_messages locked (ev_now ev) d"
  from assms(1) have ids: "ids = map ob_id ?due"
    and d': "d' = d\<lparr>db_outbox := upd_where (\<lambda>r. ob_id r \<in> set ids) (lease_message (ev_now ev) w) (db_outbox d)\<rparr>"
    by (auto simp: claim_messages_def Let_def)
  have sub: "set (due_messages l t b) \<subseteq> {r \<in> set (db_outbox b). message_due t r}" for l t b
    by (auto simp: due_messages_def dest: in_set_takeD)
  have "n \<notin> set ids'" if n: "n \<in> set ids" for n
  proof
    assume "n \<in> set ids'"
    then obtain r where r: "r \<in> set (due_messages locked' (ev_now ev') d')" "ob_id r = n"
      using assms(3) by (auto simp: claim_messages_def Let_def)
    with sub have "r \<in> set (db_outbox d')" and due: "message_due (ev_now ev') r" by blast+
    then obtain r0 where r0: "r = (if ob_id r0 \<in> set ids then lease_message (ev_now ev) w r0 else r0)"
      unfolding d' by (auto simp: set_upd_where)
    have "ob_id r = ob_id r0" by (simp add: r0 lease_message_def)
    with n r(2) r0 have "ob_claim_expires_at r = Some (ev_now ev + seconds claim_lease_seconds)"
      by (simp add: lease_message_def)
    with due assms(2) show False by (simp add: message_due_def passed_def claim_lease_seconds_def)
  qed
  moreover have "length ids \<le> 100" by (simp add: ids due_messages_def batch_limit_def)
  moreover have "\<exists>r. get_message n d = Some r \<and> message_due (ev_now ev) r" if n: "n \<in> set ids" for n
  proof -
    from n ids obtain r where "r \<in> set ?due" and id: "ob_id r = n" by auto
    with sub have r: "r \<in> set (db_outbox d)" "message_due (ev_now ev) r" by blast+
    then have "get_message n d = Some r"
      using find_distinct_key [OF assms(4), of r] id by (simp add: get_message_def)
    with r(2) show ?thesis by blast
  qed
  ultimately show ?thesis by blast
qed

lemma claim_messages_exclusive_witness:
  "\<exists>ids. fst (claim_messages \<lparr>ev_now = 59000000, ev_db_now = 0, ev_locked = []\<rparr> [] ''q'' sample_outbox) = Inr ids \<and>
     set [0] \<inter> set ids = {}"
proof -
  let ?d = "add_outbox 0 ''execution.failed'' [(''tenant_id'', JStr ''t''), (''intent_id'', JStr (uuid_str 7))] empty_db"
  let ?ev = "\<lparr>ev_now = 0, ev_db_now = 0, ev_locked = []\<rparr>"
  let ?ev' = "\<lparr>ev_now = 59000000, ev_db_now = 0, ev_locked = []\<rparr>"
  have "fst (claim_messages ?ev [] ''p'' ?d) = Inr [0]" "distinct (map ob_id (db_outbox ?d))" by code_simp+
  then have c: "claim_messages ?ev [] ''p'' ?d = (Inr [0], sample_outbox)" "distinct (map ob_id (db_outbox ?d))"
    by (simp_all add: sample_outbox_def prod_eq_iff)
  obtain ids d'' where c': "claim_messages ?ev' [] ''q'' sample_outbox = (Inr ids, d'')"
    by (simp add: claim_messages_def Let_def)
  from claim_messages_exclusive [OF c(1) _ c' c(2)] c' show ?thesis by simp
qed

end
