(* ===== verification/Worker.thy ===== *)
theory Worker
  imports Reconciliation Repositories Outbox_Safety "HOL-Library.Option_ord"
begin

text \<open>
  \<open>worker.py\<close>: one bounded worker pass. It recovers executions whose lease has run out, takes a
  snapshot of the unknown outcomes that are due, claims and executes eligible intents, reconciles
  the snapshot and publishes the outbox.

  Every transaction of a pass has its own environment and every command its own id, given by
  \<open>tick_inputs\<close> with the position in the pass. What other processes commit between the claim and
  the gates of one intent is \<open>ti_meanwhile\<close>. The queries without an ORDER BY take the rows in table
  order here; nothing proved depends on which rows they take. The provider is three functions on
  a provider state; a status lookup and a target fetch do not change it.
\<close>

definition EXECUTION_WORKER :: string where
  "EXECUTION_WORKER = ''execution-worker''"

definition TICK_LIMIT :: nat where
  "TICK_LIMIT = 5"

definition RECOVERY_LEASE_SECONDS :: int where
  "RECOVERY_LEASE_SECONDS = 60"

section \<open>Recovery\<close>

definition lease_expired :: "instant \<Rightarrow> execution_row \<Rightarrow> bool" where
  "lease_expired now x \<longleftrightarrow>
     (case (case xr_claim_expires_at x of None \<Rightarrow> xr_started_at x | Some t \<Rightarrow> Some t) of
        None \<Rightarrow> False
      | Some t \<Rightarrow> t + seconds RECOVERY_LEASE_SECONDS \<le> now)"

definition recovery_candidates :: "env \<Rightarrow> db \<Rightarrow> (row_id \<times> intent_key) list" where
  "recovery_candidates ev d =
     map (\<lambda>x. (xr_id x, xr_key x))
       (take TICK_LIMIT
         (filter (\<lambda>x. xr_status x = EX_EXECUTING \<and> lease_expired (ev_db_now ev) x) (db_executions d)))"

text \<open>The row and the execution to move, or nothing when this candidate is to be skipped.\<close>

definition recovery_rows :: "env \<Rightarrow> row_id \<Rightarrow> intent_key \<Rightarrow> db \<Rightarrow> (execution_row \<times> intent_row) option" where
  "recovery_rows ev n k d =
     (case get_execution n d of
        None \<Rightarrow> None
      | Some x \<Rightarrow>
          (if xr_status x \<noteq> EX_EXECUTING \<or> row_locked ev k then None
           else (case get_intent k d of
                   None \<Rightarrow> None
                 | Some i \<Rightarrow> if ai_state i \<noteq> EXECUTING then None else Some (x, i))))"

definition unknown_execution :: "env \<Rightarrow> execution_row \<Rightarrow> execution_row" where
  "unknown_execution ev x =
     x\<lparr>xr_status := EX_UNKNOWN, xr_error_code := Some ''executing_lease_expired'',
       xr_next_reconcile_at := Some (ev_db_now ev)\<rparr>"

definition recover_one :: "env \<Rightarrow> string \<Rightarrow> row_id \<Rightarrow> intent_key \<Rightarrow> db \<Rightarrow> (exn + bool) \<times> db" where
  "recover_one ev command_id n k d =
     (case recovery_rows ev n k d of
        None \<Rightarrow> (Inr False, d)
      | Some (x, i) \<Rightarrow>
          (case record_execution_transition
                  (worker_args ev EXECUTION_WORKER command_id ''executing_lease_expired'') i EXECUTION_UNKNOWN d of
             Inl e \<Rightarrow> (Inl e, d)
           | Inr (i', d1) \<Rightarrow> (Inr True, save_execution (unknown_execution ev x) d1)))"

definition database_error :: "exn \<Rightarrow> bool" where
  "database_error e \<longleftrightarrow> e = DataError \<or> e = IntegrityError"

text \<open>A candidate counts as recovered before its commit.\<close>

fun recover_stale_executing ::
  "(nat \<Rightarrow> env) \<Rightarrow> (nat \<Rightarrow> string) \<Rightarrow> nat \<Rightarrow> (row_id \<times> intent_key) list \<Rightarrow> nat \<Rightarrow> db \<Rightarrow> (exn + nat) \<times> db" where
  "recover_stale_executing evs ids j [] recovered d = (Inr recovered, d)"
| "recover_stale_executing evs ids j ((n, k) # rest) recovered d =
     (let counted = (if fst (recover_one (evs j) (ids j) n k d) = Inr True then recovered + 1 else recovered)
      in (case transaction (recover_one (evs j) (ids j) n k) d of
            (Inr _, d') \<Rightarrow> recover_stale_executing evs ids (j + 1) rest counted d'
          | (Inl e, d') \<Rightarrow>
              (if is_class StateConflictError e \<or> database_error e
               then recover_stale_executing evs ids (j + 1) rest counted d'
               else (Inl e, d'))))"

section \<open>Claim and execution of one intent\<close>

definition worker_claim ::
  "(string \<Rightarrow> string) \<Rightarrow> env \<Rightarrow> env \<Rightarrow> intent_key \<Rightarrow> string
     \<Rightarrow> (tool_name \<Rightarrow> dict \<Rightarrow> nat \<Rightarrow> exn + target_snapshot) \<Rightarrow> (db \<Rightarrow> db) \<Rightarrow> db
     \<Rightarrow> (exn + execution_permit option) \<times> db" where
  "worker_claim sha ev ev' k command_id fetch meanwhile d =
     (case get_active (fst k) d of
        Inl e \<Rightarrow> (Inl e, d)
      | Inr None \<Rightarrow> (Inr None, d)
      | Inr (Some bundle) \<Rightarrow>
          (case claim_and_revalidate sha ev ev' k EXECUTION_WORKER command_id bundle fetch meanwhile d of
             (Inl e, d') \<Rightarrow> (if is_class StateConflictError e then (Inr None, d') else (Inl e, d'))
           | (Inr (Inl f), d') \<Rightarrow> (Inr None, d')
           | (Inr (Inr pm), d') \<Rightarrow> (Inr (Some pm), d')))"

text \<open>An adapter without a \<open>fetch\<close> of its own gets the query that denies every target.\<close>

definition target_query_for ::
  "(tool_name \<Rightarrow> dict \<Rightarrow> nat \<Rightarrow> 's \<Rightarrow> exn + target_snapshot) option \<Rightarrow> 's
     \<Rightarrow> tool_name \<Rightarrow> dict \<Rightarrow> nat \<Rightarrow> exn + target_snapshot" where
  "target_query_for fetch s =
     (case fetch of
        Some f \<Rightarrow> (\<lambda>tool parameters attempt. f tool parameters attempt s)
      | None \<Rightarrow> (\<lambda>tool parameters attempt. Inr (denying_fetch tool parameters)))"

record 's provider =
  pr_send :: "tool_name \<Rightarrow> adapter_command \<Rightarrow> 's \<Rightarrow> (exn + adapter_result) \<times> 's"
  pr_lookup :: "tool_name \<Rightarrow> string \<Rightarrow> string option \<Rightarrow> 's \<Rightarrow> exn + adapter_result"
  pr_fetch :: "(tool_name \<Rightarrow> dict \<Rightarrow> nat \<Rightarrow> 's \<Rightarrow> exn + target_snapshot) option"

record tick_stats =
  ts_executed :: nat
  ts_reconciled :: nat
  ts_skipped :: nat
  ts_recovered :: nat
  ts_audited :: nat
  ts_notified :: nat
  ts_delivery_failed :: nat

record tick_inputs =
  ti_recovery :: "nat \<Rightarrow> env"
  ti_recovery_id :: "nat \<Rightarrow> string"
  ti_snapshot :: env
  ti_claim :: "nat \<Rightarrow> env"
  ti_gates :: "nat \<Rightarrow> env"
  ti_meanwhile :: "nat \<Rightarrow> db \<Rightarrow> db"
  ti_send :: "nat \<Rightarrow> env"
  ti_execution_id :: "nat \<Rightarrow> string"
  ti_reconcile :: "nat \<Rightarrow> env"
  ti_reconcile_id :: "nat \<Rightarrow> string"
  ti_publish :: env
  ti_message :: "row_id \<Rightarrow> env"
  ti_locked_messages :: "row_id list"

definition execution_due :: "instant \<Rightarrow> execution_row \<Rightarrow> bool" where
  "execution_due now x \<longleftrightarrow>
     xr_status x = EX_UNKNOWN \<and> xr_reconcile_attempts x < MAX_RECONCILE_ATTEMPTS \<and>
     passed (xr_next_reconcile_at x) now"

text \<open>\<open>order_by(next_reconcile_at.asc().nulls_first())\<close>: an absent time comes before every time.\<close>

definition pending_unknowns :: "env \<Rightarrow> db \<Rightarrow> row_id list" where
  "pending_unknowns ev d =
     map xr_id (take TICK_LIMIT
       (sort_key xr_next_reconcile_at (filter (execution_due (ev_db_now ev)) (db_executions d))))"

definition eligible_intents :: "db \<Rightarrow> intent_key list" where
  "eligible_intents d =
     map ai_key (take TICK_LIMIT (filter (\<lambda>i. ai_state i = AUTO_APPROVED \<or> ai_state i = APPROVED) (db_intents d)))"

fun execute_eligible ::
  "(string \<Rightarrow> string) \<Rightarrow> (string \<Rightarrow> string) \<Rightarrow> 's provider \<Rightarrow> tick_inputs \<Rightarrow> nat \<Rightarrow> intent_key list \<Rightarrow> tick_stats
     \<Rightarrow> db \<Rightarrow> 's \<Rightarrow> (exn + tick_stats) \<times> db \<times> 's" where
  "execute_eligible sha lc p ti j [] st d s = (Inr st, d, s)"
| "execute_eligible sha lc p ti j (k # ks) st d s =
     (case worker_claim sha (ti_claim ti j) (ti_gates ti j) k (ti_execution_id ti j)
             (target_query_for (pr_fetch p) s) (ti_meanwhile ti j) d of
        (Inl e, d') \<Rightarrow> (Inl e, d', s)
      | (Inr None, d') \<Rightarrow>
          execute_eligible sha lc p ti (j + 1) ks (st\<lparr>ts_skipped := ts_skipped st + 1\<rparr>) d' s
      | (Inr (Some pm), d') \<Rightarrow>
          (case worker_execute (pr_send p) lc (ti_send ti j) pm EXECUTION_WORKER (ti_execution_id ti j) d' s of
             (Inr _, d'', s') \<Rightarrow>
               execute_eligible sha lc p ti (j + 1) ks (st\<lparr>ts_executed := ts_executed st + 1\<rparr>) d'' s'
           | (Inl e, d'', s') \<Rightarrow>
               (if is_class StateConflictError e
                then execute_eligible sha lc p ti (j + 1) ks (st\<lparr>ts_skipped := ts_skipped st + 1\<rparr>) d'' s'
                else (Inl e, d'', s'))))"

text \<open>One failed reconciliation never ends the pass; an execution counts as reconciled before its commit.\<close>

fun reconcile_due ::
  "(string \<Rightarrow> string) \<Rightarrow> 's provider \<Rightarrow> tick_inputs \<Rightarrow> nat \<Rightarrow> row_id list \<Rightarrow> tick_stats \<Rightarrow> 's \<Rightarrow> db
     \<Rightarrow> tick_stats \<times> db" where
  "reconcile_due lc p ti j [] st s d = (st, d)"
| "reconcile_due lc p ti j (n # ns) st s d =
     (let body = reconcile (\<lambda>tool key pid. pr_lookup p tool key pid s) lc (ti_reconcile ti j) n
                   EXECUTION_WORKER (ti_reconcile_id ti j);
          counted = (if \<not> isl (fst (body d)) then st\<lparr>ts_reconciled := ts_reconciled st + 1\<rparr> else st)
      in (case transaction body d of
            (Inr _, d') \<Rightarrow> reconcile_due lc p ti (j + 1) ns counted s d'
          | (Inl _, d') \<Rightarrow> reconcile_due lc p ti (j + 1) ns (counted\<lparr>ts_skipped := ts_skipped counted + 1\<rparr>) s d'))"

definition empty_stats :: tick_stats where
  "empty_stats = \<lparr>ts_executed = 0, ts_reconciled = 0, ts_skipped = 0, ts_recovered = 0, ts_audited = 0,
     ts_notified = 0, ts_delivery_failed = 0\<rparr>"

definition run_worker_tick ::
  "(string \<Rightarrow> string) \<Rightarrow> (string \<Rightarrow> string) \<Rightarrow> library \<Rightarrow> (notification_request \<Rightarrow> 'n \<Rightarrow> (exn + string) \<times> 'n)
     \<Rightarrow> 's provider \<Rightarrow> tick_inputs \<Rightarrow> db \<Rightarrow> 's \<Rightarrow> 'n \<Rightarrow> (exn + tick_stats) \<times> db \<times> 's \<times> 'n" where
  "run_worker_tick sha lc lib notify p ti d s nt =
     (case recover_stale_executing (ti_recovery ti) (ti_recovery_id ti) 0
             (recovery_candidates (ti_recovery ti 0) d) 0 d of
        (Inl e, d1) \<Rightarrow> (Inl e, d1, s, nt)
      | (Inr recovered, d1) \<Rightarrow>
          (let pending = pending_unknowns (ti_snapshot ti) d1
           in (case execute_eligible sha lc p ti 0 (eligible_intents d1)
                      (empty_stats\<lparr>ts_recovered := recovered\<rparr>) d1 s of
                 (Inl e, d2, s2) \<Rightarrow> (Inl e, d2, s2, nt)
               | (Inr st, d2, s2) \<Rightarrow>
                   (let (st', d3) = reconcile_due lc p ti 0 pending st s2 d2
                    in (case publish_pending lib sha notify (ti_publish ti) (ti_message ti)
                               (ti_locked_messages ti) ''outbox-publisher'' d3 nt of
                          (Inl e, d4, nt') \<Rightarrow> (Inl e, d4, s2, nt')
                        | (Inr pub, d4, nt') \<Rightarrow>
                            (Inr (st'\<lparr>ts_audited := pb_audited pub, ts_notified := pb_notified pub,
                                    ts_delivery_failed := pb_failed pub\<rparr>), d4, s2, nt'))))))"

section \<open>What a pass may write\<close>

lemma transaction_evolves:
  assumes "transaction h d = (r, d')" and "\<And>a d'. h d = (Inr a, d') \<Longrightarrow> evolves d d'"
  shows "evolves d d'"
proof -
  obtain q d1 where "h d = (q, d1)" by (rule prod.exhaust)
  with assms show ?thesis by (cases q) (auto simp: transaction_def begin_block_def split: sum.splits)
qed

lemma recovery_rows_Some:
  "recovery_rows ev n k d = Some (x, i) \<longleftrightarrow>
     get_execution n d = Some x \<and> xr_status x = EX_EXECUTING \<and> \<not> row_locked ev k \<and>
     get_intent k d = Some i \<and> ai_state i = EXECUTING"
  by (auto simp: recovery_rows_def split: option.splits)

lemma recover_one_cases:
  assumes "recover_one ev c n k d = (r, d')"
  obtains (skipped) "recovery_rows ev n k d = None" and "r = Inr False" and "d' = d"
  | (recovered) x i d1 where "recovery_rows ev n k d = Some (x, i)" and "r = Inr True"
      and "record_execution_transition (worker_args ev EXECUTION_WORKER c ''executing_lease_expired'')
        i EXECUTION_UNKNOWN d = Inr (advance_intent i EXECUTION_UNKNOWN, d1)"
      and "d' = save_execution (unknown_execution ev x) d1"
proof (cases "recovery_rows ev n k d")
  case None
  with assms show ?thesis by (intro skipped) (auto simp: recover_one_def)
next
  case (Some p)
  then obtain x i where p: "recovery_rows ev n k d = Some (x, i)" by (cases p) auto
  then have "is_legal (ai_state i) EXECUTION_UNKNOWN" by (simp add: recovery_rows_Some is_legal_def)
  from execution_recorder.recorder_total [OF this] obtain d1
    where t: "record_execution_transition (worker_args ev EXECUTION_WORKER c ''executing_lease_expired'')
        i EXECUTION_UNKNOWN d = Inr (advance_intent i EXECUTION_UNKNOWN, d1)" by blast
  with assms p show ?thesis by (intro recovered [OF p _ t]) (auto simp: recover_one_def)
qed

lemma recover_one_evolves: "recover_one ev c n k d = (r, d') \<Longrightarrow> evolves d d'"
proof (erule recover_one_cases)
  fix x i d1
  assume rows: "recovery_rows ev n k d = Some (x, i)"
    and t: "record_execution_transition (worker_args ev EXECUTION_WORKER c ''executing_lease_expired'')
        i EXECUTION_UNKNOWN d = Inr (advance_intent i EXECUTION_UNKNOWN, d1)"
    and d': "d' = save_execution (unknown_execution ev x) d1"
  have "i \<in> set (db_intents d)" using rows by (auto simp: recovery_rows_Some dest: get_intent_SomeD)
  from execution_recorder.recorder_evolves [OF t this] have "evolves d d1" by (simp add: evidence_plain)
  then show ?thesis unfolding d' using evolves_save_execution by (rule rtranclp_trans)
qed simp

lemma recover_stale_evolves: "recover_stale_executing evs ids j cs m d = (r, d') \<Longrightarrow> evolves d d'"
proof (induction cs arbitrary: j m d)
  case (Cons c cs)
  obtain n k where c: "c = (n, k)" by (cases c)
  obtain q d1 where t: "transaction (recover_one (evs j) (ids j) n k) d = (q, d1)" by (rule prod.exhaust)
  have "evolves d d1" by (rule transaction_evolves [OF t]) (rule recover_one_evolves)
  moreover have "evolves d1 d'"
    using Cons.prems c t Cons.IH by (auto simp: Let_def split: sum.splits if_splits)
  ultimately show ?case by (rule rtranclp_trans)
qed simp

lemma claim_and_revalidate_evolves:
  assumes "claim_and_revalidate sha ev ev' k w c bundle fetch meanwhile d = (r, d')"
    and "\<And>d. evolves d (meanwhile d)"
  shows "evolves d d'"
proof -
  obtain q d1 where t: "transaction (claim ev k w c DEFAULT_CLAIM_LEASE_SECONDS) d = (q, d1)"
    by (rule prod.exhaust)
  have one: "evolves d d1" by (rule transaction_evolves [OF t]) (rule claim_evolves)
  have two: "evolves d (meanwhile d1)" using one assms(2) by (rule rtranclp_trans)
  have three: "evolves (meanwhile d1) d2" if "transaction (fail_after_fetch_failure ev' k w c reason) (meanwhile d1) = (z, d2)"
    for reason z d2 by (rule transaction_evolves [OF that]) (rule fail_after_fetch_failure_evolves)
  have four: "evolves (meanwhile d1) d2" if "transaction (revalidate sha ev' k w c bundle snap) (meanwhile d1) = (z, d2)"
    for snap z d2 by (rule transaction_evolves [OF that]) (rule revalidate_evolves)
  show ?thesis
  proof (cases q)
    case (Inl e)
    with assms(1) t one show ?thesis by (simp add: claim_and_revalidate_def)
  next
    case (Inr p)
    obtain tool ps where p: "p = (tool, ps)" by (cases p)
    show ?thesis
    proof (cases "fetch_target (fetch tool ps) TARGET_FETCH_ATTEMPTS 1 ''target_fetch_failed''")
      case (Inl reason)
      obtain z d2 where z: "transaction (fail_after_fetch_failure ev' k w c reason) (meanwhile d1) = (z, d2)"
        by (rule prod.exhaust)
      with assms(1) t \<open>q = Inr p\<close> p Inl have "d' = d2" by (simp add: claim_and_revalidate_def split: sum.splits)
      with rtranclp_trans [OF two three [OF z]] show ?thesis by simp
    next
      case (Inr snap)
      with assms(1) t \<open>q = Inr p\<close> p have "transaction (revalidate sha ev' k w c bundle snap) (meanwhile d1) = (r, d')"
        by (simp add: claim_and_revalidate_def)
      from rtranclp_trans [OF two four [OF this]] show ?thesis .
    qed
  qed
qed

lemma worker_claim_evolves:
  assumes "worker_claim sha ev ev' k c fetch meanwhile d = (r, d')" and "\<And>d. evolves d (meanwhile d)"
  shows "evolves d d'"
proof (cases "get_active (fst k) d")
  case (Inl e)
  with assms(1) show ?thesis by (simp add: worker_claim_def)
next
  case (Inr b)
  show ?thesis
  proof (cases b)
    case None
    with Inr assms(1) show ?thesis by (simp add: worker_claim_def)
  next
    case (Some bd)
    obtain q d1 where q: "claim_and_revalidate sha ev ev' k EXECUTION_WORKER c bd fetch meanwhile d = (q, d1)"
      by (rule prod.exhaust)
    with assms(1) Inr Some have "d' = d1" by (auto simp: worker_claim_def split: sum.splits if_splits)
    with claim_and_revalidate_evolves [OF q assms(2)] show ?thesis by simp
  qed
qed

lemma execute_eligible_evolves:
  assumes "\<And>j d. evolves d (ti_meanwhile ti j d)"
  shows "execute_eligible sha lc p ti j ks st d s = (r, d', s') \<Longrightarrow> evolves d d'"
proof (induction ks arbitrary: j st d s)
  case (Cons k ks)
  let ?c = "worker_claim sha (ti_claim ti j) (ti_gates ti j) k (ti_execution_id ti j)
      (target_query_for (pr_fetch p) s) (ti_meanwhile ti j) d"
  obtain q d1 where q: "?c = (q, d1)" by (rule prod.exhaust)
  from worker_claim_evolves [OF q assms] have one: "evolves d d1" .
  have "evolves d1 d'"
  proof (cases q)
    case (Inl e)
    with Cons.prems q show ?thesis by simp
  next
    case (Inr mp)
    show ?thesis
    proof (cases mp)
      case None
      with Cons.prems q Inr have "execute_eligible sha lc p ti (j + 1) ks (st\<lparr>ts_skipped := ts_skipped st + 1\<rparr>) d1 s = (r, d', s')"
        by simp
      then show ?thesis by (rule Cons.IH)
    next
      case (Some pm)
      obtain z d2 s2 where z: "worker_execute (pr_send p) lc (ti_send ti j) pm EXECUTION_WORKER (ti_execution_id ti j) d1 s = (z, d2, s2)"
        by (metis prod_cases3)
      have "evolves d2 d'"
        using Cons.prems q Inr Some z Cons.IH by (auto split: sum.splits if_splits)
      with worker_execute_evolves [OF z] show ?thesis by (rule rtranclp_trans)
    qed
  qed
  with one show ?case by (rule rtranclp_trans)
qed simp

lemma reconcile_due_evolves: "reconcile_due lc p ti j ns st s d = (st', d') \<Longrightarrow> evolves d d'"
proof (induction ns arbitrary: j st d)
  case (Cons n ns)
  obtain q d1 where t: "transaction (reconcile (\<lambda>tool key pid. pr_lookup p tool key pid s) lc (ti_reconcile ti j) n
             EXECUTION_WORKER (ti_reconcile_id ti j)) d = (q, d1)" by (rule prod.exhaust)
  have "evolves d d1" by (rule transaction_evolves [OF t]) (rule reconcile_evolves)
  moreover have "evolves d1 d'" using Cons.prems t Cons.IH by (auto simp: Let_def split: sum.splits)
  ultimately show ?case by (rule rtranclp_trans)
qed simp

end
