(* ===== verification/Worker_Safety.thy ===== *)
theory Worker_Safety
  imports Worker Execution_Safety Permit_Safety
begin

text \<open>
  What a worker pass promises: every write of a pass is a sequence of lifecycle moves, recovery
  takes an expired execution to EXECUTION_UNKNOWN without a send and disarms its permit, and the
  snapshot of unknown outcomes holds due rows within the attempt budget only, which bounds how often and how
  soon a provider is polled.
\<close>

section \<open>The publisher in a pass\<close>

lemma transaction_core:
  assumes "transaction h d1 = (q, d2)" and "\<And>r d'. h d1 = (r, d') \<Longrightarrow> same_core d1 d'"
  shows "same_core d1 d2"
  using assms(1) by (rule transaction_keeps [where P = "same_core d1"]) (use assms(2) in auto)

lemma deliver_core:
  assumes "deliver lib sha notify ev w n d s = (q, d', s')"
  shows "same_core d d'"
proof (cases "get_message n d")
  case None
  with assms show ?thesis by (simp add: deliver_def)
next
  case (Some r)
  let ?a = "if ob_topic r \<in> set AUDIT_TOPICS then transaction (deliver_audit lib sha n) d else (Inr 0, d)"
  obtain q1 d1 where a: "?a = (q1, d1)" by (rule prod.exhaust)
  have one: "same_core d d1"
    using a by (auto split: if_splits intro: transaction_core dest: deliver_audit_core)
  obtain q2 d2 s2 where n: "notify_and_record lib notify ev w r d1 s = (q2, d2, s2)" by (metis prod_cases3)
  from notify_and_record_core [OF n, of n r] one have "same_core d d2" using same_core_trans by blast
  with one assms Some a n show ?thesis by (auto simp: deliver_def split: sum.splits)
qed

lemma owned_update_transaction_core:
  "transaction (owned_update w n f) d = (q, d') \<Longrightarrow> same_core d d'"
  by (erule transaction_core) (use owned_update_core in blast)

lemma publish_message_core:
  assumes "publish_message lib sha notify ev w n st d s = (r, d', s')"
  shows "same_core d d'"
proof -
  obtain q d1 s1 where q: "deliver lib sha notify ev w n d s = (q, d1, s1)" by (metis prod_cases3)
  obtain z d2 where z: "transaction (finalize ev w n) d1 = (z, d2)" by (rule prod.exhaust)
  obtain y d3 where y: "transaction (reschedule ev w n) d1 = (y, d3)" by (rule prod.exhaust)
  have "same_core d1 d2" "same_core d1 d3"
    using z y owned_update_transaction_core unfolding finalize_def reschedule_def by blast+
  with deliver_core [OF q] have "same_core d d2" "same_core d d3" by (blast intro: same_core_trans)+
  with assms q z y show ?thesis by (auto simp: publish_message_def split: sum.splits)
qed

lemma publish_messages_core:
  "publish_messages lib sha notify evs w ns st d s = (r, d', s') \<Longrightarrow> same_core d d'"
proof (induction ns arbitrary: st d s)
  case (Cons n ns)
  obtain q d1 s1 where q: "publish_message lib sha notify (evs n) w n st d s = (q, d1, s1)" by (metis prod_cases3)
  with Cons.prems Cons.IH have "same_core d1 d'" by (auto split: sum.splits)
  with publish_message_core [OF q] show ?case by (rule same_core_trans)
qed simp

lemma publish_pending_core:
  assumes "publish_pending lib sha notify ev evs locked w d s = (r, d', s')"
  shows "same_core d d'"
proof -
  obtain q d1 where t: "transaction (claim_messages ev locked w) d = (q, d1)" by (rule prod.exhaust)
  have one: "same_core d d1" by (rule transaction_core [OF t]) (auto simp: claim_messages_def Let_def)
  show ?thesis
  proof (cases q)
    case (Inl e)
    with assms t one show ?thesis by (simp add: publish_pending_def)
  next
    case (Inr ids)
    with assms t have "publish_messages lib sha notify evs w ids \<lparr>pb_audited = 0, pb_notified = 0, pb_failed = 0\<rparr> d1 s
        = (r, d', s')" by (simp add: publish_pending_def)
    from publish_messages_core [OF this] one show ?thesis by (blast intro: same_core_trans)
  qed
qed

section \<open>A pass only moves intents along the lifecycle\<close>

text \<open>
  However a worker pass ends, by itself or by an exception, and whatever the provider answers,
  everything it wrote to the database is a sequence of legal lifecycle moves, each with its numbered
  history row and, for an approval state, its evidence; so a consistent database stays consistent.
  The other processes are assumed to write such moves between the claim and the gates.
\<close>

theorem run_worker_tick_refines:
  assumes "run_worker_tick sha lc lib notify p ti d s nt = (r, d', s', nt')"
    and "\<And>j d. evolves d (ti_meanwhile ti j d)"
  shows "evolves d d' \<and> (db_ok d \<longrightarrow> db_ok d')"
proof -
  let ?rec = "recover_stale_executing (ti_recovery ti) (ti_recovery_id ti) 0 (recovery_candidates (ti_recovery ti 0) d) 0 d"
  obtain q d1 where q: "?rec = (q, d1)" by (rule prod.exhaust)
  have one: "evolves d d1" by (rule recover_stale_evolves [OF q])
  have "evolves d1 d'"
  proof (cases q)
    case (Inl e)
    with assms(1) q show ?thesis by (simp add: run_worker_tick_def)
  next
    case (Inr m)
    let ?ex = "execute_eligible sha lc p ti 0 (eligible_intents d1) (empty_stats\<lparr>ts_recovered := m\<rparr>) d1 s"
    obtain z d2 s2 where z: "?ex = (z, d2, s2)" by (metis prod_cases3)
    have two: "evolves d1 d2" by (rule execute_eligible_evolves [OF assms(2) z])
    have "evolves d2 d'"
    proof (cases z)
      case (Inl e)
      with assms(1) q Inr z show ?thesis by (simp add: run_worker_tick_def Let_def)
    next
      case (Inr st)
      obtain st' d3 where d3: "reconcile_due lc p ti 0 (pending_unknowns (ti_snapshot ti) d1) st s2 d2 = (st', d3)"
        by (rule prod.exhaust)
      obtain y d4 nt2 where y: "publish_pending lib sha notify (ti_publish ti) (ti_message ti)
          (ti_locked_messages ti) ''outbox-publisher'' d3 nt = (y, d4, nt2)" by (metis prod_cases3)
      have "d' = d4" using assms(1) q \<open>q = Inr m\<close> z Inr d3 y
        by (auto simp: run_worker_tick_def Let_def split: sum.splits)
      with reconcile_due_evolves [OF d3] same_core_evolves [OF publish_pending_core [OF y]] show ?thesis
        by (metis rtranclp_trans)
    qed
    with two show ?thesis by (rule rtranclp_trans)
  qed
  with one have "evolves d d'" by (rule rtranclp_trans)
  then show ?thesis using evolves_db_ok by blast
qed

definition sample_provider :: "nat provider" where
  "sample_provider = \<lparr>pr_send = sample_timeout, pr_lookup = (\<lambda>tool key pid s. sample_evidence tool key pid),
     pr_fetch = Some (\<lambda>tool ps n s. Inr sample_snapshot)\<rparr>"

definition sample_tick :: tick_inputs where
  "sample_tick = \<lparr>ti_recovery = (\<lambda>_. at_second 200), ti_recovery_id = (\<lambda>_. ''r''), ti_snapshot = at_second 200,
     ti_claim = (\<lambda>_. at_second 201), ti_gates = (\<lambda>_. at_second 202), ti_meanwhile = (\<lambda>_ d. d),
     ti_send = (\<lambda>_. at_second 203), ti_execution_id = (\<lambda>_. ''x''), ti_reconcile = (\<lambda>_. at_second 204),
     ti_reconcile_id = (\<lambda>_. ''y''), ti_publish = at_second 205, ti_message = (\<lambda>_. at_second 206),
     ti_locked_messages = []\<rparr>"

definition sample_notify :: "notification_request \<Rightarrow> unit \<Rightarrow> (exn + string) \<times> unit" where
  "sample_notify q u = (Inr ''n1'', u)"

lemma run_worker_tick_refines_witness:
  "db_ok (fst (snd (run_worker_tick sample_sha id sample_library sample_notify sample_provider sample_tick
      sample_approved 0 ())))"
proof -
  let ?run = "run_worker_tick sample_sha id sample_library sample_notify sample_provider sample_tick sample_approved 0 ()"
  obtain r d' s' nt' where run: "?run = (r, d', s', nt')" by (metis prod_cases4)
  from run_worker_tick_refines [OF run] have "db_ok d'"
    using sample_db_ok(2) by (simp add: sample_tick_def)
  with run show ?thesis by simp
qed

section \<open>Recovery\<close>

text \<open>
  C36. Recovery moves an execution only from EXECUTING, never through the provider: the row becomes
  UNKNOWN and is due for reconciliation at once with its attempts unspent, the intent becomes
  EXECUTION_UNKNOWN, and a worker that still holds a permit of this intent can no longer send.
\<close>

theorem recovery_never_resends:
  assumes "transaction (recover_one ev c n k) d = (Inr True, d')"
  shows "\<exists>x i. get_execution n d = Some x \<and> xr_status x = EX_EXECUTING \<and>
      get_intent k d = Some i \<and> ai_state i = EXECUTING \<and>
      get_intent k d' = Some (advance_intent i EXECUTION_UNKNOWN) \<and>
      (\<exists>x' \<in> set (db_executions d'). xr_id x' = n \<and> xr_status x' = EX_UNKNOWN \<and>
         xr_reconcile_attempts x' = xr_reconcile_attempts x \<and>
         (xr_reconcile_attempts x < 5 \<longrightarrow> execution_due (ev_db_now ev) x')) \<and>
      (\<forall>send lc ev' pm w' c' s. pm_key pm = k \<longrightarrow>
         (\<exists>e. worker_execute send lc ev' pm w' c' d' (s :: 's) = (Inl e, d', s)))"
proof -
  from assms have "recover_one ev c n k d = (Inr True, d')"
    by (auto simp: transaction_def begin_block_def split: prod.splits sum.splits)
  then show ?thesis
  proof (cases rule: recover_one_cases)
    case skipped
    then show ?thesis by simp
  next
    case (recovered x i d1)
    from recovered(1) have x: "get_execution n d = Some x" "xr_status x = EX_EXECUTING"
      and i: "get_intent k d = Some i" "ai_state i = EXECUTING" by (auto simp: recovery_rows_Some)
    from get_execution_SomeD [OF x(1)] have "x \<in> set (db_executions d)" and id: "xr_id x = n" by simp_all
    then have "unknown_execution ev x \<in> set (db_executions d')"
      using execution_recorder.recorder_frame [OF recovered(3)] recovered(4)
      by (auto simp: set_upd_where unknown_execution_def)
    moreover have get: "get_intent k d' = Some (advance_intent i EXECUTION_UNKNOWN)"
      using execution_recorder.recorder_get [OF recovered(3), of k] i get_intent_SomeD [OF i(1)] recovered(4) by simp
    moreover have "\<exists>e. worker_execute send lc ev' pm w' c' d' s = (Inl e, d', s)"
      if "pm_key pm = k" for send :: "tool_name \<Rightarrow> adapter_command \<Rightarrow> 's \<Rightarrow> (exn + adapter_result) \<times> 's"
        and lc ev' pm w' c' s
    proof -
      from that get have "\<exists>e. executing_rows pm d' = Inl e" by (simp add: executing_rows_def split: option.split)
      then show ?thesis by (auto simp: worker_execute_def execute_permit_def transaction_def begin_block_def)
    qed
    ultimately show ?thesis
      using x i id
      by (auto simp: unknown_execution_def execution_due_def passed_def MAX_RECONCILE_ATTEMPTS_def
          intro!: bexI [where x = "unknown_execution ev x"])
  qed
qed

lemma recovery_never_resends_witness:
  "\<exists>i. get_intent sample_key sample_running = Some i \<and> ai_state i = EXECUTING \<and>
     get_intent sample_key (snd (transaction (recover_one (at_second 200) ''r''
       (pm_execution_id sample_permit) sample_key) sample_running)) = Some (advance_intent i EXECUTION_UNKNOWN)"
proof -
  let ?run = "transaction (recover_one (at_second 200) ''r'' (pm_execution_id sample_permit) sample_key) sample_running"
  have "(case fst ?run of Inr b \<Rightarrow> b | Inl e \<Rightarrow> False)" by code_simp
  then have "?run = (Inr True, snd ?run)" by (cases ?run) (auto split: sum.splits)
  from recovery_never_resends [OF this, where ?'s = nat] show ?thesis by auto
qed

section \<open>The poll budget\<close>

lemma backoff_at_least_base: "5 \<le> reconcile_backoff_seconds n"
  by (simp add: reconcile_backoff_seconds_def RECONCILE_BACKOFF_BASE_SECONDS_def
      RECONCILE_BACKOFF_CEILING_SECONDS_def min_def)

text \<open>
  What a poll of the provider makes of the execution row \<open>x\<close>: an answer with a final outcome settles
  it, no answer or the answer UNKNOWN postpones it.
\<close>

definition polled ::
  "(tool_name \<Rightarrow> string \<Rightarrow> string option \<Rightarrow> exn + adapter_result) \<Rightarrow> (string \<Rightarrow> string) \<Rightarrow> env
     \<Rightarrow> execution_row \<Rightarrow> execution_row \<Rightarrow> bool" where
  "polled lookup lc ev x x' \<longleftrightarrow>
     (\<exists>tool a out. lookup tool (xr_operation_key x) (xr_provider_operation_id x) = Inr a \<and>
        ar_outcome a = outcome_value out \<and> out \<noteq> OUT_UNKNOWN \<and> x' = resolve_execution lc ev out a x) \<or>
     (\<exists>tool ans. ans = evidence_of x (lookup tool (xr_operation_key x) (xr_provider_operation_id x)) \<and>
        ar_outcome ans = ''UNKNOWN'' \<and> x' = postpone_execution lc ev ans x)"

lemma get_save_execution:
  "get_execution m (save_execution x d) =
     (if m = xr_id x then map_option (\<lambda>_. x) (get_execution m d) else get_execution m d)"
proof (cases "m = xr_id x")
  case True
  then show ?thesis
    using find_upd_where_same [of "\<lambda>r. xr_id r = xr_id x" "\<lambda>_. x" "db_executions d"] by (simp add: get_execution_def)
next
  case False
  then show ?thesis
    using find_upd_where_other [of "\<lambda>r. xr_id r = xr_id x" "\<lambda>r. xr_id r = m" "\<lambda>_. x" "db_executions d"]
    by (simp add: get_execution_def)
qed

lemma execution_ids_saved: "map xr_id (db_executions (save_execution x d)) = map xr_id (db_executions d)"
  unfolding save_execution_fields by (rule map_upd_where_key) simp

lemma polled_fields:
  assumes "polled lookup lc ev x x'"
  shows "xr_id x' = xr_id x" "xr_operation_key x' = xr_operation_key x"
  using assms by (auto simp: polled_def resolve_execution_def postpone_execution_def Let_def)

lemma reconcile_polls:
  assumes "transaction (reconcile lookup lc ev n w c) d = (q, d')"
  shows "db_executions d' = db_executions d \<or>
    (\<exists>x x'. get_execution n d = Some x \<and> polled lookup lc ev x x' \<and> db_executions d' = db_executions (save_execution x' d))"
proof (cases q)
  case (Inl e)
  with assms have "d' = d" by (metis transaction_Inl)
  then show ?thesis by simp
next
  case (Inr r)
  with assms have "reconcile lookup lc ev n w c d = (Inr r, d')" by (simp add: transaction_Inr)
  then show ?thesis
  proof (cases rule: reconcile_cases)
    case (postponed x i)
    let ?ans = "evidence_of x (lookup (ai_tool i) (xr_operation_key x) (xr_provider_operation_id x))"
    have "ar_outcome ?ans = ''UNKNOWN''" using postponed(2) by (auto simp: evidence_of_def split: sum.splits)
    then have "polled lookup lc ev x (postpone_execution lc ev ?ans x)" unfolding polled_def by blast
    with postponed(1) postpone_Inr [OF postponed(3)] show ?thesis by (auto simp: unknown_rows_Inr)
  next
    case (resolved x i a)
    from resolve_Inr [OF resolved(4)] obtain out d1 where out: "ar_outcome a = outcome_value out"
      and t: "record_reconciliation_transition (execution_args ev w c (''reconciled_'' @ lower (outcome_value out)))
        i (resolved_state out) d = Inr (advance_intent i (resolved_state out), d1)"
      and d': "d' = save_execution (resolve_execution lc ev out a x) d1" by blast
    have "db_executions d1 = db_executions d" by (rule reconciliation_recorder.recorder_frame [OF t])
    moreover have "out \<noteq> OUT_UNKNOWN" using out resolved(3) by auto
    then have "polled lookup lc ev x (resolve_execution lc ev out a x)" using resolved(2) out unfolding polled_def by blast
    ultimately show ?thesis using resolved(1) d' by (auto simp: unknown_rows_Inr)
  qed
qed

lemma get_execution_cong: "db_executions d' = db_executions d \<Longrightarrow> get_execution m d' = get_execution m d"
  by (simp add: get_execution_def)

lemma reconcile_polls_row:
  assumes "transaction (reconcile lookup lc ev n w c) d = (q, d')"
  shows "(get_execution m d' = get_execution m d \<or>
      m = n \<and> (\<exists>x x'. get_execution m d = Some x \<and> get_execution m d' = Some x' \<and> polled lookup lc ev x x')) \<and>
    map xr_id (db_executions d') = map xr_id (db_executions d)"
  using reconcile_polls [OF assms]
proof (elim disjE exE conjE)
  fix x x'
  assume x: "get_execution n d = Some x" and p: "polled lookup lc ev x x'"
    and d': "db_executions d' = db_executions (save_execution x' d)"
  have id: "xr_id x' = n" using polled_fields [OF p] get_execution_SomeD [OF x] by simp
  from get_execution_cong [OF d'] have "get_execution m d' = get_execution m (save_execution x' d)" .
  then have get: "get_execution m d' = (if m = n then Some x' else get_execution m d)"
    using x id by (simp add: get_save_execution)
  have ids: "map xr_id (db_executions d') = map xr_id (db_executions d)" unfolding d' by (rule execution_ids_saved)
  show ?thesis
  proof (cases "m = n")
    case True
    with x p get show ?thesis by (intro conjI ids disjI2) auto
  next
    case False
    with get show ?thesis by (intro conjI ids disjI1) simp
  qed
qed (simp add: get_execution_def)

text \<open>One phase: each listed row is polled at most once, at its place; no other row is touched.\<close>

lemma reconcile_due_polls:
  assumes "distinct ns" and "reconcile_due lc p ti j ns st s d = (st', d')"
  shows "(get_execution m d' = get_execution m d \<or>
      (\<exists>i x x'. i < length ns \<and> ns ! i = m \<and> get_execution m d = Some x \<and> get_execution m d' = Some x' \<and>
         polled (\<lambda>tool key pid. pr_lookup p tool key pid s) lc (ti_reconcile ti (j + i)) x x')) \<and>
    map xr_id (db_executions d') = map xr_id (db_executions d)"
  using assms
proof (induction ns arbitrary: j st d)
  case (Cons n ns)
  obtain q d1 where t: "transaction (reconcile (\<lambda>tool key pid. pr_lookup p tool key pid s) lc (ti_reconcile ti j) n
             EXECUTION_WORKER (ti_reconcile_id ti j)) d = (q, d1)" by (rule prod.exhaust)
  then obtain st1 where "reconcile_due lc p ti (j + 1) ns st1 s d1 = (st', d')"
    using Cons.prems(2) by (auto simp: Let_def split: sum.splits)
  with Cons.IH [of "j + 1" st1 d1] Cons.prems(1)
  have later: "get_execution m d' = get_execution m d1 \<or>
      (\<exists>i x x'. i < length ns \<and> ns ! i = m \<and> get_execution m d1 = Some x \<and> get_execution m d' = Some x' \<and>
         polled (\<lambda>tool key pid. pr_lookup p tool key pid s) lc (ti_reconcile ti (j + 1 + i)) x x')"
    and ids: "map xr_id (db_executions d') = map xr_id (db_executions d1)" by auto
  note one = reconcile_polls_row [OF t, of m]
  show ?case
  proof (cases "m = n")
    case True
    then have "m \<notin> set ns" using Cons.prems(1) by simp
    then have same: "get_execution m d' = get_execution m d1" using later by (auto simp: in_set_conv_nth)
    from one have "get_execution m d1 = get_execution m d \<or>
        (\<exists>x x'. get_execution m d = Some x \<and> get_execution m d1 = Some x' \<and>
          polled (\<lambda>tool key pid. pr_lookup p tool key pid s) lc (ti_reconcile ti (j + 0)) x x')" by auto
    with True same ids one show ?thesis by (metis length_greater_0_conv list.distinct(1) nth_Cons_0)
  next
    case False
    then have "get_execution m d1 = get_execution m d" using one by simp
    moreover have "\<exists>i x x'. i < length (n # ns) \<and> (n # ns) ! i = m \<and> get_execution m d = Some x \<and>
         get_execution m d' = Some x' \<and> polled (\<lambda>tool key pid. pr_lookup p tool key pid s) lc (ti_reconcile ti (j + i)) x x'"
      if "i < length ns" "ns ! i = m" "get_execution m d = Some x" "get_execution m d' = Some x'"
        "polled (\<lambda>tool key pid. pr_lookup p tool key pid s) lc (ti_reconcile ti (j + 1 + i)) x x'" for i x x'
      by (rule exI [of _ "Suc i"]) (use that in simp)
    ultimately show ?thesis using later ids one by metis
  qed
qed simp

text \<open>The provider is asked about the listed operations only.\<close>

lemma reconcile_lookup_cong:
  assumes "\<And>x tool pid. get_execution n d = Some x \<Longrightarrow> lookup' tool (xr_operation_key x) pid = lookup tool (xr_operation_key x) pid"
  shows "reconcile lookup' lc ev n w c d = reconcile lookup lc ev n w c d"
  using assms by (auto simp: reconcile_def unknown_rows_def Let_def split: option.splits)

lemma transaction_cong: "h d = g d \<Longrightarrow> transaction h d = transaction g d"
  by (simp add: transaction_def begin_block_def)

lemma reconcile_due_cong:
  assumes "\<And>m x tool pid. m \<in> set ns \<Longrightarrow> get_execution m d = Some x \<Longrightarrow>
      pr_lookup p' tool (xr_operation_key x) pid s = pr_lookup p tool (xr_operation_key x) pid s"
  shows "reconcile_due lc p' ti j ns st s d = reconcile_due lc p ti j ns st s d"
  using assms
proof (induction ns arbitrary: j st d)
  case (Cons n ns)
  let ?r = "\<lambda>p. reconcile (\<lambda>tool key pid. pr_lookup p tool key pid s) lc (ti_reconcile ti j) n
             EXECUTION_WORKER (ti_reconcile_id ti j)"
  have same: "?r p' d = ?r p d" by (rule reconcile_lookup_cong) (use Cons.prems in auto)
  obtain q d1 where t: "transaction (?r p) d = (q, d1)" by (rule prod.exhaust)
  have rest: "reconcile_due lc p' ti (j + 1) ns st1 s d1 = reconcile_due lc p ti (j + 1) ns st1 s d1" for st1
  proof (rule Cons.IH)
    fix m x tool pid
    assume m: "m \<in> set ns" and x: "get_execution m d1 = Some x"
    from reconcile_polls_row [OF t, of m] x obtain y where "get_execution m d = Some y" "xr_operation_key y = xr_operation_key x"
      using polled_fields(2) by (metis option.inject)
    with Cons.prems m show "pr_lookup p' tool (xr_operation_key x) pid s = pr_lookup p tool (xr_operation_key x) pid s"
      by (metis list.set_intros(2))
  qed
  have "transaction (?r p') d = (q, d1)" using transaction_cong [of "?r p'" d "?r p", OF same] t by simp
  with t same rest show ?case by (auto simp: Let_def split: sum.splits)
qed simp

text \<open>
  The passes of a worker, seen from one execution \<open>n\<close>: pass \<open>k\<close> takes the snapshot of what is due in
  \<open>snap k\<close>, begins to reconcile it in \<open>start k\<close> and ends in \<open>fin k\<close>. In between anything may be
  written but the row of \<open>n\<close>: the source reads it before it locks the intent and does not check
  again that it is due, so two workers that reconcile side by side can poll it twice.
\<close>

definition poll_passes ::
  "(string \<Rightarrow> string) \<Rightarrow> (nat \<Rightarrow> 's provider) \<Rightarrow> (nat \<Rightarrow> tick_inputs) \<Rightarrow> (nat \<Rightarrow> 's) \<Rightarrow> (nat \<Rightarrow> db)
     \<Rightarrow> (nat \<Rightarrow> db) \<Rightarrow> (nat \<Rightarrow> db) \<Rightarrow> row_id \<Rightarrow> bool" where
  "poll_passes lc p ti s snap start fin n \<longleftrightarrow>
     (\<forall>k. distinct (map xr_id (db_executions (snap k))) \<and> get_execution n (start k) = get_execution n (snap k) \<and>
        (\<exists>st. fin k = snd (reconcile_due lc (p k) (ti k) 0 (pending_unknowns (ti_snapshot (ti k)) (snap k)) st (s k) (start k))) \<and>
        get_execution n (snap (Suc k)) = get_execution n (fin k))"

lemma pending_unknowns_due:
  assumes "distinct (map xr_id (db_executions d))"
  shows "distinct (pending_unknowns ev d)"
    and "m \<in> set (pending_unknowns ev d) \<Longrightarrow> \<exists>x. get_execution m d = Some x \<and> execution_due (ev_db_now ev) x"
proof -
  let ?due = "filter (execution_due (ev_db_now ev)) (db_executions d)"
  have "distinct (map xr_id ?due)" using assms by (rule distinct_map_filter)
  then have "distinct (map xr_id (sort_key xr_next_reconcile_at ?due))"
    by (metis distinct_map distinct_sort set_sort)
  then show "distinct (pending_unknowns ev d)" unfolding pending_unknowns_def by (metis distinct_take take_map)
  assume "m \<in> set (pending_unknowns ev d)"
  then obtain x where "x \<in> set ?due" "m = xr_id x" by (auto simp: pending_unknowns_def dest!: in_set_takeD)
  then show "\<exists>x. get_execution m d = Some x \<and> execution_due (ev_db_now ev) x"
    using find_distinct_key [OF assms, of x] by (auto simp: get_execution_def)
qed

text \<open>Polls left; a poll of a due row uses one up.\<close>

definition polls_left :: "execution_row option \<Rightarrow> nat" where
  "polls_left r =
     (case r of Some x \<Rightarrow> if xr_status x = EX_UNKNOWN then nat (5 - xr_reconcile_attempts x) else 0 | None \<Rightarrow> 0)"

lemma polled_uses_one:
  assumes "polled lookup lc ev x x'" and "execution_due now x"
  shows "polls_left (Some x') < polls_left (Some x)"
    and "xr_status x' = EX_UNKNOWN \<Longrightarrow>
      xr_reconcile_attempts x' = xr_reconcile_attempts x + 1 \<and>
      (5 \<le> xr_reconcile_attempts x' \<longrightarrow>
         xr_next_reconcile_at x' = None \<and> xr_error_code x' = Some ''reconcile_attempts_exhausted'') \<and>
      (xr_reconcile_attempts x' < 5 \<longrightarrow> (\<exists>t. xr_next_reconcile_at x' = Some t \<and> ev_now ev + seconds 5 \<le> t))"
proof -
  have settled: "outcome_status out \<noteq> EX_UNKNOWN" if "out \<noteq> OUT_UNKNOWN" for out using that by (cases out) simp_all
  show "polls_left (Some x') < polls_left (Some x)"
    using assms settled
    by (auto simp: polled_def polls_left_def resolve_execution_def postpone_execution_def execution_due_def Let_def
        MAX_RECONCILE_ATTEMPTS_def)
  show "xr_reconcile_attempts x' = xr_reconcile_attempts x + 1 \<and>
      (5 \<le> xr_reconcile_attempts x' \<longrightarrow>
         xr_next_reconcile_at x' = None \<and> xr_error_code x' = Some ''reconcile_attempts_exhausted'') \<and>
      (xr_reconcile_attempts x' < 5 \<longrightarrow> (\<exists>t. xr_next_reconcile_at x' = Some t \<and> ev_now ev + seconds 5 \<le> t))"
    if "xr_status x' = EX_UNKNOWN"
    using assms(1) settled that backoff_at_least_base
    by (auto simp: polled_def resolve_execution_def postpone_execution_def Let_def MAX_RECONCILE_ATTEMPTS_def)
qed

lemma strict_drops_bounded:
  fixes f :: "nat \<Rightarrow> nat"
  assumes "\<And>k. f (Suc k) \<le> f k" and "\<And>k. k \<in> S \<Longrightarrow> f (Suc k) < f k"
  shows "finite S \<and> card S \<le> f 0"
proof (rule finite_if_finite_subsets_card_bdd)
  have drop: "card (G \<inter> {..<n}) + f n \<le> f 0" if "G \<subseteq> S" for G n
  proof (induction n)
    case (Suc n)
    show ?case
    proof (cases "n \<in> G")
      case True
      then have "G \<inter> {..<Suc n} = insert n (G \<inter> {..<n})" by (auto simp: less_Suc_eq)
      then have "card (G \<inter> {..<Suc n}) = Suc (card (G \<inter> {..<n}))" by simp
      moreover have "f (Suc n) < f n" using True that assms(2) by blast
      ultimately show ?thesis using Suc.IH by linarith
    next
      case False
      then have "G \<inter> {..<Suc n} = G \<inter> {..<n}" by (auto simp: less_Suc_eq)
      then show ?thesis using Suc.IH assms(1) [of n] by simp
    qed
  qed simp
  fix G
  assume G: "G \<subseteq> S" "finite G"
  then obtain n where "G \<subseteq> {..<n}" unfolding finite_nat_set_iff_bounded by blast
  with drop [OF G(1), of n] show "card G \<le> f 0" by (simp add: Int_absorb2)
qed

lemma poll_passes_step:
  assumes "poll_passes lc p ti s snap start fin n" and "get_execution n (fin k) \<noteq> get_execution n (start k)"
  defines "pending \<equiv> pending_unknowns (ti_snapshot (ti k)) (snap k)"
  shows "\<exists>j y y'. j < length pending \<and> pending ! j = n \<and> get_execution n (start k) = Some y \<and>
      get_execution n (fin k) = Some y' \<and> execution_due (ev_db_now (ti_snapshot (ti k))) y \<and>
      polled (\<lambda>tool key pid. pr_lookup (p k) tool key pid (s k)) lc (ti_reconcile (ti k) j) y y'"
proof -
  from assms(1) obtain st where d: "distinct (map xr_id (db_executions (snap k)))"
    and same: "get_execution n (start k) = get_execution n (snap k)"
    and f: "fin k = snd (reconcile_due lc (p k) (ti k) 0 pending st (s k) (start k))"
    unfolding poll_passes_def pending_def by blast
  obtain st' where run: "reconcile_due lc (p k) (ti k) 0 pending st (s k) (start k) = (st', fin k)"
    using f by (metis prod.collapse)
  have dp: "distinct pending" unfolding pending_def by (rule pending_unknowns_due(1) [OF d])
  from reconcile_due_polls [OF dp run, of n] assms(2) obtain j y y'
    where j: "j < length pending" "pending ! j = n" "get_execution n (start k) = Some y" "get_execution n (fin k) = Some y'"
      "polled (\<lambda>tool key pid. pr_lookup (p k) tool key pid (s k)) lc (ti_reconcile (ti k) j) y y'" by auto
  have "n \<in> set pending" using j(1,2) by auto
  from pending_unknowns_due(2) [OF d this [unfolded pending_def]] same j(3)
  have "execution_due (ev_db_now (ti_snapshot (ti k))) y" by (metis option.inject)
  with j show ?thesis by blast
qed

text \<open>
  C37. The provider is polled a bounded number of times and never hastily. Whatever passes a worker
  makes, with any clocks, answers and other writes in between: an execution is asked about only in a pass whose
  snapshot found it due, and about no other operation is the provider asked; at most five polls of an
  execution are recorded in all (fewer by those already spent), each either settled by the answer or counted as one
  attempt, and with the fifth attempt it is marked exhausted and is never due again; and a next poll is only made
  by a pass whose snapshot is at least five seconds after the last one. A poll whose transaction the database
  refuses leaves no record and is not counted.
\<close>

theorem polling_is_bounded:
  assumes "poll_passes lc p ti s snap start fin n" and "get_execution n (snap 0) = Some x"
  defines "pending \<equiv> \<lambda>k. pending_unknowns (ti_snapshot (ti k)) (snap k)"
    and "recorded \<equiv> {k. get_execution n (fin k) \<noteq> get_execution n (start k)}"
  shows "finite recorded \<and> card recorded \<le> nat (5 - xr_reconcile_attempts x) \<and>
    (\<forall>k. \<forall>m \<in> set (pending k). \<exists>y. get_execution m (snap k) = Some y \<and> execution_due (ev_db_now (ti_snapshot (ti k))) y) \<and>
    (\<forall>k p' st. (\<forall>m \<in> set (pending k). \<forall>y tool pid. get_execution m (start k) = Some y \<longrightarrow>
         pr_lookup p' tool (xr_operation_key y) pid (s k) = pr_lookup (p k) tool (xr_operation_key y) pid (s k)) \<longrightarrow>
       reconcile_due lc p' (ti k) 0 (pending k) st (s k) (start k) = reconcile_due lc (p k) (ti k) 0 (pending k) st (s k) (start k)) \<and>
    (\<forall>k \<in> recorded. \<exists>j y y'. j < length (pending k) \<and> pending k ! j = n \<and>
       get_execution n (start k) = Some y \<and> get_execution n (fin k) = Some y' \<and>
       polled (\<lambda>tool key pid. pr_lookup (p k) tool key pid (s k)) lc (ti_reconcile (ti k) j) y y' \<and>
       (xr_status y' = EX_UNKNOWN \<longrightarrow> xr_reconcile_attempts y' = xr_reconcile_attempts y + 1 \<and>
          (5 \<le> xr_reconcile_attempts y' \<longrightarrow> xr_error_code y' = Some ''reconcile_attempts_exhausted'')) \<and>
       (\<forall>l > k. (\<forall>i. k < i \<and> i < l \<longrightarrow> i \<notin> recorded) \<and> n \<in> set (pending l) \<longrightarrow>
          xr_reconcile_attempts y' < 5 \<and> ev_now (ti_reconcile (ti k) j) + seconds 5 \<le> ev_db_now (ti_snapshot (ti l))))"
proof -
  note step = poll_passes_step [OF assms(1)]
  have link: "get_execution n (snap (Suc k)) = get_execution n (fin k)" "get_execution n (start k) = get_execution n (snap k)"
      "distinct (map xr_id (db_executions (snap k)))" for k
    using assms(1) unfolding poll_passes_def by blast+
  have due: "\<exists>y. get_execution m (snap k) = Some y \<and> execution_due (ev_db_now (ti_snapshot (ti k))) y"
    if "m \<in> set (pending k)" for k m
    using pending_unknowns_due(2) [OF link(3)] that unfolding pending_def by blast
  let ?f = "\<lambda>k. polls_left (get_execution n (snap k))"
  have drop: "?f (Suc k) < ?f k" if "k \<in> recorded" for k
    using step [of k] that polled_uses_one(1) link(1,2) unfolding recorded_def by fastforce
  have keep: "?f (Suc k) \<le> ?f k" for k
    using drop [of k] link(1,2) [of k] by (cases "k \<in> recorded") (simp_all add: recorded_def)
  from strict_drops_bounded [of ?f, OF keep drop] have "finite recorded" "card recorded \<le> ?f 0" by blast+
  moreover have "?f 0 \<le> nat (5 - xr_reconcile_attempts x)" by (simp add: assms(2) polls_left_def)
  ultimately have bound: "finite recorded" "card recorded \<le> nat (5 - xr_reconcile_attempts x)" by linarith+
  have quiet: "get_execution n (snap l) = get_execution n (fin k)"
    if "k < l" "\<forall>i. k < i \<and> i < l \<longrightarrow> i \<notin> recorded" for k l
    using that
  proof (induction l)
    case (Suc l)
    show ?case
    proof (cases "l = k")
      case False
      with Suc.prems have "k < l" "\<forall>i. k < i \<and> i < l \<longrightarrow> i \<notin> recorded" "l \<notin> recorded" by auto
      with Suc.IH link [of l] show ?thesis by (simp add: recorded_def)
    qed (simp add: link(1))
  qed simp
  have spaced: "xr_reconcile_attempts y' < 5 \<and> ev_now ev + seconds 5 \<le> ev_db_now (ti_snapshot (ti l))"
    if "polled lookup lc ev y y'" "execution_due now y" "get_execution n (snap l) = Some y'" "n \<in> set (pending l)"
    for ev y y' l lookup now
  proof -
    from due [OF that(4)] that(3) have "execution_due (ev_db_now (ti_snapshot (ti l))) y'" by simp
    with polled_uses_one(2) [OF that(1,2)] show ?thesis
      by (auto simp: execution_due_def passed_def MAX_RECONCILE_ATTEMPTS_def)
  qed
  have one: "\<exists>j y y'. j < length (pending k) \<and> pending k ! j = n \<and>
       get_execution n (start k) = Some y \<and> get_execution n (fin k) = Some y' \<and>
       polled (\<lambda>tool key pid. pr_lookup (p k) tool key pid (s k)) lc (ti_reconcile (ti k) j) y y' \<and>
       (xr_status y' = EX_UNKNOWN \<longrightarrow> xr_reconcile_attempts y' = xr_reconcile_attempts y + 1 \<and>
          (5 \<le> xr_reconcile_attempts y' \<longrightarrow> xr_error_code y' = Some ''reconcile_attempts_exhausted'')) \<and>
       (\<forall>l > k. (\<forall>i. k < i \<and> i < l \<longrightarrow> i \<notin> recorded) \<and> n \<in> set (pending l) \<longrightarrow>
          xr_reconcile_attempts y' < 5 \<and> ev_now (ti_reconcile (ti k) j) + seconds 5 \<le> ev_db_now (ti_snapshot (ti l)))"
    if "k \<in> recorded" for k
  proof -
    from step [of k] that obtain j y y' where s: "j < length (pending k)" "pending k ! j = n"
        "get_execution n (start k) = Some y" "get_execution n (fin k) = Some y'"
        "execution_due (ev_db_now (ti_snapshot (ti k))) y"
        "polled (\<lambda>tool key pid. pr_lookup (p k) tool key pid (s k)) lc (ti_reconcile (ti k) j) y y'"
      unfolding recorded_def pending_def by blast
    have "xr_reconcile_attempts y' < 5 \<and> ev_now (ti_reconcile (ti k) j) + seconds 5 \<le> ev_db_now (ti_snapshot (ti l))"
      if "k < l" "\<forall>i. k < i \<and> i < l \<longrightarrow> i \<notin> recorded" "n \<in> set (pending l)" for l
      using spaced [OF s(6,5) _ that(3)] quiet [OF that(1,2)] s(4) by simp
    with s polled_uses_one(2) [OF s(6,5)] show ?thesis by blast
  qed
  show ?thesis
  proof (intro conjI)
    show "\<forall>k p' st. (\<forall>m \<in> set (pending k). \<forall>y tool pid. get_execution m (start k) = Some y \<longrightarrow>
         pr_lookup p' tool (xr_operation_key y) pid (s k) = pr_lookup (p k) tool (xr_operation_key y) pid (s k)) \<longrightarrow>
       reconcile_due lc p' (ti k) 0 (pending k) st (s k) (start k) = reconcile_due lc (p k) (ti k) 0 (pending k) st (s k) (start k)"
      by (intro allI impI reconcile_due_cong) blast
  qed (use bound due one in \<open>simp_all only:, blast+\<close>)
qed

text \<open>A provider that never answers, asked in pass after pass.\<close>

definition silent_provider :: "nat provider" where
  "silent_provider = sample_provider\<lparr>pr_lookup := (\<lambda>tool key pid s. Inl TimeoutError)\<rparr>"

definition reconcile_pass :: "nat provider \<Rightarrow> tick_inputs \<Rightarrow> db \<Rightarrow> db" where
  "reconcile_pass p ti d = snd (reconcile_due id p ti 0 (pending_unknowns (ti_snapshot ti) d) empty_stats 0 d)"

definition silent_passes :: "nat \<Rightarrow> db" where
  "silent_passes k = (reconcile_pass silent_provider sample_tick ^^ k) sample_unknown"

lemma reconcile_pass_ids:
  assumes "distinct (map xr_id (db_executions d))"
  shows "distinct (map xr_id (db_executions (reconcile_pass p ti d)))"
proof -
  obtain st' d' where r: "reconcile_due id p ti 0 (pending_unknowns (ti_snapshot ti) d) empty_stats 0 d = (st', d')"
    by (rule prod.exhaust)
  with reconcile_due_polls [OF pending_unknowns_due(1) [OF assms] r, of 0] assms show ?thesis
    by (simp add: reconcile_pass_def)
qed

lemma silent_passes_run:
  "poll_passes id (\<lambda>_. silent_provider) (\<lambda>_. sample_tick) (\<lambda>_. 0) silent_passes silent_passes
     (\<lambda>k. silent_passes (Suc k)) n"
proof -
  have "distinct (map xr_id (db_executions sample_unknown))" by code_simp
  then have "distinct (map xr_id (db_executions (silent_passes k)))" for k
    by (induction k) (simp_all add: silent_passes_def reconcile_pass_ids)
  moreover have "silent_passes (Suc k) = reconcile_pass silent_provider sample_tick (silent_passes k)" for k
    by (simp add: silent_passes_def)
  ultimately show ?thesis unfolding poll_passes_def reconcile_pass_def by blast
qed

lemma polling_is_bounded_witness:
  "map_option xr_reconcile_attempts (get_execution (pm_execution_id sample_permit) (silent_passes 1)) = Some 1 \<and>
     card {k. get_execution (pm_execution_id sample_permit) (silent_passes (Suc k)) \<noteq>
       get_execution (pm_execution_id sample_permit) (silent_passes k)} \<le> 5"
proof -
  let ?n = "pm_execution_id sample_permit"
  have first: "map_option xr_reconcile_attempts (get_execution ?n (silent_passes 0)) = Some 0"
    "map_option xr_reconcile_attempts (get_execution ?n (silent_passes 1)) = Some 1"
    unfolding silent_passes_def by code_simp+
  then obtain x where x: "get_execution ?n (silent_passes 0) = Some x" "xr_reconcile_attempts x = 0" by auto
  from polling_is_bounded [OF silent_passes_run x(1)] x(2) first(2) show ?thesis by simp
qed

section \<open>The snapshot of unknown outcomes\<close>

text \<open>
  The snapshot a pass reconciles is exactly the first due executions, at most five: those
  without a planned time first, then by planned time; a due one is left out only for five others
  that are planned no later.
\<close>

theorem pending_unknowns_first_due:
  "\<exists>rows. pending_unknowns ev d = map xr_id rows \<and> length rows \<le> 5 \<and>
     sorted (map xr_next_reconcile_at rows) \<and>
     (\<forall>x. x \<in> set rows \<longrightarrow> x \<in> set (db_executions d) \<and> execution_due (ev_db_now ev) x) \<and>
     (\<forall>x. x \<in> set (db_executions d) \<and> execution_due (ev_db_now ev) x \<and> x \<notin> set rows \<longrightarrow>
        length rows = 5 \<and> (\<forall>y \<in> set rows. xr_next_reconcile_at y \<le> xr_next_reconcile_at x))"
proof -
  let ?due = "filter (execution_due (ev_db_now ev)) (db_executions d)"
  let ?s = "sort_key xr_next_reconcile_at ?due"
  have srt: "sorted (map xr_next_reconcile_at (take 5 ?s) @ map xr_next_reconcile_at (drop 5 ?s))"
    by (metis append_take_drop_id map_append sorted_sort_key)
  have split: "x \<in> set ?due \<longleftrightarrow> x \<in> set (take 5 ?s) \<or> x \<in> set (drop 5 ?s)" for x
    by (metis Un_iff append_take_drop_id set_append set_sort)
  have full: "length (take 5 ?s) = 5" if "x \<in> set (drop 5 ?s)" for x
    using that by (cases "length ?s \<ge> 5") auto
  show ?thesis
  proof (intro exI [of _ "take 5 ?s"] conjI allI impI)
    show "pending_unknowns ev d = map xr_id (take 5 ?s)" by (simp add: pending_unknowns_def TICK_LIMIT_def)
  next
    fix x
    assume "x \<in> set (db_executions d) \<and> execution_due (ev_db_now ev) x \<and> x \<notin> set (take 5 ?s)"
    moreover have "x \<in> set ?due \<longleftrightarrow> x \<in> set (db_executions d) \<and> execution_due (ev_db_now ev) x" by auto
    ultimately have x: "x \<in> set (drop 5 ?s)" using split [of x] by blast
    with full show "length (take 5 ?s) = 5" by blast
    from srt x show "\<forall>y \<in> set (take 5 ?s). xr_next_reconcile_at y \<le> xr_next_reconcile_at x"
      by (auto simp: sorted_append)
  qed (use srt split in \<open>auto simp: sorted_append\<close>)
qed

lemma pending_unknowns_first_due_witness:
  "pending_unknowns (at_second 100) sample_unknown = [pm_execution_id sample_permit] \<and>
   (\<exists>rows :: execution_row list. pending_unknowns (at_second 100) sample_unknown = map xr_id rows \<and> length rows \<le> 5)"
proof
  show "pending_unknowns (at_second 100) sample_unknown = [pm_execution_id sample_permit]" by code_simp
  show "\<exists>rows :: execution_row list. pending_unknowns (at_second 100) sample_unknown = map xr_id rows \<and> length rows \<le> 5"
    using pending_unknowns_first_due [of "at_second 100" sample_unknown] by blast
qed

end
