(* ===== verification/Orchestrator.thy ===== *)
theory Orchestrator
  imports Schemas Domain_Errors
begin

text \<open>
  \<open>agent/orchestrator.py\<close>: a model proposal is untrusted. The provider is the argument \<open>provider\<close>: the
  value it returns for the request text and the bounded context, or its exception, which is
  \<open>TimeoutError\<close> also when the ten seconds of \<open>wait_for\<close> run out. The two providers of the source are
  \<open>disabled_provider\<close> and \<open>scripted_provider\<close>.
\<close>

definition MAX_REQUEST_CHARS :: nat where
  "MAX_REQUEST_CHARS = 4000"

definition MAX_CONTEXT_ITEMS :: nat where
  "MAX_CONTEXT_ITEMS = 20"

definition MAX_RATIONALE_CHARS :: nat where
  "MAX_RATIONALE_CHARS = 2000"

definition llm_error :: "string \<Rightarrow> exn" where
  "llm_error msg = raise_coded msg ''LLM_UNAVAILABLE'' 503 (Some True)"

definition disabled_provider :: "string \<Rightarrow> dict \<Rightarrow> exn + json" where
  "disabled_provider request_text context = Inl (llm_error ''LLM provider is not configured'')"

definition scripted_provider :: "dict \<Rightarrow> string \<Rightarrow> dict \<Rightarrow> exn + json" where
  "scripted_provider proposal request_text context = Inr (JObj proposal)"

record bounded_proposal =
  bp_tool :: string
  bp_parameters :: tool_parameters
  bp_rationale :: string

definition invalid_proposal :: "string \<Rightarrow> exn" where
  "invalid_proposal msg = raise_coded msg ''VALIDATION_FAILED'' 422 None"

definition provider_failure :: "exn \<Rightarrow> exn" where
  "provider_failure e =
     (if e = TimeoutError then llm_error ''LLM provider call timed out''
      else if is_domain_error e then e
      else llm_error ''LLM provider call failed'')"

definition check_proposal :: "(json \<Rightarrow> int option) \<Rightarrow> json \<Rightarrow> exn + bounded_proposal" where
  "check_proposal coerce raw =
     (case raw of
        JObj d \<Rightarrow>
          (case (dget ''tool'' d, dget ''parameters'' d) of
             (JStr tool, JObj parameters) \<Rightarrow>
               (case parse_tool_parameters coerce tool parameters of
                  Inl e \<Rightarrow>
                    (if e = UnknownToolError
                     then Inl (raise_coded ''tool is not on the allow-list'' ''UNKNOWN_TOOL'' 422 None)
                     else if e = ParameterValidationError
                     then Inl (invalid_proposal ''proposal parameters failed validation'')
                     else Inl e)
                | Inr p \<Rightarrow>
                    Inr \<lparr>bp_tool = tool, bp_parameters = p,
                         bp_rationale = py_take MAX_RATIONALE_CHARS
                           (py_str (dget_or ''rationale'' (JStr []) d))\<rparr>)
           | _ \<Rightarrow> Inl (invalid_proposal ''model proposal must include tool and parameters''))
      | _ \<Rightarrow> Inl (invalid_proposal ''model proposal was not a structured object''))"

definition propose ::
  "(string \<Rightarrow> dict \<Rightarrow> exn + json) \<Rightarrow> (json \<Rightarrow> int option) \<Rightarrow> string \<Rightarrow> dict \<Rightarrow> exn + bounded_proposal" where
  "propose provider coerce request_text context =
     (if py_len request_text > MAX_REQUEST_CHARS
      then Inl (invalid_proposal ''request text exceeds the bounded limit'')
      else
        (case provider request_text (take MAX_CONTEXT_ITEMS context) of
           Inl e \<Rightarrow> Inl (provider_failure e)
         | Inr raw \<Rightarrow> check_proposal coerce raw))"

section \<open>The boundary\<close>

lemma utf8_chars_take: "utf8_chars (concat (take n (utf8_chars s))) = take n (utf8_chars s)"
proof (induction s arbitrary: n)
  case (Cons c s)
  show ?case
  proof (cases n)
    case (Suc m)
    show ?thesis
    proof (cases "utf8_chars s")
      case (Cons p ps)
      with Cons.IH [of m] Cons.IH [of n] Suc show ?thesis by (cases m) auto
    qed (simp add: Suc)
  qed simp
qed simp

lemma py_len_take: "py_len (py_take n s) \<le> n"
  by (simp add: py_len_def py_take_def utf8_chars_take)

lemma check_proposal_Inr:
  assumes "check_proposal coerce raw = Inr b"
  shows "\<exists>d ps. raw = JObj d \<and> dget ''tool'' d = JStr (bp_tool b) \<and> dget ''parameters'' d = JObj ps \<and>
      parse_tool_parameters coerce (bp_tool b) ps = Inr (bp_parameters b) \<and>
      bp_rationale b = py_take MAX_RATIONALE_CHARS (py_str (dget_or ''rationale'' (JStr []) d))"
  using assms by (auto simp: check_proposal_def split: json.splits sum.splits if_splits)

lemma check_proposal_Inl:
  assumes "check_proposal coerce raw = Inl e"
  shows "\<exists>x. e = Domain x \<and> de_status x = 422 \<and> \<not> de_retryable x"
proof -
  have "e' = UnknownToolError \<or> e' = ParameterValidationError" if "parse_tool_parameters coerce t ps = Inl e'" for t ps e'
    using that by (auto simp: parse_tool_parameters_def split: option.splits)
  with assms show ?thesis
    by (force simp: check_proposal_def invalid_proposal_def raise_coded_def make_error_def
        split: json.splits sum.splits if_splits)
qed

text \<open>
  Whatever a provider returns or raises, the agent path yields either a proposal of an allowed
  tool with validated, bounded parameters and at most 2000 characters of rationale, or a domain
  error: 422, or 503 marked retryable, or the provider's own. Nothing else passes the boundary.
\<close>

theorem proposals_are_bounded:
  "case propose provider coerce request_text context of
     Inr b \<Rightarrow> parameters_ok (bp_parameters b) \<and> bp_tool b = tool_value (model_tool (bp_parameters b)) \<and>
       py_len (bp_rationale b) \<le> 2000 \<and> py_len request_text \<le> 4000
   | Inl e \<Rightarrow> (\<exists>x. e = Domain x \<and>
       (de_status x = 422 \<and> \<not> de_retryable x \<or> de_status x = 503 \<and> de_code x = ''LLM_UNAVAILABLE'' \<and> de_retryable x \<or>
        provider request_text (take 20 context) = Inl e))"
proof (cases "py_len request_text > MAX_REQUEST_CHARS")
  case True
  then show ?thesis by (simp add: propose_def invalid_proposal_def raise_coded_def make_error_def)
next
  case small: False
  show ?thesis
  proof (cases "provider request_text (take MAX_CONTEXT_ITEMS context)")
    case (Inl e)
    then show ?thesis
      using small
      by (cases e) (simp_all add: propose_def provider_failure_def llm_error_def raise_coded_def make_error_def
          MAX_CONTEXT_ITEMS_def)
  next
    case (Inr raw)
    show ?thesis
    proof (cases "check_proposal coerce raw")
      case (Inl e)
      with check_proposal_Inl [OF this] small Inr show ?thesis by (auto simp: propose_def)
    next
      case b: (Inr b)
      from check_proposal_Inr [OF b] obtain ps where p: "parse_tool_parameters coerce (bp_tool b) ps = Inr (bp_parameters b)"
        and r: "\<exists>s. bp_rationale b = py_take MAX_RATIONALE_CHARS s" by blast
      then obtain t where "tool_of (bp_tool b) = Some t" "model_validate coerce t ps = Some (bp_parameters b)"
        by (auto simp: parse_Inr)
      then have "parameters_ok (bp_parameters b)" "bp_tool b = tool_value (model_tool (bp_parameters b))"
        using model_validate_SomeD tool_of_SomeD by fastforce+
      with r small Inr b show ?thesis
        by (auto simp: propose_def MAX_REQUEST_CHARS_def MAX_RATIONALE_CHARS_def py_len_take)
    qed
  qed
qed

end
