(* ===== verification/Administration.thy ===== *)
theory Administration
  imports Scenario
begin

text \<open>
  \<open>application/administration.py\<close>: role assignments and the lifecycle of policy bundles. Every command
  needs a current administrator, writes one outbox event for the audit and never touches an intent,
  its history or a decision.
\<close>

record grant_role_command =
  gr_tenant_id :: string
  gr_principal_id :: string
  gr_role :: string
  gr_environments :: "string list"
  gr_valid_until :: "instant option"
  gr_actor :: authenticated_actor
  gr_command_id :: string
  gr_reason :: string
  gr_scopes :: "string list"

record revoke_role_command =
  rk_tenant_id :: string
  rk_assignment_id :: row_id
  rk_actor :: authenticated_actor
  rk_command_id :: string
  rk_reason :: string

record register_bundle_command =
  rb_version :: string
  rb_rules :: dict
  rb_actor :: authenticated_actor
  rb_command_id :: string
  rb_reason :: string

record activate_bundle_command =
  ab_version :: string
  ab_actor :: authenticated_actor
  ab_command_id :: string
  ab_reason :: string

record assignment_snapshot =
  sn_assignment_id :: row_id
  sn_tenant_id :: string
  sn_principal_id :: string
  sn_role :: string
  sn_environments :: "string list"
  sn_valid_until :: "instant option"
  sn_revoked_at :: "instant option"

definition environments_key :: "string list \<Rightarrow> string" where
  "environments_key es = join_with '','' es"

definition assignment_snapshot_of :: "role_row \<Rightarrow> assignment_snapshot" where
  "assignment_snapshot_of r =
     \<lparr>sn_assignment_id = ra_id r, sn_tenant_id = ra_tenant_id r, sn_principal_id = ra_principal_id r,
      sn_role = ra_role r, sn_environments = (case ra_environments r of None \<Rightarrow> [] | Some es \<Rightarrow> es),
      sn_valid_until = ra_valid_until r, sn_revoked_at = ra_revoked_at r\<rparr>"

text \<open>\<open>list(x) or None\<close>.\<close>

definition or_none :: "'a list \<Rightarrow> 'a list option" where
  "or_none xs = (if xs = [] then None else Some xs)"

section \<open>Role assignments\<close>

definition active_grants :: "string \<Rightarrow> string \<Rightarrow> string \<Rightarrow> string \<Rightarrow> db \<Rightarrow> role_row list" where
  "active_grants tenant pid role key d =
     filter (\<lambda>r. ra_tenant_id r = tenant \<and> ra_principal_id r = pid \<and> ra_role r = role \<and>
       ra_environments_key r = key \<and> ra_revoked_at r = None) (db_roles d)"

definition granted_row :: "env \<Rightarrow> grant_role_command \<Rightarrow> row_id \<Rightarrow> role_row" where
  "granted_row ev c n =
     (let es = sort (remdups (gr_environments c))
      in \<lparr>ra_id = n, ra_tenant_id = gr_tenant_id c, ra_principal_id = gr_principal_id c, ra_role = gr_role c,
          ra_environments = or_none es, ra_scopes = or_none (gr_scopes c),
          ra_environments_key = environments_key es, ra_valid_from = ev_db_now ev,
          ra_valid_until = gr_valid_until c, ra_revoked_at = None,
          ra_granted_by = ac_actor_id (gr_actor c)\<rparr>)"

definition add_role :: "role_row \<Rightarrow> db \<Rightarrow> db" where
  "add_role r d = d\<lparr>db_roles := db_roles d @ [r], db_next_id := db_next_id d + 1\<rparr>"

definition granted_payload :: "grant_role_command \<Rightarrow> dict" where
  "granted_payload c =
     [(''tenant_id'', JStr (gr_tenant_id c)), (''principal_id'', JStr (gr_principal_id c)),
      (''role'', JStr (gr_role c)), (''scopes'', JList (map JStr (gr_scopes c))),
      (''action'', JStr ''granted''), (''actor_id'', JStr (ac_actor_id (gr_actor c))),
      (''command_id'', JStr (gr_command_id c)), (''reason'', JStr (gr_reason c))]"

definition grant_role :: "env \<Rightarrow> grant_role_command \<Rightarrow> db \<Rightarrow> (exn + assignment_snapshot) \<times> db" where
  "grant_role ev c d =
     (case require_administrator ev d (gr_actor c) of
        Inl e \<Rightarrow> (Inl e, d)
      | Inr _ \<Rightarrow>
          (let es = sort (remdups (gr_environments c))
           in (case scalar_one_or_none
                      (active_grants (gr_tenant_id c) (gr_principal_id c) (gr_role c) (environments_key es) d) of
                 Inl e \<Rightarrow> (Inl e, d)
               | Inr (Some existing) \<Rightarrow> (Inr (assignment_snapshot_of existing), d)
               | Inr None \<Rightarrow>
                   (let r = granted_row ev c (db_next_id d); d1 = add_role r d
                    in (case flush d1 of
                          Inl e \<Rightarrow> (Inl e, d1)
                        | Inr _ \<Rightarrow>
                            (Inr (assignment_snapshot_of r),
                             add_outbox (ev_db_now ev) ''administration.role_changed'' (granted_payload c) d1))))))"

definition revoked_payload :: "revoke_role_command \<Rightarrow> role_row \<Rightarrow> dict" where
  "revoked_payload c r =
     [(''tenant_id'', JStr (rk_tenant_id c)), (''principal_id'', JStr (ra_principal_id r)),
      (''role'', JStr (ra_role r)), (''action'', JStr ''revoked''),
      (''actor_id'', JStr (ac_actor_id (rk_actor c))), (''command_id'', JStr (rk_command_id c)),
      (''reason'', JStr (rk_reason c))]"

definition revoke_role :: "env \<Rightarrow> revoke_role_command \<Rightarrow> db \<Rightarrow> (exn + assignment_snapshot) \<times> db" where
  "revoke_role ev c d =
     (case require_administrator ev d (rk_actor c) of
        Inl e \<Rightarrow> (Inl e, d)
      | Inr _ \<Rightarrow>
          (case find (\<lambda>r. ra_id r = rk_assignment_id c) (db_roles d) of
             None \<Rightarrow> (Inl (raise_error NotFoundError ''role assignment not found''), d)
           | Some r \<Rightarrow>
               if ra_tenant_id r \<noteq> rk_tenant_id c
               then (Inl (raise_error NotFoundError ''role assignment not found''), d)
               else if ra_revoked_at r \<noteq> None
               then (Inl (raise_error ForbiddenError ''assignment is already revoked''), d)
               else
                 (let r' = r\<lparr>ra_revoked_at := Some (ev_now ev)\<rparr>;
                      d' = add_outbox (ev_db_now ev) ''administration.role_changed'' (revoked_payload c r)
                        (d\<lparr>db_roles := upd_where (\<lambda>x. ra_id x = ra_id r) (\<lambda>_. r') (db_roles d)\<rparr>)
                  in (case flush d' of
                        Inl e \<Rightarrow> (Inl e, d')
                      | Inr _ \<Rightarrow> (Inr (assignment_snapshot_of r'), d')))))"

section \<open>Policy bundles\<close>

definition bundles_named :: "string \<Rightarrow> string \<Rightarrow> db \<Rightarrow> bundle_row list" where
  "bundles_named tenant version d =
     filter (\<lambda>b. br_tenant_id b = tenant \<and> br_version b = version) (db_bundles d)"

definition policy_changed :: "string \<Rightarrow> string \<Rightarrow> string \<Rightarrow> string \<Rightarrow> string \<Rightarrow> string \<Rightarrow> dict" where
  "policy_changed tenant version action actor_id command_id reason =
     [(''tenant_id'', JStr tenant), (''policy_version'', JStr version), (''action'', JStr action),
      (''actor_id'', JStr actor_id), (''command_id'', JStr command_id), (''reason'', JStr reason)]"

definition registered_row :: "env \<Rightarrow> register_bundle_command \<Rightarrow> row_id \<Rightarrow> bundle_row" where
  "registered_row ev c n =
     \<lparr>br_id = n, br_tenant_id = ac_tenant_id (rb_actor c), br_version = rb_version c, br_rules = rb_rules c,
      br_is_active = False, br_created_at = ev_db_now ev\<rparr>"

definition register_policy_bundle :: "env \<Rightarrow> register_bundle_command \<Rightarrow> db \<Rightarrow> (exn + string) \<times> db" where
  "register_policy_bundle ev c d =
     (case require_administrator ev d (rb_actor c) of
        Inl e \<Rightarrow> (Inl e, d)
      | Inr _ \<Rightarrow>
          (let tenant = ac_tenant_id (rb_actor c)
           in (case scalar_one_or_none (bundles_named tenant (rb_version c) d) of
                 Inl e \<Rightarrow> (Inl e, d)
               | Inr (Some _) \<Rightarrow>
                   (Inl (raise_error StateConflictError ''policy bundle version already registered for this tenant''), d)
               | Inr None \<Rightarrow>
                   (let d' = add_outbox (ev_db_now ev) ''administration.policy_changed''
                          (policy_changed tenant (rb_version c) ''registered'' (ac_actor_id (rb_actor c))
                            (rb_command_id c) (rb_reason c))
                          (d\<lparr>db_bundles := db_bundles d @ [registered_row ev c (db_next_id d)],
                             db_next_id := db_next_id d + 1\<rparr>)
                    in (case flush d' of Inl e \<Rightarrow> (Inl e, d') | Inr _ \<Rightarrow> (Inr (rb_version c), d'))))))"

text \<open>One UPDATE takes the flag from every active bundle of the tenant, then the target gets it.\<close>

definition activated_bundles :: "string \<Rightarrow> string \<Rightarrow> bundle_row list \<Rightarrow> bundle_row list" where
  "activated_bundles tenant version bs =
     upd_where (\<lambda>b. br_tenant_id b = tenant \<and> br_version b = version) (\<lambda>b. b\<lparr>br_is_active := True\<rparr>)
       (upd_where (\<lambda>b. br_tenant_id b = tenant \<and> br_is_active b) (\<lambda>b. b\<lparr>br_is_active := False\<rparr>) bs)"

definition activate_policy_bundle :: "env \<Rightarrow> activate_bundle_command \<Rightarrow> db \<Rightarrow> (exn + string) \<times> db" where
  "activate_policy_bundle ev c d =
     (case require_administrator ev d (ab_actor c) of
        Inl e \<Rightarrow> (Inl e, d)
      | Inr _ \<Rightarrow>
          (let tenant = ac_tenant_id (ab_actor c)
           in (case scalar_one_or_none (bundles_named tenant (ab_version c) d) of
                 Inl e \<Rightarrow> (Inl e, d)
               | Inr None \<Rightarrow> (Inl (raise_error NotFoundError ''policy bundle version not found''), d)
               | Inr (Some _) \<Rightarrow>
                   (let d' = add_outbox (ev_db_now ev) ''administration.policy_changed''
                          (policy_changed tenant (ab_version c) ''activated'' (ac_actor_id (ab_actor c))
                            (ab_command_id c) (ab_reason c))
                          (d\<lparr>db_bundles := activated_bundles tenant (ab_version c) (db_bundles d)\<rparr>)
                    in (case flush d' of Inl e \<Rightarrow> (Inl e, d') | Inr _ \<Rightarrow> (Inr (ab_version c), d'))))))"

section \<open>What administration leaves alone\<close>

definition admin_frame :: "db \<Rightarrow> db \<Rightarrow> bool" where
  "admin_frame d d' \<longleftrightarrow>
     db_intents d' = db_intents d \<and> db_transitions d' = db_transitions d \<and> db_risk d' = db_risk d \<and>
     db_policy d' = db_policy d \<and> db_decisions d' = db_decisions d \<and> db_executions d' = db_executions d \<and>
     db_audit d' = db_audit d \<and> db_idempotency d' = db_idempotency d"

lemma admin_frame_evolves: "admin_frame d d' \<Longrightarrow> evolves d d'"
  by (rule evolves_frame) (simp_all add: admin_frame_def)

lemma admin_frame_simps [simp]:
  "admin_frame d d" "admin_frame d (add_outbox n t p (add_role r d))" "admin_frame d (add_role r d)"
  "admin_frame d (add_outbox n t p (d\<lparr>db_roles := rs\<rparr>))" "admin_frame d (add_outbox n t p (d\<lparr>db_bundles := bs\<rparr>))"
  "admin_frame d (add_outbox n t p (d\<lparr>db_bundles := bs, db_next_id := m\<rparr>))"
  by (simp_all add: admin_frame_def add_role_def)

lemma grant_role_frame: "grant_role ev c d = (r, d') \<Longrightarrow> admin_frame d d'"
  by (auto simp: grant_role_def Let_def split: sum.splits option.splits)

lemma revoke_role_frame: "revoke_role ev c d = (r, d') \<Longrightarrow> admin_frame d d'"
  by (auto simp: revoke_role_def Let_def split: sum.splits option.splits if_splits)

lemma register_frame: "register_policy_bundle ev c d = (r, d') \<Longrightarrow> admin_frame d d'"
  by (auto simp: register_policy_bundle_def Let_def split: sum.splits option.splits)

lemma activate_frame: "activate_policy_bundle ev c d = (r, d') \<Longrightarrow> admin_frame d d'"
  by (auto simp: activate_policy_bundle_def Let_def split: sum.splits option.splits)

section \<open>What the commands do\<close>

lemma require_administrator_Inr:
  "require_administrator ev d a = Inr u \<longleftrightarrow> ''administrator'' \<in> current_roles ev d a None"
  by (simp add: require_administrator_def)

lemma grant_role_Inr:
  assumes "grant_role ev c d = (Inr s, d')"
  defines "es \<equiv> sort (remdups (gr_environments c))"
  defines "gs \<equiv> active_grants (gr_tenant_id c) (gr_principal_id c) (gr_role c) (environments_key es) d"
  shows "''administrator'' \<in> current_roles ev d (gr_actor c) None \<and>
    ((\<exists>r. gs = [r] \<and> d' = d \<and> s = assignment_snapshot_of r) \<or>
     (gs = [] \<and> s = assignment_snapshot_of (granted_row ev c (db_next_id d)) \<and>
      d' = add_outbox (ev_db_now ev) ''administration.role_changed'' (granted_payload c)
        (add_role (granted_row ev c (db_next_id d)) d)))"
proof (cases "require_administrator ev d (gr_actor c)")
  case (Inl e)
  with assms(1) show ?thesis by (simp add: grant_role_def)
next
  case (Inr u)
  show ?thesis
  proof (cases "scalar_one_or_none gs")
    case Inl
    with assms(1) Inr show ?thesis by (simp add: grant_role_def gs_def es_def)
  next
    case (Inr m)
    with assms(1) \<open>require_administrator ev d (gr_actor c) = Inr u\<close> show ?thesis
      by (cases m) (auto simp: grant_role_def gs_def es_def Let_def require_administrator_Inr
          scalar_one_or_none_Inr split: sum.splits)
  qed
qed

text \<open>
  Granting a role does what was asked only where no unrevoked grant of the same role and
  environments exists. Then the new row names the command's scopes and end, is in force from the
  present on in every environment it names, and one audit message is queued. Otherwise the command
  answers with the old row and changes nothing, also when that row is long past its end.
\<close>

theorem grant_role_exact:
  assumes "grant_role ev c d = (Inr s, d')"
  shows "''administrator'' \<in> current_roles ev d (gr_actor c) None \<and> admin_frame d d' \<and>
    (if active_grants (gr_tenant_id c) (gr_principal_id c) (gr_role c)
          (environments_key (sort (remdups (gr_environments c)))) d = []
     then (\<exists>r. db_roles d' = db_roles d @ [r] \<and> s = assignment_snapshot_of r \<and>
         ra_scopes r = or_none (gr_scopes c) \<and> ra_valid_until r = gr_valid_until c \<and> ra_role r = gr_role c \<and>
         (\<forall>t e. ev_db_now ev \<le> t \<and> (\<forall>u. gr_valid_until c = Some u \<longrightarrow> t < u) \<and>
            (gr_environments c = [] \<or> e \<in> Some ` set (gr_environments c)) \<longrightarrow>
            row_in_force r (gr_tenant_id c) (gr_principal_id c) t e)) \<and>
       (\<exists>m. db_outbox d' = db_outbox d @ [m] \<and> ob_topic m = ''administration.role_changed'')
     else d' = d)"
proof -
  let ?r = "granted_row ev c (db_next_id d)"
  have force: "row_in_force ?r (gr_tenant_id c) (gr_principal_id c) t e"
    if "ev_db_now ev \<le> t" "\<forall>u. gr_valid_until c = Some u \<longrightarrow> t < u"
      "gr_environments c = [] \<or> e \<in> Some ` set (gr_environments c)" for t e
    using that by (auto simp: row_in_force_def granted_row_def or_none_def Let_def split: option.splits)
  have row: "ra_scopes ?r = or_none (gr_scopes c)" "ra_valid_until ?r = gr_valid_until c" "ra_role ?r = gr_role c"
    by (simp_all add: granted_row_def Let_def)
  show ?thesis
  proof (cases "active_grants (gr_tenant_id c) (gr_principal_id c) (gr_role c)
          (environments_key (sort (remdups (gr_environments c)))) d = []")
    case True
    with grant_role_Inr [OF assms] have "d' = add_outbox (ev_db_now ev) ''administration.role_changed'' (granted_payload c) (add_role ?r d)"
      and "s = assignment_snapshot_of ?r" and "''administrator'' \<in> current_roles ev d (gr_actor c) None" by auto
    then show ?thesis
      using True force row by (auto simp: add_role_def add_outbox_def admin_frame_def intro!: exI [of _ ?r])
  next
    case False
    with grant_role_Inr [OF assms] show ?thesis by auto
  qed
qed

definition sample_grant :: grant_role_command where
  "sample_grant = \<lparr>gr_tenant_id = ''t'', gr_principal_id = ''carol'', gr_role = ''approver'',
     gr_environments = [''staging''], gr_valid_until = Some (seconds 100), gr_actor = actor_named ''root'',
     gr_command_id = ''g1'', gr_reason = ''cover'', gr_scopes = [''ops:write'']\<rparr>"

definition sample_granted :: db where
  "sample_granted = snd (grant_role (at_second 10) sample_grant sample_empty)"

text \<open>Granted again after its end, for longer: accepted, and nothing changes.\<close>

lemma grant_role_exact_witness:
  "\<exists>s. grant_role (at_second 500) (sample_grant\<lparr>gr_valid_until := None\<rparr>) sample_granted = (Inr s, sample_granted) \<and>
     ''approver'' \<notin> current_roles (at_second 500) sample_granted (actor_named ''carol'') (Some ''staging'')"
proof -
  let ?c = "sample_grant\<lparr>gr_valid_until := None\<rparr>"
  have "succeeds (grant_role (at_second 500) ?c sample_granted)" by code_simp
  then obtain s where s: "grant_role (at_second 500) ?c sample_granted =
      (Inr s, snd (grant_role (at_second 500) ?c sample_granted))" by (rule succeedsE)
  have "active_grants (gr_tenant_id ?c) (gr_principal_id ?c) (gr_role ?c)
          (environments_key (sort (remdups (gr_environments ?c)))) sample_granted \<noteq> []" by code_simp
  with grant_role_exact [OF s] have same: "snd (grant_role (at_second 500) ?c sample_granted) = sample_granted" by simp
  have "''approver'' \<notin> current_roles (at_second 500) sample_granted (actor_named ''carol'') (Some ''staging'')"
    by code_simp
  with s same show ?thesis by (intro exI [of _ s]) simp
qed

text \<open>
  C39. A revocation ends authority at once and for good: the named assignment of the tenant was in
  the table unrevoked, a current administrator asked, and from then on it is in force for nobody, at
  no instant and in no environment. Every other assignment is as before, and so are every intent,
  decision, evaluation, execution, policy bundle and audit event; the outbox holds one new row, that announces
  the change.
\<close>

theorem revoke_role_ends_authority:
  assumes "revoke_role ev c d = (Inr s, d')"
  shows "''administrator'' \<in> current_roles ev d (rk_actor c) None \<and> admin_frame d d' \<and>
    (\<exists>r \<in> set (db_roles d). ra_id r = rk_assignment_id c \<and> ra_tenant_id r = rk_tenant_id c \<and> ra_revoked_at r = None) \<and>
    (\<forall>r \<in> set (db_roles d'). ra_id r = rk_assignment_id c \<longrightarrow> (\<forall>tenant pid t e. \<not> row_in_force r tenant pid t e)) \<and>
    filter (\<lambda>r. ra_id r \<noteq> rk_assignment_id c) (db_roles d') = filter (\<lambda>r. ra_id r \<noteq> rk_assignment_id c) (db_roles d) \<and>
    db_bundles d' = db_bundles d \<and>
    (\<exists>m. db_outbox d' = db_outbox d @ [m] \<and> ob_topic m = ''administration.role_changed'') \<and>
    sn_revoked_at s = Some (ev_now ev)"
proof -
  from assms obtain u r where adm: "require_administrator ev d (rk_actor c) = Inr u"
    and r: "find (\<lambda>r. ra_id r = rk_assignment_id c) (db_roles d) = Some r" "ra_tenant_id r = rk_tenant_id c"
      "ra_revoked_at r = None"
    and d': "d' = add_outbox (ev_db_now ev) ''administration.role_changed'' (revoked_payload c r)
        (d\<lparr>db_roles := upd_where (\<lambda>x. ra_id x = ra_id r) (\<lambda>_. r\<lparr>ra_revoked_at := Some (ev_now ev)\<rparr>) (db_roles d)\<rparr>)"
    and s: "s = assignment_snapshot_of (r\<lparr>ra_revoked_at := Some (ev_now ev)\<rparr>)"
    by (auto simp: revoke_role_def Let_def split: sum.splits option.splits if_splits)
  from find_SomeD [OF r(1)] have m: "r \<in> set (db_roles d)" and n: "ra_id r = rk_assignment_id c" by simp_all
  have other: "filter (\<lambda>x. ra_id x \<noteq> ra_id r) (upd_where (\<lambda>x. ra_id x = ra_id r) (\<lambda>_. r\<lparr>ra_revoked_at := v\<rparr>) rs)
      = filter (\<lambda>x. ra_id x \<noteq> ra_id r) rs" for v rs
    by (induction rs) (simp_all add: upd_where_def)
  have "\<forall>x \<in> set (db_roles d'). ra_id x = ra_id r \<longrightarrow> ra_revoked_at x = Some (ev_now ev)"
    unfolding d' by (auto simp: set_upd_where)
  then show ?thesis
    using adm m n r revoke_role_frame [OF assms] other s unfolding d'
    by (auto simp: require_administrator_Inr row_in_force_def assignment_snapshot_of_def add_outbox_def)
qed

definition sample_revoke :: revoke_role_command where
  "sample_revoke = \<lparr>rk_tenant_id = ''t'', rk_assignment_id = 0, rk_actor = actor_named ''root'',
     rk_command_id = ''g2'', rk_reason = ''left''\<rparr>"

lemma revoke_role_ends_authority_witness:
  "\<exists>s d'. revoke_role (at_second 20) sample_revoke sample_empty = (Inr s, d') \<and>
     (\<forall>r \<in> set (db_roles d'). ra_id r = 0 \<longrightarrow> \<not> row_in_force r ''t'' ''bob'' (seconds 30) None)"
proof -
  have "succeeds (revoke_role (at_second 20) sample_revoke sample_empty)" by code_simp
  then obtain s where s: "revoke_role (at_second 20) sample_revoke sample_empty =
      (Inr s, snd (revoke_role (at_second 20) sample_revoke sample_empty))" by (rule succeedsE)
  have "rk_assignment_id sample_revoke = 0" by (simp add: sample_revoke_def)
  with revoke_role_ends_authority [OF s] s show ?thesis by metis
qed

text \<open>
  C40. After an activation the tenant has exactly one active bundle: the registered row of that
  version, with the rules it was registered with. The active bundle of every other tenant is as
  before, no bundle was added or lost, and one audit message is queued.
\<close>

theorem activation_is_exclusive:
  assumes "activate_policy_bundle ev c d = (Inr v, d')"
  defines "tenant \<equiv> ac_tenant_id (ab_actor c)"
  shows "''administrator'' \<in> current_roles ev d (ab_actor c) None \<and> v = ab_version c \<and> admin_frame d d' \<and>
    (\<exists>b. bundles_named tenant v d = [b] \<and> get_active tenant d' = Inr (Some \<lparr>pb_version = v, pb_rules = br_rules b\<rparr>)) \<and>
    (\<forall>t. t \<noteq> tenant \<longrightarrow> get_active t d' = get_active t d) \<and>
    map (\<lambda>b. (br_id b, br_tenant_id b, br_version b, br_rules b)) (db_bundles d') =
      map (\<lambda>b. (br_id b, br_tenant_id b, br_version b, br_rules b)) (db_bundles d)"
proof -
  let ?bs = "activated_bundles tenant (ab_version c) (db_bundles d)"
  from assms(1) obtain u b where adm: "require_administrator ev d (ab_actor c) = Inr u"
    and b: "bundles_named tenant (ab_version c) d = [b]" and v: "v = ab_version c"
    and d': "db_bundles d' = ?bs"
    by (auto simp: activate_policy_bundle_def Let_def scalar_one_or_none_Inr tenant_def
        split: sum.splits option.splits)
  have active: "filter (\<lambda>b. br_tenant_id b = tenant \<and> br_is_active b) (activated_bundles tenant w bs) =
      map (\<lambda>b. b\<lparr>br_is_active := True\<rparr>) (filter (\<lambda>b. br_tenant_id b = tenant \<and> br_version b = w) bs)" for w bs
    by (induction bs) (auto simp: activated_bundles_def upd_where_def)
  have other: "filter (\<lambda>b. br_tenant_id b = t \<and> br_is_active b) (activated_bundles tenant w bs) =
      filter (\<lambda>b. br_tenant_id b = t \<and> br_is_active b) bs" if "t \<noteq> tenant" for t w bs
    using that by (induction bs) (auto simp: activated_bundles_def upd_where_def)
  have same: "map (\<lambda>b. (br_id b, br_tenant_id b, br_version b, br_rules b)) (activated_bundles tenant w bs) =
      map (\<lambda>b. (br_id b, br_tenant_id b, br_version b, br_rules b)) bs" for w bs
    by (induction bs) (auto simp: activated_bundles_def upd_where_def)
  have "b \<in> set (bundles_named tenant (ab_version c) d)" by (simp add: b)
  then have "br_version b = ab_version c" by (simp add: bundles_named_def)
  with active [of "ab_version c" "db_bundles d"] b have "get_active tenant d' = Inr (Some \<lparr>pb_version = v, pb_rules = br_rules b\<rparr>)"
    by (simp add: get_active_def d' bundles_named_def v)
  moreover have "get_active t d' = get_active t d" if "t \<noteq> tenant" for t
    using other [OF that] by (simp add: get_active_def d')
  ultimately show ?thesis
    using adm b v activate_frame [OF assms(1)] same by (auto simp: require_administrator_Inr d')
qed

definition sample_activate :: activate_bundle_command where
  "sample_activate = \<lparr>ab_version = ''policy-2'', ab_actor = actor_named ''root'', ab_command_id = ''g4'',
     ab_reason = ''reviewed''\<rparr>"

definition sample_registered :: db where
  "sample_registered = snd (register_policy_bundle (at_second 10)
     \<lparr>rb_version = ''policy-2'', rb_rules = [], rb_actor = actor_named ''root'', rb_command_id = ''g3'',
      rb_reason = ''stricter''\<rparr> sample_empty)"

lemma activation_is_exclusive_witness:
  "\<exists>d'. activate_policy_bundle (at_second 20) sample_activate sample_registered = (Inr ''policy-2'', d') \<and>
     (\<exists>rules. get_active ''t'' d' = Inr (Some \<lparr>pb_version = ''policy-2'', pb_rules = rules\<rparr>))"
proof -
  let ?run = "activate_policy_bundle (at_second 20) sample_activate sample_registered"
  have "succeeds ?run" by code_simp
  then obtain v where v: "?run = (Inr v, snd ?run)" by (rule succeedsE)
  from activation_is_exclusive [OF v] have "v = ''policy-2''"
    and "\<exists>rules. get_active ''t'' (snd ?run) = Inr (Some \<lparr>pb_version = v, pb_rules = rules\<rparr>)"
    by (auto simp: sample_activate_def actor_named_def)
  with v show ?thesis by metis
qed

end
