(* ===== verification/Idempotency.thy ===== *)
theory Idempotency
  imports Store Identity
begin

text \<open>
  \<open>IdempotencyService\<close> of \<open>application/commands.py\<close> and the frame every mutating route puts around its
  work: reserve the key, run the command, record the response, all in the session of the request.
  The locale \<open>keyed_route\<close> states what a command must leave alone for the frame to work; the routes
  of \<open>Admin_Api\<close>, \<open>Intent_Api\<close> and \<open>Approval_Api\<close> are its instances.
\<close>

section \<open>Hashes\<close>

definition canonical_request_hash :: "(string \<Rightarrow> string) \<Rightarrow> dict \<Rightarrow> string" where
  "canonical_request_hash sha payload = sha (dumps_sorted (JObj payload))"

definition idempotency_key_hash :: "(string \<Rightarrow> string) \<Rightarrow> string \<Rightarrow> string" where
  "idempotency_key_hash sha key = sha key"

section \<open>The service\<close>

record reservation =
  rs_replayed :: bool
  rs_pending :: bool
  rs_response_status :: "int option"
  rs_response_body :: "dict option"

definition fresh_reservation :: reservation where
  "fresh_reservation =
     \<lparr>rs_replayed = False, rs_pending = False, rs_response_status = None, rs_response_body = None\<rparr>"

type_synonym record_key = "string \<times> string \<times> string \<times> string"

definition ir_key :: "idempotency_row \<Rightarrow> record_key" where
  "ir_key r = (ir_tenant_id r, ir_actor_id r, ir_scope r, ir_key_hash r)"

definition lookup_record :: "record_key \<Rightarrow> db \<Rightarrow> exn + idempotency_row option" where
  "lookup_record k d = scalar_one_or_none (filter (\<lambda>r. ir_key r = k) (db_idempotency d))"

definition reservation_from :: "idempotency_row \<Rightarrow> string \<Rightarrow> exn + reservation" where
  "reservation_from r request_hash =
     (if ir_request_hash r \<noteq> request_hash
      then Inl (raise_error IdempotencyConflictError ''idempotency key reused with different request'')
      else if ir_status r = COMPLETED
      then Inr \<lparr>rs_replayed = True, rs_pending = False, rs_response_status = ir_response_status r,
                rs_response_body = ir_response_body r\<rparr>
      else Inr \<lparr>rs_replayed = True, rs_pending = True, rs_response_status = None, rs_response_body = None\<rparr>)"

text \<open>
  What the \<open>INSERT ... ON CONFLICT DO NOTHING\<close> meets: no row, or a row that another request has
  committed since the lookup, which the second lookup sees or, if it is gone again, does not.
\<close>

datatype insert_race = NoConflict | Conflict "idempotency_row option"

definition pending_record :: "record_key \<Rightarrow> string \<Rightarrow> instant option \<Rightarrow> idempotency_row" where
  "pending_record k request_hash expires_at =
     \<lparr>ir_tenant_id = fst k, ir_actor_id = fst (snd k), ir_scope = fst (snd (snd k)),
      ir_key_hash = snd (snd (snd k)), ir_request_hash = request_hash, ir_status = PENDING,
      ir_response_status = None, ir_response_body = None, ir_expires_at = expires_at\<rparr>"

definition record_key_of :: "(string \<Rightarrow> string) \<Rightarrow> string \<Rightarrow> string \<Rightarrow> string \<Rightarrow> string \<Rightarrow> record_key" where
  "record_key_of sha tenant actor scope key = (tenant, actor, scope, idempotency_key_hash sha key)"

definition idempotency_begin ::
  "(string \<Rightarrow> string) \<Rightarrow> insert_race \<Rightarrow> string \<Rightarrow> string \<Rightarrow> string \<Rightarrow> string \<Rightarrow> dict \<Rightarrow> instant option \<Rightarrow> db
     \<Rightarrow> (exn + reservation) \<times> db" where
  "idempotency_begin sha race tenant actor scope key payload expires_at d =
     (let k = record_key_of sha tenant actor scope key; request_hash = canonical_request_hash sha payload
      in (case lookup_record k d of
            Inl e \<Rightarrow> (Inl e, d)
          | Inr (Some existing) \<Rightarrow> (reservation_from existing request_hash, d)
          | Inr None \<Rightarrow>
              (case race of
                 NoConflict \<Rightarrow>
                   (let d' = d\<lparr>db_idempotency := db_idempotency d @ [pending_record k request_hash expires_at]\<rparr>
                    in (case flush d' of Inl e \<Rightarrow> (Inl e, d') | Inr _ \<Rightarrow> (Inr fresh_reservation, d')))
               | Conflict (Some existing) \<Rightarrow> (reservation_from existing request_hash, d)
               | Conflict None \<Rightarrow> (Inr fresh_reservation, d))))"

definition complete_record :: "int \<Rightarrow> dict \<Rightarrow> idempotency_row \<Rightarrow> idempotency_row" where
  "complete_record status body r =
     r\<lparr>ir_status := COMPLETED, ir_response_status := Some status, ir_response_body := Some body\<rparr>"

definition idempotency_complete ::
  "(string \<Rightarrow> string) \<Rightarrow> string \<Rightarrow> string \<Rightarrow> string \<Rightarrow> string \<Rightarrow> int \<Rightarrow> dict \<Rightarrow> db \<Rightarrow> (exn + unit) \<times> db" where
  "idempotency_complete sha tenant actor scope key status body d =
     (let k = record_key_of sha tenant actor scope key
      in (case lookup_record k d of
            Inl e \<Rightarrow> (Inl e, d)
          | Inr None \<Rightarrow> (Inl (raise_error NotFoundError ''idempotency reservation not found''), d)
          | Inr (Some _) \<Rightarrow>
              (let d' = d\<lparr>db_idempotency :=
                      upd_where (\<lambda>r. ir_key r = k) (complete_record status body) (db_idempotency d)\<rparr>
               in (case flush d' of Inl e \<Rightarrow> (Inl e, d') | Inr _ \<Rightarrow> (Inr (), d')))))"

section \<open>The frame of a mutating route\<close>

definition in_progress :: exn where
  "in_progress = raise_coded ''an identical command is still in progress'' ''STATE_CONFLICT'' 409 (Some True)"

text \<open>The recorded response, if there is one to replay; an unfinished twin is an error.\<close>

definition replay_of :: "reservation \<Rightarrow> exn + dict option" where
  "replay_of r =
     (case rs_response_body r of
        Some body \<Rightarrow> if rs_replayed r then Inr (Some body) else Inr None
      | None \<Rightarrow> if rs_replayed r \<and> rs_pending r then Inl in_progress else Inr None)"

definition reserve ::
  "(string \<Rightarrow> string) \<Rightarrow> insert_race \<Rightarrow> authenticated_actor \<Rightarrow> string \<Rightarrow> string \<Rightarrow> dict \<Rightarrow> db
     \<Rightarrow> (exn + dict option) \<times> db" where
  "reserve sha race a scope key payload d =
     (case idempotency_begin sha race (ac_tenant_id a) (ac_actor_id a) scope key payload None d of
        (Inl e, d') \<Rightarrow> (Inl e, d')
      | (Inr r, d') \<Rightarrow> (replay_of r, d'))"

definition keyed ::
  "(string \<Rightarrow> string) \<Rightarrow> insert_race \<Rightarrow> authenticated_actor \<Rightarrow> string \<Rightarrow> string \<Rightarrow> dict \<Rightarrow> int
     \<Rightarrow> (db \<Rightarrow> (exn + dict) \<times> db) \<Rightarrow> db \<Rightarrow> (exn + dict) \<times> db" where
  "keyed sha race a scope key payload status command d =
     (case reserve sha race a scope key payload d of
        (Inl e, d1) \<Rightarrow> (Inl e, d1)
      | (Inr (Some body), d1) \<Rightarrow> (Inr body, d1)
      | (Inr None, d1) \<Rightarrow>
          (case command d1 of
             (Inl e, d2) \<Rightarrow> (Inl e, d2)
           | (Inr response, d2) \<Rightarrow>
               (case idempotency_complete sha (ac_tenant_id a) (ac_actor_id a) scope key status response d2 of
                  (Inl e, d3) \<Rightarrow> (Inl e, d3)
                | (Inr _, d3) \<Rightarrow> (Inr response, d3))))"

text \<open>
  What FastAPI does before the route: the header is required first, then the body is validated.
  \<open>valid\<close> says that the body passes the constraints of its model.
\<close>

definition require_idempotency_key :: "string option \<Rightarrow> exn + string" where
  "require_idempotency_key header =
     (let key = (case header of None \<Rightarrow> [] | Some k \<Rightarrow> k)
      in if key = [] then Inl (raise_coded ''Idempotency-Key header is required for mutations'' ''VALIDATION_FAILED'' 422 None)
         else Inr key)"

definition mutation ::
  "(string \<Rightarrow> string) \<Rightarrow> insert_race \<Rightarrow> authenticated_actor \<Rightarrow> string \<Rightarrow> string option \<Rightarrow> bool \<Rightarrow> dict \<Rightarrow> int
     \<Rightarrow> (db \<Rightarrow> (exn + dict) \<times> db) \<Rightarrow> db \<Rightarrow> (exn + dict) \<times> db" where
  "mutation sha race a scope header valid payload status command d =
     (case require_idempotency_key header of
        Inl e \<Rightarrow> (Inl e, d)
      | Inr key \<Rightarrow>
          (if valid then keyed sha race a scope key payload status command d else (Inl RequestValidationError, d)))"

section \<open>What the frame guarantees\<close>

definition replays :: "(string \<Rightarrow> string) \<Rightarrow> authenticated_actor \<Rightarrow> string \<Rightarrow> string \<Rightarrow> dict \<Rightarrow> dict \<Rightarrow> db \<Rightarrow> bool" where
  "replays sha a scope key payload body d \<longleftrightarrow>
     (\<exists>r. lookup_record (record_key_of sha (ac_tenant_id a) (ac_actor_id a) scope key) d = Inr (Some r) \<and>
        ir_request_hash r = canonical_request_hash sha payload \<and> ir_status r = COMPLETED \<and>
        ir_response_body r = Some body)"

lemma replays_keyed:
  assumes "replays sha a scope key payload body d"
  shows "keyed sha race a scope key payload status command d = (Inr body, d)"
  using assms
  by (auto simp: replays_def keyed_def reserve_def idempotency_begin_def reservation_from_def replay_of_def)

lemma replays_conflict:
  assumes "replays sha a scope key payload body d"
    and "canonical_request_hash sha payload' \<noteq> canonical_request_hash sha payload"
  shows "keyed sha race a scope key payload' status command d =
      (Inl (raise_error IdempotencyConflictError ''idempotency key reused with different request''), d)"
  using assms
  by (auto simp: replays_def keyed_def reserve_def idempotency_begin_def reservation_from_def)

text \<open>A request that commits leaves a database the flush accepts.\<close>

lemma request_Inr: "request h d = (Inr r, d') \<longleftrightarrow> h d = (Inr r, d') \<and> flush d' = Inr ()"
  by (auto simp: request_def run_transaction_def split: prod.splits sum.splits)

lemma request_Inl_plain:
  "request h d = (Inl e, d') \<Longrightarrow> (\<And>x d1. h d = (Inl x, d1) \<Longrightarrow> \<not> persist_state x) \<Longrightarrow> d' = d"
  by (auto simp: request_def run_transaction_def flush_def split: prod.splits sum.splits if_splits)

lemma lookup_record_add:
  "lookup_record k d = Inr None \<Longrightarrow> ir_key r = k \<Longrightarrow>
     lookup_record k (d\<lparr>db_idempotency := db_idempotency d @ [r]\<rparr>) = Inr (Some r)"
  by (simp add: lookup_record_def scalar_one_or_none_Inr)

lemma lookup_record_cong:
  "db_idempotency d' = db_idempotency d \<Longrightarrow> lookup_record k d' = lookup_record k d"
  by (simp add: lookup_record_def)

lemma ir_key_simps [simp]:
  "ir_key (complete_record st b r) = ir_key r" "ir_key (pending_record k h e) = k"
  "ir_request_hash (pending_record k h e) = h" "ir_request_hash (complete_record st b r) = ir_request_hash r"
  "ir_status (complete_record st b r) = COMPLETED" "ir_response_body (complete_record st b r) = Some b"
  by (simp_all add: ir_key_def complete_record_def pending_record_def)

lemma lookup_record_complete:
  assumes "lookup_record k d = Inr (Some r)"
  shows "lookup_record k (d\<lparr>db_idempotency := upd_where (\<lambda>r. ir_key r = k) (complete_record st b) (db_idempotency d)\<rparr>)
      = Inr (Some (complete_record st b r))"
proof -
  have "filter (\<lambda>r. ir_key r = k) (upd_where (\<lambda>r. ir_key r = k) (complete_record st b) rs)
      = map (complete_record st b) (filter (\<lambda>r. ir_key r = k) rs)" for rs
    by (induction rs) (simp_all add: upd_where_def)
  with assms show ?thesis by (simp add: lookup_record_def scalar_one_or_none_Inr)
qed

text \<open>A reservation that lets the command run either left the pending row or nothing.\<close>

lemma reserve_fresh:
  assumes "reserve sha race a scope key payload d = (Inr None, d1)"
  defines "k \<equiv> record_key_of sha (ac_tenant_id a) (ac_actor_id a) scope key"
  shows "(\<exists>r. lookup_record k d1 = Inr (Some r) \<and> ir_request_hash r = canonical_request_hash sha payload)
      \<or> lookup_record k d1 = Inr None"
proof -
  let ?rh = "canonical_request_hash sha payload"
  from assms(1) obtain rs where b: "idempotency_begin sha race (ac_tenant_id a) (ac_actor_id a) scope key payload None d
      = (Inr rs, d1)" and n: "replay_of rs = Inr None"
    by (auto simp: reserve_def split: prod.splits sum.splits)
  show ?thesis
  proof (cases "lookup_record k d")
    case (Inl e)
    with b show ?thesis by (simp add: idempotency_begin_def k_def)
  next
    case (Inr m)
    show ?thesis
    proof (cases m)
      case (Some r)
      with b Inr have "reservation_from r ?rh = Inr rs" "d1 = d" by (simp_all add: idempotency_begin_def k_def Let_def)
      with Inr Some show ?thesis by (auto simp: reservation_from_def split: if_splits)
    next
      case None
      show ?thesis
      proof (cases race)
        case NoConflict
        with b Inr None have "d1 = d\<lparr>db_idempotency := db_idempotency d @ [pending_record k ?rh None]\<rparr>"
          by (auto simp: idempotency_begin_def k_def Let_def split: sum.splits)
        with lookup_record_add [of k d "pending_record k ?rh None"] Inr None show ?thesis
          by auto
      next
        case (Conflict seen)
        with b Inr None show ?thesis
          by (cases seen) (auto simp: idempotency_begin_def k_def Let_def)
      qed
    qed
  qed
qed

lemma reserve_replays:
  assumes "reserve sha NoConflict a scope key payload d = (Inr (Some body), d')"
  shows "replays sha a scope key payload body d'"
proof -
  let ?k = "record_key_of sha (ac_tenant_id a) (ac_actor_id a) scope key"
  from assms obtain rs where b: "idempotency_begin sha NoConflict (ac_tenant_id a) (ac_actor_id a) scope key payload None d
      = (Inr rs, d')" and n: "replay_of rs = Inr (Some body)"
    by (auto simp: reserve_def split: prod.splits sum.splits)
  from n have rs: "rs_replayed rs" "rs_response_body rs = Some body"
    by (auto simp: replay_of_def split: option.splits if_splits)
  from b rs obtain r where "lookup_record ?k d = Inr (Some r)"
      "reservation_from r (canonical_request_hash sha payload) = Inr rs" "d' = d"
    by (auto simp: idempotency_begin_def Let_def fresh_reservation_def split: sum.splits option.splits)
  with rs show ?thesis by (auto simp: replays_def reservation_from_def split: if_splits)
qed

locale keyed_route =
  fixes command :: "'a \<Rightarrow> db \<Rightarrow> (exn + dict) \<times> db"
  assumes keeps_records: "command args d = (Inr r, d') \<Longrightarrow> db_idempotency d' = db_idempotency d"
begin

lemma keyed_replays:
  assumes "keyed sha NoConflict a scope key payload status (command args) d = (Inr body, d')"
  shows "replays sha a scope key payload body d'"
proof -
  let ?k = "record_key_of sha (ac_tenant_id a) (ac_actor_id a) scope key"
  obtain q d1 where q: "reserve sha NoConflict a scope key payload d = (q, d1)" by (rule prod.exhaust)
  show ?thesis
  proof (cases q)
    case (Inl e)
    with assms q show ?thesis by (simp add: keyed_def)
  next
    case (Inr m)
    show ?thesis
    proof (cases m)
      case (Some b)
      with assms q Inr have "reserve sha NoConflict a scope key payload d = (Inr (Some body), d')" by (simp add: keyed_def)
      then show ?thesis by (rule reserve_replays)
    next
      case None
      from assms q Inr None obtain d2 where c: "command args d1 = (Inr body, d2)"
        and e: "idempotency_complete sha (ac_tenant_id a) (ac_actor_id a) scope key status body d2 = (Inr (), d')"
        by (auto simp: keyed_def split: prod.splits sum.splits)
      have look: "lookup_record ?k d2 = lookup_record ?k d1"
        using keeps_records [OF c] by (rule lookup_record_cong)
      from e obtain r where r: "lookup_record ?k d2 = Inr (Some r)"
        and d': "d' = d2\<lparr>db_idempotency := upd_where (\<lambda>r. ir_key r = ?k) (complete_record status body) (db_idempotency d2)\<rparr>"
        by (auto simp: idempotency_complete_def Let_def split: sum.splits option.splits)
      from reserve_fresh [OF q [unfolded Inr None]] r look
      have "ir_request_hash r = canonical_request_hash sha payload" by auto
      with lookup_record_complete [OF r] show ?thesis
        unfolding replays_def d' by (intro exI [of _ "complete_record status body r"]) simp
    qed
  qed
qed

text \<open>
  A committed request is replayed: whatever the repeated command would do, the second request
  answers what the first did and leaves the database as it is; the same key with another payload
  is refused.
\<close>

lemma request_replayed:
  assumes "request (mutation sha NoConflict a scope header valid payload status (command args)) d = (Inr body, d')"
  shows "request (mutation sha race a scope header True payload status' again) d' = (Inr body, d')"
    and "canonical_request_hash sha payload' \<noteq> canonical_request_hash sha payload \<Longrightarrow>
      request (mutation sha race a scope header True payload' status' again) d' =
        (Inl (raise_error IdempotencyConflictError ''idempotency key reused with different request''), d')"
proof -
  from assms obtain key where key: "require_idempotency_key header = Inr key"
    and k: "keyed sha NoConflict a scope key payload status (command args) d = (Inr body, d')"
    and f: "flush d' = Inr ()" by (auto simp: request_Inr mutation_def split: sum.splits if_splits)
  from keyed_replays [OF k] have rp: "replays sha a scope key payload body d'" .
  show "request (mutation sha race a scope header True payload status' again) d' = (Inr body, d')"
    using replays_keyed [OF rp] f key by (simp add: request_Inr mutation_def)
  show "request (mutation sha race a scope header True payload' status' again) d' =
        (Inl (raise_error IdempotencyConflictError ''idempotency key reused with different request''), d')"
    if "canonical_request_hash sha payload' \<noteq> canonical_request_hash sha payload"
    using replays_conflict [OF rp that] f key by (simp add: request_def run_transaction_def mutation_def)
qed

end

text \<open>What a route writes beside the reservation is what its command writes.\<close>

lemma records_refl: "\<exists>rs. d = d\<lparr>db_idempotency := rs\<rparr>" for d :: db
  by (rule exI [of _ "db_idempotency d"]) simp

lemma records_set: "\<exists>rs. d\<lparr>db_idempotency := x\<rparr> = d\<lparr>db_idempotency := rs\<rparr>" for d :: db
  by blast

lemma begin_frame:
  assumes "idempotency_begin sha race tenant actor scope key payload ex d = (r, d')"
  shows "\<exists>rs. d' = d\<lparr>db_idempotency := rs\<rparr>"
  using assms unfolding idempotency_begin_def Let_def
  by (simp split: sum.splits option.splits insert_race.splits; metis records_refl records_set)

lemma begin_plain_error:
  assumes "idempotency_begin sha race tenant actor scope key payload ex d = (Inl e, d')"
  shows "\<not> persist_state e"
proof -
  have "\<not> persist_state f" if "scalar_one_or_none xs = Inl f" for xs :: "idempotency_row list" and f
    using that by (cases xs rule: scalar_one_or_none.cases) auto
  moreover have "\<not> persist_state f" if "flush x = Inl f" for x f
    using that by (auto simp: flush_def split: if_splits)
  ultimately show ?thesis
    using assms unfolding idempotency_begin_def Let_def lookup_record_def
    by (auto simp: reservation_from_def raise_error_def make_error_def
        split: sum.splits option.splits insert_race.splits if_splits)
qed

lemma reserve_frame:
  assumes "reserve sha race a scope key payload d = (r, d')"
  shows "\<exists>rs. d' = d\<lparr>db_idempotency := rs\<rparr>"
  using assms begin_frame by (auto simp: reserve_def split: sum.splits prod.splits)

lemma complete_plain_error:
  assumes "idempotency_complete sha tenant actor scope key status body d = (Inl e, d')"
  shows "\<not> persist_state e"
proof -
  have "\<not> persist_state f" if "scalar_one_or_none xs = Inl f" for xs :: "idempotency_row list" and f
    using that by (cases xs rule: scalar_one_or_none.cases) auto
  moreover have "\<not> persist_state f" if "flush x = Inl f" for x f
    using that by (auto simp: flush_def split: if_splits)
  ultimately show ?thesis
    using assms unfolding idempotency_complete_def Let_def lookup_record_def
    by (auto simp: raise_error_def make_error_def split: sum.splits option.splits)
qed

lemma complete_frame:
  assumes "idempotency_complete sha tenant actor scope key status body d = (r, d')"
  shows "\<exists>rs. d' = d\<lparr>db_idempotency := rs\<rparr>"
  using assms unfolding idempotency_complete_def Let_def
  by (simp split: sum.splits option.splits; metis records_refl records_set)

lemma keyed_cases:
  assumes "keyed sha race a scope key payload status command d = (Inr body, d')"
  obtains (replay) rs where "d' = d\<lparr>db_idempotency := rs\<rparr>"
  | (run) rs rs' d2 where "command (d\<lparr>db_idempotency := rs\<rparr>) = (Inr body, d2)" and "d' = d2\<lparr>db_idempotency := rs'\<rparr>"
proof -
  obtain q d1 where q: "reserve sha race a scope key payload d = (q, d1)" by (rule prod.exhaust)
  from reserve_frame [OF q] obtain rs where rs: "d1 = d\<lparr>db_idempotency := rs\<rparr>" by blast
  show thesis
  proof (cases q)
    case (Inl e)
    with assms q show thesis by (simp add: keyed_def)
  next
    case (Inr m)
    show thesis
    proof (cases m)
      case (Some b)
      with assms q Inr rs show thesis by (intro replay [of rs]) (simp add: keyed_def)
    next
      case None
      with assms q Inr obtain d2 where c: "command d1 = (Inr body, d2)"
        and e: "idempotency_complete sha (ac_tenant_id a) (ac_actor_id a) scope key status body d2 = (Inr (), d')"
        by (auto simp: keyed_def split: prod.splits sum.splits)
      from complete_frame [OF e] c rs show thesis by (auto intro: run)
    qed
  qed
qed

end
