(* ===== verification/Admin_Api.thy ===== *)
theory Admin_Api
  imports Administration Idempotency Audit_Chain
begin

text \<open>
  \<open>api/admin.py\<close>: the request bodies with their constraints and the four administrator routes. The
  rendering of a body (\<open>model_dump\<close>) is a dictionary in field order; how pydantic writes a timestamp
  is the parameter \<open>dt\<close>. Generated command ids are arguments.
\<close>

definition length_within :: "nat \<Rightarrow> nat \<Rightarrow> string \<Rightarrow> bool" where
  "length_within lo hi s \<longleftrightarrow> lo \<le> py_len s \<and> py_len s \<le> hi"

record grant_role_body =
  gb_principal_id :: string
  gb_role :: string
  gb_environments :: "string list"
  gb_scopes :: "string list"
  gb_valid_until :: "instant option"
  gb_reason :: string

definition grant_body_valid :: "grant_role_body \<Rightarrow> bool" where
  "grant_body_valid b \<longleftrightarrow>
     length_within 1 255 (gb_principal_id b) \<and> length_within 1 63 (gb_role b) \<and>
     length (gb_environments b) \<le> 10 \<and> length (gb_scopes b) \<le> 20 \<and> length_within 1 2000 (gb_reason b)"

definition grant_body_dump :: "(instant \<Rightarrow> json) \<Rightarrow> grant_role_body \<Rightarrow> dict" where
  "grant_body_dump dt b =
     [(''principal_id'', JStr (gb_principal_id b)), (''role'', JStr (gb_role b)),
      (''environments'', JList (map JStr (gb_environments b))), (''scopes'', JList (map JStr (gb_scopes b))),
      (''valid_until'', case gb_valid_until b of None \<Rightarrow> JNull | Some t \<Rightarrow> dt t), (''reason'', JStr (gb_reason b))]"

text \<open>\<open>RevokeRoleBody\<close> and \<open>ActivateBundleBody\<close> hold a reason only.\<close>

record reason_body =
  ob_reason :: string

definition reason_body_valid :: "reason_body \<Rightarrow> bool" where
  "reason_body_valid b \<longleftrightarrow> length_within 1 2000 (ob_reason b)"

record register_bundle_body =
  bb_version :: string
  bb_rules :: dict
  bb_reason :: string

definition is_version_char :: "char \<Rightarrow> bool" where
  "is_version_char c \<longleftrightarrow> c \<in> set ''abcdefghijklmnopqrstuvwxyz0123456789-''"

definition register_body_valid :: "register_bundle_body \<Rightarrow> bool" where
  "register_body_valid b \<longleftrightarrow>
     length_within 1 32 (bb_version b) \<and> bb_version b \<noteq> [] \<and> list_all is_version_char (bb_version b) \<and>
     length_within 1 2000 (bb_reason b)"

definition register_body_dump :: "register_bundle_body \<Rightarrow> dict" where
  "register_body_dump b =
     [(''version'', JStr (bb_version b)), (''rules'', JObj (bb_rules b)), (''reason'', JStr (bb_reason b))]"

definition iso_opt :: "instant option \<Rightarrow> json" where
  "iso_opt t = (case t of None \<Rightarrow> JNull | Some u \<Rightarrow> JStr (isoformat u))"

section \<open>The routes\<close>

definition grant_command ::
  "env \<Rightarrow> authenticated_actor \<Rightarrow> grant_role_body \<Rightarrow> string \<Rightarrow> db \<Rightarrow> (exn + dict) \<times> db" where
  "grant_command ev a b cid d =
     (case grant_role ev
             \<lparr>gr_tenant_id = ac_tenant_id a, gr_principal_id = gb_principal_id b, gr_role = gb_role b,
              gr_environments = gb_environments b, gr_valid_until = gb_valid_until b, gr_actor = a,
              gr_command_id = cid, gr_reason = gb_reason b, gr_scopes = gb_scopes b\<rparr> d of
        (Inl e, d') \<Rightarrow> (Inl e, d')
      | (Inr s, d') \<Rightarrow>
          (Inr [(''assignment_id'', JStr (row_id_str (sn_assignment_id s))),
                (''principal_id'', JStr (sn_principal_id s)), (''role'', JStr (sn_role s)),
                (''environments'', JList (map JStr (sn_environments s))),
                (''valid_until'', iso_opt (sn_valid_until s))], d'))"

definition admin_grant_role ::
  "(string \<Rightarrow> string) \<Rightarrow> insert_race \<Rightarrow> (instant \<Rightarrow> json) \<Rightarrow> env \<Rightarrow> authenticated_actor \<Rightarrow> grant_role_body
     \<Rightarrow> string option \<Rightarrow> string \<Rightarrow> db \<Rightarrow> (exn + dict) \<times> db" where
  "admin_grant_role sha race dt ev a b header cid =
     mutation sha race a ''admin_role_assignments'' header (grant_body_valid b) (grant_body_dump dt b) 201
       (grant_command ev a b cid)"

definition revoke_command ::
  "env \<Rightarrow> authenticated_actor \<Rightarrow> row_id \<Rightarrow> reason_body \<Rightarrow> string \<Rightarrow> db \<Rightarrow> (exn + dict) \<times> db" where
  "revoke_command ev a n b cid d =
     (case revoke_role ev
             \<lparr>rk_tenant_id = ac_tenant_id a, rk_assignment_id = n, rk_actor = a, rk_command_id = cid,
              rk_reason = ob_reason b\<rparr> d of
        (Inl e, d') \<Rightarrow> (Inl e, d')
      | (Inr s, d') \<Rightarrow>
          (Inr [(''assignment_id'', JStr (row_id_str (sn_assignment_id s))),
                (''revoked_at'', iso_opt (sn_revoked_at s))], d'))"

definition admin_revoke_role ::
  "(string \<Rightarrow> string) \<Rightarrow> insert_race \<Rightarrow> env \<Rightarrow> authenticated_actor \<Rightarrow> row_id \<Rightarrow> reason_body
     \<Rightarrow> string option \<Rightarrow> string \<Rightarrow> db \<Rightarrow> (exn + dict) \<times> db" where
  "admin_revoke_role sha race ev a n b header cid =
     mutation sha race a ''admin_role_revocations'' header (reason_body_valid b)
       [(''assignment_id'', JStr (row_id_str n)), (''reason'', JStr (ob_reason b))] 200
       (revoke_command ev a n b cid)"

definition register_command ::
  "env \<Rightarrow> authenticated_actor \<Rightarrow> register_bundle_body \<Rightarrow> string \<Rightarrow> db \<Rightarrow> (exn + dict) \<times> db" where
  "register_command ev a b cid d =
     (case register_policy_bundle ev
             \<lparr>rb_version = bb_version b, rb_rules = bb_rules b, rb_actor = a, rb_command_id = cid,
              rb_reason = bb_reason b\<rparr> d of
        (Inl e, d') \<Rightarrow> (Inl e, d')
      | (Inr v, d') \<Rightarrow> (Inr [(''version'', JStr v), (''active'', JBool False)], d'))"

definition admin_register_bundle ::
  "(string \<Rightarrow> string) \<Rightarrow> insert_race \<Rightarrow> env \<Rightarrow> authenticated_actor \<Rightarrow> register_bundle_body
     \<Rightarrow> string option \<Rightarrow> string \<Rightarrow> db \<Rightarrow> (exn + dict) \<times> db" where
  "admin_register_bundle sha race ev a b header cid =
     mutation sha race a ''admin_policy_bundles'' header (register_body_valid b) (register_body_dump b) 201
       (register_command ev a b cid)"

definition activate_command ::
  "env \<Rightarrow> authenticated_actor \<Rightarrow> string \<Rightarrow> reason_body \<Rightarrow> string \<Rightarrow> db \<Rightarrow> (exn + dict) \<times> db" where
  "activate_command ev a version b cid d =
     (case activate_policy_bundle ev
             \<lparr>ab_version = version, ab_actor = a, ab_command_id = cid, ab_reason = ob_reason b\<rparr> d of
        (Inl e, d') \<Rightarrow> (Inl e, d')
      | (Inr v, d') \<Rightarrow> (Inr [(''version'', JStr v), (''active'', JBool True)], d'))"

definition admin_activate_bundle ::
  "(string \<Rightarrow> string) \<Rightarrow> insert_race \<Rightarrow> env \<Rightarrow> authenticated_actor \<Rightarrow> string \<Rightarrow> reason_body
     \<Rightarrow> string option \<Rightarrow> string \<Rightarrow> db \<Rightarrow> (exn + dict) \<times> db" where
  "admin_activate_bundle sha race ev a version b header cid =
     mutation sha race a ''admin_policy_activations'' header (reason_body_valid b)
       [(''version'', JStr version), (''reason'', JStr (ob_reason b))] 200
       (activate_command ev a version b cid)"

section \<open>The commands fit the frame\<close>

lemma grant_command_frame: "grant_command ev a b cid d = (r, d') \<Longrightarrow> admin_frame d d'"
  by (auto simp: grant_command_def dest: grant_role_frame split: sum.splits prod.splits)

lemma revoke_command_frame: "revoke_command ev a n b cid d = (r, d') \<Longrightarrow> admin_frame d d'"
  by (auto simp: revoke_command_def dest: revoke_role_frame split: sum.splits prod.splits)

lemma register_command_frame: "register_command ev a b cid d = (r, d') \<Longrightarrow> admin_frame d d'"
  by (auto simp: register_command_def dest: register_frame split: sum.splits prod.splits)

lemma activate_command_frame: "activate_command ev a v b cid d = (r, d') \<Longrightarrow> admin_frame d d'"
  by (auto simp: activate_command_def dest: activate_frame split: sum.splits prod.splits)

interpretation grant_route: keyed_route "\<lambda>(ev, a, b, cid). grant_command ev a b cid"
  by unfold_locales (auto dest!: grant_command_frame simp: admin_frame_def)

interpretation revoke_route: keyed_route "\<lambda>(ev, a, n, b, cid). revoke_command ev a n b cid"
  by unfold_locales (auto dest!: revoke_command_frame simp: admin_frame_def)

interpretation register_route: keyed_route "\<lambda>(ev, a, b, cid). register_command ev a b cid"
  by unfold_locales (auto dest!: register_command_frame simp: admin_frame_def)

interpretation activate_route: keyed_route "\<lambda>(ev, a, v, b, cid). activate_command ev a v b cid"
  by unfold_locales (auto dest!: activate_command_frame simp: admin_frame_def)

lemma mutation_evolves:
  assumes "mutation sha race a scope header valid payload status command d = (Inr body, d')"
    and "\<And>d r d'. command d = (Inr r, d') \<Longrightarrow> evolves d d'"
  shows "evolves d d'"
proof -
  have rec: "evolves d (d\<lparr>db_idempotency := rs\<rparr>)" for rs and d :: db by (rule evolves_frame) simp_all
  from assms(1) obtain key where "keyed sha race a scope key payload status command d = (Inr body, d')"
    by (auto simp: mutation_def split: sum.splits if_splits)
  then show ?thesis
  proof (cases rule: keyed_cases)
    case (replay rs)
    then show ?thesis using rec by simp
  next
    case (run rs rs' d2)
    from rec [of d rs] assms(2) [OF run(1)] rec [of d2 rs'] show ?thesis
      unfolding run(2) by (metis rtranclp_trans)
  qed
qed

lemma admin_routes_evolve:
  "admin_grant_role sha race dt ev a gb header cid d = (Inr r, d') \<Longrightarrow> evolves d d'"
  "admin_revoke_role sha race ev a n rb header cid d = (Inr r, d') \<Longrightarrow> evolves d d'"
  "admin_register_bundle sha race ev a bb header cid d = (Inr r, d') \<Longrightarrow> evolves d d'"
  "admin_activate_bundle sha race ev a v rb header cid d = (Inr r, d') \<Longrightarrow> evolves d d'"
  unfolding admin_grant_role_def admin_revoke_role_def admin_register_bundle_def admin_activate_bundle_def
  by (erule mutation_evolves;
      blast intro: admin_frame_evolves grant_command_frame revoke_command_frame register_command_frame
        activate_command_frame)+

end
