(* ===== verification/Intent_Api.thy ===== *)
theory Intent_Api
  imports Orchestrator Repositories Admin_Api
begin

text \<open>
  \<open>api/intents.py\<close>: creation of an intent, directly or through the agent, and the two read routes.
  The generated intent id and command id are arguments, as is the correlation id that the
  middleware put on the request. Text of an execution status is \<open>exec_status_value\<close>.
\<close>

record create_intent_body =
  cb_tool :: string
  cb_parameters :: dict
  cb_rationale :: string

definition create_body_valid :: "create_intent_body \<Rightarrow> bool" where
  "create_body_valid b \<longleftrightarrow> length_within 0 2000 (cb_rationale b)"

definition create_body_dump :: "create_intent_body \<Rightarrow> dict" where
  "create_body_dump b =
     [(''tool'', JStr (cb_tool b)), (''parameters'', JObj (cb_parameters b)), (''rationale'', JStr (cb_rationale b))]"

record agent_intent_body =
  gt_request :: string
  gt_context_refs :: dict

definition agent_body_valid :: "agent_intent_body \<Rightarrow> bool" where
  "agent_body_valid b \<longleftrightarrow> length_within 1 4000 (gt_request b)"

definition agent_body_dump :: "agent_intent_body \<Rightarrow> dict" where
  "agent_body_dump b = [(''request'', JStr (gt_request b)), (''context_refs'', JObj (gt_context_refs b))]"

section \<open>Creation\<close>

text \<open>The functions of the libraries the creation flow calls, and the ids of one request.\<close>

record creation_library =
  cl_sha :: "string \<Rightarrow> string"
  cl_nfc :: "string \<Rightarrow> string"
  cl_lower :: "string \<Rightarrow> string"
  cl_int :: "json \<Rightarrow> int option"

record request_ids =
  rq_intent_id :: uuid
  rq_command_id :: string
  rq_correlation_id :: string

definition int_opt :: "int option \<Rightarrow> json" where
  "int_opt v = (case v of None \<Rightarrow> JNull | Some n \<Rightarrow> JInt n)"

definition creation_command ::
  "authenticated_actor \<Rightarrow> string \<Rightarrow> dict \<Rightarrow> string \<Rightarrow> intent_source \<Rightarrow> request_ids \<Rightarrow> canonical_intent
     \<Rightarrow> create_intent_command" where
  "creation_command a tool parameters rationale source ids canonical =
     \<lparr>cc_tenant_id = ac_tenant_id a, cc_intent_id = rq_intent_id ids, cc_revision = 1,
      cc_tool = ci_tool canonical, cc_canonical_parameters = ci_parameters canonical,
      cc_intent_digest = ci_digest canonical, cc_requester_id = ac_actor_id a,
      cc_requester_rationale = rationale, cc_source = source,
      cc_raw_proposal = Some [(''tool'', JStr tool), (''parameters'', JObj parameters)],
      cc_command_id = rq_command_id ids, cc_correlation_id = rq_correlation_id ids, cc_actor_id = ac_actor_id a\<rparr>"

definition creation_response ::
  "request_ids \<Rightarrow> string \<Rightarrow> risk_evaluation \<Rightarrow> policy_evaluation \<Rightarrow> evaluation_recorded \<Rightarrow> intent_row \<Rightarrow> dict" where
  "creation_response ids digest risk policy recorded stored =
     [(''intent_id'', JStr (uuid_str (rq_intent_id ids))), (''revision'', JInt 1), (''digest'', JStr digest),
      (''risk'', JObj [(''band'', JStr (band_value (rv_band risk))), (''factors'', JList (map JStr (rv_factors risk))),
                       (''rule_version'', JStr (rv_rule_version risk))]),
      (''policy'', JObj [(''disposition'', JStr (disposition_value (pv_disposition policy))),
                         (''route'', JStr (route_value (pv_route policy))),
                         (''policy_version'', JStr (pv_policy_version policy)),
                         (''required_roles'', JList (map JStr (pv_required_roles policy))),
                         (''approval_ttl_seconds'', int_opt (pv_approval_ttl_seconds policy))]),
      (''state'', JStr (state_value (er_state recorded))), (''state_version'', JInt (er_state_version recorded)),
      (''approval_requirements'',
        JObj [(''required_roles'', JList (if pv_route policy = SINGLE \<or> pv_route policy = CRITICAL_TWO_STEP
                 then map JStr (pv_required_roles policy) else [])),
              (''expires_at'', iso_opt (ai_approval_expires_at stored))]),
      (''links'', JObj [(''self'', JStr (''/v1/intents/'' @ uuid_str (rq_intent_id ids))),
                        (''events'', JStr (''/v1/intents/'' @ uuid_str (rq_intent_id ids) @ ''/events''))])]"

text \<open>After the intent is stored: the active bundle, the evaluations, the routing.\<close>

definition evaluate_created ::
  "env \<Rightarrow> request_ids \<Rightarrow> create_intent_command \<Rightarrow> db \<Rightarrow> (exn + dict) \<times> db" where
  "evaluate_created ev ids c d =
     (case get_active (cc_tenant_id c) d of
        Inl e \<Rightarrow> (Inl e, d)
      | Inr None \<Rightarrow> (Inl (raise_coded ''no active policy bundle'' ''POLICY_BLOCKED'' 409 None), d)
      | Inr (Some bundle) \<Rightarrow>
          (let risk = evaluate_risk (cc_tool c) (cc_canonical_parameters c) default_context;
               k = (cc_tenant_id c, cc_intent_id c, 1)
           in (case evaluate_policy (cc_tool c) risk (cc_canonical_parameters c) bundle of
                 Inl e \<Rightarrow> (Inl e, d)
               | Inr policy \<Rightarrow>
                   (case record_evaluation ev k risk policy (cc_command_id c) (cc_correlation_id c) d of
                      (Inl e, d') \<Rightarrow> (Inl e, d')
                    | (Inr recorded, d') \<Rightarrow>
                        (case repository_get k d' of
                           Inl e \<Rightarrow> (Inl e, d')
                         | Inr stored \<Rightarrow>
                             (Inr (creation_response ids (cc_intent_digest c) risk policy recorded stored), d'))))))"

definition create_intent_from_proposal ::
  "creation_library \<Rightarrow> env \<Rightarrow> authenticated_actor \<Rightarrow> string \<Rightarrow> dict \<Rightarrow> string \<Rightarrow> intent_source \<Rightarrow> request_ids
     \<Rightarrow> db \<Rightarrow> (exn + dict) \<times> db" where
  "create_intent_from_proposal cl ev a tool parameters rationale source ids d =
     (case parse_tool_parameters (cl_int cl) tool parameters of
        Inl e \<Rightarrow> (Inl e, d)
      | Inr validated \<Rightarrow>
          (case tool_of tool of
             None \<Rightarrow> (Inl ValueError, d)
           | Some t \<Rightarrow>
               (case canonicalize (cl_sha cl) (cl_nfc cl) t (ac_tenant_id a) (ac_actor_id a) 1 validated of
                  Inl e \<Rightarrow> (Inl e, d)
                | Inr canonical \<Rightarrow>
                    (let c = creation_command a tool parameters rationale source ids canonical
                     in (case create (cl_lower cl) ev c d of
                           (Inl e, d1) \<Rightarrow> (Inl e, d1)
                         | (Inr _, d1) \<Rightarrow> evaluate_created ev ids c d1)))))"

definition create_intent ::
  "creation_library \<Rightarrow> insert_race \<Rightarrow> env \<Rightarrow> authenticated_actor \<Rightarrow> create_intent_body \<Rightarrow> string option
     \<Rightarrow> request_ids \<Rightarrow> db \<Rightarrow> (exn + dict) \<times> db" where
  "create_intent cl race ev a b header ids =
     mutation (cl_sha cl) race a ''intents'' header (create_body_valid b) (create_body_dump b) 201
       (create_intent_from_proposal cl ev a (cb_tool b) (cb_parameters b) (cb_rationale b) DIRECT ids)"

text \<open>The model is asked only after the key is reserved.\<close>

definition agent_command ::
  "creation_library \<Rightarrow> (string \<Rightarrow> dict \<Rightarrow> exn + json) \<Rightarrow> env \<Rightarrow> authenticated_actor \<Rightarrow> agent_intent_body
     \<Rightarrow> request_ids \<Rightarrow> db \<Rightarrow> (exn + dict) \<times> db" where
  "agent_command cl provider ev a b ids d =
     (case propose provider (cl_int cl) (gt_request b) (gt_context_refs b) of
        Inl e \<Rightarrow> (Inl e, d)
      | Inr p \<Rightarrow>
          create_intent_from_proposal cl ev a (bp_tool p) (model_dump (bp_parameters p)) (bp_rationale p) AGENT ids d)"

definition create_agent_intent ::
  "creation_library \<Rightarrow> (string \<Rightarrow> dict \<Rightarrow> exn + json) \<Rightarrow> insert_race \<Rightarrow> env \<Rightarrow> authenticated_actor
     \<Rightarrow> agent_intent_body \<Rightarrow> string option \<Rightarrow> request_ids \<Rightarrow> db \<Rightarrow> (exn + dict) \<times> db" where
  "create_agent_intent cl provider race ev a b header ids =
     mutation (cl_sha cl) race a ''agent_intents'' header (agent_body_valid b) (agent_body_dump b) 201
       (agent_command cl provider ev a b ids)"

section \<open>Reading an intent\<close>

fun exec_status_value :: "exec_status \<Rightarrow> string" where
  "exec_status_value EX_CLAIMED = ''CLAIMED''"
| "exec_status_value EX_EXECUTING = ''EXECUTING''"
| "exec_status_value EX_SUCCEEDED = ''SUCCEEDED''"
| "exec_status_value EX_FAILED = ''FAILED''"
| "exec_status_value EX_UNKNOWN = ''UNKNOWN''"

definition latest_revision :: "string \<Rightarrow> uuid \<Rightarrow> db \<Rightarrow> intent_row option" where
  "latest_revision tenant n d =
     first_row (sort_key (\<lambda>i. - ai_revision i)
       (filter (\<lambda>i. ai_tenant_id i = tenant \<and> ai_intent_id i = n) (db_intents d)))"

definition permitted_actions :: "intent_state \<Rightarrow> string list" where
  "permitted_actions s =
     (if s \<in> set cancellable_states then [''cancel''] else []) @
     (if s \<in> {PENDING_APPROVAL_1, PENDING_APPROVAL_2, APPROVED_BY_LEVEL_1} then [''decide_approval''] else [])"

definition approval_view :: "decision_row \<Rightarrow> json" where
  "approval_view r =
     JObj [(''level'', JInt (dr_level r)), (''decision'', JStr (decision_value (dr_decision r))),
           (''actor_id'', JStr (dr_actor_id r)), (''reason'', JStr (dr_reason r)),
           (''decided_at'', JStr (isoformat (dr_decided_at r)))]"

definition risk_view :: "risk_row option \<Rightarrow> json" where
  "risk_view r =
     (case r of
        None \<Rightarrow> JNull
      | Some r \<Rightarrow> JObj [(''band'', JStr (band_value (rr_band r))), (''factors'', JList (map JStr (rr_factors r))),
                       (''rule_version'', JStr (rr_rule_version r))])"

definition policy_view :: "policy_row option \<Rightarrow> json" where
  "policy_view p =
     (case p of
        None \<Rightarrow> JNull
      | Some p \<Rightarrow> JObj [(''disposition'', JStr (disposition_value (pr_disposition p))),
                       (''route'', JStr (route_value (pr_route p))), (''policy_version'', JStr (pr_policy_version p)),
                       (''required_roles'', JList (map JStr (pr_required_roles p))),
                       (''approval_ttl_seconds'', int_opt (pr_approval_ttl_seconds p))])"

definition execution_view :: "execution_row option \<Rightarrow> json" where
  "execution_view x =
     (case x of
        None \<Rightarrow> JNull
      | Some x \<Rightarrow> JObj [(''status'', JStr (exec_status_value (xr_status x))),
                       (''provider_operation_id'', json_opt (xr_provider_operation_id x)),
                       (''error_code'', json_opt (xr_error_code x))])"

definition get_intent_view :: "authenticated_actor \<Rightarrow> uuid \<Rightarrow> db \<Rightarrow> exn + dict" where
  "get_intent_view a n d =
     (case latest_revision (ac_tenant_id a) n d of
        None \<Rightarrow> Inl (raise_error NotFoundError ''intent not found'')
      | Some i \<Rightarrow>
          (let k = (ac_tenant_id a, n, ai_revision i)
           in (case (scalar_one_or_none (risk_rows_for k d), scalar_one_or_none (policy_rows_for k d)) of
                 (Inl e, _) \<Rightarrow> Inl e
               | (_, Inl e) \<Rightarrow> Inl e
               | (Inr risk, Inr policy) \<Rightarrow>
                   Inr [(''intent_id'', JStr (uuid_str (ai_intent_id i))), (''revision'', JInt (ai_revision i)),
                        (''tool'', JStr (tool_value (ai_tool i))), (''digest'', JStr (ai_intent_digest i)),
                        (''state'', JStr (state_value (ai_state i))), (''state_version'', JInt (ai_state_version i)),
                        (''approval_expires_at'', iso_opt (ai_approval_expires_at i)),
                        (''risk'', risk_view risk), (''policy'', policy_view policy),
                        (''approvals'', JList (map approval_view
                           (sort_key dr_decided_at (filter (\<lambda>r. dr_key r = k) (db_decisions d))))),
                        (''execution'', execution_view (first_row (filter (\<lambda>x. xr_key x = k) (db_executions d)))),
                        (''permitted_actions'', JList (map JStr (permitted_actions (ai_state i))))])))"

section \<open>Reading the history\<close>

definition event_view :: "transition_row \<Rightarrow> json" where
  "event_view t =
     JObj [(''sequence'', JInt (st_sequence t)),
           (''from_state'', case st_from_state t of None \<Rightarrow> JNull | Some s \<Rightarrow> JStr (state_value s)),
           (''to_state'', JStr (state_value (st_to_state t))), (''reason_code'', JStr (st_reason_code t)),
           (''actor_type'', JStr (st_actor_type t)), (''occurred_at'', JStr (isoformat (st_occurred_at t)))]"

definition audit_view :: "audit_row \<Rightarrow> json" where
  "audit_view r =
     JObj [(''sequence'', JInt (ae_sequence r)), (''event_type'', JStr (ae_event_type r)),
           (''actor_id'', JStr (ae_actor_id r)), (''occurred_at'', JStr (isoformat (ae_occurred_at r))),
           (''previous_hash'', JStr (ae_previous_hash r)), (''event_hash'', JStr (ae_event_hash r))]"

text \<open>One page of transitions after \<open>cursor\<close>, and the cursor of the next page.\<close>

definition event_page :: "string \<Rightarrow> uuid \<Rightarrow> int \<Rightarrow> nat \<Rightarrow> db \<Rightarrow> transition_row list" where
  "event_page tenant n cursor limit d =
     take limit (sort_key st_sequence
       (filter (\<lambda>t. st_tenant_id t = tenant \<and> st_intent_id t = n \<and> st_sequence t > cursor) (db_transitions d)))"

definition next_cursor :: "nat \<Rightarrow> transition_row list \<Rightarrow> int option" where
  "next_cursor limit items = (if length items = limit then Some (st_sequence (last items)) else None)"

definition events_query_valid :: "int \<Rightarrow> int \<Rightarrow> bool" where
  "events_query_valid cursor limit \<longleftrightarrow> 0 \<le> cursor \<and> 1 \<le> limit \<and> limit \<le> 200"

definition get_events ::
  "(string \<Rightarrow> string) \<Rightarrow> authenticated_actor \<Rightarrow> uuid \<Rightarrow> int \<Rightarrow> int \<Rightarrow> db \<Rightarrow> exn + dict" where
  "get_events sha a n cursor limit d =
     (if \<not> events_query_valid cursor limit then Inl RequestValidationError
      else
        (case scalar_one_or_none (filter (\<lambda>i. ai_tenant_id i = ac_tenant_id a \<and> ai_intent_id i = n) (db_intents d)) of
           Inl e \<Rightarrow> Inl e
         | Inr None \<Rightarrow> Inl (raise_error NotFoundError ''intent not found'')
         | Inr (Some _) \<Rightarrow>
             (let items = event_page (ac_tenant_id a) n cursor (nat limit) d;
                  (chain_valid, problem) = verify_aggregate_chain sha (ac_tenant_id a) n d
              in Inr [(''events'', JList (map event_view items)),
                      (''next_cursor'', int_opt (next_cursor (nat limit) items)),
                      (''audit'', JList (map audit_view (chain_of (ac_tenant_id a) n d))),
                      (''chain_valid'', JBool chain_valid), (''chain_problem'', json_opt problem)])))"

end
