(* ===== verification/Intent_Safety.thy ===== *)
theory Intent_Safety
  imports Intent_Api
begin

text \<open>
  What creation and the read routes of \<open>api/intents.py\<close> promise: a stored intent is routed by the
  policy on its validated parameters, a repeated request is answered without a second intent, and
  following the cursor reads the whole history once.
\<close>

section \<open>Creation\<close>

lemma evaluate_created_Inr:
  assumes "evaluate_created ev ids c d = (Inr body, d')"
  defines "k \<equiv> (cc_tenant_id c, cc_intent_id c, 1)"
  defines "risk \<equiv> evaluate_risk (cc_tool c) (cc_canonical_parameters c) default_context"
  shows "\<exists>bundle policy recorded stored. get_active (cc_tenant_id c) d = Inr (Some bundle) \<and>
      evaluate_policy (cc_tool c) risk (cc_canonical_parameters c) bundle = Inr policy \<and>
      record_evaluation ev k risk policy (cc_command_id c) (cc_correlation_id c) d = (Inr recorded, d') \<and>
      get_intent k d' = Some stored \<and>
      body = creation_response ids (cc_intent_digest c) risk policy recorded stored"
  using assms
  by (auto simp: evaluate_created_def Let_def repository_get_def
      split: sum.splits option.splits prod.splits)

lemma creation_Inr:
  assumes "create_intent_from_proposal cl ev a tool ps rationale source ids d = (Inr body, d')"
  shows "\<exists>p t canonical snap d1. parse_tool_parameters (cl_int cl) tool ps = Inr p \<and> tool_of tool = Some t \<and>
      canonicalize (cl_sha cl) (cl_nfc cl) t (ac_tenant_id a) (ac_actor_id a) 1 p = Inr canonical \<and>
      create (cl_lower cl) ev (creation_command a tool ps rationale source ids canonical) d = (Inr snap, d1) \<and>
      evaluate_created ev ids (creation_command a tool ps rationale source ids canonical) d1 = (Inr body, d')"
  using assms
  by (auto simp: create_intent_from_proposal_def Let_def split: sum.splits option.splits prod.splits)

lemma creation_evolves:
  assumes "create_intent_from_proposal cl ev a tool ps rationale source ids d = (Inr body, d')"
  shows "evolves d d' \<and> db_idempotency d' = db_idempotency d"
proof -
  from creation_Inr [OF assms] obtain c snap d1 where c: "create (cl_lower cl) ev c d = (Inr snap, d1)"
    and e: "evaluate_created ev ids c d1 = (Inr body, d')" by blast
  from evaluate_created_Inr [OF e] obtain policy recorded where r:
    "record_evaluation ev (cc_tenant_id c, cc_intent_id c, 1) (evaluate_risk (cc_tool c) (cc_canonical_parameters c) default_context)
      policy (cc_command_id c) (cc_correlation_id c) d1 = (Inr recorded, d')" by blast
  have "db_idempotency d1 = db_idempotency d" using create_Inr [OF c] by simp
  moreover have "db_idempotency d' = db_idempotency d1" using record_evaluation_Inr [OF r] by auto
  moreover have "evolves d d'"
    using create_evolves [OF c] record_evaluation_evolves [OF r] by (rule rtranclp_trans)
  ultimately show ?thesis by simp
qed

interpretation creation_route:
  keyed_route "\<lambda>(cl, ev, a, tool, ps, rationale, source, ids).
    create_intent_from_proposal cl ev a tool ps rationale source ids"
  by unfold_locales (auto dest: creation_evolves)

lemma agent_command_evolves:
  assumes "agent_command cl provider ev a b ids d = (Inr body, d')"
  shows "evolves d d' \<and> db_idempotency d' = db_idempotency d"
  using assms by (auto simp: agent_command_def dest: creation_evolves split: sum.splits)

interpretation agent_route: keyed_route "\<lambda>(cl, provider, ev, a, b, ids). agent_command cl provider ev a b ids"
  by unfold_locales (auto dest: agent_command_evolves)

lemma intent_routes_evolve:
  "create_intent cl race ev a b header ids d = (Inr r, d') \<Longrightarrow> evolves d d'"
  "create_agent_intent cl provider race ev a ab header ids d = (Inr r, d') \<Longrightarrow> evolves d d'"
  unfolding create_intent_def create_agent_intent_def
  by (erule mutation_evolves; use creation_evolves agent_command_evolves in blast)+

text \<open>A key no intent has is in no other table either.\<close>

lemma fresh_key:
  assumes "references_ok d" and "k \<notin> ai_key ` set (db_intents d)"
  shows "history d k = []" "risk_rows_for k d = []" "policy_rows_for k d = []"
  using assms unfolding references_ok_def Let_def list_all_iff history_def risk_rows_for_def policy_rows_for_def
    filter_empty_conv by (simp_all, metis+)

text \<open>
  C34. A created intent is what its requester asked for, routed by policy: the tool is on the
  allow-list, the stored parameters are the validated ones, the digest is that of the canonical
  envelope and the requester is the authenticated actor. The routing is the evaluation of these
  parameters and their risk against the rules of the one active bundle of the actor's tenant: ALLOW
  leaves the intent AUTO_APPROVED, REQUIRE_APPROVAL leaves it PENDING_APPROVAL_1 until the evaluated window
  ends, BLOCK leaves it BLOCKED, and exactly this evaluation and this risk are stored as its one policy and
  its one risk row, with four history rows. An action of band HIGH or CRITICAL is never auto-approved, and a
  pending one expires between one second and one hour later.
\<close>

theorem creation_routes_by_policy:
  assumes "create_intent_from_proposal cl ev a tool ps rationale source ids d = (Inr body, d')"
    and "constraints_ok d"
  defines "k \<equiv> (ac_tenant_id a, rq_intent_id ids, 1)"
  shows "\<exists>p t i b policy. parse_tool_parameters (cl_int cl) tool ps = Inr p \<and> tool_of tool = Some t \<and> model_tool p = t \<and>
      get_intent k d = None \<and> get_intent k d' = Some i \<and> ai_tool i = t \<and>
      ai_canonical_parameters i = model_dump p \<and> ai_requester_id i = ac_actor_id a \<and>
      ai_intent_digest i = cl_sha cl (canonical_envelope (cl_nfc cl) t (ac_tenant_id a) (ac_actor_id a) 1 (model_dump p)) \<and>
      filter (\<lambda>b. br_tenant_id b = ac_tenant_id a \<and> br_is_active b) (db_bundles d) = [b] \<and>
      evaluate_policy t (evaluate_risk t (model_dump p) default_context) (model_dump p)
        \<lparr>pb_version = br_version b, pb_rules = br_rules b\<rparr> = Inr policy \<and>
      ai_state i = (case pv_disposition policy of
          ALLOW \<Rightarrow> AUTO_APPROVED | REQUIRE_APPROVAL \<Rightarrow> PENDING_APPROVAL_1 | BLOCK \<Rightarrow> BLOCKED) \<and>
      ai_approval_expires_at i =
        map_option (\<lambda>ttl. ev_now ev + seconds ttl) (pv_approval_ttl_seconds policy) \<and>
      policy_rows_for k d' = [policy_row_of k policy] \<and>
      risk_rows_for k d' = [risk_row_of k (evaluate_risk t (model_dump p) default_context)] \<and>
      ai_state i \<in> {AUTO_APPROVED, PENDING_APPROVAL_1, BLOCKED} \<and>
      ai_state_version i = 4 \<and> length (history d' k) = 4 \<and>
      map st_to_state (history d' k) = [REQUESTED, RISK_EVALUATED, POLICY_EVALUATED, ai_state i] \<and>
      map_of body ''state'' = Some (JStr (state_value (ai_state i))) \<and>
      (HIGH \<le> rv_band (evaluate_risk t (model_dump p) default_context) \<longrightarrow> ai_state i \<noteq> AUTO_APPROVED) \<and>
      (ai_state i = PENDING_APPROVAL_1 \<longrightarrow> (\<exists>ttl. 1 \<le> ttl \<and> ttl \<le> 3600 \<and>
         ai_approval_expires_at i = Some (ev_now ev + seconds ttl)))"
proof -
  from creation_Inr [OF assms(1)] obtain p t canonical snap d1
    where p: "parse_tool_parameters (cl_int cl) tool ps = Inr p" and t: "tool_of tool = Some t"
      and can: "canonicalize (cl_sha cl) (cl_nfc cl) t (ac_tenant_id a) (ac_actor_id a) 1 p = Inr canonical"
      and c: "create (cl_lower cl) ev (creation_command a tool ps rationale source ids canonical) d = (Inr snap, d1)"
      and e: "evaluate_created ev ids (creation_command a tool ps rationale source ids canonical) d1 = (Inr body, d')"
    by blast
  let ?c = "creation_command a tool ps rationale source ids canonical"
  let ?i = "created_intent (cl_lower cl) ev ?c"
  have cf: "model_tool p = t" "ci_tool canonical = t" "ci_parameters canonical = model_dump p"
    "ci_digest canonical = cl_sha cl (canonical_envelope (cl_nfc cl) t (ac_tenant_id a) (ac_actor_id a) 1 (model_dump p))"
    using can by (auto simp: canonicalize_def Let_def split: if_splits)
  have ki: "ai_key ?i = k" by (simp add: created_key k_def creation_command_def)
  from create_Inr [OF c] have d1: "d1 = create_intent_rows (cl_lower cl) ev ?c d" and u: "unique_ok d1"
    using flush_unique by blast+
  then have nokey: "k \<notin> ai_key ` set (db_intents d)" using ki by (simp add: unique_ok_def)
  then have none: "get_intent k d = None" unfolding get_intent_def find_None_iff by (metis image_eqI)
  have g1: "get_intent k d1 = Some ?i"
    using none ki unfolding get_intent_def d1 by (simp add: find_append)
  have refs: "references_ok d" using assms(2) flush_unique unfolding constraints_ok_def by blast
  note fresh = fresh_key [OF refs nokey]
  have rr: "risk_rows_for k d1 = []" using fresh(2) by (simp add: risk_rows_for_def d1)
  have h1: "history d1 k = [created_transition ev ?c]"
    using fresh(1) by (simp add: history_def d1 created_transition_def st_key_def k_def creation_command_def)
  let ?risk = "evaluate_risk t (model_dump p) default_context"
  from evaluate_created_Inr [OF e] cf obtain bd policy recorded stored
    where act: "get_active (ac_tenant_id a) d1 = Inr (Some bd)"
      and pol: "evaluate_policy t ?risk (model_dump p) bd = Inr policy"
      and rec: "record_evaluation ev k ?risk policy (rq_command_id ids) (rq_correlation_id ids) d1 = (Inr recorded, d')"
      and body: "body = creation_response ids (cc_intent_digest ?c) ?risk policy recorded stored"
    by (auto simp: creation_command_def k_def)
  from act obtain b where b: "filter (\<lambda>b. br_tenant_id b = ac_tenant_id a \<and> br_is_active b) (db_bundles d) = [b]"
      "bd = \<lparr>pb_version = br_version b, pb_rules = br_rules b\<rparr>"
    by (auto simp: get_active_def d1 scalar_one_or_none_Inr split: sum.splits option.splits)
  have st: "ai_state ?i = REQUESTED" by (simp add: created_intent_def)
  have rec': "d' = record_rows ev k ?risk policy (rq_command_id ids) (rq_correlation_id ids) ?i d1"
      "er_state recorded = route_state (pv_disposition policy)"
    using rec rr g1 st by (auto simp: record_evaluation_def Let_def split: sum.splits)
  let ?j = "routed_intent ev policy ?i"
  have "get_intent k d' = Some ?j"
    using get_save_intent [of k ?j] g1 ki rec'(1) by (simp add: record_rows_def Let_def evaluation_transitions_def get_intent_def)
  moreover have hist: "map st_to_state (history d' k) = [REQUESTED, RISK_EVALUATED, POLICY_EVALUATED, ai_state ?j]"
    using h1 by (simp add: history_def rec'(1) evaluation_transitions_def evaluation_transition_def st_key_def
        created_transition_def)
  moreover have "length (history d' k) = 4" using arg_cong [OF hist, of length] by simp
  moreover have "policy_rows_for k d' = [policy_row_of k policy]" "risk_rows_for k d' = [risk_row_of k ?risk]"
    using fresh(3) rr
    by (simp_all add: policy_rows_for_def risk_rows_for_def rec'(1) d1 policy_row_of_def risk_row_of_def
        pr_key_def rr_key_def)
  moreover have "ai_state ?j = (case pv_disposition policy of
          ALLOW \<Rightarrow> AUTO_APPROVED | REQUIRE_APPROVAL \<Rightarrow> PENDING_APPROVAL_1 | BLOCK \<Rightarrow> BLOCKED)"
    by (cases "pv_disposition policy") simp_all
  moreover have "ai_approval_expires_at ?j =
        map_option (\<lambda>ttl. ev_now ev + seconds ttl) (pv_approval_ttl_seconds policy)"
    by (simp add: routed_intent_def Let_def created_intent_def split: option.splits)
  moreover have "ai_state ?j \<in> {AUTO_APPROVED, PENDING_APPROVAL_1, BLOCKED}"
    by (cases "pv_disposition policy") simp_all
  moreover have "ai_state ?j \<noteq> AUTO_APPROVED" if "HIGH \<le> rv_band ?risk"
    using that evaluate_policy_ok [OF pol] by (cases "pv_disposition policy") (auto simp: evaluation_ok_def)
  moreover have "\<exists>ttl. 1 \<le> ttl \<and> ttl \<le> 3600 \<and> ai_approval_expires_at ?j = Some (ev_now ev + seconds ttl)"
    if "ai_state ?j = PENDING_APPROVAL_1"
    using that evaluate_policy_ok [OF pol]
    by (cases "pv_disposition policy") (auto simp: evaluation_ok_def routed_intent_def Let_def split: option.splits)
  moreover have "map_of body ''state'' = Some (JStr (state_value (ai_state ?j)))"
    using body rec'(2) by (simp add: creation_response_def)
  moreover have "ai_tool ?j = t" "ai_canonical_parameters ?j = model_dump p" "ai_requester_id ?j = ac_actor_id a"
      "ai_intent_digest ?j = ci_digest canonical"
    using cf routed_intent_fields(6) [of ev policy ?i]
    by (simp_all add: same_identity_def created_intent_def creation_command_def)
  ultimately show ?thesis using p t cf none b(1) pol [unfolded b(2)]
    by (intro exI [of _ p] exI [of _ t] exI [of _ ?j] exI [of _ b] exI [of _ policy]) simp
qed

definition sample_creation :: creation_library where
  "sample_creation = \<lparr>cl_sha = id, cl_nfc = id, cl_lower = id, cl_int = strict_int\<rparr>"

definition sample_ids :: request_ids where
  "sample_ids = \<lparr>rq_intent_id = 9, rq_command_id = ''c9'', rq_correlation_id = ''x9''\<rparr>"

definition sample_body :: create_intent_body where
  "sample_body = \<lparr>cb_tool = ''restart_service'', cb_parameters =
     [(''environment'', JStr ''staging''), (''service'', JStr ''web''), (''strategy'', JStr ''rolling'')],
     cb_rationale = ''slow''\<rparr>"

definition wide_hash :: "string \<Rightarrow> string" where
  "wide_hash s = replicate 64 (CHR ''h'')"

definition sample_created_run :: "(exn + dict) \<times> db" where
  "sample_created_run =
     create_intent_from_proposal (sample_creation\<lparr>cl_sha := wide_hash\<rparr>) (at_second 10) (actor_named ''alice'')
       (cb_tool sample_body) (cb_parameters sample_body) (cb_rationale sample_body) DIRECT sample_ids sample_empty"

lemma creation_routes_by_policy_witness:
  "\<exists>i. get_intent (''t'', 9, 1) (snd sample_created_run) = Some i \<and> ai_tool i = RESTART_SERVICE \<and>
     ai_requester_id i = ''alice'' \<and> ai_state i \<noteq> AUTO_APPROVED"
proof -
  have "succeeds sample_created_run" by code_simp
  then obtain body where run: "sample_created_run = (Inr body, snd sample_created_run)" by (rule succeedsE)
  have ok: "constraints_ok sample_empty" unfolding constraints_ok_def by code_simp
  have t: "tool_of (cb_tool sample_body) = Some RESTART_SERVICE" by code_simp
  have band: "HIGH \<le> rv_band (evaluate_risk RESTART_SERVICE ps default_context)" for ps
    using evaluate_risk_band_ge [of RESTART_SERVICE ps default_context] by simp
  from creation_routes_by_policy [OF run [unfolded sample_created_run_def] ok] t band
  show ?thesis
    by (auto simp: sample_created_run_def actor_named_def sample_ids_def)
qed

section \<open>Repetition\<close>

text \<open>
  C10. Creation is idempotent per actor and key. Once a request has committed, repeating it with the
  same key and the same body answers the same response and changes nothing, whatever clock, ids and
  races the repetition meets, so there is no second intent; the same key with a body of another
  request hash is refused as a conflict and changes nothing either.
\<close>

theorem create_intent_idempotent:
  assumes "request (create_intent cl NoConflict ev a b header ids) d = (Inr body, d')"
  shows "request (create_intent cl race ev' a b header ids') d' = (Inr body, d') \<and>
    (\<forall>b'. create_body_valid b' \<and>
        canonical_request_hash (cl_sha cl) (create_body_dump b') \<noteq> canonical_request_hash (cl_sha cl) (create_body_dump b) \<longrightarrow>
      (\<exists>e. request (create_intent cl race ev' a b' header ids') d' = (Inl e, d') \<and> is_class IdempotencyConflictError e))"
proof (intro conjI allI impI)
  have v: "create_body_valid b"
    using assms by (auto simp: create_intent_def mutation_def request_Inr split: sum.splits if_splits)
  note r = creation_route.request_replayed [where args = "(cl, ev, a, cb_tool b, cb_parameters b, cb_rationale b, DIRECT, ids)",
      unfolded prod.case, OF assms [unfolded create_intent_def]]
  show "request (create_intent cl race ev' a b header ids') d' = (Inr body, d')"
    unfolding create_intent_def using r(1) v by simp
  show "\<exists>e. request (create_intent cl race ev' a b' header ids') d' = (Inl e, d') \<and> is_class IdempotencyConflictError e"
    if "create_body_valid b' \<and>
      canonical_request_hash (cl_sha cl) (create_body_dump b') \<noteq> canonical_request_hash (cl_sha cl) (create_body_dump b)" for b'
    unfolding create_intent_def using r(2) [OF conjunct2 [OF that]] that
    by (simp add: raise_error_def make_error_def)
qed

section \<open>Reading the history page by page\<close>

text \<open>What a client reads that starts at 0 and follows \<open>next_cursor\<close>, for at most \<open>fuel\<close> pages.\<close>

fun read_events :: "string \<Rightarrow> uuid \<Rightarrow> nat \<Rightarrow> db \<Rightarrow> nat \<Rightarrow> int \<Rightarrow> transition_row list" where
  "read_events tenant n limit d 0 cursor = []"
| "read_events tenant n limit d (Suc fuel) cursor =
     (let items = event_page tenant n cursor limit d
      in items @ (case next_cursor limit items of
                    None \<Rightarrow> []
                  | Some c \<Rightarrow> read_events tenant n limit d fuel c))"

lemma filter_sequence_drop:
  assumes "map st_sequence h = map (\<lambda>n. int n + 1) [0..<length h]"
  shows "filter (\<lambda>t. st_sequence t > int m) h = drop m h"
  using assms
proof (induction h arbitrary: m rule: rev_induct)
  case (snoc t h)
  then have h: "map st_sequence h = map (\<lambda>n. int n + 1) [0..<length h]" and t: "st_sequence t = int (length h) + 1"
    by simp_all
  from snoc.IH [OF h] t show ?case by auto
qed simp

lemma sort_sequence:
  assumes "map st_sequence h = map (\<lambda>n. int n + 1) [0..<length h]"
  shows "sort_key st_sequence (drop m h) = drop m h"
proof (rule sort_key_id_if_sorted)
  have "sorted (map st_sequence h)" unfolding assms by (simp add: sorted_map sorted_wrt_upt)
  then show "sorted (map st_sequence (drop m h))" by (metis drop_map sorted_wrt_drop)
qed

lemma event_page_drop:
  assumes "db_ok d" and "filter (\<lambda>i. ai_tenant_id i = tenant \<and> ai_intent_id i = n) (db_intents d) = [i]"
  shows "event_page tenant n (int m) limit d = take limit (drop m (history d (ai_key i)))"
    and "map st_sequence (history d (ai_key i)) = map (\<lambda>n. int n + 1) [0..<length (history d (ai_key i))]"
proof -
  have i: "i \<in> set (db_intents d)" "ai_tenant_id i = tenant" "ai_intent_id i = n"
    using assms(2) by (metis (mono_tags, lifting) filter_eq_ConsD list.set_intros(1) mem_Collect_eq set_filter)+
  have v: "valid_history (history d (ai_key i)) (ai_state i)"
    using assms(1) i(1) by (simp add: db_ok_def intent_ok_def)
  from valid_history_sequences [OF v]
  show s: "map st_sequence (history d (ai_key i)) = map (\<lambda>n. int n + 1) [0..<length (history d (ai_key i))]" .
  have key: "st_tenant_id t = tenant \<and> st_intent_id t = n \<longleftrightarrow> st_key t = ai_key i" if "t \<in> set (db_transitions d)" for t
  proof
    assume t: "st_tenant_id t = tenant \<and> st_intent_id t = n"
    from that assms(1) obtain j where j: "j \<in> set (db_intents d)" "st_key t = ai_key j" by (auto simp: db_ok_def)
    then have "j \<in> set (filter (\<lambda>i. ai_tenant_id i = tenant \<and> ai_intent_id i = n) (db_intents d))"
      using t by (auto simp: st_key_def ai_key_def)
    with j assms(2) show "st_key t = ai_key i" by simp
  qed (use i in \<open>simp add: st_key_def ai_key_def\<close>)
  have "filter (\<lambda>t. st_tenant_id t = tenant \<and> st_intent_id t = n \<and> st_sequence t > int m) (db_transitions d)
      = filter (\<lambda>t. st_sequence t > int m) (history d (ai_key i))"
    unfolding history_def filter_filter using key by (intro filter_cong) auto
  with filter_sequence_drop [OF s] sort_sequence [OF s]
  show "event_page tenant n (int m) limit d = take limit (drop m (history d (ai_key i)))"
    by (simp add: event_page_def)
qed

text \<open>
  C38. Following the cursor reads the history of an intent completely, in order and without a
  repetition, whatever page size of at least one is asked for; every page keeps the limit, and the
  reading ends after at most one page more than there are rows.
\<close>

theorem cursor_reads_whole_history:
  assumes "db_ok d" and "filter (\<lambda>i. ai_tenant_id i = tenant \<and> ai_intent_id i = n) (db_intents d) = [i]"
    and "1 \<le> limit" and "length (history d (ai_key i)) < fuel"
  shows "read_events tenant n limit d fuel 0 = history d (ai_key i) \<and>
    (\<forall>cursor. length (event_page tenant n cursor limit d) \<le> limit)"
proof
  let ?h = "history d (ai_key i)"
  note page = event_page_drop [OF assms(1,2)]
  have "read_events tenant n limit d fuel (int m) = drop m ?h" if "length ?h - m < fuel" for m fuel
    using that
  proof (induction fuel arbitrary: m)
    case (Suc fuel)
    show ?case
    proof (cases "length (drop m ?h) < limit")
      case True
      then show ?thesis using assms(3) by (simp add: page(1) next_cursor_def Let_def)
    next
      case False
      then have len: "m + limit \<le> length ?h" using assms(3) by auto
      have full: "length (take limit (drop m ?h)) = limit" using len by simp
      then have "take limit (drop m ?h) \<noteq> []" using assms(3) by auto
      from last_conv_nth [OF this, unfolded full] have "last (take limit (drop m ?h)) = ?h ! (m + limit - 1)"
        using len assms(3) by simp
      moreover have "st_sequence (?h ! (m + limit - 1)) = int (m + limit)"
        using len assms(3) arg_cong [OF page(2), of "\<lambda>xs. xs ! (m + limit - 1)"] by simp
      ultimately have "next_cursor limit (take limit (drop m ?h)) = Some (int (m + limit))"
        using len by (simp add: next_cursor_def)
      moreover have "read_events tenant n limit d fuel (int (m + limit)) = drop (m + limit) ?h"
        using Suc.prems assms(3) len by (intro Suc.IH) simp
      ultimately show ?thesis
        using page(1) [of m limit] by (simp add: Let_def) (metis append_take_drop_id drop_drop add.commute)
    qed
  qed simp
  from this [of 0] assms(4) show "read_events tenant n limit d fuel 0 = ?h" by simp
qed (simp add: event_page_def)

lemma cursor_reads_whole_history_witness:
  "map st_to_state (read_events ''t'' 7 2 sample_pending 9 0) =
     [REQUESTED, RISK_EVALUATED, POLICY_EVALUATED, PENDING_APPROVAL_1]"
proof -
  let ?q = "filter (\<lambda>i. ai_tenant_id i = ''t'' \<and> ai_intent_id i = 7) (db_intents sample_pending)"
  have "length ?q = 1 \<and> map ai_key ?q = [sample_key]" by code_simp
  then obtain i where i: "?q = [i]" "ai_key i = sample_key" by (cases ?q) auto
  have h: "map st_to_state (history sample_pending sample_key) = [REQUESTED, RISK_EVALUATED, POLICY_EVALUATED, PENDING_APPROVAL_1]"
    by code_simp
  have "length (history sample_pending sample_key) = length (map st_to_state (history sample_pending sample_key))"
    by simp
  then have "length (history sample_pending sample_key) = 4" unfolding h by simp
  with cursor_reads_whole_history [OF sample_db_ok(1) i(1), of 2 9] i(2) h show ?thesis by simp
qed

end
