(* ===== verification/Approval_Api.thy ===== *)
theory Approval_Api
  imports Intent_Safety
begin

text \<open>
  \<open>api/approvals.py\<close>: the decision and cancellation routes. The decision route has its own frame: an
  expired window is recorded as the outcome of the key before the error is raised again, and a
  recorded outcome of status 400 or above is replayed as an error.
\<close>

record approval_body =
  vb_revision :: int
  vb_intent_digest :: string
  vb_level :: int
  vb_decision :: approval_decision
  vb_reason :: string
  vb_expected_state_version :: int
  vb_obligations :: "(string \<times> string) list"

definition approval_body_valid :: "approval_body \<Rightarrow> bool" where
  "approval_body_valid b \<longleftrightarrow>
     1 \<le> vb_revision b \<and> length_within 64 64 (vb_intent_digest b) \<and> 1 \<le> vb_level b \<and> vb_level b \<le> 2 \<and>
     length_within 1 2000 (vb_reason b) \<and> 1 \<le> vb_expected_state_version b"

definition approval_body_dump :: "approval_body \<Rightarrow> dict" where
  "approval_body_dump b =
     [(''revision'', JInt (vb_revision b)), (''intent_digest'', JStr (vb_intent_digest b)),
      (''level'', JInt (vb_level b)), (''decision'', JStr (decision_value (vb_decision b))),
      (''reason'', JStr (vb_reason b)), (''expected_state_version'', JInt (vb_expected_state_version b)),
      (''obligations'', JObj (map (\<lambda>(k, v). (k, JStr v)) (vb_obligations b)))]"

record cancel_body =
  vc_revision :: int
  vc_reason :: string
  vc_expected_state_version :: int

definition cancel_body_valid :: "cancel_body \<Rightarrow> bool" where
  "cancel_body_valid b \<longleftrightarrow>
     1 \<le> vc_revision b \<and> length_within 1 2000 (vc_reason b) \<and> 1 \<le> vc_expected_state_version b"

definition cancel_body_dump :: "cancel_body \<Rightarrow> dict" where
  "cancel_body_dump b =
     [(''revision'', JInt (vc_revision b)), (''reason'', JStr (vc_reason b)),
      (''expected_state_version'', JInt (vc_expected_state_version b))]"

definition snapshot_response :: "intent_snapshot \<Rightarrow> dict" where
  "snapshot_response s =
     [(''intent_id'', JStr (uuid_str (is_intent_id s))), (''revision'', JInt (is_revision s)),
      (''digest'', JStr (is_intent_digest s)), (''state'', JStr (state_value (is_state s))),
      (''state_version'', JInt (is_state_version s))]"

section \<open>Decisions\<close>

definition decision_of_body :: "authenticated_actor \<Rightarrow> uuid \<Rightarrow> approval_body \<Rightarrow> string \<Rightarrow> approval_decision_command" where
  "decision_of_body a n b cid =
     \<lparr>ad_tenant_id = ac_tenant_id a, ad_intent_id = n, ad_revision = vb_revision b,
      ad_intent_digest = vb_intent_digest b, ad_level = vb_level b, ad_decision = vb_decision b,
      ad_reason = vb_reason b, ad_expected_state_version = vb_expected_state_version b, ad_actor = a,
      ad_command_id = cid, ad_obligations = vb_obligations b\<rparr>"

definition replayed_error :: "dict \<Rightarrow> int \<Rightarrow> exn" where
  "replayed_error body status =
     raise_coded (py_str (dget_or ''message'' (JStr ''replayed error'') body))
       (py_str (dget_or ''code'' (JStr ''DOMAIN_ERROR'') body)) status None"

definition approval_replay :: "reservation \<Rightarrow> exn + dict option" where
  "approval_replay r =
     (case replay_of r of
        Inr (Some body) \<Rightarrow>
          (case rs_response_status r of
             None \<Rightarrow> Inr (Some body)
           | Some status \<Rightarrow> if status \<ge> 400 then Inl (replayed_error body status) else Inr (Some body))
      | x \<Rightarrow> x)"

definition error_record :: "domain_error \<Rightarrow> dict" where
  "error_record x = [(''code'', JStr (de_code x)), (''message'', JStr (de_message x))]"

definition run_decision ::
  "(string \<Rightarrow> string) \<Rightarrow> env \<Rightarrow> authenticated_actor \<Rightarrow> string \<Rightarrow> approval_decision_command \<Rightarrow> db \<Rightarrow> (exn + dict) \<times> db" where
  "run_decision sha ev a key c d =
     (let complete = idempotency_complete sha (ac_tenant_id a) (ac_actor_id a) ''approvals'' key
      in (case decide ev c d of
            (Inr s, d1) \<Rightarrow>
              (case complete 200 (snapshot_response s) d1 of
                 (Inl e, d2) \<Rightarrow> (Inl e, d2)
               | (Inr _, d2) \<Rightarrow> (Inr (snapshot_response s), d2))
          | (Inl e, d1) \<Rightarrow>
              (case e of
                 Domain x \<Rightarrow>
                   (if de_class x = ApprovalExpiredError
                    then (case complete (de_status x) (error_record x) d1 of
                            (Inl f, d2) \<Rightarrow> (Inl f, d2)
                          | (Inr _, d2) \<Rightarrow> (Inl e, d2))
                    else (Inl e, d1))
               | _ \<Rightarrow> (Inl e, d1))))"

definition decide_approval ::
  "(string \<Rightarrow> string) \<Rightarrow> insert_race \<Rightarrow> env \<Rightarrow> authenticated_actor \<Rightarrow> uuid \<Rightarrow> approval_body \<Rightarrow> string option
     \<Rightarrow> string \<Rightarrow> db \<Rightarrow> (exn + dict) \<times> db" where
  "decide_approval sha race ev a n b header cid d =
     (case require_idempotency_key header of
        Inl e \<Rightarrow> (Inl e, d)
      | Inr key \<Rightarrow>
          (if \<not> approval_body_valid b then (Inl RequestValidationError, d)
           else
             (case idempotency_begin sha race (ac_tenant_id a) (ac_actor_id a) ''approvals'' key
                     ((''intent_id'', JStr (uuid_str n)) # approval_body_dump b) None d of
                (Inl e, d1) \<Rightarrow> (Inl e, d1)
              | (Inr r, d1) \<Rightarrow>
                  (case approval_replay r of
                     Inl e \<Rightarrow> (Inl e, d1)
                   | Inr (Some body) \<Rightarrow> (Inr body, d1)
                   | Inr None \<Rightarrow> run_decision sha ev a key (decision_of_body a n b cid) d1))))"

section \<open>Cancellation\<close>

definition cancel_command ::
  "env \<Rightarrow> authenticated_actor \<Rightarrow> uuid \<Rightarrow> cancel_body \<Rightarrow> string \<Rightarrow> db \<Rightarrow> (exn + dict) \<times> db" where
  "cancel_command ev a n b cid d =
     (case cancel ev
             \<lparr>cn_tenant_id = ac_tenant_id a, cn_intent_id = n, cn_revision = vc_revision b,
              cn_reason = vc_reason b, cn_expected_state_version = vc_expected_state_version b, cn_actor = a,
              cn_command_id = cid\<rparr> d of
        (Inl e, d') \<Rightarrow> (Inl e, d')
      | (Inr s, d') \<Rightarrow> (Inr (snapshot_response s), d'))"

definition cancel_intent ::
  "(string \<Rightarrow> string) \<Rightarrow> insert_race \<Rightarrow> env \<Rightarrow> authenticated_actor \<Rightarrow> uuid \<Rightarrow> cancel_body \<Rightarrow> string option
     \<Rightarrow> string \<Rightarrow> db \<Rightarrow> (exn + dict) \<times> db" where
  "cancel_intent sha race ev a n b header cid =
     mutation sha race a ''cancellations'' header (cancel_body_valid b)
       ((''intent_id'', JStr (uuid_str n)) # cancel_body_dump b) 200 (cancel_command ev a n b cid)"

section \<open>The routes evolve the lifecycle\<close>

lemma cancel_command_evolves:
  assumes "cancel_command ev a n b cid d = (Inr r, d')"
  shows "evolves d d' \<and> db_idempotency d' = db_idempotency d"
proof -
  from assms obtain c s where c: "cancel ev c d = (Inr s, d')"
    by (auto simp: cancel_command_def split: sum.splits prod.splits)
  from cancel_Inr [OF c] obtain i x
    where "record_command_transition x i CANCELLED d = Inr (advance_intent i CANCELLED, d')" by blast
  from command_recorder.recorder_frame(1) [OF this] cancel_evolves [OF c] show ?thesis by simp
qed

interpretation cancel_route: keyed_route "\<lambda>(ev, a, n, b, cid). cancel_command ev a n b cid"
  by unfold_locales (auto dest: cancel_command_evolves)

lemma cancel_intent_evolves: "cancel_intent sha race ev a n b header cid d = (Inr r, d') \<Longrightarrow> evolves d d'"
  unfolding cancel_intent_def by (erule mutation_evolves) (use cancel_command_evolves in blast)

lemma records_evolve: "evolves d (d\<lparr>db_idempotency := rs\<rparr>)"
  by (rule evolves_frame) simp_all

lemma db_ok_records: "db_ok d \<Longrightarrow> db_ok (d\<lparr>db_idempotency := rs\<rparr>)"
  by (rule evolves_db_ok [OF records_evolve])

lemma run_decision_evolves:
  assumes "run_decision sha ev a key c d = (r, d')" and "db_ok d" and pe: "\<And>e. r = Inl e \<Longrightarrow> persist_state e"
  shows "evolves d d'"
proof -
  obtain q d1 where q: "decide ev c d = (q, d1)" by (rule prod.exhaust)
  have fin: "evolves d d2" if "idempotency_complete sha (ac_tenant_id a) (ac_actor_id a) ''approvals'' key st body d1 = (Inr u, d2)"
    and "evolves d d1" for st body u d2
    using complete_frame [OF that(1)] that(2) records_evolve [of d1] by (metis rtranclp_trans)
  show ?thesis
  proof (cases q)
    case (Inr s)
    have one: "evolves d d1" by (rule decide_evolves [OF q assms(2)]) (simp add: Inr)
    obtain z d2 where z: "idempotency_complete sha (ac_tenant_id a) (ac_actor_id a) ''approvals'' key 200 (snapshot_response s) d1 = (z, d2)"
      by (rule prod.exhaust)
    show ?thesis
    proof (cases z)
      case (Inl e)
      with assms(1) q Inr z have "r = Inl e" by (simp add: run_decision_def)
      with pe complete_plain_error [OF z [unfolded Inl]] show ?thesis by blast
    next
      case u: (Inr u)
      with assms(1) q Inr z have "d' = d2" by (simp add: run_decision_def)
      with fin [OF z [unfolded u] one] show ?thesis by simp
    qed
  next
    case (Inl e)
    show ?thesis
    proof (cases "\<exists>x. e = Domain x \<and> de_class x = ApprovalExpiredError")
      case True
      then obtain x where x: "e = Domain x" "de_class x = ApprovalExpiredError" by blast
      have one: "evolves d d1" by (rule decide_evolves [OF q assms(2)]) (use Inl x in auto)
      obtain z d2 where z: "idempotency_complete sha (ac_tenant_id a) (ac_actor_id a) ''approvals'' key (de_status x) (error_record x) d1 = (z, d2)"
        by (rule prod.exhaust)
      show ?thesis
      proof (cases z)
        case f: (Inl f)
        with assms(1) q Inl x z have "r = Inl f" by (simp add: run_decision_def)
        with pe complete_plain_error [OF z [unfolded f]] show ?thesis by blast
      next
        case (Inr u)
        with assms(1) q Inl x z have "d' = d2" by (simp add: run_decision_def)
        with fin [OF z [unfolded Inr] one] show ?thesis by simp
      qed
    next
      case False
      with assms(1) q Inl have r: "r = Inl e" "d' = d1" by (auto simp: run_decision_def split: exn.splits)
      show ?thesis unfolding r(2) by (rule decide_evolves [OF q assms(2)]) (use pe r Inl in auto)
    qed
  qed
qed

lemma decide_approval_cases:
  assumes "decide_approval sha race ev a n b header cid d = (r, d')"
  obtains (refused) e where "r = Inl e" and "\<not> persist_state e"
  | (replayed) body rs where "r = Inr body" and "d' = d\<lparr>db_idempotency := rs\<rparr>"
  | (run) key rs where "require_idempotency_key header = Inr key" and "approval_body_valid b"
      and "reserve sha race a ''approvals'' key ((''intent_id'', JStr (uuid_str n)) # approval_body_dump b) d =
        (Inr None, d\<lparr>db_idempotency := rs\<rparr>)"
      and "run_decision sha ev a key (decision_of_body a n b cid) (d\<lparr>db_idempotency := rs\<rparr>) = (r, d')"
proof (cases "require_idempotency_key header")
  case (Inl e)
  then have "\<not> persist_state e" by (auto simp: require_idempotency_key_def Let_def split: if_splits)
  with assms Inl show ?thesis by (intro refused) (auto simp: decide_approval_def)
next
  case (Inr key)
  show ?thesis
  proof (cases "approval_body_valid b")
    case False
    with assms Inr show ?thesis by (intro refused) (auto simp: decide_approval_def)
  next
    case True
    let ?payload = "(''intent_id'', JStr (uuid_str n)) # approval_body_dump b"
    obtain q d1 where q: "idempotency_begin sha race (ac_tenant_id a) (ac_actor_id a) ''approvals'' key ?payload None d = (q, d1)"
      by (rule prod.exhaust)
    from begin_frame [OF q] obtain rs where rs: "d1 = d\<lparr>db_idempotency := rs\<rparr>" by blast
    show ?thesis
    proof (cases q)
      case (Inl e)
      with begin_plain_error [OF q [unfolded Inl]] assms Inr True q show ?thesis
        by (intro refused) (auto simp: decide_approval_def)
    next
      case (Inr res)
      show ?thesis
      proof (cases "approval_replay res")
        case (Inl e)
        then have "\<not> persist_state e"
          by (auto simp: approval_replay_def replay_of_def replayed_error_def in_progress_def
              split: sum.splits option.splits if_splits)
        with assms \<open>require_idempotency_key header = Inr key\<close> True q Inr Inl show ?thesis
          by (intro refused) (auto simp: decide_approval_def)
      next
        case m: (Inr m)
        show ?thesis
        proof (cases m)
          case None
          then have "replay_of res = Inr None"
            using m by (auto simp: approval_replay_def split: sum.splits option.splits if_splits)
          with assms \<open>require_idempotency_key header = Inr key\<close> True q Inr m None rs show ?thesis
            by (intro run [of key rs]) (auto simp: decide_approval_def reserve_def)
        next
          case (Some body)
          with assms \<open>require_idempotency_key header = Inr key\<close> True q Inr m rs show ?thesis
            by (intro replayed) (auto simp: decide_approval_def)
        qed
      qed
    qed
  qed
qed


lemma decide_approval_evolves:
  assumes "decide_approval sha race ev a n b header cid d = (r, d')" and "db_ok d"
    and "\<And>e. r = Inl e \<Longrightarrow> persist_state e"
  shows "evolves d d'"
  using assms(1)
proof (cases rule: decide_approval_cases)
  case (refused e)
  with assms(3) show ?thesis by blast
next
  case (replayed body rs)
  then show ?thesis using records_evolve by simp
next
  case (run key rs)
  from run_decision_evolves [OF run(4) db_ok_records [OF assms(2)] assms(3)] records_evolve [of d rs]
  show ?thesis by (metis rtranclp_trans)
qed

section \<open>Repetition\<close>

lemma apply_decision_records:
  "apply_decision ev c i t d = Inr (i', d') \<Longrightarrow> db_idempotency d' = db_idempotency d"
  by (auto simp: apply_decision_def dest!: command_recorder.recorder_frame(1) split: sum.splits if_splits)

lemma decide_keeps_records:
  assumes "decide ev c d = (r, d')"
  shows "db_idempotency d' = db_idempotency d"
proof -
  have "db_idempotency d2 = db_idempotency d" if "decide_open ev c i d = (q, d2)" for i q d2
    using that by (auto simp: decide_open_def Let_def dest!: apply_decision_records split: sum.splits)
  moreover have "db_idempotency d2 = db_idempotency d" if "expire_on_decision ev c i d = (q, d2)" for i q d2
    using that by (auto simp: expire_on_decision_def dest!: command_recorder.recorder_frame(1) split: sum.splits)
  ultimately show ?thesis using assms by (auto simp: decide_def split: sum.splits if_splits)
qed

lemma expire_on_decision_expired:
  assumes "expire_on_decision ev c i d = (Inl e, d')" and "persist_state e" and "get_intent k d = Some i"
  shows "e = raise_error ApprovalExpiredError ''approval window elapsed'' \<and>
      get_intent k d' = Some (advance_intent i EXPIRED) \<and> db_decisions d' = db_decisions d"
proof -
  let ?a = "system_args ev ''approval-clock'' (ad_command_id c) ''approval_ttl_elapsed''"
  have "\<not> persist_state f" if "record_command_transition ?a i EXPIRED d = Inl f" for f
    using command_recorder.recorder_error [OF that] by (cases f) auto
  with assms(1,2) obtain i' where r: "record_command_transition ?a i EXPIRED d = Inr (i', d')"
    and e: "e = raise_error ApprovalExpiredError ''approval window elapsed''"
    by (auto simp: expire_on_decision_def flush_def split: sum.splits if_splits)
  from command_recorder.recorder_Inr [OF r] have "i' = advance_intent i EXPIRED" by blast
  with command_recorder.recorder_get [OF r, of k] command_recorder.recorder_frame(6) [OF r] assms(3) get_intent_SomeD [OF assms(3)]
  show ?thesis using e by simp
qed

text \<open>
  C35. A decision that finds the window elapsed leaves the intent EXPIRED with no decision recorded,
  and its outcome belongs to the key: repeating the request with the same key and body answers the
  same status, code and message and changes nothing, whatever the clock says then.
\<close>

theorem expired_decision_replayed:
  assumes "request (decide_approval sha NoConflict ev a n b header cid) d = (Inl e, d')"
    and "is_class ApprovalExpiredError e"
  shows "\<exists>i x y. get_intent (ac_tenant_id a, n, vb_revision b) d' = Some i \<and> ai_state i = EXPIRED \<and>
      db_decisions d' = db_decisions d \<and> e = Domain x \<and>
      de_status y = de_status x \<and> de_code y = de_code x \<and> de_message y = de_message x \<and>
      (\<forall>race ev' cid'. request (decide_approval sha race ev' a n b header cid') d' = (Inl (Domain y), d'))"
proof -
  have pe: "persist_state e" using assms(2) by (cases e) auto
  have plain: "\<not> is_class ApprovalExpiredError f" if "flush w = Inl f" for w f
    using that by (auto simp: flush_def split: if_splits)
  obtain q dd where q: "decide_approval sha NoConflict ev a n b header cid d = (q, dd)" by (rule prod.exhaust)
  from assms q plain have r: "decide_approval sha NoConflict ev a n b header cid d = (Inl e, d')" and fl: "flush d' = Inr ()"
    using pe by (auto simp: request_def run_transaction_def split: sum.splits if_splits)
  let ?payload = "(''intent_id'', JStr (uuid_str n)) # approval_body_dump b"
  let ?c = "decision_of_body a n b cid"
  from r show ?thesis
  proof (cases rule: decide_approval_cases)
    case (refused e')
    with pe show ?thesis by simp
  next
    case (replayed body rs)
    then show ?thesis by simp
  next
    case (run key rs)
    let ?d0 = "d\<lparr>db_idempotency := rs\<rparr>"
    let ?k = "record_key_of sha (ac_tenant_id a) (ac_actor_id a) ''approvals'' key"
    obtain q1 d1 where dec: "decide ev ?c ?d0 = (q1, d1)" by (rule prod.exhaust)
    have cp: "f \<noteq> e" if "idempotency_complete sha (ac_tenant_id a) (ac_actor_id a) ''approvals'' key st body d1 = (Inl f, d2)"
      for st body f d2 using complete_plain_error [OF that] pe by blast
    from run(4) dec cp assms(2) obtain x u where q1: "q1 = Inl e" and x: "e = Domain x"
      and com: "idempotency_complete sha (ac_tenant_id a) (ac_actor_id a) ''approvals'' key (de_status x) (error_record x) d1 = (Inr u, d')"
      by (auto simp: run_decision_def Let_def split: sum.splits prod.splits exn.splits if_splits)
    from decide_Inl_persist [OF dec [unfolded q1] pe] obtain i
      where i: "get_intent (ad_key ?c) ?d0 = Some i" and ex: "expire_on_decision ev ?c i ?d0 = (Inl e, d1)" by blast
    note fin = expire_on_decision_expired [OF ex pe i]
    from complete_frame [OF com] obtain rs' where d': "d' = d1\<lparr>db_idempotency := rs'\<rparr>" by blast
    have get: "get_intent (ac_tenant_id a, n, vb_revision b) d' = Some (advance_intent i EXPIRED)"
      using fin by (simp add: d' get_intent_def ad_key_def decision_of_body_def)
    have look: "lookup_record ?k d1 = lookup_record ?k ?d0"
      using decide_keeps_records [OF dec] by (rule lookup_record_cong)
    from com obtain row where row: "lookup_record ?k d1 = Inr (Some row)"
      and dd: "d' = d1\<lparr>db_idempotency := upd_where (\<lambda>r. ir_key r = ?k) (complete_record (de_status x) (error_record x)) (db_idempotency d1)\<rparr>"
      by (auto simp: idempotency_complete_def Let_def split: sum.splits option.splits)
    from reserve_fresh [OF run(3)] look row have hash: "ir_request_hash row = canonical_request_hash sha ?payload" by auto
    have found: "lookup_record ?k d' = Inr (Some (complete_record (de_status x) (error_record x) row))"
      unfolding dd by (rule lookup_record_complete [OF row])
    have xs: "de_status x = 409" using fin x by (simp add: raise_error_def make_error_def)
    obtain y where y: "replayed_error (error_record x) 409 = Domain y" "de_status y = 409" "de_code y = de_code x"
      "de_message y = de_message x"
      using fin x by (auto simp: replayed_error_def error_record_def raise_coded_def make_error_def dget_or_def raise_error_def)
    have "decide_approval sha race ev' a n b header cid' d' = (Inl (Domain y), d')" for race ev' cid'
      using run(1,2) found hash xs y(1)
      by (simp add: decide_approval_def idempotency_begin_def reservation_from_def approval_replay_def replay_of_def
          complete_record_def)
    moreover have "\<not> persist_state (Domain y)"
      using y(1) by (auto simp: replayed_error_def raise_coded_def make_error_def)
    ultimately have "request (decide_approval sha race ev' a n b header cid') d' = (Inl (Domain y), d')" for race ev' cid'
      by (simp add: request_def run_transaction_def)
    then show ?thesis
      using get fin x xs y d' by (intro exI [of _ "advance_intent i EXPIRED"] exI [of _ x] exI [of _ y]) simp
  qed
qed

text \<open>The pending intent of the scenario, with a digest of the length the route asks for.\<close>

definition sample_waiting :: db where
  "sample_waiting = sample_pending\<lparr>db_intents :=
     map (\<lambda>i. i\<lparr>ai_intent_digest := replicate 64 (CHR ''h'')\<rparr>) (db_intents sample_pending)\<rparr>"

definition sample_vote :: approval_body where
  "sample_vote =
     \<lparr>vb_revision = 1,
      vb_intent_digest = replicate 64 (CHR ''h''),
      vb_level = 1, vb_decision = APPROVE, vb_reason = ''ok'', vb_expected_state_version = 4, vb_obligations = []\<rparr>"

lemma expired_decision_replayed_witness:
  "\<exists>i d' y. get_intent (''t'', 7, 1) d' = Some i \<and> ai_state i = EXPIRED \<and> de_status y = 409 \<and>
     request (decide_approval wide_hash NoConflict (at_second 6000) (actor_named ''bob'') 7 sample_vote (Some ''k'') ''c2'') d'
       = (Inl (Domain y), d')"
proof -
  let ?run = "request (decide_approval wide_hash NoConflict (at_second 5000) (actor_named ''bob'') 7 sample_vote (Some ''k'') ''c1'') sample_waiting"
  have c: "(case fst ?run of Inl e \<Rightarrow> is_class ApprovalExpiredError e \<and>
      (case e of Domain x \<Rightarrow> de_status x = 409 | _ \<Rightarrow> False) | Inr b \<Rightarrow> False)" by code_simp
  obtain q d' where run: "?run = (q, d')" by (rule prod.exhaust)
  with c obtain e where e: "q = Inl e" "is_class ApprovalExpiredError e" "case e of Domain x \<Rightarrow> de_status x = 409 | _ \<Rightarrow> False"
    by (cases q) auto
  from expired_decision_replayed [OF run [unfolded e(1)] e(2)] e(3) show ?thesis
    by (auto simp: actor_named_def sample_vote_def) metis
qed

end
