(* ===== verification/System.thy ===== *)
theory System
  imports Worker_Safety Approval_Api Permit_Safety
begin

text \<open>
  The whole service as a transition system. A world is the database, the permits that worker
  processes hold, and the log of commands that reached a provider, in order. A step is one request of
  the API, one transaction of a worker, one send with its outcome, or the loss of permits and
  outcomes in a crash; steps of any number of workers and clients interleave freely, with any clocks,
  ids, bodies, provider answers and policy bundles. \<open>bookkeeping\<close> is any write to the outbox and the
  audit events that the database accepts. \<open>cl\<close> are the library functions that all
  processes share.
\<close>

record world =
  w_db :: db
  w_permits :: "execution_permit list"
  w_sent :: "(tool_name \<times> adapter_command) list"

definition initial_world :: "world \<Rightarrow> bool" where
  "initial_world w \<longleftrightarrow>
     db_intents (w_db w) = [] \<and> db_transitions (w_db w) = [] \<and> db_policy (w_db w) = [] \<and>
     db_decisions (w_db w) = [] \<and> constraints_ok (w_db w) \<and> w_permits w = [] \<and> w_sent w = []"

text \<open>A provider that logs the command and then answers \<open>answer\<close>.\<close>

definition logged_send ::
  "exn + adapter_result \<Rightarrow> tool_name \<Rightarrow> adapter_command \<Rightarrow> (tool_name \<times> adapter_command) list
     \<Rightarrow> (exn + adapter_result) \<times> (tool_name \<times> adapter_command) list" where
  "logged_send answer tool c log = (answer, log @ [(tool, c)])"

inductive step :: "creation_library \<Rightarrow> world \<Rightarrow> world \<Rightarrow> bool" for cl where
  create: "request (create_intent cl race ev a b header ids) (w_db w) = (r, d') \<Longrightarrow> step cl w (w\<lparr>w_db := d'\<rparr>)"
| create_agent: "request (create_agent_intent cl provider race ev a ab header ids) (w_db w) = (r, d') \<Longrightarrow>
    step cl w (w\<lparr>w_db := d'\<rparr>)"
| decide: "request (decide_approval (cl_sha cl) race ev a n vb header cid) (w_db w) = (r, d') \<Longrightarrow>
    step cl w (w\<lparr>w_db := d'\<rparr>)"
| cancel: "request (cancel_intent (cl_sha cl) race ev a n vc header cid) (w_db w) = (r, d') \<Longrightarrow>
    step cl w (w\<lparr>w_db := d'\<rparr>)"
| grant: "request (admin_grant_role (cl_sha cl) race dt ev a gb header cid) (w_db w) = (r, d') \<Longrightarrow>
    step cl w (w\<lparr>w_db := d'\<rparr>)"
| revoke: "request (admin_revoke_role (cl_sha cl) race ev a m rb header cid) (w_db w) = (r, d') \<Longrightarrow>
    step cl w (w\<lparr>w_db := d'\<rparr>)"
| register: "request (admin_register_bundle (cl_sha cl) race ev a bb header cid) (w_db w) = (r, d') \<Longrightarrow>
    step cl w (w\<lparr>w_db := d'\<rparr>)"
| activate: "request (admin_activate_bundle (cl_sha cl) race ev a v rb header cid) (w_db w) = (r, d') \<Longrightarrow>
    step cl w (w\<lparr>w_db := d'\<rparr>)"
| claim: "transaction (claim ev k wid c lease) (w_db w) = (q, d') \<Longrightarrow> step cl w (w\<lparr>w_db := d'\<rparr>)"
| fetch_failed: "transaction (fail_after_fetch_failure ev k wid c reason) (w_db w) = (f, d') \<Longrightarrow>
    step cl w (w\<lparr>w_db := d'\<rparr>)"
| refused: "transaction (revalidate (cl_sha cl) ev k wid c bd snap) (w_db w) = (q, d') \<Longrightarrow>
    (\<And>pm. q \<noteq> Inr (Inr pm)) \<Longrightarrow> step cl w (w\<lparr>w_db := d'\<rparr>)"
| permitted: "transaction (revalidate (cl_sha cl) ev k wid c bd snap) (w_db w) = (Inr (Inr pm), d') \<Longrightarrow>
    step cl w (w\<lparr>w_db := d', w_permits := pm # w_permits w\<rparr>)"
| execute: "pm \<in> set (w_permits w) \<Longrightarrow>
    worker_execute (logged_send answer) lc ev pm wid c (w_db w) (w_sent w) = (x, d', sent') \<Longrightarrow>
    step cl w (w\<lparr>w_db := d', w_permits := remove1 pm (w_permits w), w_sent := sent'\<rparr>)"
| crash_after_send: "pm \<in> set (w_permits w) \<Longrightarrow>
    worker_execute (logged_send answer) lc ev pm wid c (w_db w) (w_sent w) = (x, d', sent') \<Longrightarrow>
    step cl w (w\<lparr>w_permits := remove1 pm (w_permits w), w_sent := sent'\<rparr>)"
| crash: "step cl w (w\<lparr>w_permits := filter keep (w_permits w)\<rparr>)"
| recover: "transaction (recover_one ev c n' k) (w_db w) = (rec, d') \<Longrightarrow> step cl w (w\<lparr>w_db := d'\<rparr>)"
| reconcile: "transaction (reconcile lookup lc ev n' wid c) (w_db w) = (rr, d') \<Longrightarrow> step cl w (w\<lparr>w_db := d'\<rparr>)"
| bookkeeping: "same_core (w_db w) d' \<Longrightarrow> (constraints_ok (w_db w) \<longrightarrow> constraints_ok d') \<Longrightarrow> step cl w (w\<lparr>w_db := d'\<rparr>)"

abbreviation steps :: "creation_library \<Rightarrow> world \<Rightarrow> world \<Rightarrow> bool" where
  "steps cl \<equiv> (step cl)\<^sup>*\<^sup>*"

definition reachable :: "creation_library \<Rightarrow> world \<Rightarrow> bool" where
  "reachable cl w \<longleftrightarrow> (\<exists>w0. initial_world w0 \<and> steps cl w0 w)"

section \<open>Every step moves the database along the lifecycle\<close>

text \<open>What a request commits, also with an error that marks durable state.\<close>

definition commits_moves :: "(db \<Rightarrow> (exn + 'a) \<times> db) \<Rightarrow> bool" where
  "commits_moves h \<longleftrightarrow>
     (\<forall>d r d'. db_ok d \<longrightarrow> h d = (r, d') \<longrightarrow> (\<forall>e. r = Inl e \<longrightarrow> persist_state e) \<longrightarrow> evolves d d')"

lemma request_evolves:
  assumes "request h d = (r, d')" and "commits_moves h" and "db_ok d"
  shows "evolves d d'"
proof -
  obtain q d1 where q: "h d = (q, d1)" by (rule prod.exhaust)
  show ?thesis
  proof (cases "\<forall>e. q = Inl e \<longrightarrow> persist_state e")
    case True
    with assms(2,3) q have "evolves d d1" by (auto simp: commits_moves_def)
    moreover have "d' = d1 \<or> d' = d"
      using assms(1) q by (auto simp: request_def run_transaction_def split: sum.splits if_splits)
    ultimately show ?thesis by auto
  next
    case False
    then obtain e where "q = Inl e" "\<not> persist_state e" by blast
    with assms(1) q have "d' = d" by (auto simp: request_def run_transaction_def split: sum.splits)
    then show ?thesis by simp
  qed
qed

lemma reserve_plain_error:
  "reserve sha race a scope key payload d = (Inl e, d') \<Longrightarrow> \<not> persist_state e"
  by (auto simp: reserve_def replay_of_def in_progress_def dest: begin_plain_error
      split: prod.splits sum.splits option.splits if_splits)

lemma commits_moves_mutation:
  assumes "commits_moves command"
  shows "commits_moves (mutation sha race a scope header valid payload status command)"
  unfolding commits_moves_def
proof (intro allI impI)
  fix d r d'
  assume ok: "db_ok d" and m: "mutation sha race a scope header valid payload status command d = (r, d')"
    and pe: "\<forall>e. r = Inl e \<longrightarrow> persist_state e"
  have req: "\<not> persist_state f" if "require_idempotency_key header = Inl f" for f
    using that by (auto simp: require_idempotency_key_def Let_def split: if_splits)
  with m pe obtain key where k: "keyed sha race a scope key payload status command d = (r, d')"
    by (auto simp: mutation_def split: sum.splits if_splits)
  obtain q d1 where q: "reserve sha race a scope key payload d = (q, d1)" by (rule prod.exhaust)
  from reserve_frame [OF q] have one: "evolves d d1" using records_evolve by auto
  show "evolves d d'"
  proof (cases q)
    case (Inl e)
    with k q pe reserve_plain_error show ?thesis by (auto simp: keyed_def)
  next
    case (Inr mb)
    show ?thesis
    proof (cases mb)
      case (Some b)
      with k q Inr one show ?thesis by (simp add: keyed_def)
    next
      case None
      obtain z d2 where z: "command d1 = (z, d2)" by (rule prod.exhaust)
      have two: "evolves d1 d2" if "\<forall>e. z = Inl e \<longrightarrow> persist_state e"
        using assms evolves_db_ok [OF one ok] z that by (auto simp: commits_moves_def)
      show ?thesis
      proof (cases z)
        case (Inl e)
        with k q Inr None z have "r = Inl e" "d' = d2" by (simp_all add: keyed_def)
        with two pe Inl one show ?thesis by (auto intro: rtranclp_trans)
      next
        case body: (Inr body)
        obtain y d3 where y: "idempotency_complete sha (ac_tenant_id a) (ac_actor_id a) scope key status body d2 = (y, d3)"
          by (rule prod.exhaust)
        with k q Inr None z body have "y = Inl e \<longrightarrow> r = Inl e" "d' = d3" for e
          by (auto simp: keyed_def split: sum.splits)
        moreover from complete_frame [OF y] have "evolves d2 d3" using records_evolve by auto
        ultimately show ?thesis using one two body by (auto intro: rtranclp_trans)
      qed
    qed
  qed
qed

lemma query_plain_error:
  "flush x = Inl e \<Longrightarrow> \<not> persist_state e" "scalar_one xs = Inl e \<Longrightarrow> \<not> persist_state e"
  "scalar_one_or_none ys = Inl e \<Longrightarrow> \<not> persist_state e"
  by (auto simp: flush_def split: if_splits)
    (auto elim: scalar_one.elims scalar_one_or_none.elims)

lemma creation_plain_error:
  assumes "create_intent_from_proposal cl ev a tool ps rationale source ids d = (Inl e, d')"
  shows "\<not> persist_state e"
proof -
  have pa: "\<not> persist_state f" if "parse_tool_parameters co t qs = Inl f" for co t qs f
    using that by (auto simp: parse_tool_parameters_def split: option.splits)
  have ca: "\<not> persist_state f" if "canonicalize sh nf t x y v p = Inl f" for sh nf t x y v p f
    using that by (auto simp: canonicalize_def Let_def split: if_splits)
  have cr: "\<not> persist_state f" if "create lc ev c x = (Inl f, y)" for lc c x f y
    using that by (auto simp: create_def Let_def split: sum.splits dest: query_plain_error)
  have ga: "\<not> persist_state f" if "get_active t x = Inl f" for t x f
    using that by (auto simp: get_active_def split: sum.splits option.splits dest: query_plain_error)
  have ep: "\<not> persist_state f" if "evaluate_policy t rk q bn = Inl f" for t rk q bn f
    using that by (auto simp: evaluate_policy_def split: option.splits prod.splits)
  have re: "\<not> persist_state f" if "record_evaluation ev k rk p c co x = (Inl f, y)" for k rk p c co x f y
    using that
    by (auto simp: record_evaluation_def current_record_def Let_def split: sum.splits option.splits if_splits
        dest: query_plain_error)
  have ec: "\<not> persist_state f" if "evaluate_created ev ids c x = (Inl f, y)" for c x f y
    using that ga ep re
    by (auto simp: evaluate_created_def repository_get_def Let_def split: sum.splits option.splits prod.splits)
  show ?thesis
    using assms pa ca cr ec
    by (auto simp: create_intent_from_proposal_def Let_def split: sum.splits option.splits prod.splits)
qed

lemma commits_moves_creation:
  "commits_moves (create_intent_from_proposal cl ev a tool ps rationale source ids)"
  unfolding commits_moves_def
proof (intro allI impI)
  fix d r d'
  assume "create_intent_from_proposal cl ev a tool ps rationale source ids d = (r, d')"
    and "\<forall>e. r = Inl e \<longrightarrow> persist_state e"
  then show "evolves d d'"
    using creation_plain_error creation_evolves [of cl ev a tool ps rationale source ids d _ d'] by (cases r) auto
qed

lemma commits_moves_agent: "commits_moves (agent_command cl provider ev a b ids)"
  using commits_moves_creation unfolding commits_moves_def agent_command_def
  by (auto split: sum.splits)

lemma commits_moves_cancel: "commits_moves (cancel_command ev a n b cid)"
  unfolding commits_moves_def
proof (intro allI impI)
  fix d r d'
  assume "cancel_command ev a n b cid d = (r, d')" and "\<forall>e. r = Inl e \<longrightarrow> persist_state e"
  then show "evolves d d'"
    using cancel_command_evolves [of ev a n b cid d _ d'] cancel_plain_error
    by (cases r) (auto simp: cancel_command_def split: sum.splits prod.splits)
qed

lemma commits_moves_admin:
  "commits_moves (grant_command ev a gb cid)" "commits_moves (revoke_command ev a m rb cid)"
  "commits_moves (register_command ev a bb cid)" "commits_moves (activate_command ev a v rb cid)"
  unfolding commits_moves_def
  by (blast intro: admin_frame_evolves grant_command_frame revoke_command_frame register_command_frame
      activate_command_frame)+

lemma commits_moves_decide: "commits_moves (decide_approval sha race ev a n b header cid)"
  unfolding commits_moves_def using decide_approval_evolves by blast

lemmas commits_moves_routes =
  commits_moves_creation commits_moves_agent commits_moves_cancel commits_moves_admin

lemma step_evolves:
  assumes "step cl w w'" and "db_ok (w_db w)"
  shows "evolves (w_db w) (w_db w')"
  using assms
proof (induction rule: step.induct)
  case (execute pm w answer lc ev wid c x d' sent')
  then show ?case using worker_execute_evolves by simp
next
  case (bookkeeping w d')
  then show ?case using same_core_evolves by simp
qed (simp_all add: create_intent_def create_agent_intent_def cancel_intent_def admin_grant_role_def
    admin_revoke_role_def admin_register_bundle_def admin_activate_bundle_def,
    (blast intro: request_evolves commits_moves_mutation commits_moves_routes commits_moves_decide
      transaction_evolves claim_evolves fail_after_fetch_failure_evolves revalidate_evolves
      recover_one_evolves reconcile_evolves)+)

section \<open>Every step commits what the database accepts\<close>

lemma transaction_constraints:
  "transaction h d = (r, d') \<Longrightarrow> constraints_ok d \<Longrightarrow> constraints_ok d'"
  by (auto simp: transaction_def begin_block_def constraints_ok_def split: prod.splits sum.splits)

lemma request_constraints:
  assumes "request h d = (r, d')" and "constraints_ok d"
  shows "constraints_ok d'"
proof -
  have "\<not> persist_state f" if "flush x = Inl f" for x f
    using that by (auto simp: flush_def split: if_splits)
  with assms show ?thesis
    by (auto simp: request_def run_transaction_def constraints_ok_def split: prod.splits sum.splits if_splits)
qed

lemma worker_execute_constraints:
  assumes "worker_execute send lc ev pm w c d s = (r, d', s')" and "constraints_ok d"
  shows "constraints_ok d'"
  using assms(1) by (cases rule: worker_execute_cases) (use assms(2) transaction_constraints in blast)+

lemma step_constraints:
  assumes "step cl w w'" and "constraints_ok (w_db w)"
  shows "constraints_ok (w_db w')"
  using assms
proof (induction rule: step.induct)
  case (execute pm w answer lc ev wid c x d' sent')
  then show ?case using worker_execute_constraints by simp
qed (auto intro: request_constraints transaction_constraints)

end
