(* ===== verification/System_Run.thy ===== *)
theory System_Run
  imports System
begin

text \<open>
  A concrete run of the whole service, for the witnesses about reachable worlds: one request, one
  claim, one permit and one send, each a step of \<open>System\<close>.
\<close>

text \<open>One intent that the policy allows, from its request to the answer of the provider.\<close>

definition inspect_body :: create_intent_body where
  "inspect_body = \<lparr>cb_tool = ''inspect_service'',
     cb_parameters = [(''environment'', JStr ''staging''), (''service'', JStr ''web'')], cb_rationale = ''look''\<rparr>"

definition sample_service :: creation_library where
  "sample_service = sample_creation\<lparr>cl_sha := sample_sha\<rparr>"

definition inspect_snapshot :: target_snapshot where
  "inspect_snapshot = fst (demo_fetch INSPECT_SERVICE (cb_parameters inspect_body) empty_demo)"

definition sample_answer :: "exn + adapter_result" where
  "sample_answer = Inr \<lparr>ar_outcome = ''SUCCEEDED'', ar_provider_operation_id = Some ''p1'', ar_summary = [],
     ar_error_code = None\<rparr>"

definition served_request :: "(exn + dict) \<times> db" where
  "served_request =
     request (create_intent sample_service NoConflict (at_second 10) (actor_named ''alice'')
       inspect_body (Some ''k'') sample_ids) sample_empty"

definition served_requested :: db where
  "served_requested = snd served_request"

lemma served_request_code [code]:
  "served_request =
     (Inr [(''intent_id'', JStr ''00000000-0000-0000-0000-000000000009''), (''revision'', JInt 1),
     (''digest'', JStr ''h''), (''risk'', JObj [(''band'', JStr ''LOW''), (''factors'', JList []),
     (''rule_version'', JStr ''risk-rules-1'')]), (''policy'', JObj [(''disposition'', JStr
     ''ALLOW''), (''route'', JStr ''NONE''), (''policy_version'', JStr ''policy-1''),
     (''required_roles'', JList []), (''approval_ttl_seconds'', JNull)]), (''state'', JStr
     ''AUTO_APPROVED''), (''state_version'', JInt 4), (''approval_requirements'', JObj
     [(''required_roles'', JList []), (''expires_at'', JNull)]), (''links'', JObj [(''self'', JStr
     ''/v1/intents/00000000-0000-0000-0000-000000000009''), (''events'', JStr
     ''/v1/intents/00000000-0000-0000-0000-000000000009/events'')])],
     \<lparr>db_intents = [\<lparr>ai_tenant_id = ''t'', ai_intent_id = 9, ai_revision = 1, ai_tool
     = INSPECT_SERVICE, ai_canonical_parameters = [(''environment'', JStr ''staging''),
     (''service'', JStr ''web''), (''requested_fields'', JList [])], ai_intent_digest = ''h'',
     ai_requester_id = ''alice'', ai_requester_rationale = ''look'', ai_raw_proposal = Some
     [(''tool'', JStr ''inspect_service''), (''parameters'', JObj [(''environment'', JStr
     ''staging''), (''service'', JStr ''web'')])], ai_source = DIRECT, ai_state = AUTO_APPROVED,
     ai_state_version = 4, ai_approval_expires_at = None, ai_created_at = 10000000\<rparr>],
     db_transitions = [\<lparr>st_tenant_id = ''t'', st_intent_id = 9, st_intent_revision = 1,
     st_from_state = None, st_to_state = REQUESTED, st_actor_type = ''system'', st_actor_id =
     ''alice'', st_command_id = ''c9'', st_reason_code = ''intent_created'', st_metadata =
     [(''correlation_id'', JStr ''x9'')], st_sequence = 1, st_occurred_at = 10000000\<rparr>,
     \<lparr>st_tenant_id = ''t'', st_intent_id = 9, st_intent_revision = 1, st_from_state = Some
     REQUESTED, st_to_state = RISK_EVALUATED, st_actor_type = ''system'', st_actor_id =
     ''risk-policy-engine'', st_command_id = ''c9:risk'', st_reason_code = ''evaluation_recorded'',
     st_metadata = [(''correlation_id'', JStr ''x9'')], st_sequence = 2, st_occurred_at =
     10000000\<rparr>, \<lparr>st_tenant_id = ''t'', st_intent_id = 9, st_intent_revision = 1,
     st_from_state = Some RISK_EVALUATED, st_to_state = POLICY_EVALUATED, st_actor_type =
     ''system'', st_actor_id = ''risk-policy-engine'', st_command_id = ''c9:policy'', st_reason_code
     = ''evaluation_recorded'', st_metadata = [(''correlation_id'', JStr ''x9'')], st_sequence = 3,
     st_occurred_at = 10000000\<rparr>, \<lparr>st_tenant_id = ''t'', st_intent_id = 9,
     st_intent_revision = 1, st_from_state = Some POLICY_EVALUATED, st_to_state = AUTO_APPROVED,
     st_actor_type = ''system'', st_actor_id = ''risk-policy-engine'', st_command_id = ''c9:route'',
     st_reason_code = ''evaluation_recorded'', st_metadata = [(''correlation_id'', JStr ''x9'')],
     st_sequence = 4, st_occurred_at = 10000000\<rparr>], db_idempotency = [\<lparr>ir_tenant_id =
     ''t'', ir_actor_id = ''alice'', ir_scope = ''intents'', ir_key_hash = ''h'', ir_request_hash =
     ''h'', ir_status = COMPLETED, ir_response_status = Some 201, ir_response_body = Some
     [(''intent_id'', JStr ''00000000-0000-0000-0000-000000000009''), (''revision'', JInt 1),
     (''digest'', JStr ''h''), (''risk'', JObj [(''band'', JStr ''LOW''), (''factors'', JList []),
     (''rule_version'', JStr ''risk-rules-1'')]), (''policy'', JObj [(''disposition'', JStr
     ''ALLOW''), (''route'', JStr ''NONE''), (''policy_version'', JStr ''policy-1''),
     (''required_roles'', JList []), (''approval_ttl_seconds'', JNull)]), (''state'', JStr
     ''AUTO_APPROVED''), (''state_version'', JInt 4), (''approval_requirements'', JObj
     [(''required_roles'', JList []), (''expires_at'', JNull)]), (''links'', JObj [(''self'', JStr
     ''/v1/intents/00000000-0000-0000-0000-000000000009''), (''events'', JStr
     ''/v1/intents/00000000-0000-0000-0000-000000000009/events'')])], ir_expires_at = None\<rparr>],
     db_outbox = [\<lparr>ob_id = 3, ob_sequence = 1, ob_topic = ''intent.created'', ob_payload =
     [(''tenant_id'', JStr ''t''), (''intent_id'', JStr ''00000000-0000-0000-0000-000000000009''),
     (''revision'', JInt 1), (''tool'', JStr ''inspect_service''), (''intent_digest'', JStr ''h''),
     (''command_id'', JStr ''c9''), (''correlation_id'', JStr ''x9'')], ob_attempts = 0,
     ob_next_attempt_at = None, ob_published_at = None, ob_claimed_by = None, ob_claim_expires_at =
     None, ob_created_at = 10000000\<rparr>, \<lparr>ob_id = 4, ob_sequence = 2, ob_topic =
     ''risk.evaluated'', ob_payload = [(''tenant_id'', JStr ''t''), (''intent_id'', JStr
     ''00000000-0000-0000-0000-000000000009''), (''revision'', JInt 1), (''band'', JStr ''LOW''),
     (''factors'', JList []), (''rule_version'', JStr ''risk-rules-1''), (''command_id'', JStr
     ''c9:risk''), (''correlation_id'', JStr ''x9'')], ob_attempts = 0, ob_next_attempt_at = None,
     ob_published_at = None, ob_claimed_by = None, ob_claim_expires_at = None, ob_created_at =
     10000000\<rparr>, \<lparr>ob_id = 5, ob_sequence = 3, ob_topic = ''policy.evaluated'',
     ob_payload = [(''tenant_id'', JStr ''t''), (''intent_id'', JStr
     ''00000000-0000-0000-0000-000000000009''), (''revision'', JInt 1), (''disposition'', JStr
     ''ALLOW''), (''route'', JStr ''NONE''), (''policy_version'', JStr ''policy-1''),
     (''command_id'', JStr ''c9:policy''), (''correlation_id'', JStr ''x9'')], ob_attempts = 0,
     ob_next_attempt_at = None, ob_published_at = None, ob_claimed_by = None, ob_claim_expires_at =
     None, ob_created_at = 10000000\<rparr>, \<lparr>ob_id = 6, ob_sequence = 4, ob_topic =
     ''intent.transitioned'', ob_payload = [(''tenant_id'', JStr ''t''), (''intent_id'', JStr
     ''00000000-0000-0000-0000-000000000009''), (''revision'', JInt 1), (''from_state'', JStr
     ''REQUESTED''), (''to_state'', JStr ''RISK_EVALUATED''), (''command_id'', JStr ''c9''),
     (''correlation_id'', JStr ''x9'')], ob_attempts = 0, ob_next_attempt_at = None, ob_published_at
     = None, ob_claimed_by = None, ob_claim_expires_at = None, ob_created_at = 10000000\<rparr>,
     \<lparr>ob_id = 7, ob_sequence = 5, ob_topic = ''intent.transitioned'', ob_payload =
     [(''tenant_id'', JStr ''t''), (''intent_id'', JStr ''00000000-0000-0000-0000-000000000009''),
     (''revision'', JInt 1), (''from_state'', JStr ''RISK_EVALUATED''), (''to_state'', JStr
     ''POLICY_EVALUATED''), (''command_id'', JStr ''c9''), (''correlation_id'', JStr ''x9'')],
     ob_attempts = 0, ob_next_attempt_at = None, ob_published_at = None, ob_claimed_by = None,
     ob_claim_expires_at = None, ob_created_at = 10000000\<rparr>, \<lparr>ob_id = 8, ob_sequence =
     6, ob_topic = ''intent.transitioned'', ob_payload = [(''tenant_id'', JStr ''t''),
     (''intent_id'', JStr ''00000000-0000-0000-0000-000000000009''), (''revision'', JInt 1),
     (''from_state'', JStr ''POLICY_EVALUATED''), (''to_state'', JStr ''AUTO_APPROVED''),
     (''command_id'', JStr ''c9''), (''correlation_id'', JStr ''x9'')], ob_attempts = 0,
     ob_next_attempt_at = None, ob_published_at = None, ob_claimed_by = None, ob_claim_expires_at =
     None, ob_created_at = 10000000\<rparr>], db_audit = [], db_risk = [\<lparr>rr_tenant_id =
     ''t'', rr_intent_id = 9, rr_intent_revision = 1, rr_generation = 1, rr_band = LOW, rr_factors =
     [], rr_rule_version = ''risk-rules-1'', rr_evaluated_context = [(''environment'', JStr
     ''staging''), (''degraded_dependencies'', JBool False), (''policy_flags'', JList [])]\<rparr>],
     db_policy = [\<lparr>pr_tenant_id = ''t'', pr_intent_id = 9, pr_intent_revision = 1,
     pr_generation = 1, pr_disposition = ALLOW, pr_route = NONE, pr_required_roles = [],
     pr_required_scopes = [''ops:read''], pr_obligations = [], pr_reason_codes = [],
     pr_policy_version = ''policy-1'', pr_approval_ttl_seconds = None\<rparr>], db_bundles =
     [\<lparr>br_id = 2, br_tenant_id = ''t'', br_version = ''policy-1'', br_rules = seed_rules,
     br_is_active = True, br_created_at = 0\<rparr>], db_decisions = [], db_roles = [\<lparr>ra_id =
     0, ra_tenant_id = ''t'', ra_principal_id = ''bob'', ra_role = ''approver'', ra_environments =
     None, ra_scopes = Some [''ops:write''], ra_environments_key = [], ra_valid_from = 0,
     ra_valid_until = None, ra_revoked_at = None, ra_granted_by = ''root''\<rparr>, \<lparr>ra_id =
     1, ra_tenant_id = ''t'', ra_principal_id = ''root'', ra_role = ''administrator'',
     ra_environments = None, ra_scopes = Some [], ra_environments_key = [], ra_valid_from = 0,
     ra_valid_until = None, ra_revoked_at = None, ra_granted_by = ''root''\<rparr>], db_executions =
     [], db_next_id = 9, db_next_sequence = 7\<rparr>)"
  by code_simp

text \<open>The request repeated with its key.\<close>

lemma create_intent_idempotent_witness:
  "\<exists>body. served_request = (Inr body, served_requested) \<and>
     request (create_intent sample_service NoConflict (at_second 99) (actor_named ''alice'')
       inspect_body (Some ''k'') (sample_ids\<lparr>rq_intent_id := 10\<rparr>)) served_requested = (Inr body, served_requested)"
proof -
  obtain body where run: "served_request = (Inr body, served_requested)"
    unfolding served_requested_def served_request_code by simp
  from create_intent_idempotent [OF run [unfolded served_request_def]] run show ?thesis by metis
qed

definition served_permitted :: "(exn + (revalidation_failure + execution_permit)) \<times> db" where
  "served_permitted =
     transaction (revalidate (cl_sha sample_service) (at_second 21) (''t'', 9, 1) ''worker'' ''c2'' seed_bundle inspect_snapshot)
       (snd (transaction (claim (at_second 20) (''t'', 9, 1) ''worker'' ''c2'' 60) served_requested))"

lemma served_permitted_code [code]:
  "served_permitted =
     (Inr (Inr \<lparr>pm_tenant_id = ''t'', pm_intent_id = 9, pm_revision = 1, pm_intent_digest =
     ''h'', pm_tool = INSPECT_SERVICE, pm_typed_parameters = [(''environment'', JStr ''staging''),
     (''service'', JStr ''web''), (''requested_fields'', JList [])], pm_operation_key =
     ''t:00000000-0000-0000-0000-000000000009:1'', pm_precondition_token = ''h'',
     pm_resource_version = Some ''v1'', pm_execution_id = 9, pm_issued_at = 21000000\<rparr>),
     \<lparr>db_intents = [\<lparr>ai_tenant_id = ''t'', ai_intent_id = 9, ai_revision = 1, ai_tool
     = INSPECT_SERVICE, ai_canonical_parameters = [(''environment'', JStr ''staging''),
     (''service'', JStr ''web''), (''requested_fields'', JList [])], ai_intent_digest = ''h'',
     ai_requester_id = ''alice'', ai_requester_rationale = ''look'', ai_raw_proposal = Some
     [(''tool'', JStr ''inspect_service''), (''parameters'', JObj [(''environment'', JStr
     ''staging''), (''service'', JStr ''web'')])], ai_source = DIRECT, ai_state = EXECUTING,
     ai_state_version = 6, ai_approval_expires_at = None, ai_created_at = 10000000\<rparr>],
     db_transitions = [\<lparr>st_tenant_id = ''t'', st_intent_id = 9, st_intent_revision = 1,
     st_from_state = None, st_to_state = REQUESTED, st_actor_type = ''system'', st_actor_id =
     ''alice'', st_command_id = ''c9'', st_reason_code = ''intent_created'', st_metadata =
     [(''correlation_id'', JStr ''x9'')], st_sequence = 1, st_occurred_at = 10000000\<rparr>,
     \<lparr>st_tenant_id = ''t'', st_intent_id = 9, st_intent_revision = 1, st_from_state = Some
     REQUESTED, st_to_state = RISK_EVALUATED, st_actor_type = ''system'', st_actor_id =
     ''risk-policy-engine'', st_command_id = ''c9:risk'', st_reason_code = ''evaluation_recorded'',
     st_metadata = [(''correlation_id'', JStr ''x9'')], st_sequence = 2, st_occurred_at =
     10000000\<rparr>, \<lparr>st_tenant_id = ''t'', st_intent_id = 9, st_intent_revision = 1,
     st_from_state = Some RISK_EVALUATED, st_to_state = POLICY_EVALUATED, st_actor_type =
     ''system'', st_actor_id = ''risk-policy-engine'', st_command_id = ''c9:policy'', st_reason_code
     = ''evaluation_recorded'', st_metadata = [(''correlation_id'', JStr ''x9'')], st_sequence = 3,
     st_occurred_at = 10000000\<rparr>, \<lparr>st_tenant_id = ''t'', st_intent_id = 9,
     st_intent_revision = 1, st_from_state = Some POLICY_EVALUATED, st_to_state = AUTO_APPROVED,
     st_actor_type = ''system'', st_actor_id = ''risk-policy-engine'', st_command_id = ''c9:route'',
     st_reason_code = ''evaluation_recorded'', st_metadata = [(''correlation_id'', JStr ''x9'')],
     st_sequence = 4, st_occurred_at = 10000000\<rparr>, \<lparr>st_tenant_id = ''t'', st_intent_id
     = 9, st_intent_revision = 1, st_from_state = Some AUTO_APPROVED, st_to_state = REVALIDATING,
     st_actor_type = ''system'', st_actor_id = ''worker'', st_command_id = ''c2:revalidating:5'',
     st_reason_code = ''execution_claimed'', st_metadata = [], st_sequence = 5, st_occurred_at =
     20000000\<rparr>, \<lparr>st_tenant_id = ''t'', st_intent_id = 9, st_intent_revision = 1,
     st_from_state = Some REVALIDATING, st_to_state = EXECUTING, st_actor_type = ''system'',
     st_actor_id = ''worker'', st_command_id = ''c2:executing:6'', st_reason_code =
     ''revalidation_passed'', st_metadata = [], st_sequence = 6, st_occurred_at = 21000000\<rparr>],
     db_idempotency = [\<lparr>ir_tenant_id = ''t'', ir_actor_id = ''alice'', ir_scope =
     ''intents'', ir_key_hash = ''h'', ir_request_hash = ''h'', ir_status = COMPLETED,
     ir_response_status = Some 201, ir_response_body = Some [(''intent_id'', JStr
     ''00000000-0000-0000-0000-000000000009''), (''revision'', JInt 1), (''digest'', JStr ''h''),
     (''risk'', JObj [(''band'', JStr ''LOW''), (''factors'', JList []), (''rule_version'', JStr
     ''risk-rules-1'')]), (''policy'', JObj [(''disposition'', JStr ''ALLOW''), (''route'', JStr
     ''NONE''), (''policy_version'', JStr ''policy-1''), (''required_roles'', JList []),
     (''approval_ttl_seconds'', JNull)]), (''state'', JStr ''AUTO_APPROVED''), (''state_version'',
     JInt 4), (''approval_requirements'', JObj [(''required_roles'', JList []), (''expires_at'',
     JNull)]), (''links'', JObj [(''self'', JStr
     ''/v1/intents/00000000-0000-0000-0000-000000000009''), (''events'', JStr
     ''/v1/intents/00000000-0000-0000-0000-000000000009/events'')])], ir_expires_at = None\<rparr>],
     db_outbox = [\<lparr>ob_id = 3, ob_sequence = 1, ob_topic = ''intent.created'', ob_payload =
     [(''tenant_id'', JStr ''t''), (''intent_id'', JStr ''00000000-0000-0000-0000-000000000009''),
     (''revision'', JInt 1), (''tool'', JStr ''inspect_service''), (''intent_digest'', JStr ''h''),
     (''command_id'', JStr ''c9''), (''correlation_id'', JStr ''x9'')], ob_attempts = 0,
     ob_next_attempt_at = None, ob_published_at = None, ob_claimed_by = None, ob_claim_expires_at =
     None, ob_created_at = 10000000\<rparr>, \<lparr>ob_id = 4, ob_sequence = 2, ob_topic =
     ''risk.evaluated'', ob_payload = [(''tenant_id'', JStr ''t''), (''intent_id'', JStr
     ''00000000-0000-0000-0000-000000000009''), (''revision'', JInt 1), (''band'', JStr ''LOW''),
     (''factors'', JList []), (''rule_version'', JStr ''risk-rules-1''), (''command_id'', JStr
     ''c9:risk''), (''correlation_id'', JStr ''x9'')], ob_attempts = 0, ob_next_attempt_at = None,
     ob_published_at = None, ob_claimed_by = None, ob_claim_expires_at = None, ob_created_at =
     10000000\<rparr>, \<lparr>ob_id = 5, ob_sequence = 3, ob_topic = ''policy.evaluated'',
     ob_payload = [(''tenant_id'', JStr ''t''), (''intent_id'', JStr
     ''00000000-0000-0000-0000-000000000009''), (''revision'', JInt 1), (''disposition'', JStr
     ''ALLOW''), (''route'', JStr ''NONE''), (''policy_version'', JStr ''policy-1''),
     (''command_id'', JStr ''c9:policy''), (''correlation_id'', JStr ''x9'')], ob_attempts = 0,
     ob_next_attempt_at = None, ob_published_at = None, ob_claimed_by = None, ob_claim_expires_at =
     None, ob_created_at = 10000000\<rparr>, \<lparr>ob_id = 6, ob_sequence = 4, ob_topic =
     ''intent.transitioned'', ob_payload = [(''tenant_id'', JStr ''t''), (''intent_id'', JStr
     ''00000000-0000-0000-0000-000000000009''), (''revision'', JInt 1), (''from_state'', JStr
     ''REQUESTED''), (''to_state'', JStr ''RISK_EVALUATED''), (''command_id'', JStr ''c9''),
     (''correlation_id'', JStr ''x9'')], ob_attempts = 0, ob_next_attempt_at = None, ob_published_at
     = None, ob_claimed_by = None, ob_claim_expires_at = None, ob_created_at = 10000000\<rparr>,
     \<lparr>ob_id = 7, ob_sequence = 5, ob_topic = ''intent.transitioned'', ob_payload =
     [(''tenant_id'', JStr ''t''), (''intent_id'', JStr ''00000000-0000-0000-0000-000000000009''),
     (''revision'', JInt 1), (''from_state'', JStr ''RISK_EVALUATED''), (''to_state'', JStr
     ''POLICY_EVALUATED''), (''command_id'', JStr ''c9''), (''correlation_id'', JStr ''x9'')],
     ob_attempts = 0, ob_next_attempt_at = None, ob_published_at = None, ob_claimed_by = None,
     ob_claim_expires_at = None, ob_created_at = 10000000\<rparr>, \<lparr>ob_id = 8, ob_sequence =
     6, ob_topic = ''intent.transitioned'', ob_payload = [(''tenant_id'', JStr ''t''),
     (''intent_id'', JStr ''00000000-0000-0000-0000-000000000009''), (''revision'', JInt 1),
     (''from_state'', JStr ''POLICY_EVALUATED''), (''to_state'', JStr ''AUTO_APPROVED''),
     (''command_id'', JStr ''c9''), (''correlation_id'', JStr ''x9'')], ob_attempts = 0,
     ob_next_attempt_at = None, ob_published_at = None, ob_claimed_by = None, ob_claim_expires_at =
     None, ob_created_at = 10000000\<rparr>, \<lparr>ob_id = 10, ob_sequence = 7, ob_topic =
     ''intent.transitioned'', ob_payload = [(''tenant_id'', JStr ''t''), (''intent_id'', JStr
     ''00000000-0000-0000-0000-000000000009''), (''revision'', JInt 1), (''from_state'', JStr
     ''AUTO_APPROVED''), (''to_state'', JStr ''REVALIDATING''), (''reason_code'', JStr
     ''execution_claimed''), (''actor_id'', JStr ''worker''), (''command_id'', JStr ''c2'')],
     ob_attempts = 0, ob_next_attempt_at = None, ob_published_at = None, ob_claimed_by = None,
     ob_claim_expires_at = None, ob_created_at = 20000000\<rparr>, \<lparr>ob_id = 11, ob_sequence =
     8, ob_topic = ''intent.transitioned'', ob_payload = [(''tenant_id'', JStr ''t''),
     (''intent_id'', JStr ''00000000-0000-0000-0000-000000000009''), (''revision'', JInt 1),
     (''from_state'', JStr ''REVALIDATING''), (''to_state'', JStr ''EXECUTING''), (''reason_code'',
     JStr ''revalidation_passed''), (''actor_id'', JStr ''worker''), (''command_id'', JStr ''c2'')],
     ob_attempts = 0, ob_next_attempt_at = None, ob_published_at = None, ob_claimed_by = None,
     ob_claim_expires_at = None, ob_created_at = 21000000\<rparr>], db_audit = [], db_risk =
     [\<lparr>rr_tenant_id = ''t'', rr_intent_id = 9, rr_intent_revision = 1, rr_generation = 1,
     rr_band = LOW, rr_factors = [], rr_rule_version = ''risk-rules-1'', rr_evaluated_context =
     [(''environment'', JStr ''staging''), (''degraded_dependencies'', JBool False),
     (''policy_flags'', JList [])]\<rparr>], db_policy = [\<lparr>pr_tenant_id = ''t'', pr_intent_id
     = 9, pr_intent_revision = 1, pr_generation = 1, pr_disposition = ALLOW, pr_route = NONE,
     pr_required_roles = [], pr_required_scopes = [''ops:read''], pr_obligations = [],
     pr_reason_codes = [], pr_policy_version = ''policy-1'', pr_approval_ttl_seconds =
     None\<rparr>], db_bundles = [\<lparr>br_id = 2, br_tenant_id = ''t'', br_version =
     ''policy-1'', br_rules = seed_rules, br_is_active = True, br_created_at = 0\<rparr>],
     db_decisions = [], db_roles = [\<lparr>ra_id = 0, ra_tenant_id = ''t'', ra_principal_id =
     ''bob'', ra_role = ''approver'', ra_environments = None, ra_scopes = Some [''ops:write''],
     ra_environments_key = [], ra_valid_from = 0, ra_valid_until = None, ra_revoked_at = None,
     ra_granted_by = ''root''\<rparr>, \<lparr>ra_id = 1, ra_tenant_id = ''t'', ra_principal_id =
     ''root'', ra_role = ''administrator'', ra_environments = None, ra_scopes = Some [],
     ra_environments_key = [], ra_valid_from = 0, ra_valid_until = None, ra_revoked_at = None,
     ra_granted_by = ''root''\<rparr>], db_executions = [\<lparr>xr_id = 9, xr_tenant_id = ''t'',
     xr_intent_id = 9, xr_intent_revision = 1, xr_operation_key =
     ''t:00000000-0000-0000-0000-000000000009:1'', xr_attempt = 1, xr_status = EX_EXECUTING,
     xr_provider_operation_id = None, xr_precondition_snapshot = Some [(''identity'', JObj
     [(''service'', JStr ''web'')]), (''health'', JStr ''healthy''), (''facts'', JObj []),
     (''resource_version'', JStr ''v1'')], xr_claim_expires_at = Some 80000000, xr_started_at = Some
     21000000, xr_finished_at = None, xr_error_code = None, xr_result_summary = None,
     xr_reconcile_attempts = 0, xr_next_reconcile_at = None\<rparr>], db_next_id = 12,
     db_next_sequence = 9\<rparr>)"
  by code_simp

definition served_world :: "world option" where
  "served_world =
     (case fst served_permitted of
        Inr (Inr pm) \<Rightarrow>
          (let (x, d, sent) = worker_execute (logged_send sample_answer) id (at_second 22) pm ''worker'' ''c2''
                 (snd served_permitted) []
           in Some \<lparr>w_db = d, w_permits = [], w_sent = sent\<rparr>)
      | _ \<Rightarrow> None)"

lemma served_world_run:
  assumes "served_world = Some w"
  shows "reachable sample_service \<lparr>w_db = served_requested, w_permits = [], w_sent = []\<rparr> \<and>
    steps sample_service \<lparr>w_db = served_requested, w_permits = [], w_sent = []\<rparr> w"
proof -
  let ?w0 = "\<lparr>w_db = sample_empty, w_permits = [], w_sent = []\<rparr>"
  let ?d1 = served_requested
  have s1: "request (create_intent sample_service NoConflict (at_second 10) (actor_named ''alice'')
        inspect_body (Some ''k'') sample_ids) sample_empty = (fst served_request, ?d1)"
    by (simp add: served_requested_def served_request_def)
  obtain q d2 where s2: "transaction (claim (at_second 20) (''t'', 9, 1) ''worker'' ''c2'' 60) ?d1 = (q, d2)"
    by (rule prod.exhaust)
  from assms obtain pm d3 x d4 sent
    where s3: "transaction (revalidate (cl_sha sample_service) (at_second 21) (''t'', 9, 1) ''worker'' ''c2''
        seed_bundle inspect_snapshot) d2 = (Inr (Inr pm), d3)"
      and s4: "worker_execute (logged_send sample_answer) id (at_second 22) pm ''worker'' ''c2'' d3 [] = (x, d4, sent)"
      and w: "w = \<lparr>w_db = d4, w_permits = [], w_sent = sent\<rparr>"
    by (cases served_permitted) (auto simp: served_world_def served_permitted_def s2 split: prod.splits sum.splits)
  have "constraints_ok sample_empty" unfolding constraints_ok_def by code_simp
  then have i: "initial_world ?w0" by (simp add: initial_world_def sample_empty_def empty_db_def)
  have "step sample_service ?w0 (?w0\<lparr>w_db := ?d1\<rparr>)" by (rule step.create) (use s1 in simp)
  with i have "reachable sample_service (?w0\<lparr>w_db := ?d1\<rparr>)" unfolding reachable_def by blast
  moreover have "step sample_service (?w0\<lparr>w_db := ?d1\<rparr>) (?w0\<lparr>w_db := ?d1\<rparr>\<lparr>w_db := d2\<rparr>)"
    by (rule step.claim) (use s2 in simp)
  moreover have "step sample_service (?w0\<lparr>w_db := d2\<rparr>) (?w0\<lparr>w_db := d2\<rparr>\<lparr>w_db := d3, w_permits := pm # []\<rparr>)"
    using step.permitted [of sample_service _ _ _ _ _ _ "?w0\<lparr>w_db := d2\<rparr>"] s3 by simp
  moreover have "step sample_service (?w0\<lparr>w_db := d3, w_permits := [pm]\<rparr>) w"
    using step.execute [of pm "?w0\<lparr>w_db := d3, w_permits := [pm]\<rparr>"] s4 w by simp
  ultimately show ?thesis by (simp add: converse_rtranclp_into_rtranclp)
qed

lemma served_world_reachable: "served_world = Some w \<Longrightarrow> reachable sample_service w"
  using served_world_run unfolding reachable_def by (blast intro: rtranclp_trans)

lemma served_world_sends:
  "case served_world of None \<Rightarrow> False | Some w \<Rightarrow> map fst (w_sent w) = [INSPECT_SERVICE]"
  by code_simp

lemma served_worldE:
  obtains w :: world and t c where "reachable sample_service w" and "w_sent w = [(t, c)]" and "t = INSPECT_SERVICE"
proof -
  from served_world_sends obtain w :: world where w: "served_world = Some w" "map fst (w_sent w) = [INSPECT_SERVICE]"
    by (auto split: option.splits)
  then obtain c where "w_sent w = [(INSPECT_SERVICE, c)]" by (auto simp: map_eq_Cons_conv)
  with that served_world_reachable [OF w(1)] show ?thesis by blast
qed


end
