(* ===== verification/History_Growth.thy ===== *)
theory History_Growth
  imports History
begin

text \<open>
  What a sequence of moves keeps of each intent: its identity, its history as a prefix, and the order
  of the lifecycle. From this follows what a visited state tells about the past and about the
  current state.
\<close>

section \<open>Histories only grow\<close>

lemma moves_append: "moves d d' \<Longrightarrow> \<exists>us. db_transitions d' = db_transitions d @ us"
  by (induction rule: moves.induct) auto

lemma moves_decisions: "moves d d' \<Longrightarrow> set (db_decisions d) \<subseteq> set (db_decisions d')"
  by (induction rule: moves.induct) auto

lemma get_intent_mem: "get_intent k d = Some i \<Longrightarrow> i \<in> set (db_intents d) \<and> ai_key i = k"
  by (auto dest: get_intent_SomeD)

lemma get_intent_unique:
  "distinct (map ai_key (db_intents d)) \<Longrightarrow> i \<in> set (db_intents d) \<Longrightarrow> get_intent (ai_key i) d = Some i"
proof -
  assume d: "distinct (map ai_key (db_intents d))" and i: "i \<in> set (db_intents d)"
  then obtain j where j: "get_intent (ai_key i) d = Some j"
    unfolding get_intent_def by (cases "find (\<lambda>r. ai_key r = ai_key i) (db_intents d)") (auto simp: find_None_iff)
  with d i show ?thesis by (metis get_intent_mem distinct_map inj_onD)
qed

lemma upd_where_identity:
  assumes "distinct (map ai_key is)" and "r \<in> set is" and "i \<in> set is" and "same_identity j r"
  shows "\<exists>j' \<in> set (upd_where (\<lambda>a. ai_key a = ai_key r) (\<lambda>_. j) is). same_identity j' i"
proof (cases "ai_key i = ai_key r")
  case True
  with assms(1-3) have "i = r" by (auto simp: distinct_map dest: inj_onD)
  with assms show ?thesis by (intro bexI [of _ j]) (auto simp: set_upd_where)
next
  case False
  with assms show ?thesis by (intro bexI [of _ i]) (auto simp: set_upd_where)
qed

lemma moves_intent:
  assumes "moves d d'" and "db_ok d" and "get_intent k d = Some i"
  shows "\<exists>j. get_intent k d' = Some j \<and> same_identity j i"
proof -
  have i: "i \<in> set (db_intents d)" "ai_key i = k" using get_intent_mem [OF assms(3)] by auto
  have d': "distinct (map ai_key (db_intents d'))" using moves_db_ok [OF assms(1,2)] by (simp add: db_ok_def)
  have d: "distinct (map ai_key (db_intents d))" using assms(2) by (simp add: db_ok_def)
  from assms(1) i(1) d have "\<exists>j \<in> set (db_intents d'). same_identity j i"
    by (induction rule: moves.induct) (auto intro: upd_where_identity bexI [of _ i])
  then obtain j where j: "j \<in> set (db_intents d')" "same_identity j i" by blast
  then have "ai_key j = k" using i(2) by (simp add: same_identity_def)
  with get_intent_unique [OF d' j(1)] j(2) show ?thesis by simp
qed

lemma same_identity_trans: "same_identity a b \<Longrightarrow> same_identity b c \<Longrightarrow> same_identity a c"
  by (simp add: same_identity_def)

lemma evolves_append: "evolves d d' \<Longrightarrow> \<exists>us. db_transitions d' = db_transitions d @ us"
proof (induction rule: rtranclp_induct)
  case (step d1 d2)
  with moves_append [OF step.hyps(2)] show ?case by auto
qed simp

lemma evolves_intent:
  assumes "evolves d d'" and "db_ok d" and "get_intent k d = Some i"
  shows "\<exists>j. get_intent k d' = Some j \<and> same_identity j i"
  using assms(1)
proof (induction rule: rtranclp_induct)
  case base
  with assms(3) show ?case by simp
next
  case (step d1 d2)
  from step.IH obtain j where j: "get_intent k d1 = Some j" "same_identity j i" by blast
  from moves_intent [OF step.hyps(2) evolves_db_ok [OF step.hyps(1) assms(2)] j(1)] obtain j'
    where "get_intent k d2 = Some j'" "same_identity j' j" by blast
  with same_identity_trans [OF _ j(2)] show ?case by blast
qed

lemma evolves_visited:
  assumes "evolves d d'" and "ai_key j = ai_key i"
  shows "visited d i \<subseteq> visited d' j"
  using evolves_append [OF assms(1)] assms(2) by (auto simp: visited_def history_def)

lemma get_intent_ok: "db_ok d \<Longrightarrow> get_intent k d = Some i \<Longrightarrow> intent_ok d i"
  by (drule get_intent_mem) (simp add: db_ok_def)

lemma valid_history_extends:
  "valid_history g u \<Longrightarrow> g = h @ ts \<Longrightarrow> valid_history h s \<Longrightarrow> lifecycle_path s (map st_to_state ts) u"
proof (induction arbitrary: ts rule: valid_history.induct)
  case (created t)
  then have "h = [t]" "ts = []" using valid_history_last [OF created.prems(2)] by (auto simp: Cons_eq_append_conv)
  with created show ?case using valid_history_last [OF created.prems(2)] by (auto intro: lifecycle_path.here)
next
  case (recorded g u u' t)
  show ?case
  proof (cases ts rule: rev_cases)
    case Nil
    with recorded.prems recorded.hyps(4) have "s = u'" using valid_history_last [OF recorded.prems(2)] by auto
    with Nil show ?thesis by (auto intro: lifecycle_path.here)
  next
    case (snoc us t')
    with recorded.prems(1) have "g = h @ us" "t' = t" by auto
    with recorded.IH [OF _ recorded.prems(2)] recorded.hyps(2,4) snoc show ?thesis
      by (auto intro: lifecycle_path_snoc)
  qed
qed

text \<open>The refinement: whatever happens to the database, each intent runs along the lifecycle graph.\<close>

lemma evolves_lifecycle:
  assumes "evolves d d'" and "db_ok d" and "get_intent k d = Some i"
  shows "\<exists>j ts. get_intent k d' = Some j \<and> same_identity j i \<and> history d' k = history d k @ ts \<and>
     lifecycle_path (ai_state i) (map st_to_state ts) (ai_state j) \<and>
     ai_state_version j = ai_state_version i + int (length ts)"
proof -
  obtain j where j: "get_intent k d' = Some j" "same_identity j i" using evolves_intent [OF assms] by blast
  obtain us where us: "db_transitions d' = db_transitions d @ us" using evolves_append [OF assms(1)] by blast
  let ?ts = "filter (\<lambda>t. st_key t = k) us"
  have h: "history d' k = history d k @ ?ts" by (rule history_snoc [OF us])
  have k: "ai_key i = k" "ai_key j = k" using get_intent_mem [OF assms(3)] get_intent_mem [OF j(1)] by auto
  have oi: "intent_ok d i" and oj: "intent_ok d' j"
    using get_intent_ok [OF assms(2,3)] get_intent_ok [OF evolves_db_ok [OF assms(1,2)] j(1)] by auto
  have "lifecycle_path (ai_state i) (map st_to_state ?ts) (ai_state j)"
    using oi oj h k by (intro valid_history_extends [of "history d' k" _ "history d k"]) (auto simp: intent_ok_def)
  moreover have "ai_state_version j = ai_state_version i + int (length ?ts)"
    using oi oj h k by (auto simp: intent_ok_def)
  ultimately show ?thesis using j h by blast
qed

lemma terminal_path: "lifecycle_path s ts u \<Longrightarrow> is_terminal s \<Longrightarrow> ts = [] \<and> u = s"
  by (erule lifecycle_path.cases) (auto simp: is_terminal_def is_legal_def)

section \<open>What a visited state tells\<close>

lemma valid_history_visited_rank:
  "valid_history h s \<Longrightarrow> t \<in> set h \<Longrightarrow> st_to_state t = s \<or> state_rank (st_to_state t) < state_rank s"
proof (induction rule: valid_history.induct)
  case (recorded h s s' t')
  from is_legal_rank [OF recorded.hyps(2)] recorded.IH recorded.prems recorded.hyps(4) show ?case
    by (auto intro: order.strict_trans)
qed simp

lemma valid_history_predecessor:
  "valid_history h s \<Longrightarrow> t \<in> set h \<Longrightarrow> st_to_state t \<noteq> REQUESTED \<Longrightarrow>
    \<exists>u \<in> set h. is_legal (st_to_state u) (st_to_state t)"
proof (induction rule: valid_history.induct)
  case (recorded h s s' t')
  show ?case
  proof (cases "t \<in> set h")
    case True
    with recorded.IH recorded.prems(2) show ?thesis by auto
  next
    case False
    then have t: "t = t'" using recorded.prems(1) by simp
    obtain u where "u \<in> set h" "st_to_state u = s"
      using valid_history_last [OF recorded.hyps(1)] last_in_set by blast
    with recorded.hyps(2,4) t show ?thesis by auto
  qed
qed simp

lemma visited_rank:
  assumes "intent_ok d i" and "s \<in> visited d i"
  shows "s = ai_state i \<or> state_rank s < state_rank (ai_state i)"
  using assms valid_history_visited_rank unfolding intent_ok_def visited_def by blast

lemma visited_predecessor:
  assumes "intent_ok d i" and "s \<in> visited d i" and "s \<noteq> REQUESTED"
  shows "\<exists>u \<in> visited d i. is_legal u s"
  using assms valid_history_predecessor unfolding intent_ok_def visited_def by blast

text \<open>An intent that was ever EXECUTING was approved, by the policy or by persons.\<close>

lemma executing_was_approved:
  assumes "intent_ok d i" and "EXECUTING \<in> visited d i"
  shows "evidence d i AUTO_APPROVED \<and> AUTO_APPROVED \<in> visited d i \<or> evidence d i APPROVED \<and> APPROVED \<in> visited d i"
proof -
  obtain u where u: "u \<in> visited d i" "is_legal u EXECUTING" using visited_predecessor [OF assms] by auto
  then have "REVALIDATING \<in> visited d i" by (simp add: legal_into_executing)
  from visited_predecessor [OF assms(1) this] have "AUTO_APPROVED \<in> visited d i \<or> APPROVED \<in> visited d i"
    by (auto simp: legal_into_revalidating)
  with assms(1) show ?thesis by (auto simp: intent_ok_def)
qed

end
