(* ===== verification/Typed_Intents.thy ===== *)
theory Typed_Intents
  imports System History_Growth
begin

text \<open>
  Which intents a step can add. Creation is the only operation that adds one, and what it adds passed
  the validation of its tool's model; every other operation keeps the number of intents, so that the
  lifecycle moves it makes only change rows that were there, and not what those rows identify.
\<close>

section \<open>Typed intents\<close>

text \<open>The stored action is a dump of a validated model, and the digest is that of its canonical envelope.\<close>

definition typed_intent :: "creation_library \<Rightarrow> intent_row \<Rightarrow> bool" where
  "typed_intent cl i \<longleftrightarrow>
     (\<exists>p. parameters_ok p \<and> model_tool p = ai_tool i \<and> ai_canonical_parameters i = model_dump p \<and>
        ai_revision i = 1 \<and>
        ai_intent_digest i = cl_sha cl (canonical_envelope (cl_nfc cl) (ai_tool i) (ai_tenant_id i)
          (ai_requester_id i) 1 (model_dump p)))"

lemma typed_intent_identity: "same_identity j i \<Longrightarrow> typed_intent cl i \<Longrightarrow> typed_intent cl j"
  by (auto simp: typed_intent_def same_identity_def ai_key_def)

definition adds_typed :: "creation_library \<Rightarrow> db \<Rightarrow> db \<Rightarrow> bool" where
  "adds_typed cl d d' \<longleftrightarrow>
     (\<forall>j \<in> set (db_intents d'). (\<exists>i \<in> set (db_intents d). same_identity j i) \<or> typed_intent cl j)"

lemma adds_typed_refl [simp]: "db_intents d' = db_intents d \<Longrightarrow> adds_typed cl d d'"
  by (auto simp: adds_typed_def same_identity_def)

lemma adds_typed_update:
  assumes "db_intents d' = upd_where q (\<lambda>_. j) (db_intents d)" and "i \<in> set (db_intents d)" and "same_identity j i"
  shows "adds_typed cl d d'"
  unfolding adds_typed_def assms(1) using assms(2,3) by (auto simp: set_upd_where same_identity_def)

lemma adds_typed_trans:
  assumes "adds_typed cl d d1" and "adds_typed cl d1 d'"
  shows "adds_typed cl d d'"
  unfolding adds_typed_def
proof
  fix j
  assume "j \<in> set (db_intents d')"
  with assms(2) consider "typed_intent cl j" | i where "i \<in> set (db_intents d1)" "same_identity j i"
    unfolding adds_typed_def by blast
  then show "(\<exists>i \<in> set (db_intents d). same_identity j i) \<or> typed_intent cl j"
  proof cases
    case (2 i)
    with assms(1) consider "typed_intent cl i" | h where "h \<in> set (db_intents d)" "same_identity i h"
      unfolding adds_typed_def by blast
    then show ?thesis using 2(2) typed_intent_identity same_identity_trans by metis
  qed simp
qed

lemma adds_typed_all:
  "adds_typed cl d d' \<Longrightarrow> \<forall>i \<in> set (db_intents d). typed_intent cl i \<Longrightarrow> \<forall>i \<in> set (db_intents d'). typed_intent cl i"
  unfolding adds_typed_def using typed_intent_identity by blast

section \<open>Operations that add no intent\<close>

abbreviation intent_count :: "db \<Rightarrow> nat" where
  "intent_count d \<equiv> length (db_intents d)"

lemma moves_identities:
  "moves d d' \<Longrightarrow> intent_count d \<le> intent_count d' \<and> (intent_count d' = intent_count d \<longrightarrow> adds_typed cl d d')"
proof (induction rule: moves.induct)
  case (route i d p j t2 t3 t4 d')
  then show ?case using adds_typed_update by simp
next
  case (advance i d s t d')
  have "same_identity (advance_intent i s) i" by (simp add: same_identity_def)
  with advance show ?case using adds_typed_update by simp
qed simp_all

lemma evolves_identities:
  "evolves d d' \<Longrightarrow> intent_count d \<le> intent_count d' \<and> (intent_count d' = intent_count d \<longrightarrow> adds_typed cl d d')"
proof (induction rule: rtranclp_induct)
  case (step d1 d2)
  with moves_identities [OF step.hyps(2), of cl] show ?case by (auto intro: adds_typed_trans)
qed simp

lemma length_save_intent [simp]: "intent_count (save_intent i d) = intent_count d"
  by (simp add: save_intent_def)

context transition_recorder
begin

lemma recorder_count: "recorder a i s d = Inr (i', d') \<Longrightarrow> intent_count d' = intent_count d"
  by (drule recorder_Inr) auto

end

lemmas recorders_count =
  command_recorder.recorder_count execution_recorder.recorder_count revalidation_recorder.recorder_count
  reconciliation_recorder.recorder_count

lemma claim_count: "claim ev k w c lease d = (r, d') \<Longrightarrow> intent_count d' = intent_count d"
  by (auto simp: claim_def claim_execution_frame split: sum.splits if_splits dest!: recorders_count)

lemma record_failure_count: "record_failure ev w c i x t reason d = (r, d') \<Longrightarrow> intent_count d' = intent_count d"
  by (auto simp: record_failure_def split: sum.splits dest!: recorders_count)

lemma fetch_failure_count:
  "fail_after_fetch_failure ev k w c reason d = (r, d') \<Longrightarrow> intent_count d' = intent_count d"
  using record_failure_count by (auto simp: fail_after_fetch_failure_def split: sum.splits)

lemma revalidate_count: "revalidate sha ev k w c bd snap d = (r, d') \<Longrightarrow> intent_count d' = intent_count d"
  using record_failure_count
  by (auto simp: revalidate_def Let_def split: sum.splits option.splits prod.splits dest!: recorders_count)

lemma record_outcome_count: "record_outcome lc ev pm w c x i answer d = (r, d') \<Longrightarrow> intent_count d' = intent_count d"
  by (auto simp: record_outcome_def Let_def split: sum.splits prod.splits dest!: recorders_count)

lemma recover_one_count: "recover_one ev c n k d = (r, d') \<Longrightarrow> intent_count d' = intent_count d"
  by (auto simp: recover_one_def split: sum.splits option.splits prod.splits dest!: recorders_count)

lemma reconcile_count: "reconcile lookup lc ev n w c d = (r, d') \<Longrightarrow> intent_count d' = intent_count d"
  by (auto simp: reconcile_def postpone_def resolve_def Let_def split: sum.splits option.splits prod.splits if_splits
      dest!: recorders_count)

lemma apply_decision_count: "apply_decision ev c i t d = Inr (i', d') \<Longrightarrow> intent_count d' = intent_count d"
  by (auto simp: apply_decision_def split: sum.splits prod.splits if_splits dest!: recorders_count)

lemma decide_count: "decide ev c d = (r, d') \<Longrightarrow> intent_count d' = intent_count d"
  by (auto simp: decide_def expire_on_decision_def decide_open_def Let_def
      split: sum.splits prod.splits if_splits dest!: recorders_count apply_decision_count)

lemma cancel_count: "cancel ev c d = (r, d') \<Longrightarrow> intent_count d' = intent_count d"
  by (auto simp: cancel_def split: sum.splits prod.splits if_splits dest!: recorders_count)

lemma run_decision_count: "run_decision sha ev a key c d = (r, d') \<Longrightarrow> intent_count d' = intent_count d"
  using decide_count complete_frame
  by (fastforce simp: run_decision_def Let_def split: sum.splits prod.splits exn.splits if_splits)

lemma decide_approval_count: "decide_approval sha race ev a n b header cid d = (r, d') \<Longrightarrow> intent_count d' = intent_count d"
  using run_decision_count begin_frame
  by (fastforce simp: decide_approval_def split: sum.splits prod.splits option.splits if_splits)

lemma mutation_count:
  assumes "mutation sha race a scope header valid payload status command d = (r, d')"
    and "\<And>x q y. command x = (q, y) \<Longrightarrow> intent_count y = intent_count x"
  shows "intent_count d' = intent_count d"
  using assms(1) reserve_frame complete_frame assms(2)
  by (fastforce simp: mutation_def keyed_def split: sum.splits prod.splits option.splits if_splits)

section \<open>Creation\<close>

lemma creation_adds_typed:
  assumes "create_intent_from_proposal cl ev a tool ps rationale source ids d = (Inr body, d')"
  shows "adds_typed cl d d'"
proof -
  from creation_Inr [OF assms] obtain p t canonical snap d1
    where p: "parse_tool_parameters (cl_int cl) tool ps = Inr p"
      and can: "canonicalize (cl_sha cl) (cl_nfc cl) t (ac_tenant_id a) (ac_actor_id a) 1 p = Inr canonical"
      and c: "create (cl_lower cl) ev (creation_command a tool ps rationale source ids canonical) d = (Inr snap, d1)"
      and e: "evaluate_created ev ids (creation_command a tool ps rationale source ids canonical) d1 = (Inr body, d')"
    by blast
  let ?c = "creation_command a tool ps rationale source ids canonical"
  have "parameters_ok p" using p by (auto simp: parse_Inr dest: model_validate_SomeD)
  then have "typed_intent cl (created_intent (cl_lower cl) ev ?c)"
    using can by (auto simp: typed_intent_def canonicalize_def Let_def created_intent_def creation_command_def
        split: if_splits)
  moreover have "db_intents d1 = db_intents d @ [created_intent (cl_lower cl) ev ?c]"
    using create_Inr [OF c] by simp
  ultimately have one: "adds_typed cl d d1" by (auto simp: adds_typed_def intro: bexI same_identity_refl)
  from evaluate_created_Inr [OF e] obtain k risk policy recorded
    where r: "record_evaluation ev k risk policy (cc_command_id ?c) (cc_correlation_id ?c) d1 = (Inr recorded, d')" by blast
  have "evolves d1 d'" by (rule record_evaluation_evolves [OF r])
  moreover have "intent_count d' = intent_count d1"
    using r by (auto simp: record_evaluation_def record_rows_def evaluation_transitions_def Let_def split: sum.splits option.splits if_splits)
  ultimately have "adds_typed cl d1 d'" using evolves_identities by blast
  with one show ?thesis by (rule adds_typed_trans)
qed

lemma agent_adds_typed:
  "agent_command cl provider ev a b ids d = (Inr body, d') \<Longrightarrow> adds_typed cl d d'"
  using creation_adds_typed by (auto simp: agent_command_def split: sum.splits)

lemma adds_typed_cong:
  "adds_typed cl x y \<Longrightarrow> db_intents x = db_intents d \<Longrightarrow> db_intents d' = db_intents y \<Longrightarrow> adds_typed cl d d'"
  by (simp add: adds_typed_def)

lemma mutation_adds_typed:
  assumes "mutation sha race a scope header valid payload status command d = (Inr r, d')"
    and "\<And>x b y. command x = (Inr b, y) \<Longrightarrow> adds_typed cl x y"
  shows "adds_typed cl d d'"
proof -
  from assms(1) obtain key where "keyed sha race a scope key payload status command d = (Inr r, d')"
    by (auto simp: mutation_def split: sum.splits if_splits)
  then show ?thesis
  proof (cases rule: keyed_cases)
    case (run rs rs' d2)
    from assms(2) [OF run(1)] show ?thesis by (rule adds_typed_cong) (simp_all add: run(2))
  qed simp
qed

section \<open>Every step adds typed intents only\<close>

lemma request_cases:
  assumes "request h d = (r, d')"
  shows "d' = d \<or> (\<exists>q. h d = (q, d') \<and> (\<forall>e. q = Inl e \<longrightarrow> persist_state e))"
proof -
  obtain q d1 where q: "h d = (q, d1)" by (rule prod.exhaust)
  with assms show ?thesis
    by (auto simp: request_def run_transaction_def split: sum.splits if_splits)
qed

lemma transaction_count:
  assumes "transaction h d = (r, d')" and "\<And>q y. h d = (q, y) \<Longrightarrow> intent_count y = intent_count d"
  shows "intent_count d' = intent_count d"
  by (rule transaction_keeps [OF assms(1), of "\<lambda>x. intent_count x = intent_count d"]) (use assms(2) in auto)

lemma request_count:
  assumes "request h d = (r, d')" and "\<And>x q y. h x = (q, y) \<Longrightarrow> intent_count y = intent_count x"
  shows "intent_count d' = intent_count d"
  using request_cases [OF assms(1)] assms(2) by blast

lemma create_request_adds_typed:
  assumes "request (mutation sha race a scope header valid payload status command) d = (r, d')"
    and "\<And>x b y. command x = (Inr b, y) \<Longrightarrow> adds_typed cl x y"
    and "\<And>x e y. command x = (Inl e, y) \<Longrightarrow> persist_state e \<Longrightarrow> y = x"
  shows "adds_typed cl d d'"
  using request_cases [OF assms(1)]
proof (elim disjE exE conjE)
  fix q
  assume q: "mutation sha race a scope header valid payload status command d = (q, d')"
    and pe: "\<forall>e. q = Inl e \<longrightarrow> persist_state e"
  show ?thesis
  proof (cases q)
    case (Inl e)
    have req: "\<not> persist_state f" if "require_idempotency_key header = Inl f" for f
      using that by (auto simp: require_idempotency_key_def Let_def split: if_splits)
    with q Inl pe obtain key where k: "keyed sha race a scope key payload status command d = (Inl e, d')"
      by (auto simp: mutation_def split: sum.splits if_splits)
    obtain z d1 where z: "reserve sha race a scope key payload d = (z, d1)" by (rule prod.exhaust)
    with k Inl pe reserve_plain_error have ok: "z = Inr None" "command d1 = (Inl e, d')"
      using complete_plain_error by (auto simp: keyed_def split: sum.splits prod.splits option.splits)
    with assms(3) Inl pe have "d' = d1" by blast
    with reserve_frame [OF z] show ?thesis by auto
  next
    case (Inr b)
    with q mutation_adds_typed assms(2) show ?thesis by blast
  qed
qed simp

lemma admin_count:
  "grant_command ev a gb cid x = (q, y) \<Longrightarrow> intent_count y = intent_count x"
  "revoke_command ev a m rb cid x = (q, y) \<Longrightarrow> intent_count y = intent_count x"
  "register_command ev a bb cid x = (q, y) \<Longrightarrow> intent_count y = intent_count x"
  "activate_command ev a v rb cid x = (q, y) \<Longrightarrow> intent_count y = intent_count x"
  by (auto simp: admin_frame_def dest!: grant_command_frame revoke_command_frame register_command_frame activate_command_frame)

lemma cancel_command_count: "cancel_command ev a n b cid x = (q, y) \<Longrightarrow> intent_count y = intent_count x"
  by (auto simp: cancel_command_def split: sum.splits prod.splits dest!: cancel_count)

lemma worker_execute_count:
  assumes "worker_execute send lc ev pm w c d s = (r, d', s')"
  shows "intent_count d' = intent_count d"
  using assms
proof (cases rule: worker_execute_cases)
  case (sent x i answer)
  from sent(3) show ?thesis by (rule transaction_count) (rule record_outcome_count)
qed simp

lemma step_adds_typed:
  assumes "step cl w w'" and "db_ok (w_db w)"
  shows "adds_typed cl (w_db w) (w_db w')"
proof -
  have still: "adds_typed cl (w_db w) (w_db w')" if "intent_count (w_db w') = intent_count (w_db w)"
    using evolves_identities [OF step_evolves [OF assms]] that by blast
  from assms(1) show ?thesis
  proof cases
    case (create race ev a b header ids r d')
    then show ?thesis
      using create_request_adds_typed [OF create(2) [unfolded create_intent_def]] creation_adds_typed creation_plain_error
      by auto
  next
    case (create_agent provider race ev a ab header ids r d')
    have "y = x" if "agent_command cl provider ev a ab ids x = (Inl e, y)" "persist_state e" for x e y
      using that creation_plain_error by (auto simp: agent_command_def split: sum.splits)
    with create_agent create_request_adds_typed [OF create_agent(2) [unfolded create_agent_intent_def]] agent_adds_typed
    show ?thesis by auto
  next
    case (decide race ev a n vb header cid r d')
    from request_count [OF decide(2) decide_approval_count] decide(1) still show ?thesis by simp
  next
    case (cancel race ev a n vc header cid r d')
    from request_count [OF cancel(2) [unfolded cancel_intent_def] mutation_count [OF _ cancel_command_count]] cancel(1) still
    show ?thesis by simp
  next
    case (grant race dt ev a gb header cid r d')
    from request_count [OF grant(2) [unfolded admin_grant_role_def] mutation_count [OF _ admin_count(1)]] grant(1) still
    show ?thesis by simp
  next
    case (revoke race ev a m rb header cid r d')
    from request_count [OF revoke(2) [unfolded admin_revoke_role_def] mutation_count [OF _ admin_count(2)]] revoke(1) still
    show ?thesis by simp
  next
    case (register race ev a bb header cid r d')
    from request_count [OF register(2) [unfolded admin_register_bundle_def] mutation_count [OF _ admin_count(3)]] register(1) still
    show ?thesis by simp
  next
    case (activate race ev a v rb header cid r d')
    from request_count [OF activate(2) [unfolded admin_activate_bundle_def] mutation_count [OF _ admin_count(4)]] activate(1) still
    show ?thesis by simp
  next
    case (claim ev k wid c lease q d')
    from transaction_count [OF claim(2) claim_count] claim(1) still show ?thesis by simp
  next
    case (fetch_failed ev k wid c reason f d')
    from transaction_count [OF fetch_failed(2) fetch_failure_count] fetch_failed(1) still show ?thesis by simp
  next
    case (refused ev k wid c bd snap q d')
    from transaction_count [OF refused(2) revalidate_count] refused(1) still show ?thesis by simp
  next
    case (permitted ev k wid c bd snap pm d')
    from transaction_count [OF permitted(2) revalidate_count] permitted(1) still show ?thesis by simp
  next
    case (execute pm answer lc ev wid c x d' sent')
    from worker_execute_count [OF execute(3)] execute(1) still show ?thesis by simp
  next
    case (recover ev c n' k rec d')
    from transaction_count [OF recover(2) recover_one_count] recover(1) still show ?thesis by simp
  next
    case (reconcile lookup lc ev n' wid c rr d')
    from transaction_count [OF reconcile(2) reconcile_count] reconcile(1) still show ?thesis by simp
  next
    case (bookkeeping d')
    then show ?thesis by (simp add: same_core_def)
  qed simp_all
qed

lemma steps_typed:
  assumes "steps cl w w'" and "db_ok (w_db w)" and "\<forall>i \<in> set (db_intents (w_db w)). typed_intent cl i"
  shows "db_ok (w_db w') \<and> (\<forall>i \<in> set (db_intents (w_db w')). typed_intent cl i)"
  using assms(1)
proof (induction rule: rtranclp_induct)
  case (step w1 w2)
  with evolves_db_ok [OF step_evolves [OF step.hyps(2)]] adds_typed_all [OF step_adds_typed [OF step.hyps(2)]]
  show ?case by blast
qed (use assms(2,3) in simp)

end
