(* ===== verification/System_Safety.thy ===== *)
theory System_Safety
  imports System_Run Typed_Intents
begin

text \<open>
  What holds in every reachable world of the service, however clients, workers and crashes
  interleave: the histories are legal, no operation is sent twice, what is sent was approved as
  stored, and each intent only moves forward along the lifecycle.
\<close>

section \<open>Permits and sent commands\<close>

definition permit_ok :: "db \<Rightarrow> execution_permit \<Rightarrow> bool" where
  "permit_ok d pm \<longleftrightarrow>
     (\<exists>i. get_intent (pm_key pm) d = Some i \<and> EXECUTING \<in> visited d i \<and> pm_tool pm = ai_tool i \<and>
        pm_typed_parameters pm = ai_canonical_parameters i \<and> pm_operation_key pm = operation_key_for (pm_key pm))"

lemma permit_ok_evolves:
  assumes "permit_ok d pm" and "evolves d d'" and "db_ok d"
  shows "permit_ok d' pm"
proof -
  from assms(1) obtain i where i: "get_intent (pm_key pm) d = Some i" "EXECUTING \<in> visited d i"
      "pm_tool pm = ai_tool i" "pm_typed_parameters pm = ai_canonical_parameters i"
      "pm_operation_key pm = operation_key_for (pm_key pm)"
    by (auto simp: permit_ok_def)
  from evolves_intent [OF assms(2,3) i(1)] obtain j where j: "get_intent (pm_key pm) d' = Some j" "same_identity j i"
    by blast
  then have "EXECUTING \<in> visited d' j"
    using evolves_visited [OF assms(2), of j i] i(2) by (auto simp: same_identity_def)
  with i j show ?thesis by (auto simp: permit_ok_def same_identity_def)
qed

text \<open>A permit is for an intent that was not EXECUTING before, and is right about it.\<close>

lemma permit_is_new:
  assumes "transaction (revalidate sha ev k w c bd snap) d = (Inr (Inr pm), d')" and "db_ok d" and "evolves d d'"
  shows "permit_ok d' pm \<and> (\<forall>q. permit_ok d q \<longrightarrow> pm_key q \<noteq> pm_key pm)"
proof
  from assms(1) have rv: "revalidate sha ev k w c bd snap d = (Inr (Inr pm), d')"
    by (simp add: transaction_Inr)
  from revalidate_permit [OF rv] obtain i x d1 where cr: "claimed_row ev k d = Inr (i, x)"
    and r: "record_revalidation_transition (worker_args ev w c ''revalidation_passed'') i EXECUTING d =
        Inr (advance_intent i EXECUTING, d1)"
    and d': "d' = save_execution (start_execution ev snap x) d1"
    and pm: "pm = issue_permit sha ev k (advance_intent i EXECUTING) (start_execution ev snap x)" by blast
  from cr have i: "get_intent k d = Some i" and st: "ai_state i = REVALIDATING" by (simp_all add: claimed_row_Inr)
  have key: "pm_key pm = k" by (simp add: pm issue_permit_def pm_key_def Let_def)
  have get: "get_intent k d' = Some (advance_intent i EXECUTING)"
    using revalidation_recorder.recorder_get [OF r, of k] i get_intent_mem [OF i] d' by simp
  have "EXECUTING \<in> visited d' (advance_intent i EXECUTING)"
    using current_visited [OF get_intent_ok [OF evolves_db_ok [OF assms(3,2)] get]] by simp
  with get key show "permit_ok d' pm" by (auto simp: permit_ok_def pm issue_permit_def Let_def)
  show "\<forall>q. permit_ok d q \<longrightarrow> pm_key q \<noteq> pm_key pm"
  proof (intro allI impI notI)
    fix q
    assume "permit_ok d q" "pm_key q = pm_key pm"
    with i key have "EXECUTING \<in> visited d i" by (auto simp: permit_ok_def)
    from visited_rank [OF get_intent_ok [OF assms(2) i] this] st show False by simp
  qed
qed

text \<open>The invariant of a world; \<open>ps\<close> are the permits that were used, in the order of the sends.\<close>

definition sent_with :: "execution_permit \<Rightarrow> tool_name \<times> adapter_command" where
  "sent_with pm = (pm_tool pm, command_of_permit pm)"

definition world_ok :: "world \<Rightarrow> bool" where
  "world_ok w \<longleftrightarrow> db_ok (w_db w) \<and>
     (\<exists>ps. w_sent w = map sent_with ps \<and> distinct (map pm_key (w_permits w @ ps)) \<and>
        (\<forall>pm \<in> set (w_permits w @ ps). permit_ok (w_db w) pm))"

lemma initial_world_ok: "initial_world w \<Longrightarrow> world_ok w"
  by (auto simp: initial_world_def world_ok_def db_ok_def)

text \<open>Steps that only write the database keep it.\<close>

lemma world_ok_evolves:
  assumes "world_ok w" and "evolves (w_db w) d'"
  shows "world_ok (w\<lparr>w_db := d'\<rparr>)"
  using assms permit_ok_evolves evolves_db_ok unfolding world_ok_def by auto blast

lemma world_ok_permit:
  assumes "world_ok w" and "evolves (w_db w) d'" and "permit_ok d' pm"
    and "\<And>q. permit_ok (w_db w) q \<Longrightarrow> pm_key q \<noteq> pm_key pm"
  shows "world_ok (w\<lparr>w_db := d', w_permits := pm # w_permits w\<rparr>)"
proof -
  from assms(1) obtain ps where ps: "w_sent w = map sent_with ps" "distinct (map pm_key (w_permits w @ ps))"
      "\<forall>pm \<in> set (w_permits w @ ps). permit_ok (w_db w) pm" and ok: "db_ok (w_db w)"
    by (auto simp: world_ok_def)
  have "pm_key pm \<notin> pm_key ` set (w_permits w @ ps)" using ps(3) assms(4) by fastforce
  moreover have "\<forall>q \<in> set (w_permits w @ ps). permit_ok d' q"
    using ps(3) permit_ok_evolves [OF _ assms(2) ok] by blast
  ultimately show ?thesis
    using ps(1,2) assms(3) evolves_db_ok [OF assms(2) ok]
    unfolding world_ok_def by (intro conjI exI [of _ ps]) auto
qed

text \<open>Losing permits keeps it, and so does using one.\<close>

lemma world_ok_fewer:
  assumes "world_ok w"
  shows "world_ok (w\<lparr>w_permits := filter keep (w_permits w)\<rparr>)"
proof -
  from assms obtain ps where "w_sent w = map sent_with ps" "distinct (map pm_key (w_permits w @ ps))"
      "\<forall>pm \<in> set (w_permits w @ ps). permit_ok (w_db w) pm" "db_ok (w_db w)"
    by (auto simp: world_ok_def)
  then show ?thesis unfolding world_ok_def by (intro conjI exI [of _ ps]) (auto simp: distinct_map_filter)
qed

lemma world_ok_distinct: "world_ok w \<Longrightarrow> distinct (w_permits w)"
  unfolding world_ok_def by (auto simp: distinct_map)

lemma remove1_filter: "distinct xs \<Longrightarrow> remove1 x xs = filter (\<lambda>y. y \<noteq> x) xs"
  by (simp add: distinct_remove1_removeAll removeAll_filter_not_eq) (metis)

lemma world_ok_use:
  assumes "world_ok w" and "pm \<in> set (w_permits w)"
  shows "world_ok (w\<lparr>w_permits := remove1 pm (w_permits w), w_sent := w_sent w @ [sent_with pm]\<rparr>)"
proof -
  from assms obtain ps where ps: "w_sent w = map sent_with ps" "distinct (map pm_key (w_permits w @ ps))"
      "\<forall>pm \<in> set (w_permits w @ ps). permit_ok (w_db w) pm" "db_ok (w_db w)"
    by (auto simp: world_ok_def)
  let ?rest = "filter (\<lambda>q. q \<noteq> pm) (w_permits w)"
  have rest: "remove1 pm (w_permits w) = ?rest" using world_ok_distinct [OF assms(1)] by (rule remove1_filter)
  have "distinct (map pm_key (?rest @ ps @ [pm]))"
    using ps(2) assms(2) by (auto simp: distinct_map_filter distinct_map inj_on_def)
  with ps assms(2) show ?thesis
    unfolding world_ok_def rest by (intro conjI exI [of _ "ps @ [pm]"]) auto
qed

text \<open>A worker that executes a permit sends what the permit says, or nothing.\<close>

lemma worker_execute_log:
  assumes "worker_execute (logged_send answer) lc ev pm wid c d log = (x, d', log')"
  shows "log' = log \<or> log' = log @ [sent_with pm]"
  using assms by (cases rule: worker_execute_cases) (auto simp: logged_send_def sent_with_def)

lemma world_ok_send:
  assumes "world_ok w" and "pm \<in> set (w_permits w)"
    and "worker_execute (logged_send answer) lc ev pm wid c (w_db w) (w_sent w) = (x, d', sent')"
  shows "world_ok (w\<lparr>w_permits := remove1 pm (w_permits w), w_sent := sent'\<rparr>)"
  using worker_execute_log [OF assms(3)]
proof
  assume "sent' = w_sent w"
  then show ?thesis
    using world_ok_fewer [OF assms(1)] remove1_filter [OF world_ok_distinct [OF assms(1)]] by simp
next
  assume "sent' = w_sent w @ [sent_with pm]"
  then show ?thesis using world_ok_use [OF assms(1,2)] by simp
qed

lemma step_world_ok:
  assumes "step cl w w'" and "world_ok w"
  shows "world_ok w'"
proof -
  have ok: "db_ok (w_db w)" using assms(2) by (simp add: world_ok_def)
  note ev = step_evolves [OF assms(1) ok]
  from assms(1) show ?thesis
  proof cases
    case (permitted ev' k wid c bd snap pm d')
    then have "evolves (w_db w) d'" using ev by simp
    with permitted world_ok_permit [OF assms(2)] permit_is_new [OF _ ok] show ?thesis by blast
  next
    case (execute pm answer lc ev' wid c x d' sent')
    let ?w = "w\<lparr>w_permits := remove1 pm (w_permits w), w_sent := sent'\<rparr>"
    have "world_ok ?w" using world_ok_send [OF assms(2)] execute by blast
    moreover have "evolves (w_db ?w) d'" using ev execute by simp
    ultimately have "world_ok (?w\<lparr>w_db := d'\<rparr>)" by (rule world_ok_evolves)
    with execute show ?thesis by (cases w) simp
  next
    case (crash_after_send pm answer lc ev' wid c x d' sent')
    then show ?thesis using world_ok_send [OF assms(2)] by blast
  next
    case (crash keep)
    then show ?thesis using world_ok_fewer [OF assms(2)] by simp
  qed (use world_ok_evolves [OF assms(2)] ev in \<open>simp_all\<close>)
qed

lemma steps_world_ok: "steps cl w w' \<Longrightarrow> world_ok w \<Longrightarrow> world_ok w'"
  by (induction rule: rtranclp_induct) (auto intro: step_world_ok)

lemma reachable_world_ok: "reachable cl w \<Longrightarrow> world_ok w"
  using initial_world_ok steps_world_ok unfolding reachable_def by blast

lemma steps_evolves: "steps cl w w' \<Longrightarrow> world_ok w \<Longrightarrow> evolves (w_db w) (w_db w')"
proof (induction rule: rtranclp_induct)
  case (step w1 w2)
  have "world_ok w1" using steps_world_ok [OF step.hyps(1) step.prems] .
  then have "evolves (w_db w1) (w_db w2)" using step_evolves [OF step.hyps(2)] by (simp add: world_ok_def)
  with step.IH [OF step.prems] show ?case by (rule rtranclp_trans)
qed simp

section \<open>The guarantees\<close>

text \<open>
  C4. In every reachable world the database is consistent: intents have distinct keys, each history is
  a legal path from REQUESTED to the current state, numbered from 1, the version is its length, and
  every state that needs an authority (the policy's permission, one approver, two approvers) has
  been entered only with the durable evidence for it.
\<close>

theorem reachable_database_ok: "reachable cl w \<Longrightarrow> db_ok (w_db w)"
  using reachable_world_ok by (simp add: world_ok_def)

lemma reachable_database_ok_witness: "\<exists>w :: world. db_ok (w_db w) \<and> length (w_sent w) = 1"
proof -
  obtain w :: world and t c where "reachable sample_service w" "w_sent w = [(t, c)]" by (rule served_worldE)
  with reachable_database_ok show ?thesis by (intro exI [of _ w]) simp
qed

lemma steps_constraints: "steps cl w w' \<Longrightarrow> constraints_ok (w_db w) \<Longrightarrow> constraints_ok (w_db w')"
  by (induction rule: rtranclp_induct) (auto intro: step_constraints)

text \<open>
  C5. Nothing untyped is stored and nothing untyped is sent. In every reachable world each intent holds
  the dump of a model of its tool within all bounds of the schema, its digest is that of the
  canonical envelope of exactly these parameters, tenant and requester, and every command that ever
  reached a provider carries such a dump for the tool it was sent to: no request of the API, no
  answer of the language model, and no operation on a stored intent brings other parameters in.
\<close>

theorem actions_stay_typed:
  assumes "reachable cl w"
  shows "(\<forall>i \<in> set (db_intents (w_db w)). \<exists>p. parameters_ok p \<and> model_tool p = ai_tool i \<and>
      ai_canonical_parameters i = model_dump p \<and> ai_revision i = 1 \<and>
      ai_intent_digest i = cl_sha cl (canonical_envelope (cl_nfc cl) (ai_tool i) (ai_tenant_id i)
        (ai_requester_id i) 1 (model_dump p))) \<and>
    (\<forall>(t, c) \<in> set (w_sent w). \<exists>p. parameters_ok p \<and> model_tool p = t \<and> am_parameters c = model_dump p)"
proof -
  from assms obtain w0 where w0: "initial_world w0" "steps cl w0 w" by (auto simp: reachable_def)
  have "db_ok (w_db w0)" "\<forall>i \<in> set (db_intents (w_db w0)). typed_intent cl i"
    using initial_world_ok [OF w0(1)] w0(1) by (auto simp: world_ok_def initial_world_def)
  from steps_typed [OF w0(2) this] have typed: "\<forall>i \<in> set (db_intents (w_db w)). typed_intent cl i" by blast
  have "\<exists>p. parameters_ok p \<and> model_tool p = t \<and> am_parameters c = model_dump p" if "(t, c) \<in> set (w_sent w)" for t c
  proof -
    from reachable_world_ok [OF assms] obtain ps where ps: "w_sent w = map sent_with ps"
        "\<forall>pm \<in> set (w_permits w @ ps). permit_ok (w_db w) pm"
      unfolding world_ok_def by blast
    with that obtain pm where "permit_ok (w_db w) pm" "t = pm_tool pm" "c = command_of_permit pm"
      by (auto simp: sent_with_def)
    then obtain i where "get_intent (pm_key pm) (w_db w) = Some i" "t = ai_tool i" "am_parameters c = ai_canonical_parameters i"
      by (auto simp: permit_ok_def command_of_permit_def)
    moreover from this(1) have "i \<in> set (db_intents (w_db w))" by (auto dest: get_intent_SomeD)
    ultimately show ?thesis using typed unfolding typed_intent_def by metis
  qed
  with typed show ?thesis unfolding typed_intent_def by blast
qed

lemma actions_stay_typed_witness:
  "\<exists>(w :: world) p. parameters_ok p \<and> model_tool p = INSPECT_SERVICE \<and> am_parameters (snd (hd (w_sent w))) = model_dump p"
proof -
  obtain w :: world and t c where w: "reachable sample_service w" "w_sent w = [(t, c)]" "t = INSPECT_SERVICE"
    by (rule served_worldE)
  from actions_stay_typed [OF w(1)] w(2,3) show ?thesis by (intro exI [of _ w]) auto
qed

text \<open>
  C1. At most one send per operation. However many workers and clients there are and however their
  steps, losses of permits and crashes after a send interleave, no two commands that reached a
  provider carry the same operation key, not even as a deliberate second attempt.
\<close>

theorem at_most_one_send:
  "reachable cl w \<Longrightarrow> distinct (map (\<lambda>s. am_operation_key (snd s)) (w_sent w))"
proof -
  assume "reachable cl w"
  then obtain ps where ps: "w_sent w = map sent_with ps" "distinct (map pm_key (w_permits w @ ps))"
      "\<forall>pm \<in> set (w_permits w @ ps). permit_ok (w_db w) pm"
    using reachable_world_ok unfolding world_ok_def by blast
  have key: "am_operation_key (snd (sent_with pm)) = operation_key_for (pm_key pm)" if "pm \<in> set ps" for pm
    using ps(3) that by (auto simp: sent_with_def command_of_permit_def permit_ok_def)
  have "inj_on operation_key_for (pm_key ` set ps)"
    using operation_key_parts by (intro inj_onI) (metis prod_cases3)
  with ps(1,2) key show ?thesis
    by (auto simp: distinct_map comp_def inj_on_def)
qed

lemma at_most_one_send_witness:
  "\<exists>w :: world. w_sent w \<noteq> [] \<and> distinct (map (\<lambda>s. am_operation_key (snd s)) (w_sent w))"
proof -
  obtain w :: world and t c where "reachable sample_service w" "w_sent w = [(t, c)]" by (rule served_worldE)
  with at_most_one_send show ?thesis by (metis list.distinct(1))
qed

text \<open>
  C2. What reaches a provider was approved as stored. Every command that was ever sent belongs to an
  intent of the database and carries its tool, its canonical parameters and the operation key of
  its revision, and that intent has exactly one policy evaluation, which either allowed it or had
  its route satisfied by recorded approvals of the same digest by others than the requester: one
  approver, or for a critical route two different persons at the two levels.
\<close>

theorem sends_authorized:
  assumes "reachable cl w" and "(t, c) \<in> set (w_sent w)"
  shows "\<exists>i p. i \<in> set (db_intents (w_db w)) \<and> t = ai_tool i \<and>
      am_parameters c = ai_canonical_parameters i \<and> am_operation_key c = operation_key_for (ai_key i) \<and>
      policy_rows_for (ai_key i) (w_db w) = [p] \<and>
      (pr_disposition p = ALLOW \<or>
       (if pr_route p = CRITICAL_TWO_STEP
        then \<exists>a b. approved_by (w_db w) i 1 a \<and> approved_by (w_db w) i 2 b \<and> a \<noteq> b
        else \<exists>a. approved_by (w_db w) i 1 a))"
proof -
  from reachable_world_ok [OF assms(1)] obtain ps where ok: "db_ok (w_db w)" and ps: "w_sent w = map sent_with ps"
      "\<forall>pm \<in> set (w_permits w @ ps). permit_ok (w_db w) pm"
    unfolding world_ok_def by blast
  from assms(2) ps obtain pm where pm: "permit_ok (w_db w) pm" "t = pm_tool pm" "c = command_of_permit pm"
    by (auto simp: sent_with_def)
  then obtain i where i: "get_intent (pm_key pm) (w_db w) = Some i" "EXECUTING \<in> visited (w_db w) i"
      "pm_tool pm = ai_tool i" "pm_typed_parameters pm = ai_canonical_parameters i"
      "pm_operation_key pm = operation_key_for (pm_key pm)"
    by (auto simp: permit_ok_def)
  note m = get_intent_mem [OF i(1)]
  from executing_was_approved [OF get_intent_ok [OF ok i(1)] i(2)]
  have "evidence (w_db w) i AUTO_APPROVED \<or> evidence (w_db w) i APPROVED" by blast
  then obtain p where "policy_rows_for (ai_key i) (w_db w) = [p]"
      "pr_disposition p = ALLOW \<or>
       (if pr_route p = CRITICAL_TWO_STEP
        then \<exists>a b. approved_by (w_db w) i 1 a \<and> approved_by (w_db w) i 2 b \<and> a \<noteq> b
        else \<exists>a. approved_by (w_db w) i 1 a)"
    unfolding evidence_def by auto
  with i m pm show ?thesis by (intro exI [of _ i] exI [of _ p]) (simp add: command_of_permit_def)
qed

lemma sends_authorized_witness:
  "\<exists>(w :: world) i. i \<in> set (db_intents (w_db w)) \<and> ai_tool i = INSPECT_SERVICE \<and>
     am_operation_key (snd (hd (w_sent w))) = operation_key_for (ai_key i)"
proof -
  obtain w :: world and t c where w: "reachable sample_service w" "w_sent w = [(t, c)]" "t = INSPECT_SERVICE"
    by (rule served_worldE)
  then have "(t, c) \<in> set (w_sent w)" by simp
  from sends_authorized [OF w(1) this] obtain i where "i \<in> set (db_intents (w_db w))" "t = ai_tool i"
      "am_operation_key c = operation_key_for (ai_key i)" by blast
  with w(2,3) show ?thesis by (intro exI [of _ w] exI [of _ i]) simp
qed

text \<open>
  C3. The service refines the lifecycle graph. From any reachable world on, whatever steps follow,
  each intent stays in the database with its identity (tool, parameters, digest, requester), its
  history is only extended, along legal edges, its version counts them, there are never more than
  eleven rows, and an intent in a terminal state is final.
\<close>

theorem service_refines_lifecycle:
  assumes "reachable cl w" and "steps cl w w'" and "get_intent k (w_db w) = Some i"
  shows "\<exists>j ts. get_intent k (w_db w') = Some j \<and> same_identity j i \<and>
      history (w_db w') k = history (w_db w) k @ ts \<and>
      lifecycle_path (ai_state i) (map st_to_state ts) (ai_state j) \<and>
      ai_state_version j = ai_state_version i + int (length ts) \<and>
      length (history (w_db w') k) \<le> 11 \<and> (is_terminal (ai_state i) \<longrightarrow> ts = [] \<and> ai_state j = ai_state i)"
proof -
  note ok = reachable_world_ok [OF assms(1)]
  have d: "db_ok (w_db w)" using ok by (simp add: world_ok_def)
  note ev = steps_evolves [OF assms(2) ok]
  from evolves_lifecycle [OF ev d assms(3)] obtain j ts where j: "get_intent k (w_db w') = Some j" "same_identity j i"
      "history (w_db w') k = history (w_db w) k @ ts" "lifecycle_path (ai_state i) (map st_to_state ts) (ai_state j)"
      "ai_state_version j = ai_state_version i + int (length ts)" by blast
  from get_intent_ok [OF evolves_db_ok [OF ev d] j(1)] get_intent_mem [OF j(1)]
  have "length (history (w_db w') k) \<le> state_rank (ai_state j) + 1"
    using valid_history_rank by (auto simp: intent_ok_def)
  then have "length (history (w_db w') k) \<le> 11" using state_rank_bound [of "ai_state j"] by simp
  moreover have "is_terminal (ai_state i) \<Longrightarrow> ts = [] \<and> ai_state j = ai_state i"
    using terminal_path [OF j(4)] by simp
  ultimately show ?thesis using j by blast
qed

text \<open>From the accepted request to the end of the execution.\<close>

lemma service_refines_lifecycle_witness:
  "\<exists>(w :: world) w' i j (ts :: transition_row list). steps sample_service w w' \<and> w_sent w = [] \<and> length (w_sent w') = 1 \<and>
     get_intent (''t'', 9, 1) (w_db w) = Some i \<and> get_intent (''t'', 9, 1) (w_db w') = Some j \<and>
     ai_state i = AUTO_APPROVED \<and> ai_state j = SUCCEEDED \<and> same_identity j i \<and>
     lifecycle_path AUTO_APPROVED (map st_to_state ts) SUCCEEDED \<and> ai_state_version j = 4 + int (length ts)"
proof -
  let ?w = "\<lparr>w_db = served_requested, w_permits = [], w_sent = []\<rparr>"
  have "(case get_intent (''t'', 9, 1) served_requested of
      None \<Rightarrow> False | Some i \<Rightarrow> ai_state i = AUTO_APPROVED \<and> ai_state_version i = 4)" by code_simp
  then obtain i where i: "get_intent (''t'', 9, 1) (w_db ?w) = Some i" "ai_state i = AUTO_APPROVED" "ai_state_version i = 4"
    by (auto split: option.splits)
  have "(case served_world of None \<Rightarrow> False | Some w \<Rightarrow> length (w_sent w) = 1 \<and>
      map_option ai_state (get_intent (''t'', 9, 1) (w_db w)) = Some SUCCEEDED)" by code_simp
  then obtain w' :: world where w': "served_world = Some w'" "length (w_sent w') = 1"
      "map_option ai_state (get_intent (''t'', 9, 1) (w_db w')) = Some SUCCEEDED"
    by (auto split: option.splits)
  note run = served_world_run [OF w'(1)]
  from service_refines_lifecycle [OF conjunct1 [OF run] conjunct2 [OF run] i(1)] obtain j and ts :: "transition_row list" where
    "get_intent (''t'', 9, 1) (w_db w') = Some j" "same_identity j i"
    "lifecycle_path (ai_state i) (map st_to_state ts) (ai_state j)" "ai_state_version j = ai_state_version i + int (length ts)"
    by (elim exE conjE)
  with i w' conjunct2 [OF run] show ?thesis
    by (intro exI [of _ ?w] exI [of _ w'] exI [of _ i] exI [of _ j] exI [of _ ts]) simp
qed

end
