(* ===== verification/System_Tick.thy ===== *)
theory System_Tick
  imports System_Safety
begin

text \<open>
  The worker pass of \<open>worker.py\<close> as a run of \<open>System\<close>: the detailed program of one pass, with its loops,
  its handling of exceptions and its counters, only ever takes steps of the transition system, so
  everything proved for reachable worlds holds whatever number of passes run.
\<close>

section \<open>A provider that logs\<close>

definition logging_provider :: "'s provider \<Rightarrow> ((tool_name \<times> adapter_command) list \<times> 's) provider" where
  "logging_provider p =
     \<lparr>pr_send = (\<lambda>tool c (log, s). (let (answer, s') = pr_send p tool c s in (answer, (log @ [(tool, c)], s')))),
      pr_lookup = (\<lambda>tool key pid (log, s). pr_lookup p tool key pid s),
      pr_fetch = map_option (\<lambda>f tool ps attempt (log, s). f tool ps attempt s) (pr_fetch p)\<rparr>"

lemma worker_execute_logging:
  assumes "worker_execute (pr_send (logging_provider p)) lc ev pm wid c d (log, s) = (r, d', (log', s'))"
  shows "\<exists>answer. worker_execute (logged_send answer) lc ev pm wid c d log = (r, d', log')"
proof (rule exI)
  show "worker_execute (logged_send (fst (pr_send p (pm_tool pm) (command_of_permit pm) s))) lc ev pm wid c d log =
      (r, d', log')"
    using assms
    by (auto simp: worker_execute_def execute_permit_def logging_provider_def logged_send_def
        split: sum.splits prod.splits)
qed

section \<open>The parts of a pass\<close>

text \<open>
  Other processes act between the claim and the gates of an intent, and there on the database only: any
  sequence of steps that leaves the permits and the log of sends as they are. What they do between two other
  transactions of the pass is not part of a pass; the steps themselves interleave freely in \<open>System\<close>.
\<close>

definition meanwhile_steps :: "creation_library \<Rightarrow> tick_inputs \<Rightarrow> bool" where
  "meanwhile_steps cl ti \<longleftrightarrow> (\<forall>j w. steps cl w (w\<lparr>w_db := ti_meanwhile ti j (w_db w)\<rparr>))"

lemma db_step: "step cl w (w\<lparr>w_db := d'\<rparr>) \<Longrightarrow> steps cl w (w\<lparr>w_db := d'\<rparr>)"
  by (rule r_into_rtranclp)

lemma recover_steps:
  "recover_stale_executing evs ids j xs m d = (r, d') \<Longrightarrow> steps cl (w\<lparr>w_db := d\<rparr>) (w\<lparr>w_db := d'\<rparr>)"
proof (induction xs arbitrary: j m d)
  case (Cons x xs)
  obtain n k where x: "x = (n, k)" by (cases x)
  obtain q d1 where q: "transaction (recover_one (evs j) (ids j) n k) d = (q, d1)" by (rule prod.exhaust)
  have "step cl (w\<lparr>w_db := d\<rparr>) (w\<lparr>w_db := d\<rparr>\<lparr>w_db := d1\<rparr>)" by (rule step.recover) (use q in simp)
  then have "steps cl (w\<lparr>w_db := d\<rparr>) (w\<lparr>w_db := d1\<rparr>)" by simp
  moreover have "steps cl (w\<lparr>w_db := d1\<rparr>) (w\<lparr>w_db := d'\<rparr>)"
    using Cons.prems Cons.IH x q by (auto simp: Let_def split: sum.splits if_splits)
  ultimately show ?case by (rule rtranclp_trans)
qed simp

lemma reconcile_steps:
  "reconcile_due lc p ti j ns st s d = (st', d') \<Longrightarrow> steps cl (w\<lparr>w_db := d\<rparr>) (w\<lparr>w_db := d'\<rparr>)"
proof (induction ns arbitrary: j st d)
  case (Cons n ns)
  obtain q d1 where t: "transaction (reconcile (\<lambda>tool key pid. pr_lookup p tool key pid s) lc (ti_reconcile ti j) n
             EXECUTION_WORKER (ti_reconcile_id ti j)) d = (q, d1)" by (rule prod.exhaust)
  have "step cl (w\<lparr>w_db := d\<rparr>) (w\<lparr>w_db := d\<rparr>\<lparr>w_db := d1\<rparr>)" by (rule step.reconcile) (use t in simp)
  then have "steps cl (w\<lparr>w_db := d\<rparr>) (w\<lparr>w_db := d1\<rparr>)" by simp
  moreover have "steps cl (w\<lparr>w_db := d1\<rparr>) (w\<lparr>w_db := d'\<rparr>)"
    using Cons.prems t Cons.IH by (auto simp: Let_def split: sum.splits)
  ultimately show ?case by (rule rtranclp_trans)
qed simp

lemma deliver_constraints:
  assumes "deliver lib sha notify ev w n d s = (q, d', s')" and "constraints_ok d"
  shows "constraints_ok d'"
proof (cases "get_message n d")
  case None
  with assms show ?thesis by (simp add: deliver_def)
next
  case (Some r)
  let ?a = "if ob_topic r \<in> set AUDIT_TOPICS then transaction (deliver_audit lib sha n) d else (Inr 0, d)"
  obtain q1 d1 where a: "?a = (q1, d1)" by (rule prod.exhaust)
  have one: "constraints_ok d1" using a assms(2) transaction_constraints by (auto split: if_splits)
  obtain q2 d2 s2 where n: "notify_and_record lib notify ev w r d1 s = (q2, d2, s2)" by (metis prod_cases3)
  have "constraints_ok d2" using n one transaction_constraints
    by (auto simp: notify_and_record_def Let_def split: sum.splits prod.splits if_splits option.splits)
  with one assms Some a n show ?thesis by (auto simp: deliver_def split: sum.splits)
qed

lemma publish_message_constraints:
  assumes "publish_message lib sha notify ev w n st d s = (r, d', s')" and "constraints_ok d"
  shows "constraints_ok d'"
proof -
  obtain q d1 s1 where q: "deliver lib sha notify ev w n d s = (q, d1, s1)" by (metis prod_cases3)
  with assms deliver_constraints [OF q] transaction_constraints show ?thesis
    by (auto simp: publish_message_def split: sum.splits prod.splits)
qed

lemma publish_messages_constraints:
  "publish_messages lib sha notify evs w ns st d s = (r, d', s') \<Longrightarrow> constraints_ok d \<Longrightarrow> constraints_ok d'"
proof (induction ns arbitrary: st d s)
  case (Cons n ns)
  obtain q d1 s1 where q: "publish_message lib sha notify (evs n) w n st d s = (q, d1, s1)" by (metis prod_cases3)
  with Cons publish_message_constraints [OF q] show ?case by (auto split: sum.splits)
qed simp

lemma publish_pending_constraints:
  assumes "publish_pending lib sha notify ev evs locked w d s = (r, d', s')" and "constraints_ok d"
  shows "constraints_ok d'"
proof -
  obtain q d1 where t: "transaction (claim_messages ev locked w) d = (q, d1)" by (rule prod.exhaust)
  with assms transaction_constraints [OF t] publish_messages_constraints show ?thesis
    by (auto simp: publish_pending_def split: sum.splits)
qed

lemma publish_steps:
  assumes "publish_pending lib sha notify ev evs locked wid d s = (r, d', s')"
  shows "steps cl (w\<lparr>w_db := d\<rparr>) (w\<lparr>w_db := d'\<rparr>)"
proof -
  have "step cl (w\<lparr>w_db := d\<rparr>) (w\<lparr>w_db := d\<rparr>\<lparr>w_db := d'\<rparr>)"
    by (rule step.bookkeeping) (use publish_pending_core [OF assms] publish_pending_constraints [OF assms] in simp_all)
  then show ?thesis by (simp add: r_into_rtranclp)
qed

text \<open>The world after a claim: with the permit, if there is one.\<close>

definition claimed_world :: "world \<Rightarrow> exn + execution_permit option \<Rightarrow> db \<Rightarrow> world" where
  "claimed_world w r d' =
     (case r of
        Inr (Some pm) \<Rightarrow> w\<lparr>w_db := d', w_permits := pm # w_permits w\<rparr>
      | _ \<Rightarrow> w\<lparr>w_db := d'\<rparr>)"

lemma gates_step:
  assumes "transaction (revalidate (cl_sha cl) ev k wid c bd snap) (w_db w) = (q, d')"
  shows "step cl w (case q of Inr (Inr pm) \<Rightarrow> w\<lparr>w_db := d', w_permits := pm # w_permits w\<rparr> | _ \<Rightarrow> w\<lparr>w_db := d'\<rparr>)"
proof (cases "\<exists>pm. q = Inr (Inr pm)")
  case True
  then obtain pm where pm: "q = Inr (Inr pm)" by blast
  show ?thesis using step.permitted [OF assms [unfolded pm]] pm by simp
next
  case False
  then have "step cl w (w\<lparr>w_db := d'\<rparr>)" using step.refused [OF assms] by blast
  with False show ?thesis by (auto split: sum.splits)
qed

lemma claim_and_revalidate_steps:
  assumes "claim_and_revalidate (cl_sha cl) ev ev' k wid c bd fetch meanwhile d = (q, d')"
    and "\<And>w. steps cl w (w\<lparr>w_db := meanwhile (w_db w)\<rparr>)"
  shows "steps cl (w\<lparr>w_db := d\<rparr>)
    (case q of Inr (Inr pm) \<Rightarrow> w\<lparr>w_db := d', w_permits := pm # w_permits w\<rparr> | _ \<Rightarrow> w\<lparr>w_db := d'\<rparr>)"
proof -
  obtain z d1 where z: "transaction (claim ev k wid c DEFAULT_CLAIM_LEASE_SECONDS) d = (z, d1)" by (rule prod.exhaust)
  have "step cl (w\<lparr>w_db := d\<rparr>) (w\<lparr>w_db := d\<rparr>\<lparr>w_db := d1\<rparr>)" by (rule step.claim) (use z in simp)
  then have one: "steps cl (w\<lparr>w_db := d\<rparr>) (w\<lparr>w_db := d1\<rparr>)" by simp
  have two: "steps cl (w\<lparr>w_db := d1\<rparr>) (w\<lparr>w_db := meanwhile d1\<rparr>)" using assms(2) [of "w\<lparr>w_db := d1\<rparr>"] by simp
  show ?thesis
  proof (cases z)
    case (Inl e)
    with assms(1) z one show ?thesis by (auto simp: claim_and_revalidate_def)
  next
    case (Inr target)
    obtain tool ps where target: "target = (tool, ps)" by (cases target)
    show ?thesis
    proof (cases "fetch_target (fetch tool ps) TARGET_FETCH_ATTEMPTS 1 ''target_fetch_failed''")
      case (Inl reason)
      obtain f d2 where f: "transaction (fail_after_fetch_failure ev' k wid c reason) (meanwhile d1) = (f, d2)"
        by (rule prod.exhaust)
      have "step cl (w\<lparr>w_db := meanwhile d1\<rparr>) (w\<lparr>w_db := meanwhile d1\<rparr>\<lparr>w_db := d2\<rparr>)"
        by (rule step.fetch_failed) (use f in simp)
      with one two have "steps cl (w\<lparr>w_db := d\<rparr>) (w\<lparr>w_db := d2\<rparr>)" by (simp add: rtranclp.rtrancl_into_rtrancl)
      with assms(1) z Inr target Inl f show ?thesis
        by (auto simp: claim_and_revalidate_def split: sum.splits)
    next
      case snap: (Inr snap)
      with assms(1) z Inr target have "transaction (revalidate (cl_sha cl) ev' k wid c bd snap) (w_db (w\<lparr>w_db := meanwhile d1\<rparr>)) = (q, d')"
        by (simp add: claim_and_revalidate_def)
      from gates_step [OF this] have "step cl (w\<lparr>w_db := meanwhile d1\<rparr>)
          (case q of Inr (Inr pm) \<Rightarrow> w\<lparr>w_db := d', w_permits := pm # w_permits w\<rparr> | _ \<Rightarrow> w\<lparr>w_db := d'\<rparr>)"
        by (simp split: sum.splits)
      with one two show ?thesis by (meson rtranclp.rtrancl_into_rtrancl rtranclp_trans)
    qed
  qed
qed

lemma worker_claim_steps:
  assumes "worker_claim (cl_sha cl) ev ev' k c fetch meanwhile d = (r, d')"
    and "\<And>w. steps cl w (w\<lparr>w_db := meanwhile (w_db w)\<rparr>)"
  shows "steps cl (w\<lparr>w_db := d\<rparr>) (claimed_world w r d')"
proof (cases "get_active (fst k) d")
  case (Inl e)
  with assms(1) show ?thesis by (auto simp: worker_claim_def claimed_world_def)
next
  case (Inr b)
  show ?thesis
  proof (cases b)
    case None
    with Inr assms(1) show ?thesis by (auto simp: worker_claim_def claimed_world_def)
  next
    case (Some bd)
    obtain q d1 where q: "claim_and_revalidate (cl_sha cl) ev ev' k EXECUTION_WORKER c bd fetch meanwhile d = (q, d1)"
      by (rule prod.exhaust)
    from claim_and_revalidate_steps [OF q assms(2), of w] assms(1) Inr Some q show ?thesis
      by (auto simp: worker_claim_def claimed_world_def split: sum.splits if_splits)
  qed
qed

lemma world_swap: "w\<lparr>w_sent := a, w_db := b\<rparr> = w\<lparr>w_db := b, w_sent := a\<rparr>"
  by (cases w) simp

lemma sent_same: "w\<lparr>w_db := d, w_sent := w_sent w\<rparr> = w\<lparr>w_db := d\<rparr>"
  by (cases w) simp

lemma execute_eligible_steps:
  assumes "meanwhile_steps cl ti"
  shows "execute_eligible (cl_sha cl) lc (logging_provider p) ti j ks st d (log, s) = (r, d', (log', s')) \<Longrightarrow>
    steps cl (w\<lparr>w_db := d, w_sent := log\<rparr>) (w\<lparr>w_db := d', w_sent := log'\<rparr>) \<and> length log' \<le> length log + length ks"
proof (induction ks arbitrary: j st d log s)
  case (Cons k ks)
  let ?c = "worker_claim (cl_sha cl) (ti_claim ti j) (ti_gates ti j) k (ti_execution_id ti j)
      (target_query_for (pr_fetch (logging_provider p)) (log, s)) (ti_meanwhile ti j) d"
  obtain q d1 where q: "?c = (q, d1)" by (rule prod.exhaust)
  have mw: "steps cl w (w\<lparr>w_db := ti_meanwhile ti j (w_db w)\<rparr>)" for w
    using assms by (simp add: meanwhile_steps_def)
  let ?w = "w\<lparr>w_sent := log\<rparr>"
  have one: "steps cl (?w\<lparr>w_db := d\<rparr>) (claimed_world ?w q d1)" by (rule worker_claim_steps [OF q mw])
  show ?case
  proof (cases "\<exists>pm. q = Inr (Some pm)")
    case False
    then have w1: "claimed_world ?w q d1 = ?w\<lparr>w_db := d1\<rparr>"
      by (auto simp: claimed_world_def split: sum.splits option.splits)
    show ?thesis
    proof (cases q)
      case (Inl e)
      with Cons.prems q one w1 show ?thesis by (auto simp: world_swap)
    next
      case (Inr mp)
      with False have "mp = None" by (cases mp) auto
      with Cons.prems q Inr have "execute_eligible (cl_sha cl) lc (logging_provider p) ti (j + 1) ks
          (st\<lparr>ts_skipped := ts_skipped st + 1\<rparr>) d1 (log, s) = (r, d', (log', s'))" by simp
      from Cons.IH [OF this] one w1 show ?thesis by (auto simp: world_swap intro: rtranclp_trans)
    qed
  next
    case True
    then obtain pm where pm: "q = Inr (Some pm)" by blast
    obtain z d2 log2 s2 where z: "worker_execute (pr_send (logging_provider p)) lc (ti_send ti j) pm EXECUTION_WORKER
        (ti_execution_id ti j) d1 (log, s) = (z, d2, (log2, s2))" by (metis prod_cases4)
    from worker_execute_logging [OF z] obtain answer where
      run: "worker_execute (logged_send answer) lc (ti_send ti j) pm EXECUTION_WORKER (ti_execution_id ti j) d1 log = (z, d2, log2)"
      by blast
    have len: "length log2 \<le> length log + 1" using worker_execute_log [OF run] by auto
    let ?w1 = "claimed_world ?w q d1"
    have "step cl ?w1 (?w1\<lparr>w_db := d2, w_permits := remove1 pm (w_permits ?w1), w_sent := log2\<rparr>)"
      using run by (intro step.execute) (simp_all add: claimed_world_def pm)
    moreover have "?w1\<lparr>w_db := d2, w_permits := remove1 pm (w_permits ?w1), w_sent := log2\<rparr> = w\<lparr>w_db := d2, w_sent := log2\<rparr>"
      by (cases w) (simp add: claimed_world_def pm)
    ultimately have two: "step cl ?w1 (w\<lparr>w_db := d2, w_sent := log2\<rparr>)" by simp
    have "steps cl (w\<lparr>w_db := d2, w_sent := log2\<rparr>) (w\<lparr>w_db := d', w_sent := log'\<rparr>) \<and> length log' \<le> length log2 + length ks"
      using Cons.prems q pm z Cons.IH by (auto split: sum.splits if_splits)
    moreover have "steps cl (w\<lparr>w_db := d, w_sent := log\<rparr>) (w\<lparr>w_db := d2, w_sent := log2\<rparr>)"
      using one two by (simp add: world_swap rtranclp.rtrancl_into_rtrancl)
    ultimately show ?thesis using len by (auto intro: rtranclp_trans)
  qed
qed simp

lemma eligible_at_most: "length (eligible_intents d) \<le> 5"
  by (simp add: eligible_intents_def TICK_LIMIT_def)

lemma tick_steps:
  assumes "run_worker_tick (cl_sha cl) lc lib notify (logging_provider p) ti (w_db w) (w_sent w, s) nt =
      (r, d', (log', s'), nt')"
    and "meanwhile_steps cl ti"
  shows "steps cl w (w\<lparr>w_db := d', w_sent := log'\<rparr>) \<and> length log' \<le> length (w_sent w) + 5"
proof -
  obtain q d1 where q: "recover_stale_executing (ti_recovery ti) (ti_recovery_id ti) 0
      (recovery_candidates (ti_recovery ti 0) (w_db w)) 0 (w_db w) = (q, d1)" by (rule prod.exhaust)
  from recover_steps [OF q, of cl w] have one: "steps cl w (w\<lparr>w_db := d1\<rparr>)" by simp
  show ?thesis
  proof (cases q)
    case (Inl e)
    with assms(1) q have "d' = d1" and log: "log' = w_sent w" by (auto simp: run_worker_tick_def)
    with one show ?thesis unfolding log by (simp add: sent_same)
  next
    case (Inr m)
    obtain z d2 log2 s2 where z: "execute_eligible (cl_sha cl) lc (logging_provider p) ti 0 (eligible_intents d1)
        (empty_stats\<lparr>ts_recovered := m\<rparr>) d1 (w_sent w, s) = (z, d2, (log2, s2))" by (metis prod_cases4)
    from execute_eligible_steps [OF assms(2) z, of w] eligible_at_most [of d1]
    have two: "steps cl (w\<lparr>w_db := d1\<rparr>) (w\<lparr>w_db := d2, w_sent := log2\<rparr>)" "length log2 \<le> length (w_sent w) + 5"
      by (auto simp: sent_same)
    show ?thesis
    proof (cases z)
      case (Inl e)
      with assms(1) q Inr z have "d' = d2" "log' = log2" by (auto simp: run_worker_tick_def Let_def)
      with one two show ?thesis by (auto intro: rtranclp_trans)
    next
      case st: (Inr st)
      obtain st' d3 where d3: "reconcile_due lc (logging_provider p) ti 0 (pending_unknowns (ti_snapshot ti) d1) st
          (log2, s2) d2 = (st', d3)" by (rule prod.exhaust)
      obtain y d4 nt2 where y: "publish_pending lib (cl_sha cl) notify (ti_publish ti) (ti_message ti)
          (ti_locked_messages ti) ''outbox-publisher'' d3 nt = (y, d4, nt2)" by (metis prod_cases3)
      let ?w = "w\<lparr>w_sent := log2\<rparr>"
      have "steps cl (?w\<lparr>w_db := d2\<rparr>) (?w\<lparr>w_db := d4\<rparr>)"
        using reconcile_steps [OF d3, of cl ?w] publish_steps [OF y, of cl ?w] by (rule rtranclp_trans)
      moreover have "d' = d4" "log' = log2"
        using assms(1) q Inr z st d3 y by (auto simp: run_worker_tick_def Let_def split: sum.splits)
      ultimately show ?thesis using one two by (auto simp: world_swap intro: rtranclp_trans)
    qed
  qed
qed

text \<open>
  C6. A worker pass is a run of the transition system. Whatever the provider, the clocks and the policy
  bundles are, and whatever steps other processes take on the database between a claim and its gates, what one pass of the worker does to the database and sends to
  the provider is a sequence of steps, so the guarantees for reachable worlds hold before, during
  and after it; it sends at most five commands, and keeps no permit when it ends, by itself or by an
  exception.
\<close>

theorem worker_pass_is_system_run:
  assumes "run_worker_tick (cl_sha cl) lc lib notify (logging_provider p) ti (w_db w) (w_sent w, s) nt =
      (r, d', (log', s'), nt')"
    and "meanwhile_steps cl ti"
  shows "steps cl w (w\<lparr>w_db := d', w_sent := log'\<rparr>) \<and> length log' \<le> length (w_sent w) + 5 \<and>
    (reachable cl w \<longrightarrow> reachable cl (w\<lparr>w_db := d', w_sent := log'\<rparr>))"
  using tick_steps [OF assms] by (auto simp: reachable_def intro: rtranclp_trans)

lemma worker_pass_is_system_run_witness:
  "\<exists>r d' log' s' nt'. run_worker_tick (cl_sha sample_service) id sample_library sample_notify
       (logging_provider sample_provider) sample_tick served_requested ([], 0) () = (r, d', (log', s'), nt') \<and>
     steps sample_service \<lparr>w_db = served_requested, w_permits = [], w_sent = []\<rparr> \<lparr>w_db = d', w_permits = [], w_sent = log'\<rparr> \<and>
     length log' \<le> 5"
proof -
  let ?w = "\<lparr>w_db = served_requested, w_permits = [], w_sent = []\<rparr>"
  obtain r d' ls nt' where "run_worker_tick (cl_sha sample_service) id sample_library sample_notify
       (logging_provider sample_provider) sample_tick (w_db ?w) (w_sent ?w, 0) () = (r, d', ls, nt')"
    by (metis prod_cases4)
  moreover obtain log' s' where "ls = (log', s')" by (cases ls)
  ultimately have run: "run_worker_tick (cl_sha sample_service) id sample_library sample_notify
       (logging_provider sample_provider) sample_tick (w_db ?w) (w_sent ?w, 0) () = (r, d', (log', s'), nt')" by simp
  have "meanwhile_steps sample_service sample_tick" by (simp add: meanwhile_steps_def sample_tick_def)
  from worker_pass_is_system_run [OF run this] run show ?thesis by auto
qed

end
