(* ===== verification/Api_Errors.thy ===== *)
theory Api_Errors
  imports Json Domain_Errors
begin

text \<open>
  \<open>api/errors.py\<close>: the error envelope and the handlers that turn what a request raises into a
  response. \<open>raised\<close> adds to the exceptions of the domain those that only the HTTP layer knows:
  the service's own \<open>ControlledError\<close>, a request validation with its list of errors, and the
  framework's HTTP exception. Headers are a map from lower-case names to values, since assigning a
  header sets the value of its name in any case; those that the framework adds are not modelled.
\<close>

record http_response =
  hr_status :: int
  hr_headers :: "string \<rightharpoonup> string"
  hr_content :: json

definition json_response :: "int \<Rightarrow> json \<Rightarrow> http_response" where
  "json_response status content = \<lparr>hr_status = status, hr_headers = (\<lambda>_. None), hr_content = content\<rparr>"

record controlled_error =
  ce_message :: string
  ce_code :: string
  ce_status_code :: int
  ce_retryable :: bool
  ce_details :: dict

definition new_controlled_error ::
  "string option \<Rightarrow> string option \<Rightarrow> int option \<Rightarrow> bool option \<Rightarrow> dict option \<Rightarrow> controlled_error" where
  "new_controlled_error message code status_code retryable details =
     \<lparr>ce_message = (case message of None \<Rightarrow> ''Request rejected.''
                    | Some m \<Rightarrow> if m = [] then ''Request rejected.'' else m),
      ce_code = (case code of None \<Rightarrow> ''BAD_REQUEST'' | Some c \<Rightarrow> c),
      ce_status_code = (case status_code of None \<Rightarrow> 400 | Some s \<Rightarrow> s),
      ce_retryable = (case retryable of None \<Rightarrow> False | Some r \<Rightarrow> r),
      ce_details = (case details of None \<Rightarrow> [] | Some ds \<Rightarrow> ds)\<rparr>"

definition error_payload :: "string \<Rightarrow> string \<Rightarrow> bool \<Rightarrow> string \<Rightarrow> dict \<Rightarrow> json" where
  "error_payload code message retryable correlation_id details =
     JObj [(''error'',
       JObj [(''code'', JStr code), (''message'', JStr message), (''retryable'', JBool retryable),
             (''correlation_id'', JStr correlation_id), (''details'', JObj details)])]"

text \<open>The correlation id of the request state, or a fresh one.\<close>

definition correlation_of :: "string option \<Rightarrow> string \<Rightarrow> string" where
  "correlation_of state fresh = (case state of None \<Rightarrow> fresh | Some c \<Rightarrow> if c = [] then fresh else c)"

definition status_codes :: "int \<rightharpoonup> string" where
  "status_codes =
     map_of [(401, ''UNAUTHORIZED''), (403, ''FORBIDDEN''), (404, ''NOT_FOUND''),
             (405, ''METHOD_NOT_ALLOWED''), (409, ''STATE_CONFLICT''), (500, ''INTERNAL_ERROR'')]"

text \<open>One error of a request validation: its location, already as text, and its type.\<close>

datatype raised =
    Raised exn
  | Controlled controlled_error
  | Validation "(string list \<times> string) list"
  | HttpException int string

definition validation_details :: "(string list \<times> string) list \<Rightarrow> dict" where
  "validation_details errors =
     [(''errors'', JList (map (\<lambda>(loc, ty).
        JObj [(''loc'', JList (map JStr loc)), (''type'', JStr ty)]) errors))]"

definition controlled_response :: "string \<Rightarrow> controlled_error \<Rightarrow> http_response" where
  "controlled_response cid e =
     json_response (ce_status_code e)
       (error_payload (ce_code e) (ce_message e) (ce_retryable e) cid (ce_details e))"

definition validation_response :: "string \<Rightarrow> (string list \<times> string) list \<Rightarrow> http_response" where
  "validation_response cid errors =
     json_response 422
       (error_payload ''VALIDATION_FAILED'' ''Request failed validation.'' False cid (validation_details errors))"

definition domain_response :: "string \<Rightarrow> domain_error \<Rightarrow> http_response" where
  "domain_response cid e =
     json_response (de_status e) (error_payload (de_code e) (de_message e) (de_retryable e) cid [])"

definition unknown_tool_response :: "string \<Rightarrow> http_response" where
  "unknown_tool_response cid =
     json_response 422 (error_payload ''UNKNOWN_TOOL'' ''tool is not on the allow-list'' False cid [])"

definition parameter_response :: "string \<Rightarrow> http_response" where
  "parameter_response cid =
     json_response 422
       (error_payload ''VALIDATION_FAILED'' ''proposal parameters failed validation'' False cid [])"

definition http_error_response :: "string \<Rightarrow> int \<Rightarrow> string \<Rightarrow> http_response" where
  "http_error_response cid status detail =
     json_response status
       (error_payload (case status_codes status of None \<Rightarrow> ''REQUEST_FAILED'' | Some c \<Rightarrow> c) detail False cid [])"

definition unhandled_response :: "string \<Rightarrow> http_response" where
  "unhandled_response cid =
     json_response 500 (error_payload ''INTERNAL_ERROR'' ''Unexpected server error.'' True cid [])"

text \<open>The handler of the nearest class, as the framework picks it.\<close>

fun error_response :: "string \<Rightarrow> raised \<Rightarrow> http_response" where
  "error_response cid (Controlled e) = controlled_response cid e"
| "error_response cid (Validation errors) = validation_response cid errors"
| "error_response cid (HttpException status detail) = http_error_response cid status detail"
| "error_response cid (Raised e) =
     (case e of
        Domain d \<Rightarrow> domain_response cid d
      | UnknownToolError \<Rightarrow> unknown_tool_response cid
      | ParameterValidationError \<Rightarrow> parameter_response cid
      | RequestValidationError \<Rightarrow> validation_response cid []
      | _ \<Rightarrow> unhandled_response cid)"

section \<open>The envelope\<close>

definition envelope_of :: "string \<Rightarrow> json \<Rightarrow> bool" where
  "envelope_of cid v \<longleftrightarrow>
     (\<exists>code message retryable details. v = error_payload code message retryable cid details)"

definition internal_error :: "exn \<Rightarrow> bool" where
  "internal_error e \<longleftrightarrow>
     \<not> is_domain_error e \<and> e \<notin> {UnknownToolError, ParameterValidationError, RequestValidationError}"

lemma error_response_internal:
  "internal_error e \<Longrightarrow> error_response cid (Raised e) = unhandled_response cid"
  by (cases e) (auto simp: internal_error_def)

lemma error_response_envelope: "envelope_of cid (hr_content (error_response cid r))"
  by (cases r)
    (auto simp: envelope_of_def controlled_response_def validation_response_def domain_response_def
      unknown_tool_response_def parameter_response_def http_error_response_def unhandled_response_def
      json_response_def split: exn.split)

end
