(* ===== verification/Body_Limit.thy ===== *)
theory Body_Limit
  imports Api_Errors
begin

text \<open>
  \<open>api/body_limit.py\<close>: the outermost middleware reads the request body under a cap and replays it.
  The receive channel is the list of messages that arrive; a list that ends before the body does is
  a client that sends nothing more, and then the loop does not return (\<open>None\<close>). Header values and
  bodies are the bytes of the connection.
\<close>

datatype http_message = Chunk "string option" bool | Disconnect

text \<open>\<open>http.request\<close> with an optional body and the flag \<open>more_body\<close>; \<open>http.disconnect\<close>.\<close>

datatype body_result = Body string | Too_large | Disconnected

definition chunk_body :: "string option \<Rightarrow> string" where
  "chunk_body b = (case b of None \<Rightarrow> [] | Some s \<Rightarrow> s)"

fun read_within_limit :: "nat \<Rightarrow> string \<Rightarrow> http_message list \<Rightarrow> (body_result \<times> http_message list) option" where
  "read_within_limit max_bytes body [] = None"
| "read_within_limit max_bytes body (Disconnect # rest) = Some (Disconnected, rest)"
| "read_within_limit max_bytes body (Chunk b mb # rest) =
     (let body' = body @ chunk_body b
      in if length body' > max_bytes then Some (Too_large, rest)
         else if \<not> mb then Some (Body body', rest)
         else read_within_limit max_bytes body' rest)"

section \<open>The declared length\<close>

text \<open>
  \<open>str.isdigit\<close> of a header value, one byte a character (Latin-1): besides the ten digits it accepts
  the superscripts two, three and one. \<open>int\<close> accepts only the ten digits, and at most 4300 of them.
\<close>

definition is_digit_char :: "char \<Rightarrow> bool" where
  "is_digit_char c \<longleftrightarrow> is_digit c \<or> c \<in> {CHR 0xB2, CHR 0xB3, CHR 0xB9}"

definition py_isdigit :: "string \<Rightarrow> bool" where
  "py_isdigit s \<longleftrightarrow> s \<noteq> [] \<and> list_all is_digit_char s"

definition py_int :: "string \<Rightarrow> exn + nat" where
  "py_int s = (if s \<noteq> [] \<and> list_all is_digit s \<and> length s \<le> 4300 then Inr (str_nat s) else Inl ValueError)"

definition declared_too_large :: "nat \<Rightarrow> string option \<Rightarrow> exn + bool" where
  "declared_too_large max_bytes declared =
     (case declared of
        None \<Rightarrow> Inr False
      | Some s \<Rightarrow>
          if py_isdigit s
          then (case py_int s of Inl e \<Rightarrow> Inl e | Inr n \<Rightarrow> Inr (n > max_bytes))
          else Inr False)"

section \<open>The refusal\<close>

definition reject_content :: "string \<Rightarrow> json" where
  "reject_content cid =
     error_payload ''PAYLOAD_TOO_LARGE'' ''request body exceeds the configured limit'' False cid []"

text \<open>\<open>len\<close> is the number of bytes of the encoded payload.\<close>

definition response_headers :: "nat \<Rightarrow> string \<Rightarrow> (string \<times> string) list" where
  "response_headers len cid =
     [(''content-type'', ''application/json''), (''content-length'', nat_str len),
      (''cache-control'', ''no-store''), (''x-content-type-options'', ''nosniff''),
      (''x-frame-options'', ''DENY''), (''x-correlation-id'', cid)]"

definition reject_response :: "(json \<Rightarrow> nat) \<Rightarrow> string \<Rightarrow> http_response" where
  "reject_response encoded_length cid =
     \<lparr>hr_status = 413, hr_headers = map_of (response_headers (encoded_length (reject_content cid)) cid),
      hr_content = reject_content cid\<rparr>"

section \<open>The middleware\<close>

text \<open>
  What the middleware does with a connection: refuse it, drop it unanswered, wait forever, raise, or
  hand a receive channel on, the application's own from then on.
\<close>

datatype gate =
    Rejected http_response
  | Dropped
  | Waiting
  | Crashed exn
  | Forwarded "http_message list"

definition request_correlation :: "string option \<Rightarrow> string \<Rightarrow> string" where
  "request_correlation header fresh = correlation_of header fresh"

definition body_gate ::
  "(json \<Rightarrow> nat) \<Rightarrow> nat \<Rightarrow> bool \<Rightarrow> string option \<Rightarrow> string option \<Rightarrow> string \<Rightarrow> http_message list \<Rightarrow> gate" where
  "body_gate encoded_length max_bytes is_http declared correlation fresh messages =
     (if \<not> is_http then Forwarded messages
      else (case declared_too_large max_bytes declared of
              Inl e \<Rightarrow> Crashed e
            | Inr True \<Rightarrow> Rejected (reject_response encoded_length (request_correlation correlation fresh))
            | Inr False \<Rightarrow>
                (case read_within_limit max_bytes [] messages of
                   None \<Rightarrow> Waiting
                 | Some (Disconnected, rest) \<Rightarrow> Dropped
                 | Some (Too_large, rest) \<Rightarrow>
                     Rejected (reject_response encoded_length (request_correlation correlation fresh))
                 | Some (Body body, rest) \<Rightarrow> Forwarded (Chunk (Some body) False # rest))))"

section \<open>The body that arrives\<close>

text \<open>The complete body of a message list and what follows it; \<open>None\<close> if it does not end.\<close>

fun whole_body :: "http_message list \<Rightarrow> (string \<times> http_message list) option" where
  "whole_body [] = None"
| "whole_body (Disconnect # rest) = None"
| "whole_body (Chunk b False # rest) = Some (chunk_body b, rest)"
| "whole_body (Chunk b True # rest) =
     (case whole_body rest of None \<Rightarrow> None | Some (s, r) \<Rightarrow> Some (chunk_body b @ s, r))"

lemma read_within_limit_body:
  "read_within_limit m body ms = Some (Body s, rest) \<longleftrightarrow>
     (\<exists>t. whole_body ms = Some (t, rest) \<and> s = body @ t \<and> length s \<le> m)"
proof (induction ms arbitrary: body)
  case (Cons x ms)
  show ?case
  proof (cases x)
    case (Chunk b mb)
    show ?thesis
    proof (cases mb)
      case True
      have "whole_body ms = Some (t, r) \<Longrightarrow> length (body @ chunk_body b @ t) \<le> m \<Longrightarrow>
          length (body @ chunk_body b) \<le> m" for t r by simp
      with Chunk True Cons.IH [of "body @ chunk_body b"] show ?thesis
        by (auto simp: Let_def split: option.splits)
    qed (use Chunk in \<open>auto simp: Let_def\<close>)
  qed simp
qed simp

lemma read_within_limit_too_large:
  "whole_body ms = Some (t, rest) \<Longrightarrow> m < length (body @ t) \<Longrightarrow>
    \<exists>r. read_within_limit m body ms = Some (Too_large, r)"
  by (induction ms arbitrary: body t rule: whole_body.induct)
    (auto simp: Let_def split: option.splits)

text \<open>
  C17. The gate hands on exactly the bodies that fit, unchanged. Of a connection whose body arrives
  completely and whose declared length is no number, the application sees one message with exactly
  the bytes of the body, whatever the chunks were, and after it the rest of the channel, if and only
  if the body is within the limit; otherwise the answer is 413 with the envelope, and the
  application sees nothing. A declared length above the limit is refused without reading.
\<close>

theorem body_gate_exact:
  assumes "whole_body messages = Some (body, rest)" and "declared_too_large max_bytes declared = Inr big"
  shows "body_gate len max_bytes True declared correlation fresh messages =
    (if big \<or> max_bytes < length body
     then Rejected (reject_response len (request_correlation correlation fresh))
     else Forwarded (Chunk (Some body) False # rest))"
proof (cases "big \<or> max_bytes < length body")
  case True
  then show ?thesis
    using assms read_within_limit_too_large [OF assms(1), of max_bytes "[]"]
    by (cases big) (auto simp: body_gate_def)
next
  case False
  then have "read_within_limit max_bytes [] messages = Some (Body body, rest)"
    using assms(1) read_within_limit_body [of max_bytes "[]" messages body rest] by simp
  with False assms(2) show ?thesis by (simp add: body_gate_def)
qed

lemma body_gate_exact_witness:
  "body_gate (\<lambda>_. 99) 4 True None None ''c'' [Chunk (Some ''ab'') True, Chunk None True, Chunk (Some ''cd'') False, Disconnect]
     = Forwarded [Chunk (Some ''abcd'') False, Disconnect]"
  using body_gate_exact [of "[Chunk (Some ''ab'') True, Chunk None True, Chunk (Some ''cd'') False, Disconnect]"
      "''abcd''" "[Disconnect]" 4 None False "\<lambda>_. 99" None "''c''"]
  by (simp add: chunk_body_def declared_too_large_def)

text \<open>
  A declared length that is all digits to \<open>isdigit\<close> but not to \<open>int\<close> is neither refused nor ignored: it
  raises, and the client gets the answer of an internal error.
\<close>

lemma declared_length_raises:
  "declared_too_large m (Some s) = Inl e \<longleftrightarrow>
     e = ValueError \<and> py_isdigit s \<and> (\<not> list_all is_digit s \<or> 4300 < length s)"
  by (auto simp: declared_too_large_def py_int_def py_isdigit_def)

end
