(* ===== verification/Rate_Limit.thy ===== *)
theory Rate_Limit
  imports Prelude
begin

text \<open>
  \<open>api/rate_limit.py\<close>: the sliding-window limiter of one process. Readings of the clock are
  microseconds, where the source has floats of \<open>time.monotonic\<close>; \<open>rl_hits\<close> is the \<open>defaultdict\<close>, with the
  accepted calls of an identity in order. One call is one step here: the source takes no lock between its check and
  its append, so two calls of one identity in two threads of the pool can both pass the check.
\<close>

record rate_limiter =
  rl_limit_per_minute :: int
  rl_hits :: "string \<rightharpoonup> instant list"

definition new_limiter :: "int \<Rightarrow> rate_limiter" where
  "new_limiter limit = \<lparr>rl_limit_per_minute = limit, rl_hits = (\<lambda>_. None)\<rparr>"

definition hits_of :: "rate_limiter \<Rightarrow> string \<Rightarrow> instant list" where
  "hits_of l identity = (case rl_hits l identity of None \<Rightarrow> [] | Some h \<Rightarrow> h)"

definition allow :: "string \<Rightarrow> instant \<Rightarrow> rate_limiter \<Rightarrow> bool \<times> rate_limiter" where
  "allow identity current l =
     (let window_start = current - 60000000;
          hits = dropWhile (\<lambda>t. t \<le> window_start) (hits_of l identity)
      in if int (length hits) \<ge> rl_limit_per_minute l
         then (False, l\<lparr>rl_hits := (rl_hits l)(identity \<mapsto> hits)\<rparr>)
         else (True, l\<lparr>rl_hits := (rl_hits l)(identity \<mapsto> hits @ [current])\<rparr>))"

section \<open>Runs of the limiter\<close>

text \<open>The accepted calls of a run and the limiter after it.\<close>

fun run_limiter :: "(string \<times> instant) list \<Rightarrow> rate_limiter \<Rightarrow> (string \<times> instant) list \<times> rate_limiter" where
  "run_limiter [] l = ([], l)"
| "run_limiter ((who, now) # calls) l =
     (let (ok, l') = allow who now l; (acc, l'') = run_limiter calls l'
      in (if ok then (who, now) # acc else acc, l''))"

lemma run_limiter_snoc:
  "run_limiter (calls @ [(who, now)]) l =
     (let (acc, l') = run_limiter calls l; (ok, l'') = allow who now l'
      in (if ok then acc @ [(who, now)] else acc, l''))"
  by (induction calls arbitrary: l) (auto simp: Let_def split: prod.splits)

definition accepted_by :: "string \<Rightarrow> (string \<times> instant) list \<Rightarrow> instant list" where
  "accepted_by who acc = map snd (filter (\<lambda>c. fst c = who) acc)"

lemma accepted_by_append [simp]: "accepted_by who (a @ b) = accepted_by who a @ accepted_by who b"
  by (simp add: accepted_by_def)

lemma dropWhile_le_sorted:
  "sorted xs \<Longrightarrow> dropWhile (\<lambda>t. t \<le> m) xs = filter (\<lambda>t. m < t) (xs :: int list)"
proof (induction xs)
  case (Cons x xs)
  then have "\<not> x \<le> m \<Longrightarrow> filter (\<lambda>t. m < t) xs = xs" by (intro filter_True) auto
  with Cons show ?case by auto
qed simp

text \<open>
  The deque of an identity holds its accepted calls, less some that are out of every window that
  a later call can ask about.
\<close>

definition limiter_ok :: "(string \<times> instant) list \<Rightarrow> instant \<Rightarrow> rate_limiter \<Rightarrow> bool" where
  "limiter_ok acc now l \<longleftrightarrow>
     (\<forall>who. sorted (accepted_by who acc) \<and> (\<forall>t \<in> set (accepted_by who acc). t \<le> now) \<and>
        (\<exists>m \<le> now - 60000000. hits_of l who = filter (\<lambda>t. m < t) (accepted_by who acc)))"

lemma limiter_ok_later: "limiter_ok acc now l \<Longrightarrow> now \<le> now' \<Longrightarrow> limiter_ok acc now' l"
  unfolding limiter_ok_def by (meson diff_right_mono order.trans)

lemma limiter_ok_pruned:
  assumes "limiter_ok acc now l"
  shows "dropWhile (\<lambda>t. t \<le> now - 60000000) (hits_of l who) =
    filter (\<lambda>t. now - 60000000 < t) (accepted_by who acc)"
proof -
  from assms obtain m where m: "m \<le> now - 60000000" "hits_of l who = filter (\<lambda>t. m < t) (accepted_by who acc)"
      "sorted (accepted_by who acc)" by (auto simp: limiter_ok_def)
  then have "sorted (hits_of l who)" by (simp add: sorted_wrt_filter)
  from dropWhile_le_sorted [OF this] m(1,2) show ?thesis by (auto intro: filter_cong)
qed

lemma hits_of_upd: "hits_of (l\<lparr>rl_hits := (rl_hits l)(a \<mapsto> h)\<rparr>) b = (if b = a then h else hits_of l b)"
  by (simp add: hits_of_def)

lemma limiter_ok_allow:
  assumes "limiter_ok acc now l" and "allow who now l = (ok, l')"
  shows "limiter_ok (if ok then acc @ [(who, now)] else acc) now l'"
    and "ok \<longleftrightarrow> int (length (filter (\<lambda>t. now - 60000000 < t) (accepted_by who acc))) < rl_limit_per_minute l"
    and "rl_limit_per_minute l' = rl_limit_per_minute l"
proof -
  note p = limiter_ok_pruned [OF assms(1), of who]
  show "limiter_ok (if ok then acc @ [(who, now)] else acc) now l'"
    unfolding limiter_ok_def
  proof
    fix b
    show "sorted (accepted_by b (if ok then acc @ [(who, now)] else acc)) \<and>
        (\<forall>t \<in> set (accepted_by b (if ok then acc @ [(who, now)] else acc)). t \<le> now) \<and>
        (\<exists>m \<le> now - 60000000. hits_of l' b = filter (\<lambda>t. m < t) (accepted_by b (if ok then acc @ [(who, now)] else acc)))"
    proof (cases "b = who")
      case True
      with assms p show ?thesis
        by (auto simp: limiter_ok_def allow_def Let_def hits_of_upd accepted_by_def sorted_append
            intro!: exI [of _ "now - 60000000"] split: if_splits)
    next
      case False
      with assms have "hits_of l' b = hits_of l b"
        by (auto simp: allow_def Let_def hits_of_upd split: if_splits)
      with False assms(1) show ?thesis by (auto simp: limiter_ok_def accepted_by_def)
    qed
  qed
  show "ok \<longleftrightarrow> int (length (filter (\<lambda>t. now - 60000000 < t) (accepted_by who acc))) < rl_limit_per_minute l"
    "rl_limit_per_minute l' = rl_limit_per_minute l"
    using assms(2) by (auto simp: allow_def Let_def p split: if_splits)
qed

lemma limiter_ok_run:
  "run_limiter calls (new_limiter limit) = (acc, l) \<Longrightarrow> sorted (map snd calls) \<Longrightarrow>
    (\<forall>c \<in> set calls. snd c \<le> now) \<Longrightarrow> limiter_ok acc now l \<and> rl_limit_per_minute l = limit"
proof (induction calls arbitrary: acc l now rule: rev_induct)
  case Nil
  then show ?case by (auto simp: limiter_ok_def new_limiter_def hits_of_def accepted_by_def)
next
  case (snoc c calls)
  obtain who t where c: "c = (who, t)" by (cases c)
  obtain acc0 l0 where r: "run_limiter calls (new_limiter limit) = (acc0, l0)" by (rule prod.exhaust)
  obtain ok l1 where a: "allow who t l0 = (ok, l1)" by (rule prod.exhaust)
  from snoc.IH [OF r, of t] snoc.prems(2) c have i: "limiter_ok acc0 t l0" "rl_limit_per_minute l0 = limit"
    by (auto simp: sorted_append)
  from snoc.prems(1) r a c have "acc = (if ok then acc0 @ [(who, t)] else acc0)" "l = l1"
    by (auto simp: run_limiter_snoc)
  with limiter_ok_allow(1,3) [OF i(1) a] i(2) limiter_ok_later snoc.prems(3) c show ?case by auto
qed

lemma accepted_in_any_window:
  assumes "run_limiter calls (new_limiter limit) = (acc, l)" and "sorted (map snd calls)"
  shows "int (length (filter (\<lambda>t. w - 60000000 < t \<and> t \<le> w) (accepted_by who acc))) \<le> max 0 limit"
  using assms
proof (induction calls arbitrary: acc l rule: rev_induct)
  case Nil
  then show ?case by (simp add: accepted_by_def)
next
  case (snoc c calls)
  obtain b t where c: "c = (b, t)" by (cases c)
  obtain acc0 l0 where r: "run_limiter calls (new_limiter limit) = (acc0, l0)" by (rule prod.exhaust)
  obtain ok l1 where a: "allow b t l0 = (ok, l1)" by (rule prod.exhaust)
  have s: "sorted (map snd calls)" "\<forall>c \<in> set calls. snd c \<le> t" using snoc.prems(2) c by (auto simp: sorted_append)
  from limiter_ok_run [OF r s] have ok: "limiter_ok acc0 t l0" and lim: "rl_limit_per_minute l0 = limit" by auto
  from snoc.prems(1) r a c have acc: "acc = (if ok then acc0 @ [(b, t)] else acc0)" by (auto simp: run_limiter_snoc)
  show ?case
  proof (cases "ok \<and> b = who \<and> w - 60000000 < t \<and> t \<le> w")
    case True
    let ?in = "filter (\<lambda>u. w - 60000000 < u \<and> u \<le> w) (accepted_by who acc0)"
    from True have tw: "t \<le> w" by simp
    have "length ?in \<le> length (filter (\<lambda>u. t - 60000000 < u) (accepted_by who acc0))"
    proof -
      have eq: "?in = filter (\<lambda>u. w - 60000000 < u \<and> u \<le> w) (filter (\<lambda>u. t - 60000000 < u) (accepted_by who acc0))"
        using tw unfolding filter_filter by (intro filter_cong [OF refl]) auto
      show ?thesis by (subst eq) (rule length_filter_le)
    qed
    moreover have "int (length (filter (\<lambda>u. t - 60000000 < u) (accepted_by who acc0))) < limit"
      using limiter_ok_allow(2) [OF ok a] True lim by simp
    ultimately show ?thesis using True acc by (simp add: accepted_by_def)
  next
    case False
    then have "filter (\<lambda>t. w - 60000000 < t \<and> t \<le> w) (accepted_by who acc)
        = filter (\<lambda>t. w - 60000000 < t \<and> t \<le> w) (accepted_by who acc0)"
      using acc by (auto simp: accepted_by_def)
    with snoc.IH [OF r s(1)] show ?thesis by simp
  qed
qed

text \<open>
  C15. The limiter is exact. With a clock that does not run backwards, a call is refused if and only
  if the identity already has the limit of accepted calls within the last 60 seconds, calls of
  others never count, and so no window of 60 seconds, wherever it starts, holds more accepted calls
  of an identity than the limit.
\<close>

theorem limiter_exact:
  assumes "sorted (map snd calls)" and "\<forall>c \<in> set calls. snd c \<le> now"
  shows "case run_limiter calls (new_limiter limit) of (acc, l) \<Rightarrow>
    (fst (allow who now l) \<longleftrightarrow>
       int (length (filter (\<lambda>t. now - 60000000 < t) (accepted_by who acc))) < limit) \<and>
    (\<forall>w. int (length (filter (\<lambda>t. w - 60000000 < t \<and> t \<le> w) (accepted_by who acc))) \<le> max 0 limit)"
proof -
  obtain acc l where r: "run_limiter calls (new_limiter limit) = (acc, l)" by (rule prod.exhaust)
  obtain ok l' where a: "allow who now l = (ok, l')" by (rule prod.exhaust)
  from limiter_ok_run [OF r assms] limiter_ok_allow(2) [OF _ a] accepted_in_any_window [OF r assms(1)] a r
  show ?thesis by auto
qed

lemma limiter_exact_witness:
  "\<not> fst (allow ''a'' 3 (snd (run_limiter [(''a'', 1), (''b'', 2), (''a'', 2)] (new_limiter 2))))
   \<and> fst (allow ''a'' 60000001 (snd (run_limiter [(''a'', 1), (''b'', 2), (''a'', 2)] (new_limiter 2))))"
proof -
  let ?calls = "[(''a'', 1), (''b'', 2), (''a'', 2)] :: (string \<times> instant) list"
  have acc: "fst (run_limiter ?calls (new_limiter 2)) = ?calls" by code_simp
  have s: "sorted (map snd ?calls)" by simp
  from limiter_exact [OF s, where now = 3 and limit = 2 and who = "''a''"] limiter_exact [OF s, where now = 60000001 and limit = 2 and who = "''a''"] acc
  show ?thesis by (auto simp: accepted_by_def split: prod.splits)
qed

end
