(* ===== verification/Request_Actor.thy ===== *)
theory Request_Actor
  imports Identity Rate_Limit
begin

text \<open>
  \<open>get_actor\<close> of \<open>api/dependencies.py\<close>: every route takes its actor from here. The state is the
  limiter of the process. \<open>decode\<close> stands for the token library, as in \<open>Identity\<close>.
\<close>

record identity_settings =
  is_shared_secret :: "string option"
  is_issuer :: string
  is_audience :: string

text \<open>\<open>str.strip\<close>, and the text after the first blank, as \<open>split(" ", 1)[1]\<close>.\<close>

definition strip_parts :: "string list \<Rightarrow> string list" where
  "strip_parts ps =
     rev (dropWhile (\<lambda>p. p \<in> set white_space) (rev (dropWhile (\<lambda>p. p \<in> set white_space) ps)))"

definition py_strip :: "string \<Rightarrow> string" where
  "py_strip s = concat (strip_parts (utf8_chars s))"

definition after_blank :: "string \<Rightarrow> string" where
  "after_blank s = drop 1 (dropWhile (\<lambda>c. c \<noteq> CHR '' '') s)"

definition actor_identity :: "authenticated_actor \<Rightarrow> string" where
  "actor_identity a = ''actor:'' @ ac_tenant_id a @ '':'' @ ac_actor_id a"

definition get_actor ::
  "(string \<Rightarrow> string \<Rightarrow> string \<Rightarrow> string \<Rightarrow> dict option) \<Rightarrow> identity_settings \<Rightarrow> string option \<Rightarrow> instant
     \<Rightarrow> rate_limiter \<Rightarrow> (exn + authenticated_actor) \<times> rate_limiter" where
  "get_actor decode settings authorization current l =
     (case is_shared_secret settings of
        None \<Rightarrow> (Inl (raise_error ForbiddenError ''identity verification is not configured''), l)
      | Some secret \<Rightarrow>
          (case authorization of
             None \<Rightarrow> (Inl (raise_error ForbiddenError ''authenticated context required''), l)
           | Some header \<Rightarrow>
               if header = [] \<or> \<not> starts_with ''bearer '' (lower header)
               then (Inl (raise_error ForbiddenError ''authenticated context required''), l)
               else
                 (case validate_token decode (py_strip (after_blank header)) secret
                         (is_issuer settings) (is_audience settings) of
                    Inl e \<Rightarrow> (Inl (raise_error ForbiddenError ''authenticated context required''), l)
                  | Inr actor \<Rightarrow>
                      (let (ok, l') = allow (actor_identity actor) current l
                       in if ok then (Inr actor, l')
                          else (Inl (raise_error RateLimitedError ''request rate exceeded; retry later''), l')))))"

text \<open>
  C16. Authentication fails closed. A request gets an actor only with a configured secret and an
  \<open>Authorization\<close> header that begins with \<open>bearer\<close> in any case and whose token the token check accepts for
  this issuer and audience; then the actor has exactly the token's tenant and subject and passed its
  own rate limit. Every other request ends in FORBIDDEN or RATE\_LIMITED, whatever the token check raised;
  one whose token was refused does not touch the rate limit of anybody, and one that is limited
  had a token that was accepted for the actor whose limit it met.
\<close>

theorem authentication_fails_closed:
  "case get_actor decode settings authorization current l of
     (Inr a, l') \<Rightarrow>
       (\<exists>secret header token claims sub. is_shared_secret settings = Some secret \<and>
          authorization = Some header \<and> starts_with ''bearer '' (lower header) \<and> token = py_strip (after_blank header) \<and>
          decode token secret (is_issuer settings) (is_audience settings) = Some claims \<and>
          dget ''tenant'' claims = JStr (ac_tenant_id a) \<and> ac_tenant_id a \<noteq> [] \<and>
          map_of claims ''sub'' = Some sub \<and> ac_actor_id a = py_str sub \<and> ac_actor_id a \<noteq> []) \<and>
       allow (actor_identity a) current l = (True, l')
   | (Inl e, l') \<Rightarrow>
       is_class ForbiddenError e \<and> l' = l \<or>
       is_class RateLimitedError e \<and>
         (\<exists>secret header a. is_shared_secret settings = Some secret \<and> authorization = Some header \<and>
            validate_token decode (py_strip (after_blank header)) secret (is_issuer settings) (is_audience settings) = Inr a \<and>
            allow (actor_identity a) current l = (False, l'))"
proof -
  have v: "\<exists>claims sub. decode token secret issuer audience = Some claims \<and>
      dget ''tenant'' claims = JStr (ac_tenant_id a) \<and> ac_tenant_id a \<noteq> [] \<and>
      map_of claims ''sub'' = Some sub \<and> ac_actor_id a = py_str sub \<and> ac_actor_id a \<noteq> []"
    if "validate_token decode token secret issuer audience = Inr a" for token secret issuer audience a
    using validate_token_Inr [OF that] by blast
  show ?thesis
    using v by (auto simp: get_actor_def split: option.splits sum.splits prod.splits)
qed

end
