(* ===== verification/Http_Edge.thy ===== *)
theory Http_Edge
  imports Body_Limit Request_Actor
begin

text \<open>
  \<open>api/app.py\<close>: the middleware around every route, composed as the application composes it. From the
  outside in: the handler of unexpected errors, the body cap (\<open>Body_Limit\<close>), the hardening middleware
  with its limit per client address, the handlers of the known errors (\<open>Api_Errors\<close>) and the route.
  A route is a function of the correlation id, the receive channel and a state \<open>'s\<close> (for the routes of
  the service, the database with the limiter of the actors).

  The readiness probe and the check of the schema revision (\<open>infrastructure/database.py\<close>) follow.
\<close>

section \<open>The hardening middleware\<close>

definition harden :: "string \<Rightarrow> http_response \<Rightarrow> http_response" where
  "harden cid r =
     r\<lparr>hr_headers := (hr_headers r)
         (''x-correlation-id'' \<mapsto> cid, ''x-content-type-options'' \<mapsto> ''nosniff'',
          ''x-frame-options'' \<mapsto> ''DENY'', ''cache-control'' \<mapsto> ''no-store'')\<rparr>"

definition rate_limited_response :: "string \<Rightarrow> http_response" where
  "rate_limited_response cid =
     harden cid (json_response 429
       (error_payload ''RATE_LIMITED'' ''request rate exceeded; retry later'' True cid []))"

definition address_identity :: "string option \<Rightarrow> string" where
  "address_identity client = ''address:'' @ (case client of None \<Rightarrow> ''unknown'' | Some host \<Rightarrow> host)"

definition hardening_middleware ::
  "string option \<Rightarrow> instant \<Rightarrow> string \<Rightarrow> ('s \<Rightarrow> (exn + http_response) \<times> 's) \<Rightarrow> rate_limiter \<Rightarrow> 's
     \<Rightarrow> (exn + http_response) \<times> rate_limiter \<times> 's" where
  "hardening_middleware client now cid call_next l s =
     (let (ok, l') = allow (address_identity client) now l
      in if \<not> ok then (Inr (rate_limited_response cid), l', s)
         else (let (r, s') = call_next s
               in ((case r of Inl e \<Rightarrow> Inl e | Inr response \<Rightarrow> Inr (harden cid response)), l', s')))"

section \<open>The application\<close>

text \<open>The handlers of the known errors sit inside the middleware; any other error passes through it.\<close>

definition handled :: "string \<Rightarrow> ('s \<Rightarrow> (exn + http_response) \<times> 's) \<Rightarrow> 's \<Rightarrow> (exn + http_response) \<times> 's" where
  "handled cid route s =
     (let (r, s') = route s
      in case r of
           Inr response \<Rightarrow> (Inr response, s')
         | Inl e \<Rightarrow> (if internal_error e then Inl e else Inr (error_response cid (Raised e)), s'))"

datatype served = Answer http_response | Unanswered | Hanging

record connection =
  cn_is_http :: bool
  cn_content_length :: "string option"
  cn_correlation :: "string option"
  cn_client :: "string option"
  cn_messages :: "http_message list"

text \<open>\<open>fresh\<close> and \<open>fresh'\<close> are the ids that the two middlewares draw when the header gives none.\<close>

definition app_serve ::
  "(json \<Rightarrow> nat) \<Rightarrow> nat \<Rightarrow> instant \<Rightarrow> string \<Rightarrow> string \<Rightarrow> (string \<Rightarrow> http_message list \<Rightarrow> 's \<Rightarrow> (exn + http_response) \<times> 's)
     \<Rightarrow> connection \<Rightarrow> rate_limiter \<Rightarrow> 's \<Rightarrow> served \<times> rate_limiter \<times> 's" where
  "app_serve encoded_length max_bytes now fresh fresh' route cn l s =
     (case body_gate encoded_length max_bytes (cn_is_http cn) (cn_content_length cn) (cn_correlation cn) fresh
             (cn_messages cn) of
        Rejected response \<Rightarrow> (Answer response, l, s)
      | Dropped \<Rightarrow> (Unanswered, l, s)
      | Waiting \<Rightarrow> (Hanging, l, s)
      | Crashed e \<Rightarrow>
          (Answer (error_response (request_correlation (cn_correlation cn) fresh) (Raised e)), l, s)
      | Forwarded messages \<Rightarrow>
          (let cid = correlation_of (cn_correlation cn) fresh';
               (r, l', s') = hardening_middleware (cn_client cn) now cid (handled cid (route cid messages)) l s
           in (Answer (case r of Inl e \<Rightarrow> error_response cid (Raised e) | Inr response \<Rightarrow> response), l', s')))"

section \<open>What reaches a route\<close>

definition hardened :: "http_response \<Rightarrow> bool" where
  "hardened r \<longleftrightarrow>
     hr_headers r ''x-content-type-options'' = Some ''nosniff'' \<and>
     hr_headers r ''x-frame-options'' = Some ''DENY'' \<and>
     hr_headers r ''cache-control'' = Some ''no-store'' \<and>
     (\<exists>cid. hr_headers r ''x-correlation-id'' = Some cid)"

lemma hardened_harden [simp]: "hardened (harden cid r)"
  by (simp add: hardened_def harden_def)

lemma hardened_reject [simp]: "hardened (reject_response len cid)"
  by (simp add: hardened_def reject_response_def response_headers_def)

lemma body_gate_cases:
  assumes "body_gate len max_bytes True declared correlation fresh ms = g"
  obtains (rejected) "g = Rejected (reject_response len (request_correlation correlation fresh))"
  | (dropped) "g = Dropped"
  | (waiting) "g = Waiting"
  | (crashed) "g = Crashed ValueError"
  | (forwarded) body rest where "g = Forwarded (Chunk (Some body) False # rest)"
      and "whole_body ms = Some (body, rest)" and "length body \<le> max_bytes"
proof -
  have v: "e = ValueError" if "declared_too_large max_bytes declared = Inl e" for e
    using that by (auto simp: declared_too_large_def py_int_def split: option.splits if_splits)
  have w: "whole_body ms = Some (body, rest) \<and> length body \<le> max_bytes"
    if "read_within_limit max_bytes [] ms = Some (Body body, rest)" for body rest
    using that by (simp add: read_within_limit_body)
  from assms v w show ?thesis
    using rejected dropped waiting crashed forwarded
    by (auto simp: body_gate_def split: sum.splits bool.splits option.splits prod.splits body_result.splits)
qed

text \<open>
  C18. Nothing reaches a route unless it passed the edge. A route runs only on a connection whose body
  has arrived completely and is within the limit and whose client address is within its rate, it
  sees exactly these bytes, and otherwise its state is untouched. Every answer carries the
  hardening headers, refusals included; the only ones without them are the answers 500 to an
  unexpected error.
\<close>

theorem edge_guards_routes:
  assumes "app_serve len max_bytes now fresh fresh' route cn l s = (result, l', s')" and "cn_is_http cn"
  shows "(\<forall>r. result = Answer r \<longrightarrow> hardened r \<or> (\<exists>cid. r = unhandled_response cid)) \<and>
    (s' = s \<or>
     (\<exists>body rest cid. whole_body (cn_messages cn) = Some (body, rest) \<and> length body \<le> max_bytes \<and>
        allow (address_identity (cn_client cn)) now l = (True, l') \<and>
        s' = snd (route cid (Chunk (Some body) False # rest) s)))"
proof -
  obtain g where g: "body_gate len max_bytes True (cn_content_length cn) (cn_correlation cn) fresh (cn_messages cn) = g"
    by simp
  have inner: "r = Inr q \<Longrightarrow> hardened q" "r = Inl e \<Longrightarrow> internal_error e"
    if "hardening_middleware c now cid (handled cid rt) l s = (r, l1, s1)" for c cid rt r l1 s1 q e
    using that
    by (auto simp: hardening_middleware_def handled_def rate_limited_response_def Let_def
        split: prod.splits sum.splits if_splits)
  from g show ?thesis
  proof (cases rule: body_gate_cases)
    case (forwarded body rest)
    let ?cid = "correlation_of (cn_correlation cn) fresh'"
    obtain r l1 s1 where h: "hardening_middleware (cn_client cn) now ?cid
        (handled ?cid (route ?cid (Chunk (Some body) False # rest))) l s = (r, l1, s1)" by (metis prod_cases3)
    with assms g forwarded have res: "l' = l1" "s' = s1"
        "result = Answer (case r of Inl e \<Rightarrow> error_response ?cid (Raised e) | Inr response \<Rightarrow> response)"
      by (simp_all add: app_serve_def)
    from h have "s1 = s \<or> allow (address_identity (cn_client cn)) now l = (True, l1) \<and>
        s1 = snd (route ?cid (Chunk (Some body) False # rest) s)"
      by (auto simp: hardening_middleware_def handled_def split: prod.splits sum.splits if_splits)
    moreover have "hardened q \<or> (\<exists>cid. q = unhandled_response cid)" if "result = Answer q" for q
      using that res(3) inner [OF h] error_response_internal
      by (cases r) (auto simp del: error_response.simps)
    ultimately show ?thesis using res forwarded by auto
  qed (use assms g in \<open>auto simp: app_serve_def intro: error_response_internal\<close>)
qed

definition sample_connection :: connection where
  "sample_connection =
     \<lparr>cn_is_http = True, cn_content_length = None, cn_correlation = Some ''c'', cn_client = Some ''10.0.0.1'',
      cn_messages = [Chunk (Some ''ab'') True, Chunk (Some ''cd'') False]\<rparr>"

definition sample_route :: "string \<Rightarrow> http_message list \<Rightarrow> nat \<Rightarrow> (exn + http_response) \<times> nat" where
  "sample_route cid messages calls = (Inr (json_response 200 (JStr cid)), calls + 1)"

lemma edge_guards_routes_witness:
  "\<exists>r l'. app_serve (\<lambda>_. 99) 4 0 ''f'' ''g'' sample_route sample_connection (new_limiter 1) 0 = (Answer r, l', 1)
     \<and> hardened r"
proof -
  let ?run = "app_serve (\<lambda>_. 99) 4 0 ''f'' ''g'' sample_route sample_connection (new_limiter 1) 0"
  obtain r l' where run: "?run = (Answer r, l', 1)" and st: "hr_status r = 200"
    by (simp add: app_serve_def body_gate_def sample_connection_def declared_too_large_def chunk_body_def
        correlation_of_def hardening_middleware_def handled_def sample_route_def allow_def new_limiter_def
        hits_of_def harden_def json_response_def Let_def)
  from edge_guards_routes [OF run] st show ?thesis
    using run by (auto simp: sample_connection_def unhandled_response_def json_response_def)
qed

section \<open>Readiness\<close>

text \<open>
  \<open>head\<close> is the newest revision of the migration scripts, \<open>None\<close> when no \<open>alembic.ini\<close> is found;
  \<open>current\<close> is the revision in the database, where any failure to read it counts as none.
\<close>

definition script_head :: "bool \<Rightarrow> string option \<Rightarrow> string option" where
  "script_head ini_exists head = (if ini_exists then head else None)"

definition current_revision :: "exn + string option \<Rightarrow> string option" where
  "current_revision answer = (case answer of Inl e \<Rightarrow> None | Inr r \<Rightarrow> r)"

definition verify_migration_head :: "string option \<Rightarrow> exn + string option \<Rightarrow> exn + unit" where
  "verify_migration_head head answer =
     (if head \<noteq> current_revision answer then Inl RuntimeError else Inr ())"

text \<open>\<open>in_time\<close> says whether the two checks ended within the timeout.\<close>

definition readiness :: "bool \<Rightarrow> exn + unit \<Rightarrow> string option \<Rightarrow> exn + string option \<Rightarrow> http_response" where
  "readiness in_time connect head answer =
     (if in_time \<and> isl connect = False \<and> isl (verify_migration_head head answer) = False
      then json_response 200 (JObj [(''status'', JStr ''ready'')])
      else json_response 503 (JObj [(''status'', JStr ''unavailable'')]))"

definition liveness :: http_response where
  "liveness = json_response 200 (JObj [(''status'', JStr ''live'')])"

text \<open>
  The probe says ready if and only if the database answered in time and its revision is that of
  the newest migration script. When the scripts are not found it does not fail closed: then a
  database without any schema revision, or one whose revision cannot be read, is ready.
\<close>

theorem readiness_exact:
  "(hr_status (readiness in_time connect (script_head ini_exists head) answer) = 200 \<longleftrightarrow>
      in_time \<and> connect = Inr () \<and>
      (if ini_exists then head = current_revision answer else current_revision answer = None))
   \<and> hr_status (readiness True (Inr ()) (script_head False head) (Inl e)) = 200"
proof -
  have none: "current_revision (Inl e) = None" by (simp add: current_revision_def)
  show ?thesis
    by (cases connect; cases ini_exists; cases "current_revision answer")
      (auto simp: readiness_def verify_migration_head_def script_head_def json_response_def none)
qed

end
