(* ===== verification/Supervisor.thy ===== *)
theory Supervisor
  imports Json
begin

text \<open>
  \<open>worker_main.py\<close>: the loop that runs worker passes forever, and \<open>observability\<close>: the counters and
  the payload of a log record. Durations are integers of any unit, so that the doublings are exact
  as they are on the floats of the source. The endless loop is unrolled over the outcomes of its
  passes: \<open>supervise\<close> gives the pauses it makes and whether it has ended.
\<close>

section \<open>Supervision\<close>

definition MAX_BACKOFF_EXPONENT :: nat where "MAX_BACKOFF_EXPONENT = 20"

definition next_backoff_seconds :: "int \<Rightarrow> nat \<Rightarrow> int \<Rightarrow> int" where
  "next_backoff_seconds max_backoff failures idle =
     (if failures < 1 then idle
      else (let exponent = min (failures - 1) MAX_BACKOFF_EXPONENT; backoff = idle * 2 ^ exponent
            in min backoff max_backoff))"

datatype tick_outcome = Tick_done | Tick_failed | Tick_cancelled

fun supervise :: "int \<Rightarrow> int \<Rightarrow> nat \<Rightarrow> tick_outcome list \<Rightarrow> int list \<times> bool" where
  "supervise max_backoff idle failures [] = ([], False)"
| "supervise max_backoff idle failures (Tick_cancelled # ticks) = ([], True)"
| "supervise max_backoff idle failures (Tick_failed # ticks) =
     (let failures' = failures + 1; delay = next_backoff_seconds max_backoff failures' idle;
          (ds, ended) = supervise max_backoff idle failures' ticks
      in (delay # ds, ended))"
| "supervise max_backoff idle failures (Tick_done # ticks) =
     (let (ds, ended) = supervise max_backoff idle 0 ticks in (idle # ds, ended))"

lemma next_backoff_bounds:
  assumes "0 < idle" and "idle \<le> max_backoff"
  shows "idle \<le> next_backoff_seconds max_backoff n idle \<and> next_backoff_seconds max_backoff n idle \<le> max_backoff"
proof -
  have "1 \<le> (2 :: int) ^ k" for k by simp
  then have "idle * 1 \<le> idle * 2 ^ k" for k using assms(1) by (intro mult_left_mono) auto
  with assms show ?thesis by (auto simp: next_backoff_seconds_def Let_def)
qed

lemma next_backoff_mono:
  assumes "0 < idle" and "idle \<le> max_backoff" and "m \<le> n"
  shows "next_backoff_seconds max_backoff m idle \<le> next_backoff_seconds max_backoff n idle"
proof (cases "m < 1")
  case True
  then show ?thesis using next_backoff_bounds [OF assms(1,2), of n] by (simp add: next_backoff_seconds_def)
next
  case False
  then have "(2 :: int) ^ min (m - 1) MAX_BACKOFF_EXPONENT \<le> 2 ^ min (n - 1) MAX_BACKOFF_EXPONENT"
    using assms(3) by (intro power_increasing) auto
  then have "idle * 2 ^ min (m - 1) MAX_BACKOFF_EXPONENT \<le> idle * 2 ^ min (n - 1) MAX_BACKOFF_EXPONENT"
    using assms(1) by (intro mult_left_mono) auto
  with False assms(3) show ?thesis by (auto simp: next_backoff_seconds_def Let_def min_def)
qed

lemma supervise_append:
  assumes "Tick_cancelled \<notin> set before_ticks"
  shows "\<exists>f ds. supervise m i failures before_ticks = (ds, False) \<and> length ds = length before_ticks \<and>
    (\<forall>ticks. supervise m i failures (before_ticks @ ticks) =
       (ds @ fst (supervise m i f ticks), snd (supervise m i f ticks)))"
  using assms
proof (induction m i failures before_ticks rule: supervise.induct)
  case (3 m i failures ticks)
  from "3.IH" [OF refl refl] "3.prems" obtain f ds
    where "supervise m i (failures + 1) ticks = (ds, False)" "length ds = length ticks"
      "\<And>more_ticks. supervise m i (failures + 1) (ticks @ more_ticks) =
        (ds @ fst (supervise m i f more_ticks), snd (supervise m i f more_ticks))"
    by auto
  then show ?case by (intro exI [of _ f]) (auto simp: Let_def split: prod.splits)
next
  case (4 m i failures ticks)
  then obtain f ds where "supervise m i 0 ticks = (ds, False)" "length ds = length ticks"
      "\<And>more_ticks. supervise m i 0 (ticks @ more_ticks) =
        (ds @ fst (supervise m i f more_ticks), snd (supervise m i f more_ticks))"
    by auto
  then show ?case by (intro exI [of _ f]) (auto simp: Let_def split: prod.splits)
qed auto

lemma supervise_failures:
  "supervise m i k (replicate n Tick_failed) = (map (\<lambda>j. next_backoff_seconds m (k + j + 1) i) [0..<n], False)"
proof (induction n arbitrary: k)
  case (Suc n)
  have "map (\<lambda>j. next_backoff_seconds m (k + 1 + j + 1) i) [0..<n] = map (\<lambda>j. next_backoff_seconds m (k + j + 1) i) [1..<Suc n]"
  proof -
    have "[1..<Suc n] = map Suc [0..<n]" by (simp only: One_nat_def map_Suc_upt)
    then show ?thesis by (simp add: comp_def)
  qed
  then show ?case using Suc [of "k + 1"] by (simp add: Let_def upt_conv_Cons del: upt_Suc)
qed simp

lemma supervise_delays:
  "0 < i \<Longrightarrow> i \<le> m \<Longrightarrow> d \<in> set (fst (supervise m i k ticks)) \<Longrightarrow> i \<le> d \<and> d \<le> m"
  by (induction m i k ticks rule: supervise.induct)
    (auto simp: Let_def next_backoff_bounds split: prod.splits)

text \<open>
  C20. The supervisor survives every failure. Whatever mix of successful and failing passes comes, as
  long as it is not cancelled it has not ended and has paused once after each pass, always at least
  the idle time and at most the ceiling; after a success any streak of failures is paused for the
  doubling backoff from the idle time on, cut at the ceiling, however long the streak gets.
\<close>

theorem supervisor_survives:
  assumes "0 < idle" and "idle \<le> max_backoff" and "Tick_cancelled \<notin> set ticks"
  shows "snd (supervise max_backoff idle 0 ticks) = False \<and>
    length (fst (supervise max_backoff idle 0 ticks)) = length ticks \<and>
    (\<forall>d \<in> set (fst (supervise max_backoff idle 0 ticks)). idle \<le> d \<and> d \<le> max_backoff) \<and>
    (\<forall>n. fst (supervise max_backoff idle 0 (ticks @ Tick_done # replicate n Tick_failed)) =
       fst (supervise max_backoff idle 0 ticks) @ idle # map (\<lambda>j. min (idle * 2 ^ min j 20) max_backoff) [0..<n])"
proof -
  obtain f ds where s: "supervise max_backoff idle 0 ticks = (ds, False)" "length ds = length ticks"
      "\<And>more_ticks. supervise max_backoff idle 0 (ticks @ more_ticks) =
         (ds @ fst (supervise max_backoff idle f more_ticks), snd (supervise max_backoff idle f more_ticks))"
    using supervise_append [OF assms(3), of max_backoff idle 0] by blast
  have "fst (supervise max_backoff idle f (Tick_done # replicate n Tick_failed)) =
      idle # map (\<lambda>j. min (idle * 2 ^ min j 20) max_backoff) [0..<n]" for n
    using supervise_failures [of max_backoff idle 0 n]
    by (simp add: Let_def next_backoff_seconds_def MAX_BACKOFF_EXPONENT_def)
  with s supervise_delays [OF assms(1,2), of _ 0 ticks] show ?thesis by auto
qed

lemma supervisor_survives_witness:
  "fst (supervise 60 5 0 ([Tick_failed] @ Tick_done # replicate 6 Tick_failed)) = [5, 5, 5, 10, 20, 40, 60, 60]"
proof -
  have one: "fst (supervise 60 5 0 [Tick_failed]) = [5]" by (simp add: Let_def next_backoff_seconds_def)
  have pauses: "map (\<lambda>j. min (5 * 2 ^ min j 20) 60) [0..<6] = [5, 10, 20, 40, 60, 60 :: int]" by code_simp
  have "fst (supervise 60 5 0 ([Tick_failed] @ Tick_done # replicate 6 Tick_failed)) =
      fst (supervise 60 5 0 [Tick_failed]) @ 5 # map (\<lambda>j. min (5 * 2 ^ min j 20) 60) [0..<6]"
    by (rule conjunct2 [OF conjunct2 [OF conjunct2 [OF supervisor_survives]], THEN spec]) simp_all
  then show ?thesis unfolding one pauses by simp
qed

section \<open>Counters\<close>

text \<open>\<open>telemetry.py\<close>: counters by rendered key; a label whose value is \<open>None\<close> is left out.\<close>

definition metric_key :: "string \<Rightarrow> dict \<Rightarrow> string" where
  "metric_key name labels =
     (if labels = [] then name
      else name @ ''{'' @ join_with '','' (map (\<lambda>(k, v). k @ ''='' @ py_str v)
             (filter (\<lambda>(k, v). v \<noteq> JNull) (sort_key fst labels))) @ ''}'')"

type_synonym 'v counters = "string \<rightharpoonup> 'v"

definition metric_add :: "string \<Rightarrow> 'v \<Rightarrow> dict \<Rightarrow> 'v counters \<Rightarrow> ('v :: semiring_1) counters" where
  "metric_add name v labels cs =
     (let key = metric_key name labels in cs(key \<mapsto> (case cs key of None \<Rightarrow> 0 | Some x \<Rightarrow> x) + v))"

definition metric_increment :: "string \<Rightarrow> dict \<Rightarrow> 'v counters \<Rightarrow> ('v :: semiring_1) counters" where
  "metric_increment name labels cs = metric_add name 1 labels cs"

definition metric_snapshot :: "'v counters \<Rightarrow> 'v counters" where
  "metric_snapshot cs = cs"

definition metric_reset :: "'v counters \<Rightarrow> 'v counters" where
  "metric_reset cs = (\<lambda>_. None)"

section \<open>Log records\<close>

record log_record =
  lr_levelname :: string
  lr_name :: string
  lr_message :: string
  lr_correlation_id :: "string option"
  lr_exception :: "string option"

definition log_payload :: "string \<Rightarrow> string \<Rightarrow> log_record \<Rightarrow> dict" where
  "log_payload timestamp environment r =
     [(''timestamp'', JStr timestamp), (''severity'', JStr (lr_levelname r)), (''service'', JStr ''hitl-ops''),
      (''environment'', JStr environment), (''logger'', JStr (lr_name r)), (''message'', JStr (lr_message r))] @
     (case lr_correlation_id r of None \<Rightarrow> [] | Some c \<Rightarrow> if c = [] then [] else [(''correlation_id'', JStr c)]) @
     (case lr_exception r of None \<Rightarrow> [] | Some e \<Rightarrow> [(''exception'', JStr e)])"

end
