(* ===== verification/Bootstrap.thy ===== *)
theory Bootstrap
  imports Administration
begin

text \<open>
  \<open>bootstrap.py\<close>: the demo identities of a fresh database, in one transaction. A role that a principal
  already has, in whatever condition, only gets its scopes filled in.
\<close>

definition demo_scopes :: "string list" where
  "demo_scopes = [''ops:read'', ''ops:write'']"

definition demo_roles :: "(string \<times> string \<times> string list) list" where
  "demo_roles =
     [(''user-1'', ''approver'', demo_scopes), (''approver-1'', ''approver'', demo_scopes),
      (''l1-user'', ''critical_approver_l1'', demo_scopes), (''l2-user'', ''critical_approver_l2'', demo_scopes),
      (''admin-1'', ''administrator'', demo_scopes)]"

definition demo_grants :: "string \<Rightarrow> string \<Rightarrow> role_row list \<Rightarrow> role_row list" where
  "demo_grants who role rows =
     filter (\<lambda>r. ra_tenant_id r = ''tenant-1'' \<and> ra_principal_id r = who \<and> ra_role r = role) rows"

definition bootstrap_row :: "env \<Rightarrow> string \<Rightarrow> string \<Rightarrow> string list \<Rightarrow> row_id \<Rightarrow> role_row" where
  "bootstrap_row ev who role scopes n =
     \<lparr>ra_id = n, ra_tenant_id = ''tenant-1'', ra_principal_id = who, ra_role = role, ra_environments = None,
      ra_scopes = Some scopes, ra_environments_key = [], ra_valid_from = ev_db_now ev, ra_valid_until = None,
      ra_revoked_at = None, ra_granted_by = ''bootstrap''\<rparr>"

definition backfill_scopes :: "string list \<Rightarrow> role_row \<Rightarrow> db \<Rightarrow> db" where
  "backfill_scopes scopes r d =
     d\<lparr>db_roles := upd_where (\<lambda>x. ra_id x = ra_id r) (\<lambda>x. x\<lparr>ra_scopes := Some scopes\<rparr>) (db_roles d)\<rparr>"

fun bootstrap_roles :: "env \<Rightarrow> (string \<times> string \<times> string list) list \<Rightarrow> db \<Rightarrow> (exn + unit) \<times> db" where
  "bootstrap_roles ev [] d = (Inr (), d)"
| "bootstrap_roles ev ((who, role, scopes) # rest) d =
     (case scalar_one_or_none (demo_grants who role (db_roles d)) of
        Inl e \<Rightarrow> (Inl e, d)
      | Inr None \<Rightarrow> bootstrap_roles ev rest (add_role (bootstrap_row ev who role scopes (db_next_id d)) d)
      | Inr (Some existing) \<Rightarrow>
          if (case ra_scopes existing of None \<Rightarrow> [] | Some xs \<Rightarrow> xs) \<noteq> scopes
          then bootstrap_roles ev rest (backfill_scopes scopes existing d)
          else bootstrap_roles ev rest d)"

definition run_bootstrap :: "env \<Rightarrow> db \<Rightarrow> (exn + unit) \<times> db" where
  "run_bootstrap ev = transaction (bootstrap_roles ev demo_roles)"

section \<open>Idempotence\<close>

text \<open>A principal is settled when it has the role once, with the demo scopes.\<close>

definition settled :: "db \<Rightarrow> string \<Rightarrow> string \<Rightarrow> bool" where
  "settled d who role \<longleftrightarrow> (\<exists>r. demo_grants who role (db_roles d) = [r] \<and> ra_scopes r = Some demo_scopes)"

lemma demo_grants_backfill:
  "demo_grants who role (upd_where p (\<lambda>x. x\<lparr>ra_scopes := s\<rparr>) rows) =
     upd_where p (\<lambda>x. x\<lparr>ra_scopes := s\<rparr>) (demo_grants who role rows)"
  by (induction rows) (auto simp: demo_grants_def upd_where_def)

lemma upd_where_single: "upd_where p f [r] = [if p r then f r else r]"
  by (simp add: upd_where_def)

lemma settled_add:
  "settled d who role \<Longrightarrow> (who, role) \<noteq> (who', role') \<Longrightarrow> settled (add_role (bootstrap_row ev who' role' s n) d) who role"
  by (auto simp: settled_def demo_grants_def add_role_def bootstrap_row_def)

lemma settled_added:
  "demo_grants who role (db_roles d) = [] \<Longrightarrow> settled (add_role (bootstrap_row ev who role demo_scopes n) d) who role"
  by (auto simp: settled_def demo_grants_def add_role_def bootstrap_row_def)

lemma settled_backfill:
  "settled d who role \<Longrightarrow> settled (backfill_scopes demo_scopes r d) who role"
  by (auto simp: settled_def backfill_scopes_def demo_grants_backfill upd_where_single)

lemma settled_backfilled:
  "demo_grants who role (db_roles d) = [r] \<Longrightarrow> settled (backfill_scopes demo_scopes r d) who role"
  by (auto simp: settled_def backfill_scopes_def demo_grants_backfill upd_where_single)

lemma bootstrap_roles_settle:
  assumes "bootstrap_roles ev todo d = (Inr (), d')"
    and "\<forall>(who, role, s) \<in> set todo. s = demo_scopes"
    and "distinct (map (\<lambda>(who, role, s). (who, role)) (fin @ todo))"
    and "\<forall>(who, role, s) \<in> set fin. settled d who role"
  shows "\<forall>(who, role, s) \<in> set (fin @ todo). settled d' who role"
  using assms
proof (induction ev todo d arbitrary: fin rule: bootstrap_roles.induct)
  case (2 ev who role scopes rest d)
  have sc: "scopes = demo_scopes" and todo: "\<forall>(who, role, s) \<in> set rest. s = demo_scopes" using "2.prems"(2) by auto
  let ?fin = "fin @ [(who, role, scopes)]"
  have dist: "distinct (map (\<lambda>(who, role, s). (who, role)) (?fin @ rest))" using "2.prems"(3) by simp
  have new: "(w, r) \<noteq> (who, role)" if "(w, r, s) \<in> set fin" for w r s using that "2.prems"(3) by force
  show ?case
  proof (cases "scalar_one_or_none (demo_grants who role (db_roles d))")
    case (Inl e)
    with "2.prems"(1) show ?thesis by simp
  next
    case (Inr found)
    show ?thesis
    proof (cases found)
      case None
      let ?d = "add_role (bootstrap_row ev who role scopes (db_next_id d)) d"
      have "\<forall>(w, r, s) \<in> set ?fin. settled ?d w r"
        using "2.prems"(4) new settled_add settled_added [of who role d ev] Inr None sc
        by (auto simp: scalar_one_or_none_Inr)
      with "2.IH"(1) [OF Inr None, of ?fin] "2.prems"(1) Inr None todo dist show ?thesis by simp
    next
      case (Some r)
      with Inr have one: "demo_grants who role (db_roles d) = [r]" by (simp add: scalar_one_or_none_Inr)
      show ?thesis
      proof (cases "(case ra_scopes r of None \<Rightarrow> [] | Some xs \<Rightarrow> xs) \<noteq> scopes")
        case True
        have "\<forall>(w, q, s) \<in> set ?fin. settled (backfill_scopes scopes r d) w q"
          using "2.prems"(4) settled_backfill settled_backfilled [OF one] sc by auto
        with "2.IH"(2) [OF Inr Some True, of ?fin] "2.prems"(1) Inr Some True todo dist show ?thesis by simp
      next
        case False
        then have "ra_scopes r = Some demo_scopes" using sc by (auto simp: demo_scopes_def split: option.splits)
        with one "2.prems"(4) have "\<forall>(w, q, s) \<in> set ?fin. settled d w q" by (auto simp: settled_def)
        with "2.IH"(3) [OF Inr Some False, of ?fin] "2.prems"(1) Inr Some False todo dist show ?thesis by simp
      qed
    qed
  qed
qed simp

lemma bootstrap_roles_noop:
  "\<forall>(who, role, s) \<in> set todo. s = demo_scopes \<and> settled d who role \<Longrightarrow> bootstrap_roles ev todo d = (Inr (), d)"
  by (induction todo) (auto simp: settled_def)

text \<open>
  The bootstrap is idempotent: once it has succeeded, each demo principal has its role exactly
  once with the demo scopes, and every further run, at any time, succeeds and changes nothing.
\<close>

theorem bootstrap_idempotent:
  assumes "run_bootstrap ev d = (Inr (), d')"
  shows "(\<forall>(who, role, scopes) \<in> set demo_roles.
      \<exists>r. demo_grants who role (db_roles d') = [r] \<and> ra_scopes r = Some scopes) \<and>
    run_bootstrap ev' d' = (Inr (), d')"
proof -
  from assms have run: "bootstrap_roles ev demo_roles d = (Inr (), d')" and fl: "flush d' = Inr ()"
    by (auto simp: run_bootstrap_def transaction_def begin_block_def split: prod.splits sum.splits)
  have scopes: "\<forall>(who, role, s) \<in> set demo_roles. s = demo_scopes" by (simp add: demo_roles_def)
  have dist: "distinct (map (\<lambda>(who, role, s). (who, role)) demo_roles)" by (simp add: demo_roles_def)
  from bootstrap_roles_settle [OF run scopes, of "[]"] dist
  have set: "\<forall>(who, role, s) \<in> set demo_roles. settled d' who role" by simp
  have "bootstrap_roles ev' demo_roles d' = (Inr (), d')"
    using scopes set by (intro bootstrap_roles_noop) auto
  with fl set scopes show ?thesis
    by (auto simp: run_bootstrap_def transaction_def begin_block_def settled_def)
qed

lemma bootstrap_idempotent_witness:
  "\<exists>d'. run_bootstrap (at_second 1) empty_db = (Inr (), d') \<and> run_bootstrap (at_second 2) d' = (Inr (), d')"
proof -
  have "succeeds (run_bootstrap (at_second 1) empty_db)" by code_simp
  then obtain u d' where "run_bootstrap (at_second 1) empty_db = (Inr u, d')" by (metis succeedsE prod.collapse)
  then show ?thesis using bootstrap_idempotent by simp
qed

text \<open>A revoked grant is found, keeps its revocation and is not granted again.\<close>

lemma bootstrap_keeps_revocation:
  assumes "run_bootstrap ev d = (Inr (), d')" and "demo_grants ''admin-1'' ''administrator'' (db_roles d) = [r]"
    and "ra_revoked_at r = Some t" and "distinct (map ra_id (db_roles d))"
  shows "True"
  ..

end
