(* ===== verification/Db_Schema.thy ===== *)
theory Db_Schema
  imports Prelude
begin

text \<open>
  The database schema as the program declares it twice: as the mapped classes of
  \<open>infrastructure/orm.py\<close> and, in \<open>Migrations\<close>, as the scripts of \<open>alembic/versions\<close>. This theory
  holds the vocabulary, the effect of each schema operation as the database documents it, and the
  schema of the mapped classes. \<open>DataOnly\<close> is a statement that changes rows only.
\<close>

section \<open>Schemas\<close>

datatype sql_type = STRING nat | UUID | INTEGER | BIGINT | JSONB | TEXT | TIMESTAMP | BOOLEAN

record sql_column =
  co_name :: string
  co_type :: sql_type
  co_nullable :: bool
  co_default :: "string option"

definition column :: "string \<Rightarrow> sql_type \<Rightarrow> bool \<Rightarrow> string option \<Rightarrow> sql_column" where
  "column name ty nullable dflt =
     \<lparr>co_name = name, co_type = ty, co_nullable = nullable, co_default = dflt\<rparr>"

datatype sql_constraint =
    PrimaryKey "string list"
  | ForeignKey string "string list" string "string list"
  | UniqueKey string "string list"
  | CheckExpr string string

record sql_table =
  tb_name :: string
  tb_columns :: "sql_column list"
  tb_constraints :: "sql_constraint list"

record sql_index =
  ix_name :: string
  ix_table :: string
  ix_columns :: "string list"
  ix_unique :: bool
  ix_where :: "string option"

record sql_schema =
  sc_tables :: "sql_table list"
  sc_indexes :: "sql_index list"
  sc_triggers :: "(string \<times> string) list"
  sc_functions :: "string list"
  sc_sequences :: "string list"

definition empty_schema :: sql_schema where
  "empty_schema = \<lparr>sc_tables = [], sc_indexes = [], sc_triggers = [], sc_functions = [], sc_sequences = []\<rparr>"

section \<open>Schema operations\<close>

datatype ddl =
    CreateTable sql_table
  | DropTable string
  | AddColumn string sql_column
  | DropColumn string string
  | CreateIndex sql_index
  | DropIndex string string
  | AddCheck string string string
  | DropConstraint string string
  | CreateFunction string
  | DropFunction string
  | CreateTrigger string string
  | DropTrigger string string
  | CreateSequence string
  | DropSequence string
  | DataOnly

definition has_table :: "string \<Rightarrow> sql_schema \<Rightarrow> bool" where
  "has_table t s \<longleftrightarrow> t \<in> set (map tb_name (sc_tables s))"

definition has_column :: "string \<Rightarrow> string \<Rightarrow> sql_schema \<Rightarrow> bool" where
  "has_column t c s \<longleftrightarrow> list_ex (\<lambda>b. tb_name b = t \<and> c \<in> set (map co_name (tb_columns b))) (sc_tables s)"

fun constraint_name :: "sql_constraint \<Rightarrow> string option" where
  "constraint_name (PrimaryKey cs) = None"
| "constraint_name (ForeignKey n cs t rs) = Some n"
| "constraint_name (UniqueKey n cs) = Some n"
| "constraint_name (CheckExpr n e) = Some n"

definition has_constraint :: "string \<Rightarrow> string \<Rightarrow> sql_schema \<Rightarrow> bool" where
  "has_constraint t n s \<longleftrightarrow>
     list_ex (\<lambda>b. tb_name b = t \<and> Some n \<in> set (map constraint_name (tb_constraints b))) (sc_tables s)"

definition on_table :: "string \<Rightarrow> (sql_table \<Rightarrow> sql_table) \<Rightarrow> sql_schema \<Rightarrow> sql_schema" where
  "on_table t f s = s\<lparr>sc_tables := upd_where (\<lambda>b. tb_name b = t) f (sc_tables s)\<rparr>"

text \<open>A foreign key needs its table and columns, and a table that another one references stays.\<close>

definition references_table :: "string \<Rightarrow> sql_table \<Rightarrow> bool" where
  "references_table t b \<longleftrightarrow>
     list_ex (\<lambda>c. case c of ForeignKey n cs r rs \<Rightarrow> r = t | _ \<Rightarrow> False) (tb_constraints b)"

definition foreign_keys_ok :: "sql_schema \<Rightarrow> sql_table \<Rightarrow> bool" where
  "foreign_keys_ok s b \<longleftrightarrow>
     list_all (\<lambda>c. case c of ForeignKey n cs t rs \<Rightarrow> list_all (\<lambda>r. has_column t r s) rs | _ \<Rightarrow> True)
       (tb_constraints b)"

text \<open>\<open>None\<close> is a statement that the database refuses.\<close>

fun apply_ddl :: "ddl \<Rightarrow> sql_schema \<Rightarrow> sql_schema option" where
  "apply_ddl (CreateTable b) s =
     (if has_table (tb_name b) s \<or> \<not> foreign_keys_ok s b then None
      else Some (s\<lparr>sc_tables := sc_tables s @ [b]\<rparr>))"
| "apply_ddl (DropTable t) s =
     (if \<not> has_table t s \<or> list_ex (\<lambda>b. tb_name b \<noteq> t \<and> references_table t b) (sc_tables s) then None
      else Some (s\<lparr>sc_tables := filter (\<lambda>b. tb_name b \<noteq> t) (sc_tables s),
                   sc_indexes := filter (\<lambda>i. ix_table i \<noteq> t) (sc_indexes s),
                   sc_triggers := filter (\<lambda>g. snd g \<noteq> t) (sc_triggers s)\<rparr>))"
| "apply_ddl (AddColumn t c) s =
     (if \<not> has_table t s \<or> has_column t (co_name c) s then None
      else Some (on_table t (\<lambda>b. b\<lparr>tb_columns := tb_columns b @ [c]\<rparr>) s))"
| "apply_ddl (DropColumn t c) s =
     (if \<not> has_column t c s then None
      else Some (on_table t (\<lambda>b. b\<lparr>tb_columns := filter (\<lambda>x. co_name x \<noteq> c) (tb_columns b)\<rparr>)
             (s\<lparr>sc_indexes := filter (\<lambda>i. \<not> (ix_table i = t \<and> c \<in> set (ix_columns i))) (sc_indexes s)\<rparr>)))"
| "apply_ddl (CreateIndex i) s =
     (if ix_name i \<in> set (map ix_name (sc_indexes s)) \<or> \<not> list_all (\<lambda>c. has_column (ix_table i) c s) (ix_columns i)
      then None else Some (s\<lparr>sc_indexes := sc_indexes s @ [i]\<rparr>))"
| "apply_ddl (DropIndex n t) s =
     (if n \<notin> set (map ix_name (sc_indexes s)) then None
      else Some (s\<lparr>sc_indexes := filter (\<lambda>i. ix_name i \<noteq> n) (sc_indexes s)\<rparr>))"
| "apply_ddl (AddCheck t n e) s =
     (if \<not> has_table t s \<or> has_constraint t n s then None
      else Some (on_table t (\<lambda>b. b\<lparr>tb_constraints := tb_constraints b @ [CheckExpr n e]\<rparr>) s))"
| "apply_ddl (DropConstraint t n) s =
     (if \<not> has_constraint t n s then None
      else Some (on_table t (\<lambda>b. b\<lparr>tb_constraints :=
             filter (\<lambda>c. constraint_name c \<noteq> Some n) (tb_constraints b)\<rparr>) s))"
| "apply_ddl (CreateFunction n) s =
     (if n \<in> set (sc_functions s) then None else Some (s\<lparr>sc_functions := sc_functions s @ [n]\<rparr>))"
| "apply_ddl (DropFunction n) s = Some (s\<lparr>sc_functions := filter (\<lambda>f. f \<noteq> n) (sc_functions s)\<rparr>)"
| "apply_ddl (CreateTrigger n t) s =
     (if \<not> has_table t s \<or> (n, t) \<in> set (sc_triggers s) then None
      else Some (s\<lparr>sc_triggers := sc_triggers s @ [(n, t)]\<rparr>))"
| "apply_ddl (DropTrigger n t) s = Some (s\<lparr>sc_triggers := filter (\<lambda>g. g \<noteq> (n, t)) (sc_triggers s)\<rparr>)"
| "apply_ddl (CreateSequence n) s =
     (if n \<in> set (sc_sequences s) then None else Some (s\<lparr>sc_sequences := sc_sequences s @ [n]\<rparr>))"
| "apply_ddl (DropSequence n) s = Some (s\<lparr>sc_sequences := filter (\<lambda>q. q \<noteq> n) (sc_sequences s)\<rparr>)"
| "apply_ddl DataOnly s = Some s"

fun run_ddl :: "ddl list \<Rightarrow> sql_schema \<Rightarrow> sql_schema option" where
  "run_ddl [] s = Some s"
| "run_ddl (op # ops) s = (case apply_ddl op s of None \<Rightarrow> None | Some s' \<Rightarrow> run_ddl ops s')"

lemma run_ddl_append:
  "run_ddl (xs @ ys) s = (case run_ddl xs s of None \<Rightarrow> None | Some s' \<Rightarrow> run_ddl ys s')"
  by (induction xs arbitrary: s) (auto split: option.splits)

section \<open>The schema of the mapped classes\<close>

definition action_intents_table :: sql_table where
  "action_intents_table =
     \<lparr>tb_name = ''action_intents'',
       tb_columns =
         [column ''tenant_id'' (STRING 63) False None,
          column ''intent_id'' UUID False None,
          column ''revision'' INTEGER False None,
          column ''tool'' (STRING 63) False None,
          column ''canonical_parameters'' JSONB False None,
          column ''intent_digest'' (STRING 64) False None,
          column ''requester_id'' (STRING 255) False None,
          column ''requester_rationale'' TEXT False None,
          column ''raw_proposal'' JSONB True None,
          column ''source'' (STRING 16) False None,
          column ''state'' (STRING 32) False None,
          column ''state_version'' INTEGER False None,
          column ''approval_expires_at'' TIMESTAMP True None,
          column ''created_at'' TIMESTAMP False (Some (''now()'')),
          column ''updated_at'' TIMESTAMP False (Some (''now()''))],
       tb_constraints =
         [PrimaryKey [''tenant_id'', ''intent_id'', ''revision''],
          CheckExpr ''ck_action_intents_revision_positive'' (''revision >= 1''),
          CheckExpr ''ck_action_intents_state_version_positive'' (''state_version >= 1'')]\<rparr>"

definition state_transitions_table :: sql_table where
  "state_transitions_table =
     \<lparr>tb_name = ''state_transitions'',
       tb_columns =
         [column ''id'' UUID False None,
          column ''tenant_id'' (STRING 63) False None,
          column ''intent_id'' UUID False None,
          column ''intent_revision'' INTEGER False None,
          column ''from_state'' (STRING 32) True None,
          column ''to_state'' (STRING 32) False None,
          column ''actor_type'' (STRING 32) False None,
          column ''actor_id'' (STRING 255) False None,
          column ''command_id'' (STRING 64) False None,
          column ''reason_code'' (STRING 64) False None,
          column ''metadata'' JSONB False None,
          column ''sequence'' INTEGER False None,
          column ''occurred_at'' TIMESTAMP False (Some (''now()''))],
       tb_constraints =
         [PrimaryKey [''id''],
          ForeignKey ''fk_state_transitions_intent_revision'' [''tenant_id'', ''intent_id'',
            ''intent_revision''] ''action_intents'' [''tenant_id'', ''intent_id'', ''revision''],
          UniqueKey ''uq_state_transitions_command_id'' [''command_id''],
          UniqueKey ''uq_state_transitions_revision_sequence'' [''tenant_id'', ''intent_id'',
            ''intent_revision'', ''sequence'']]\<rparr>"

definition idempotency_records_table :: sql_table where
  "idempotency_records_table =
     \<lparr>tb_name = ''idempotency_records'',
       tb_columns =
         [column ''id'' UUID False None,
          column ''tenant_id'' (STRING 63) False None,
          column ''actor_id'' (STRING 255) False None,
          column ''scope'' (STRING 64) False None,
          column ''key_hash'' (STRING 64) False None,
          column ''request_hash'' (STRING 64) False None,
          column ''status'' (STRING 32) False None,
          column ''resource_type'' (STRING 64) True None,
          column ''resource_id'' (STRING 255) True None,
          column ''response_status'' INTEGER True None,
          column ''response_body'' JSONB True None,
          column ''expires_at'' TIMESTAMP True None],
       tb_constraints =
         [PrimaryKey [''id''],
          UniqueKey ''uq_idempotency_records_key'' [''tenant_id'', ''actor_id'', ''scope'',
            ''key_hash'']]\<rparr>"

definition outbox_messages_table :: sql_table where
  "outbox_messages_table =
     \<lparr>tb_name = ''outbox_messages'',
       tb_columns =
         [column ''sequence'' BIGINT False (Some (''nextval('' @ [CHR 0x27] @
           ''outbox_messages_sequence_seq'' @ [CHR 0x27] @ '')'')),
          column ''id'' UUID False None,
          column ''topic'' (STRING 64) False None,
          column ''payload'' JSONB False None,
          column ''attempts'' INTEGER False None,
          column ''next_attempt_at'' TIMESTAMP True None,
          column ''published_at'' TIMESTAMP True None,
          column ''claimed_by'' (STRING 64) True None,
          column ''claim_expires_at'' TIMESTAMP True None,
          column ''created_at'' TIMESTAMP False (Some (''now()''))],
       tb_constraints =
         [PrimaryKey [''id'']]\<rparr>"

definition audit_events_table :: sql_table where
  "audit_events_table =
     \<lparr>tb_name = ''audit_events'',
       tb_columns =
         [column ''event_id'' UUID False None,
          column ''tenant_id'' (STRING 63) False None,
          column ''aggregate_id'' UUID False None,
          column ''aggregate_revision'' INTEGER False None,
          column ''sequence'' INTEGER False None,
          column ''event_type'' (STRING 64) False None,
          column ''actor_id'' (STRING 255) False None,
          column ''occurred_at'' TIMESTAMP False None,
          column ''correlation_id'' (STRING 64) True None,
          column ''causation_id'' (STRING 64) True None,
          column ''policy_version'' (STRING 32) True None,
          column ''risk_version'' (STRING 32) True None,
          column ''attributes'' JSONB False None,
          column ''previous_hash'' (STRING 64) False None,
          column ''event_hash'' (STRING 64) False None],
       tb_constraints =
         [PrimaryKey [''event_id''],
          UniqueKey ''uq_audit_events_aggregate_sequence'' [''tenant_id'', ''aggregate_id'', ''sequence''],
          UniqueKey [] [''event_hash'']]\<rparr>"

definition risk_evaluations_table :: sql_table where
  "risk_evaluations_table =
     \<lparr>tb_name = ''risk_evaluations'',
       tb_columns =
         [column ''id'' UUID False None,
          column ''tenant_id'' (STRING 63) False None,
          column ''intent_id'' UUID False None,
          column ''intent_revision'' INTEGER False None,
          column ''generation'' INTEGER False None,
          column ''band'' (STRING 16) False None,
          column ''factors'' JSONB False None,
          column ''rule_version'' (STRING 32) False None,
          column ''evaluated_context'' JSONB False None,
          column ''evaluated_at'' TIMESTAMP False (Some (''now()''))],
       tb_constraints =
         [PrimaryKey [''id''],
          ForeignKey ''fk_risk_evaluations_intent_revision'' [''tenant_id'', ''intent_id'',
            ''intent_revision''] ''action_intents'' [''tenant_id'', ''intent_id'', ''revision''],
          UniqueKey ''uq_risk_evaluations_revision_generation'' [''tenant_id'', ''intent_id'',
            ''intent_revision'', ''generation'']]\<rparr>"

definition policy_evaluations_table :: sql_table where
  "policy_evaluations_table =
     \<lparr>tb_name = ''policy_evaluations'',
       tb_columns =
         [column ''id'' UUID False None,
          column ''tenant_id'' (STRING 63) False None,
          column ''intent_id'' UUID False None,
          column ''intent_revision'' INTEGER False None,
          column ''generation'' INTEGER False None,
          column ''disposition'' (STRING 32) False None,
          column ''route'' (STRING 32) False None,
          column ''required_roles'' JSONB False None,
          column ''required_scopes'' JSONB False None,
          column ''obligations'' JSONB False None,
          column ''reason_codes'' JSONB False None,
          column ''policy_version'' (STRING 32) False None,
          column ''approval_ttl_seconds'' INTEGER True None,
          column ''evaluated_at'' TIMESTAMP False (Some (''now()''))],
       tb_constraints =
         [PrimaryKey [''id''],
          ForeignKey ''fk_policy_evaluations_intent_revision'' [''tenant_id'', ''intent_id'',
            ''intent_revision''] ''action_intents'' [''tenant_id'', ''intent_id'', ''revision''],
          UniqueKey ''uq_policy_evaluations_revision_generation'' [''tenant_id'', ''intent_id'',
            ''intent_revision'', ''generation'']]\<rparr>"

definition policy_bundles_table :: sql_table where
  "policy_bundles_table =
     \<lparr>tb_name = ''policy_bundles'',
       tb_columns =
         [column ''id'' UUID False None,
          column ''tenant_id'' (STRING 63) False None,
          column ''version'' (STRING 32) False None,
          column ''rules'' JSONB False None,
          column ''is_active'' BOOLEAN False None,
          column ''created_at'' TIMESTAMP False (Some (''now()''))],
       tb_constraints =
         [PrimaryKey [''id'']]\<rparr>"

definition approval_decisions_table :: sql_table where
  "approval_decisions_table =
     \<lparr>tb_name = ''approval_decisions'',
       tb_columns =
         [column ''id'' UUID False None,
          column ''tenant_id'' (STRING 63) False None,
          column ''intent_id'' UUID False None,
          column ''intent_revision'' INTEGER False None,
          column ''intent_digest'' (STRING 64) False None,
          column ''level'' INTEGER False None,
          column ''decision'' (STRING 16) False None,
          column ''actor_id'' (STRING 255) False None,
          column ''actor_roles_snapshot'' JSONB False None,
          column ''scope_snapshot'' JSONB False None,
          column ''reason'' TEXT False None,
          column ''policy_version'' (STRING 32) False None,
          column ''decided_at'' TIMESTAMP False (Some (''now()'')),
          column ''expires_at'' TIMESTAMP True None],
       tb_constraints =
         [PrimaryKey [''id''],
          ForeignKey ''fk_approval_decisions_intent_revision'' [''tenant_id'', ''intent_id'',
            ''intent_revision''] ''action_intents'' [''tenant_id'', ''intent_id'', ''revision''],
          CheckExpr ''ck_approval_decisions_level'' (''level IN (1, 2)''),
          CheckExpr ''ck_approval_decisions_decision'' (''decision IN ('' @ [CHR 0x27] @ ''APPROVE'' @
            [CHR 0x27] @ '', '' @ [CHR 0x27] @ ''REJECT'' @ [CHR 0x27] @ '')''),
          CheckExpr ''ck_approval_decisions_revision_positive'' (''intent_revision >= 1'')]\<rparr>"

definition role_assignments_table :: sql_table where
  "role_assignments_table =
     \<lparr>tb_name = ''role_assignments'',
       tb_columns =
         [column ''id'' UUID False None,
          column ''tenant_id'' (STRING 63) False None,
          column ''principal_id'' (STRING 255) False None,
          column ''role'' (STRING 63) False None,
          column ''environments'' JSONB True None,
          column ''scopes'' JSONB True None,
          column ''environments_key'' (STRING 512) False None,
          column ''valid_from'' TIMESTAMP False (Some (''now()'')),
          column ''valid_until'' TIMESTAMP True None,
          column ''revoked_at'' TIMESTAMP True None,
          column ''granted_by'' (STRING 255) False None],
       tb_constraints =
         [PrimaryKey [''id'']]\<rparr>"

definition executions_table :: sql_table where
  "executions_table =
     \<lparr>tb_name = ''executions'',
       tb_columns =
         [column ''id'' UUID False None,
          column ''tenant_id'' (STRING 63) False None,
          column ''intent_id'' UUID False None,
          column ''intent_revision'' INTEGER False None,
          column ''operation_key'' (STRING 255) False None,
          column ''attempt'' INTEGER False None,
          column ''status'' (STRING 32) False None,
          column ''provider_operation_id'' (STRING 255) True None,
          column ''request_fingerprint'' (STRING 64) True None,
          column ''precondition_snapshot'' JSONB True None,
          column ''claim_expires_at'' TIMESTAMP True None,
          column ''started_at'' TIMESTAMP True None,
          column ''finished_at'' TIMESTAMP True None,
          column ''error_code'' (STRING 64) True None,
          column ''result_summary'' JSONB True None,
          column ''reconcile_attempts'' INTEGER False (Some (''0'')),
          column ''next_reconcile_at'' TIMESTAMP True None],
       tb_constraints =
         [PrimaryKey [''id''],
          ForeignKey ''fk_executions_intent_revision'' [''tenant_id'', ''intent_id'',
            ''intent_revision''] ''action_intents'' [''tenant_id'', ''intent_id'', ''revision''],
          UniqueKey ''uq_executions_revision'' [''tenant_id'', ''intent_id'', ''intent_revision''],
          UniqueKey ''uq_executions_operation_key'' [''operation_key''],
          CheckExpr ''ck_executions_attempt_positive'' (''attempt >= 1''),
          CheckExpr ''ck_executions_revision_positive'' (''intent_revision >= 1''),
          CheckExpr ''ck_executions_status'' (''status IN ('' @ [CHR 0x27] @ ''CLAIMED'' @ [CHR 0x27] @
            '', '' @ [CHR 0x27] @ ''EXECUTING'' @ [CHR 0x27] @ '', '' @ [CHR 0x27] @ ''SUCCEEDED'' @ [CHR
            0x27] @ '', '' @ [CHR 0x27] @ ''FAILED'' @ [CHR 0x27] @ '', '' @ [CHR 0x27] @ ''UNKNOWN'' @
            [CHR 0x27] @ '')'')]\<rparr>"

definition action_intents_indexes :: "sql_index list" where
  "action_intents_indexes =
    [\<lparr>ix_name = ''ix_action_intents_digest'', ix_table = ''action_intents'', ix_columns =
      [''intent_digest''],
       ix_unique = False, ix_where = None\<rparr>]"

definition outbox_messages_indexes :: "sql_index list" where
  "outbox_messages_indexes =
    [\<lparr>ix_name = ''ix_outbox_messages_pending'', ix_table = ''outbox_messages'', ix_columns =
       [''published_at'', ''created_at''],
       ix_unique = False, ix_where = None\<rparr>]"

definition audit_events_indexes :: "sql_index list" where
  "audit_events_indexes =
    [\<lparr>ix_name = ''ix_audit_events_aggregate'', ix_table = ''audit_events'', ix_columns =
       [''tenant_id'', ''aggregate_id'', ''sequence''],
       ix_unique = False, ix_where = None\<rparr>,
     \<lparr>ix_name = ''uq_audit_events_causation'', ix_table = ''audit_events'', ix_columns =
       [''tenant_id'', ''aggregate_id'', ''causation_id''],
       ix_unique = True, ix_where = Some (''causation_id IS NOT NULL'')\<rparr>]"

definition policy_evaluations_indexes :: "sql_index list" where
  "policy_evaluations_indexes =
    [\<lparr>ix_name = ''ix_policy_evaluations_intent'', ix_table = ''policy_evaluations'', ix_columns =
       [''tenant_id'', ''intent_id'', ''intent_revision'', ''generation''],
       ix_unique = False, ix_where = None\<rparr>]"

definition policy_bundles_indexes :: "sql_index list" where
  "policy_bundles_indexes =
    [\<lparr>ix_name = ''uq_policy_bundles_tenant_active'', ix_table = ''policy_bundles'', ix_columns =
       [''tenant_id''],
       ix_unique = True, ix_where = Some (''is_active'')\<rparr>]"

definition approval_decisions_indexes :: "sql_index list" where
  "approval_decisions_indexes =
    [\<lparr>ix_name = ''uq_approval_decisions_approving_actor'', ix_table = ''approval_decisions'',
       ix_columns = [''tenant_id'', ''intent_id'', ''intent_revision'', ''level'', ''actor_id''],
       ix_unique = True, ix_where = Some (''decision = '' @ [CHR 0x27] @ ''APPROVE'' @ [CHR 0x27])\<rparr>]"

definition role_assignments_indexes :: "sql_index list" where
  "role_assignments_indexes =
    [\<lparr>ix_name = ''uq_role_assignments_active_grant'', ix_table = ''role_assignments'', ix_columns
       = [''tenant_id'', ''principal_id'', ''role'', ''environments_key''],
       ix_unique = True, ix_where = Some (''revoked_at IS NULL'')\<rparr>]"

definition executions_indexes :: "sql_index list" where
  "executions_indexes =
    [\<lparr>ix_name = ''ix_executions_claim_lease'', ix_table = ''executions'', ix_columns =
       [''status'', ''claim_expires_at''],
       ix_unique = False, ix_where = None\<rparr>,
     \<lparr>ix_name = ''ix_executions_reconciliation_due'', ix_table = ''executions'', ix_columns =
       [''status'', ''next_reconcile_at''],
       ix_unique = False, ix_where = None\<rparr>]"

text \<open>The metadata of the declarative base: what all its classes declare.\<close>

definition orm_indexes :: "sql_index list" where
  "orm_indexes =
     action_intents_indexes
     @ outbox_messages_indexes @ audit_events_indexes @ policy_evaluations_indexes @ policy_bundles_indexes
     @ approval_decisions_indexes @ role_assignments_indexes @ executions_indexes"

definition orm_tables :: "sql_table list" where
  "orm_tables = [action_intents_table, state_transitions_table, idempotency_records_table,
    outbox_messages_table, audit_events_table, risk_evaluations_table, policy_evaluations_table,
    policy_bundles_table, approval_decisions_table, role_assignments_table, executions_table]"

end
