(* ===== verification/Migrations.thy ===== *)
theory Migrations
  imports Db_Schema
begin

text \<open>
  The migration scripts of \<open>alembic/versions\<close>: each one's two functions as the list of the operations
  they run, in order, and what running them gives.
\<close>

record migration =
  mg_revision :: string
  mg_down_revision :: "string option"
  mg_upgrade :: "ddl list"
  mg_downgrade :: "ddl list"

section \<open>The scripts\<close>

definition upgrade_0001 :: "ddl list" where
  "upgrade_0001 =
    [CreateTable \<lparr>tb_name = ''action_intents'',
       tb_columns =
         [column ''tenant_id'' (STRING 63) False None,
          column ''intent_id'' UUID False None,
          column ''revision'' INTEGER False None,
          column ''tool'' (STRING 63) False None,
          column ''canonical_parameters'' JSONB False None,
          column ''intent_digest'' (STRING 64) False None,
          column ''requester_id'' (STRING 255) False None,
          column ''requester_rationale'' TEXT False None,
          column ''raw_proposal'' JSONB True None,
          column ''source'' (STRING 16) False None,
          column ''state'' (STRING 32) False None,
          column ''state_version'' INTEGER False None,
          column ''approval_expires_at'' TIMESTAMP True None,
          column ''created_at'' TIMESTAMP False (Some (''now()'')),
          column ''updated_at'' TIMESTAMP False (Some (''now()''))],
       tb_constraints =
         [PrimaryKey [''tenant_id'', ''intent_id'', ''revision''],
          CheckExpr ''ck_action_intents_revision_positive'' (''revision >= 1'')]\<rparr>,
     CreateIndex \<lparr>ix_name = ''ix_action_intents_digest'', ix_table = ''action_intents'',
       ix_columns = [''intent_digest''],
       ix_unique = False, ix_where = None\<rparr>,
     CreateTable \<lparr>tb_name = ''state_transitions'',
       tb_columns =
         [column ''id'' UUID False None,
          column ''tenant_id'' (STRING 63) False None,
          column ''intent_id'' UUID False None,
          column ''intent_revision'' INTEGER False None,
          column ''from_state'' (STRING 32) True None,
          column ''to_state'' (STRING 32) False None,
          column ''actor_type'' (STRING 32) False None,
          column ''actor_id'' (STRING 255) False None,
          column ''command_id'' (STRING 64) False None,
          column ''reason_code'' (STRING 64) False None,
          column ''metadata'' JSONB False None,
          column ''sequence'' INTEGER False None,
          column ''occurred_at'' TIMESTAMP False (Some (''now()''))],
       tb_constraints =
         [PrimaryKey [''id''],
          ForeignKey ''fk_state_transitions_intent_revision'' [''tenant_id'', ''intent_id'',
            ''intent_revision''] ''action_intents'' [''tenant_id'', ''intent_id'', ''revision''],
          UniqueKey ''uq_state_transitions_command_id'' [''command_id''],
          UniqueKey ''uq_state_transitions_revision_sequence'' [''tenant_id'', ''intent_id'',
            ''intent_revision'', ''sequence'']]\<rparr>,
     CreateTable \<lparr>tb_name = ''idempotency_records'',
       tb_columns =
         [column ''id'' UUID False None,
          column ''tenant_id'' (STRING 63) False None,
          column ''actor_id'' (STRING 255) False None,
          column ''scope'' (STRING 64) False None,
          column ''key_hash'' (STRING 64) False None,
          column ''request_hash'' (STRING 64) False None,
          column ''status'' (STRING 32) False None,
          column ''resource_type'' (STRING 64) True None,
          column ''resource_id'' (STRING 255) True None,
          column ''response_status'' INTEGER True None,
          column ''response_body'' JSONB True None,
          column ''expires_at'' TIMESTAMP True None],
       tb_constraints =
         [PrimaryKey [''id''],
          UniqueKey ''uq_idempotency_records_key'' [''tenant_id'', ''actor_id'', ''scope'',
            ''key_hash'']]\<rparr>,
     CreateTable \<lparr>tb_name = ''outbox_messages'',
       tb_columns =
         [column ''id'' UUID False None,
          column ''topic'' (STRING 64) False None,
          column ''payload'' JSONB False None,
          column ''created_at'' TIMESTAMP False (Some (''now()''))],
       tb_constraints =
         [PrimaryKey [''id'']]\<rparr>]"

definition downgrade_0001 :: "ddl list" where
  "downgrade_0001 =
    [DropTable ''outbox_messages'',
     DropTable ''idempotency_records'',
     DropTable ''state_transitions'',
     DropIndex ''ix_action_intents_digest'' ''action_intents'',
     DropTable ''action_intents'']"

definition migration_0001 :: migration where
  "migration_0001 = \<lparr>mg_revision = ''0001'', mg_down_revision = None, mg_upgrade = upgrade_0001,
    mg_downgrade = downgrade_0001\<rparr>"

definition upgrade_0002 :: "ddl list" where
  "upgrade_0002 =
    [CreateTable \<lparr>tb_name = ''risk_evaluations'',
       tb_columns =
         [column ''id'' UUID False None,
          column ''tenant_id'' (STRING 63) False None,
          column ''intent_id'' UUID False None,
          column ''intent_revision'' INTEGER False None,
          column ''generation'' INTEGER False None,
          column ''band'' (STRING 16) False None,
          column ''factors'' JSONB False None,
          column ''rule_version'' (STRING 32) False None,
          column ''evaluated_context'' JSONB False None,
          column ''evaluated_at'' TIMESTAMP False (Some (''now()''))],
       tb_constraints =
         [PrimaryKey [''id''],
          ForeignKey ''fk_risk_evaluations_intent_revision'' [''tenant_id'', ''intent_id'',
            ''intent_revision''] ''action_intents'' [''tenant_id'', ''intent_id'', ''revision''],
          UniqueKey ''uq_risk_evaluations_revision_generation'' [''tenant_id'', ''intent_id'',
            ''intent_revision'', ''generation'']]\<rparr>,
     CreateTable \<lparr>tb_name = ''policy_evaluations'',
       tb_columns =
         [column ''id'' UUID False None,
          column ''tenant_id'' (STRING 63) False None,
          column ''intent_id'' UUID False None,
          column ''intent_revision'' INTEGER False None,
          column ''generation'' INTEGER False None,
          column ''disposition'' (STRING 32) False None,
          column ''route'' (STRING 32) False None,
          column ''required_roles'' JSONB False None,
          column ''required_scopes'' JSONB False None,
          column ''obligations'' JSONB False None,
          column ''reason_codes'' JSONB False None,
          column ''policy_version'' (STRING 32) False None,
          column ''approval_ttl_seconds'' INTEGER True None,
          column ''evaluated_at'' TIMESTAMP False (Some (''now()''))],
       tb_constraints =
         [PrimaryKey [''id''],
          ForeignKey ''fk_policy_evaluations_intent_revision'' [''tenant_id'', ''intent_id'',
            ''intent_revision''] ''action_intents'' [''tenant_id'', ''intent_id'', ''revision''],
          UniqueKey ''uq_policy_evaluations_revision_generation'' [''tenant_id'', ''intent_id'',
            ''intent_revision'', ''generation'']]\<rparr>,
     CreateTable \<lparr>tb_name = ''policy_bundles'',
       tb_columns =
         [column ''id'' UUID False None,
          column ''tenant_id'' (STRING 63) False None,
          column ''version'' (STRING 32) False None,
          column ''rules'' JSONB False None,
          column ''is_active'' BOOLEAN False (Some (''false'')),
          column ''created_at'' TIMESTAMP False (Some (''now()''))],
       tb_constraints =
         [PrimaryKey [''id''],
          UniqueKey ''uq_policy_bundles_tenant_version'' [''tenant_id'', ''version'']]\<rparr>,
     CreateIndex \<lparr>ix_name = ''uq_policy_bundles_tenant_active'', ix_table = ''policy_bundles'',
       ix_columns = [''tenant_id''],
       ix_unique = True, ix_where = Some (''is_active'')\<rparr>,
     DataOnly]"

definition downgrade_0002 :: "ddl list" where
  "downgrade_0002 =
    [DropTable ''policy_bundles'',
     DropTable ''policy_evaluations'',
     DropTable ''risk_evaluations'']"

definition migration_0002 :: migration where
  "migration_0002 = \<lparr>mg_revision = ''0002'', mg_down_revision = Some ''0001'', mg_upgrade =
    upgrade_0002, mg_downgrade = downgrade_0002\<rparr>"

definition upgrade_0003 :: "ddl list" where
  "upgrade_0003 =
    [CreateTable \<lparr>tb_name = ''approval_decisions'',
       tb_columns =
         [column ''id'' UUID False None,
          column ''tenant_id'' (STRING 63) False None,
          column ''intent_id'' UUID False None,
          column ''intent_revision'' INTEGER False None,
          column ''intent_digest'' (STRING 64) False None,
          column ''level'' INTEGER False None,
          column ''decision'' (STRING 16) False None,
          column ''actor_id'' (STRING 255) False None,
          column ''actor_roles_snapshot'' JSONB False None,
          column ''scope_snapshot'' JSONB False None,
          column ''reason'' TEXT False None,
          column ''policy_version'' (STRING 32) False None,
          column ''decided_at'' TIMESTAMP False (Some (''now()'')),
          column ''expires_at'' TIMESTAMP True None],
       tb_constraints =
         [PrimaryKey [''id''],
          ForeignKey ''fk_approval_decisions_intent_revision'' [''tenant_id'', ''intent_id'',
            ''intent_revision''] ''action_intents'' [''tenant_id'', ''intent_id'', ''revision'']]\<rparr>,
     CreateIndex \<lparr>ix_name = ''uq_approval_decisions_approving_actor'', ix_table =
       ''approval_decisions'', ix_columns = [''tenant_id'', ''intent_id'', ''intent_revision'', ''level'',
       ''actor_id''],
       ix_unique = True, ix_where = Some (''decision = '' @ [CHR 0x27] @ ''APPROVE'' @ [CHR 0x27])\<rparr>,
     CreateTable \<lparr>tb_name = ''role_assignments'',
       tb_columns =
         [column ''id'' UUID False None,
          column ''tenant_id'' (STRING 63) False None,
          column ''principal_id'' (STRING 255) False None,
          column ''role'' (STRING 63) False None,
          column ''environments'' JSONB True None,
          column ''environments_key'' (STRING 512) False (Some []),
          column ''valid_from'' TIMESTAMP False (Some (''now()'')),
          column ''valid_until'' TIMESTAMP True None,
          column ''revoked_at'' TIMESTAMP True None,
          column ''granted_by'' (STRING 255) False None],
       tb_constraints =
         [PrimaryKey [''id'']]\<rparr>,
     CreateIndex \<lparr>ix_name = ''uq_role_assignments_active_grant'', ix_table =
       ''role_assignments'', ix_columns = [''tenant_id'', ''principal_id'', ''role'',
       ''environments_key''],
       ix_unique = True, ix_where = Some (''revoked_at IS NULL'')\<rparr>]"

definition downgrade_0003 :: "ddl list" where
  "downgrade_0003 =
    [DropIndex ''uq_approval_decisions_approving_actor'' ''approval_decisions'',
     DropIndex ''uq_role_assignments_active_grant'' ''role_assignments'',
     DropTable ''role_assignments'',
     DropTable ''approval_decisions'']"

definition migration_0003 :: migration where
  "migration_0003 = \<lparr>mg_revision = ''0003'', mg_down_revision = Some ''0002'', mg_upgrade =
    upgrade_0003, mg_downgrade = downgrade_0003\<rparr>"

definition upgrade_0004 :: "ddl list" where
  "upgrade_0004 =
    [CreateTable \<lparr>tb_name = ''executions'',
       tb_columns =
         [column ''id'' UUID False None,
          column ''tenant_id'' (STRING 63) False None,
          column ''intent_id'' UUID False None,
          column ''intent_revision'' INTEGER False None,
          column ''operation_key'' (STRING 255) False None,
          column ''attempt'' INTEGER False None,
          column ''status'' (STRING 32) False None,
          column ''provider_operation_id'' (STRING 255) True None,
          column ''request_fingerprint'' (STRING 64) True None,
          column ''precondition_snapshot'' JSONB True None,
          column ''claim_expires_at'' TIMESTAMP True None,
          column ''started_at'' TIMESTAMP True None,
          column ''finished_at'' TIMESTAMP True None,
          column ''error_code'' (STRING 64) True None,
          column ''result_summary'' JSONB True None],
       tb_constraints =
         [PrimaryKey [''id''],
          ForeignKey ''fk_executions_intent_revision'' [''tenant_id'', ''intent_id'',
            ''intent_revision''] ''action_intents'' [''tenant_id'', ''intent_id'', ''revision''],
          UniqueKey ''uq_executions_revision'' [''tenant_id'', ''intent_id'', ''intent_revision''],
          UniqueKey ''uq_executions_operation_key'' [''operation_key'']]\<rparr>,
     CreateIndex \<lparr>ix_name = ''ix_executions_claim_lease'', ix_table = ''executions'', ix_columns
       = [''status'', ''claim_expires_at''],
       ix_unique = False, ix_where = None\<rparr>]"

definition downgrade_0004 :: "ddl list" where
  "downgrade_0004 =
    [DropIndex ''ix_executions_claim_lease'' ''executions'',
     DropTable ''executions'']"

definition migration_0004 :: migration where
  "migration_0004 = \<lparr>mg_revision = ''0004'', mg_down_revision = Some ''0003'', mg_upgrade =
    upgrade_0004, mg_downgrade = downgrade_0004\<rparr>"

definition upgrade_0005 :: "ddl list" where
  "upgrade_0005 =
    [CreateIndex \<lparr>ix_name = ''ix_action_intents_state'', ix_table = ''action_intents'',
      ix_columns = [''state''],
       ix_unique = False, ix_where = None\<rparr>,
     AddColumn ''executions'' (column ''reconcile_attempts'' INTEGER False (Some (''0''))),
     AddColumn ''executions'' (column ''next_reconcile_at'' TIMESTAMP True None),
     CreateIndex \<lparr>ix_name = ''ix_executions_reconciliation_due'', ix_table = ''executions'',
       ix_columns = [''status'', ''next_reconcile_at''],
       ix_unique = False, ix_where = None\<rparr>]"

definition downgrade_0005 :: "ddl list" where
  "downgrade_0005 =
    [DropIndex ''ix_executions_reconciliation_due'' ''executions'',
     DropColumn ''executions'' ''next_reconcile_at'',
     DropColumn ''executions'' ''reconcile_attempts'',
     DropIndex ''ix_action_intents_state'' ''action_intents'']"

definition migration_0005 :: migration where
  "migration_0005 = \<lparr>mg_revision = ''0005'', mg_down_revision = Some ''0004'', mg_upgrade =
    upgrade_0005, mg_downgrade = downgrade_0005\<rparr>"

definition upgrade_0006 :: "ddl list" where
  "upgrade_0006 =
    [AddColumn ''outbox_messages'' (column ''attempts'' INTEGER False (Some (''0''))),
     AddColumn ''outbox_messages'' (column ''next_attempt_at'' TIMESTAMP True None),
     AddColumn ''outbox_messages'' (column ''published_at'' TIMESTAMP True None),
     AddColumn ''outbox_messages'' (column ''claimed_by'' (STRING 64) True None),
     AddColumn ''outbox_messages'' (column ''claim_expires_at'' TIMESTAMP True None),
     CreateIndex \<lparr>ix_name = ''ix_outbox_messages_pending'', ix_table = ''outbox_messages'',
       ix_columns = [''published_at'', ''created_at''],
       ix_unique = False, ix_where = None\<rparr>,
     CreateTable \<lparr>tb_name = ''audit_events'',
       tb_columns =
         [column ''event_id'' UUID False None,
          column ''tenant_id'' (STRING 63) False None,
          column ''aggregate_id'' UUID False None,
          column ''aggregate_revision'' INTEGER False None,
          column ''sequence'' INTEGER False None,
          column ''event_type'' (STRING 64) False None,
          column ''actor_id'' (STRING 255) False None,
          column ''occurred_at'' TIMESTAMP False None,
          column ''correlation_id'' (STRING 64) True None,
          column ''causation_id'' (STRING 64) True None,
          column ''policy_version'' (STRING 32) True None,
          column ''risk_version'' (STRING 32) True None,
          column ''attributes'' JSONB False None,
          column ''previous_hash'' (STRING 64) False None,
          column ''event_hash'' (STRING 64) False None],
       tb_constraints =
         [PrimaryKey [''event_id''],
          UniqueKey ''uq_audit_events_aggregate_sequence'' [''tenant_id'', ''aggregate_id'',
            ''sequence'']]\<rparr>,
     CreateIndex \<lparr>ix_name = ''ix_audit_events_aggregate'', ix_table = ''audit_events'',
       ix_columns = [''tenant_id'', ''aggregate_id'', ''sequence''],
       ix_unique = False, ix_where = None\<rparr>,
     CreateIndex \<lparr>ix_name = ''uq_audit_events_causation'', ix_table = ''audit_events'',
       ix_columns = [''tenant_id'', ''aggregate_id'', ''causation_id''],
       ix_unique = True, ix_where = Some (''causation_id IS NOT NULL'')\<rparr>,
     CreateFunction ''audit_events_immutable'',
     CreateTrigger ''trg_audit_events_immutable'' ''audit_events'',
     AddCheck ''action_intents'' ''ck_action_intents_state_version_positive'' (''state_version >= 1''),
     AddCheck ''approval_decisions'' ''ck_approval_decisions_level'' (''level IN (1, 2)''),
     AddCheck ''approval_decisions'' ''ck_approval_decisions_decision'' (''decision IN ('' @ [CHR 0x27]
       @ ''APPROVE'' @ [CHR 0x27] @ '', '' @ [CHR 0x27] @ ''REJECT'' @ [CHR 0x27] @ '')''),
     AddCheck ''approval_decisions'' ''ck_approval_decisions_revision_positive'' (''intent_revision >= 1''),
     AddCheck ''executions'' ''ck_executions_attempt_positive'' (''attempt >= 1''),
     AddCheck ''executions'' ''ck_executions_revision_positive'' (''intent_revision >= 1''),
     AddCheck ''executions'' ''ck_executions_status'' (''status IN ('' @ [CHR 0x27] @ ''CLAIMED'' @ [CHR
       0x27] @ '', '' @ [CHR 0x27] @ ''EXECUTING'' @ [CHR 0x27] @ '', '' @ [CHR 0x27] @ ''SUCCEEDED'' @
       [CHR 0x27] @ '', '' @ [CHR 0x27] @ ''FAILED'' @ [CHR 0x27] @ '', '' @ [CHR 0x27] @ ''UNKNOWN'' @
       [CHR 0x27] @ '')'')]"

definition downgrade_0006 :: "ddl list" where
  "downgrade_0006 =
    [DropConstraint ''executions'' ''ck_executions_status'',
     DropConstraint ''executions'' ''ck_executions_revision_positive'',
     DropConstraint ''executions'' ''ck_executions_attempt_positive'',
     DropConstraint ''approval_decisions'' ''ck_approval_decisions_revision_positive'',
     DropConstraint ''approval_decisions'' ''ck_approval_decisions_decision'',
     DropConstraint ''approval_decisions'' ''ck_approval_decisions_level'',
     DropConstraint ''action_intents'' ''ck_action_intents_state_version_positive'',
     DropTrigger ''trg_audit_events_immutable'' ''audit_events'',
     DropFunction ''audit_events_immutable'',
     DropIndex ''uq_audit_events_causation'' ''audit_events'',
     DropIndex ''ix_audit_events_aggregate'' ''audit_events'',
     DropTable ''audit_events'',
     DropIndex ''ix_outbox_messages_pending'' ''outbox_messages'',
     DropColumn ''outbox_messages'' ''claim_expires_at'',
     DropColumn ''outbox_messages'' ''claimed_by'',
     DropColumn ''outbox_messages'' ''published_at'',
     DropColumn ''outbox_messages'' ''next_attempt_at'',
     DropColumn ''outbox_messages'' ''attempts'']"

definition migration_0006 :: migration where
  "migration_0006 = \<lparr>mg_revision = ''0006'', mg_down_revision = Some ''0005'', mg_upgrade =
    upgrade_0006, mg_downgrade = downgrade_0006\<rparr>"

definition upgrade_0007 :: "ddl list" where
  "upgrade_0007 =
    [CreateSequence ''outbox_messages_sequence_seq'',
     AddColumn ''outbox_messages'' (column ''sequence'' BIGINT False
         (Some (''nextval('' @ [CHR 0x27] @ ''outbox_messages_sequence_seq'' @ [CHR 0x27] @ '')''))),
     DataOnly,
     DataOnly,
     CreateIndex \<lparr>ix_name = ''ix_outbox_messages_publication_order'', ix_table =
       ''outbox_messages'', ix_columns = [''sequence''],
       ix_unique = False, ix_where = None\<rparr>]"

definition downgrade_0007 :: "ddl list" where
  "downgrade_0007 =
    [DropIndex ''ix_outbox_messages_publication_order'' ''outbox_messages'',
     DropColumn ''outbox_messages'' ''sequence'',
     DropSequence ''outbox_messages_sequence_seq'']"

definition migration_0007 :: migration where
  "migration_0007 = \<lparr>mg_revision = ''0007'', mg_down_revision = Some ''0006'', mg_upgrade =
    upgrade_0007, mg_downgrade = downgrade_0007\<rparr>"

definition upgrade_0008 :: "ddl list" where
  "upgrade_0008 =
    [AddColumn ''role_assignments'' (column ''scopes'' JSONB True None)]"

definition downgrade_0008 :: "ddl list" where
  "downgrade_0008 =
    [DropColumn ''role_assignments'' ''scopes'']"

definition migration_0008 :: migration where
  "migration_0008 = \<lparr>mg_revision = ''0008'', mg_down_revision = Some ''0007'', mg_upgrade =
    upgrade_0008, mg_downgrade = downgrade_0008\<rparr>"

definition migrations :: "migration list" where
  "migrations = [migration_0001, migration_0002, migration_0003, migration_0004, migration_0005, migration_0006,
     migration_0007, migration_0008]"

section \<open>Running the scripts\<close>

text \<open>The scripts in the order of their links, from the one without a predecessor; a branch ends it.\<close>

fun follow :: "nat \<Rightarrow> string option \<Rightarrow> migration list \<Rightarrow> migration list" where
  "follow 0 from ms = []"
| "follow (Suc fuel) from ms =
     (case filter (\<lambda>m. mg_down_revision m = from) ms of
        [m] \<Rightarrow> m # follow fuel (Some (mg_revision m)) ms
      | _ \<Rightarrow> [])"

definition heads :: "migration list \<Rightarrow> string list" where
  "heads ms = filter (\<lambda>r. Some r \<notin> set (map mg_down_revision ms)) (map mg_revision ms)"

definition run_upgrades :: "migration list \<Rightarrow> sql_schema \<Rightarrow> sql_schema option" where
  "run_upgrades ms = run_ddl (concat (map mg_upgrade ms))"

definition run_downgrades :: "migration list \<Rightarrow> sql_schema \<Rightarrow> sql_schema option" where
  "run_downgrades ms = run_ddl (concat (map mg_downgrade (rev ms)))"

lemma run_upgrades_simps [simp]:
  "run_upgrades [] s = Some s"
  "run_upgrades (m # ms) s = (case run_ddl (mg_upgrade m) s of None \<Rightarrow> None | Some t \<Rightarrow> run_upgrades ms t)"
  by (simp_all add: run_upgrades_def run_ddl_append split: option.split)

lemma run_downgrades_simps [simp]:
  "run_downgrades [] s = Some s"
  "run_downgrades (m # ms) s = (case run_downgrades ms s of None \<Rightarrow> None | Some t \<Rightarrow> run_ddl (mg_downgrade m) t)"
  by (simp_all add: run_downgrades_def run_ddl_append)

section \<open>Every downgrade undoes its upgrade\<close>

text \<open>
  Along the chain from one schema, each script's downgrade gives back the schema its upgrade started
  from. One pass evaluates it; the general statement follows by induction.
\<close>

fun reversible :: "migration list \<Rightarrow> sql_schema \<Rightarrow> bool" where
  "reversible [] s \<longleftrightarrow> True"
| "reversible (m # ms) s \<longleftrightarrow>
     (case run_ddl (mg_upgrade m) s of
        None \<Rightarrow> False
      | Some t \<Rightarrow> run_ddl (mg_downgrade m) t = Some s \<and> reversible ms t)"

lemma reversible_take: "reversible ms s \<Longrightarrow> reversible (take n ms) s"
  by (induction ms arbitrary: s n) (auto simp: take_Cons split: nat.splits option.splits)

lemma reversible_run:
  "reversible ms s \<Longrightarrow> \<exists>t u. run_upgrades ms s = Some t \<and> run_upgrades (take k ms) s = Some u \<and>
     run_downgrades (drop k ms) t = Some u"
proof (induction ms arbitrary: s k)
  case Nil
  then show ?case by simp
next
  case (Cons m ms)
  then obtain s' where up: "run_ddl (mg_upgrade m) s = Some s'"
    and down: "run_ddl (mg_downgrade m) s' = Some s" and rest: "reversible ms s'"
    by (auto split: option.splits)
  show ?case
  proof (cases k)
    case 0
    from Cons.IH [OF rest, of 0] show ?thesis using up down 0 by auto
  next
    case (Suc j)
    from Cons.IH [OF rest, of j] show ?thesis using up Suc by auto
  qed
qed

lemma migrations_reversible: "reversible migrations empty_schema"
  by code_simp

text \<open>
  C22. Each prefix of the migration scripts runs on an empty database, and from the schema it gives
  the downgrades back to any earlier revision run as well and leave exactly the schema that upgrading
  to that revision gives; back to the base nothing is left over.
\<close>

theorem downgrades_invert_upgrades:
  "\<exists>t u. run_upgrades (take n migrations) empty_schema = Some t \<and>
     run_upgrades (take k (take n migrations)) empty_schema = Some u \<and>
     run_downgrades (drop k (take n migrations)) t = Some u"
  by (rule reversible_run [OF reversible_take [OF migrations_reversible]])

end
