(* ===== verification/Schema_Drift.thy ===== *)
theory Schema_Drift
  imports Migrations
begin

text \<open>
  The schema that the migrations leave, table by table, against the one that the mapped classes
  declare. Columns are compared by name, type and nullability, without their order and their server
  defaults, constraints without their names, indexes as a whole.
\<close>

section \<open>Comparison\<close>

definition same_columns :: "sql_column list \<Rightarrow> sql_column list \<Rightarrow> bool" where
  "same_columns xs ys \<longleftrightarrow>
     (let strip = map (\<lambda>c. (co_name c, co_type c, co_nullable c))
      in list_all (\<lambda>c. List.member (strip ys) c) (strip xs) \<and> list_all (\<lambda>c. List.member (strip xs) c) (strip ys))"

fun anonymous :: "sql_constraint \<Rightarrow> sql_constraint" where
  "anonymous (PrimaryKey cs) = PrimaryKey cs"
| "anonymous (ForeignKey n cs t rs) = ForeignKey [] cs t rs"
| "anonymous (UniqueKey n cs) = UniqueKey [] cs"
| "anonymous (CheckExpr n e) = CheckExpr [] e"

text \<open>The constraints of the first table that the second one does not have.\<close>

definition extra_constraints :: "sql_table \<Rightarrow> sql_table \<Rightarrow> sql_constraint list" where
  "extra_constraints b u =
     filter (\<lambda>c. \<not> List.member (map anonymous (tb_constraints u)) c) (map anonymous (tb_constraints b))"

fun table_named :: "string \<Rightarrow> sql_table list \<Rightarrow> sql_table option" where
  "table_named n [] = None"
| "table_named n (b # bs) = (if tb_name b = n then Some b else table_named n bs)"

definition only_in :: "sql_table list \<Rightarrow> sql_table list \<Rightarrow> (string \<times> sql_constraint list) list" where
  "only_in ts us =
     filter (\<lambda>(n, cs). cs \<noteq> [])
       (map (\<lambda>b. (tb_name b,
          case table_named (tb_name b) us of
            None \<Rightarrow> tb_constraints b
          | Some u \<Rightarrow> extra_constraints b u)) ts)"

definition same_tables :: "sql_table list \<Rightarrow> sql_table list \<Rightarrow> bool" where
  "same_tables ts us \<longleftrightarrow>
     length ts = length us \<and>
     list_all (\<lambda>b. case table_named (tb_name b) us of
       None \<Rightarrow> False | Some u \<Rightarrow> same_columns (tb_columns b) (tb_columns u)) ts"

definition indexes_only_in :: "sql_index list \<Rightarrow> sql_index list \<Rightarrow> string list" where
  "indexes_only_in xs ys = map ix_name (filter (\<lambda>i. \<not> List.member ys i) xs)"

section \<open>The schema the scripts leave\<close>

definition action_intents_migrated :: sql_table where
  "action_intents_migrated =
     \<lparr>tb_name = ''action_intents'',
       tb_columns =
         [column ''tenant_id'' (STRING 63) False None,
          column ''intent_id'' UUID False None,
          column ''revision'' INTEGER False None,
          column ''tool'' (STRING 63) False None,
          column ''canonical_parameters'' JSONB False None,
          column ''intent_digest'' (STRING 64) False None,
          column ''requester_id'' (STRING 255) False None,
          column ''requester_rationale'' TEXT False None,
          column ''raw_proposal'' JSONB True None,
          column ''source'' (STRING 16) False None,
          column ''state'' (STRING 32) False None,
          column ''state_version'' INTEGER False None,
          column ''approval_expires_at'' TIMESTAMP True None,
          column ''created_at'' TIMESTAMP False (Some ''now()''),
          column ''updated_at'' TIMESTAMP False (Some ''now()'')],
       tb_constraints =
         [PrimaryKey [''tenant_id'', ''intent_id'', ''revision''],
          CheckExpr ''ck_action_intents_revision_positive'' ''revision >= 1'',
          CheckExpr ''ck_action_intents_state_version_positive'' ''state_version >= 1'']\<rparr>"

definition state_transitions_migrated :: sql_table where
  "state_transitions_migrated =
     \<lparr>tb_name = ''state_transitions'',
       tb_columns =
         [column ''id'' UUID False None,
          column ''tenant_id'' (STRING 63) False None,
          column ''intent_id'' UUID False None,
          column ''intent_revision'' INTEGER False None,
          column ''from_state'' (STRING 32) True None,
          column ''to_state'' (STRING 32) False None,
          column ''actor_type'' (STRING 32) False None,
          column ''actor_id'' (STRING 255) False None,
          column ''command_id'' (STRING 64) False None,
          column ''reason_code'' (STRING 64) False None,
          column ''metadata'' JSONB False None,
          column ''sequence'' INTEGER False None,
          column ''occurred_at'' TIMESTAMP False (Some ''now()'')],
       tb_constraints =
         [PrimaryKey [''id''],
          ForeignKey ''fk_state_transitions_intent_revision'' [''tenant_id'', ''intent_id'',
            ''intent_revision''] ''action_intents'' [''tenant_id'', ''intent_id'', ''revision''],
          UniqueKey ''uq_state_transitions_command_id'' [''command_id''],
          UniqueKey ''uq_state_transitions_revision_sequence'' [''tenant_id'', ''intent_id'',
            ''intent_revision'', ''sequence'']]\<rparr>"

definition idempotency_records_migrated :: sql_table where
  "idempotency_records_migrated =
     \<lparr>tb_name = ''idempotency_records'',
       tb_columns =
         [column ''id'' UUID False None,
          column ''tenant_id'' (STRING 63) False None,
          column ''actor_id'' (STRING 255) False None,
          column ''scope'' (STRING 64) False None,
          column ''key_hash'' (STRING 64) False None,
          column ''request_hash'' (STRING 64) False None,
          column ''status'' (STRING 32) False None,
          column ''resource_type'' (STRING 64) True None,
          column ''resource_id'' (STRING 255) True None,
          column ''response_status'' INTEGER True None,
          column ''response_body'' JSONB True None,
          column ''expires_at'' TIMESTAMP True None],
       tb_constraints =
         [PrimaryKey [''id''],
          UniqueKey ''uq_idempotency_records_key'' [''tenant_id'', ''actor_id'', ''scope'', ''key_hash'']]\<rparr>"

definition outbox_messages_migrated :: sql_table where
  "outbox_messages_migrated =
     \<lparr>tb_name = ''outbox_messages'',
       tb_columns =
         [column ''id'' UUID False None,
          column ''topic'' (STRING 64) False None,
          column ''payload'' JSONB False None,
          column ''created_at'' TIMESTAMP False (Some ''now()''),
          column ''attempts'' INTEGER False (Some ''0''),
          column ''next_attempt_at'' TIMESTAMP True None,
          column ''published_at'' TIMESTAMP True None,
          column ''claimed_by'' (STRING 64) True None,
          column ''claim_expires_at'' TIMESTAMP True None,
          column ''sequence'' BIGINT False (Some (''nextval('' @ [CHR 0x27] @
            ''outbox_messages_sequence_seq'' @ [CHR 0x27] @ '')''))],
       tb_constraints =
         [PrimaryKey [''id'']]\<rparr>"

definition risk_evaluations_migrated :: sql_table where
  "risk_evaluations_migrated =
     \<lparr>tb_name = ''risk_evaluations'',
       tb_columns =
         [column ''id'' UUID False None,
          column ''tenant_id'' (STRING 63) False None,
          column ''intent_id'' UUID False None,
          column ''intent_revision'' INTEGER False None,
          column ''generation'' INTEGER False None,
          column ''band'' (STRING 16) False None,
          column ''factors'' JSONB False None,
          column ''rule_version'' (STRING 32) False None,
          column ''evaluated_context'' JSONB False None,
          column ''evaluated_at'' TIMESTAMP False (Some ''now()'')],
       tb_constraints =
         [PrimaryKey [''id''],
          ForeignKey ''fk_risk_evaluations_intent_revision'' [''tenant_id'', ''intent_id'',
            ''intent_revision''] ''action_intents'' [''tenant_id'', ''intent_id'', ''revision''],
          UniqueKey ''uq_risk_evaluations_revision_generation'' [''tenant_id'', ''intent_id'',
            ''intent_revision'', ''generation'']]\<rparr>"

definition policy_evaluations_migrated :: sql_table where
  "policy_evaluations_migrated =
     \<lparr>tb_name = ''policy_evaluations'',
       tb_columns =
         [column ''id'' UUID False None,
          column ''tenant_id'' (STRING 63) False None,
          column ''intent_id'' UUID False None,
          column ''intent_revision'' INTEGER False None,
          column ''generation'' INTEGER False None,
          column ''disposition'' (STRING 32) False None,
          column ''route'' (STRING 32) False None,
          column ''required_roles'' JSONB False None,
          column ''required_scopes'' JSONB False None,
          column ''obligations'' JSONB False None,
          column ''reason_codes'' JSONB False None,
          column ''policy_version'' (STRING 32) False None,
          column ''approval_ttl_seconds'' INTEGER True None,
          column ''evaluated_at'' TIMESTAMP False (Some ''now()'')],
       tb_constraints =
         [PrimaryKey [''id''],
          ForeignKey ''fk_policy_evaluations_intent_revision'' [''tenant_id'', ''intent_id'',
            ''intent_revision''] ''action_intents'' [''tenant_id'', ''intent_id'', ''revision''],
          UniqueKey ''uq_policy_evaluations_revision_generation'' [''tenant_id'', ''intent_id'',
            ''intent_revision'', ''generation'']]\<rparr>"

definition policy_bundles_migrated :: sql_table where
  "policy_bundles_migrated =
     \<lparr>tb_name = ''policy_bundles'',
       tb_columns =
         [column ''id'' UUID False None,
          column ''tenant_id'' (STRING 63) False None,
          column ''version'' (STRING 32) False None,
          column ''rules'' JSONB False None,
          column ''is_active'' BOOLEAN False (Some ''false''),
          column ''created_at'' TIMESTAMP False (Some ''now()'')],
       tb_constraints =
         [PrimaryKey [''id''],
          UniqueKey ''uq_policy_bundles_tenant_version'' [''tenant_id'', ''version'']]\<rparr>"

definition approval_decisions_migrated :: sql_table where
  "approval_decisions_migrated =
     \<lparr>tb_name = ''approval_decisions'',
       tb_columns =
         [column ''id'' UUID False None,
          column ''tenant_id'' (STRING 63) False None,
          column ''intent_id'' UUID False None,
          column ''intent_revision'' INTEGER False None,
          column ''intent_digest'' (STRING 64) False None,
          column ''level'' INTEGER False None,
          column ''decision'' (STRING 16) False None,
          column ''actor_id'' (STRING 255) False None,
          column ''actor_roles_snapshot'' JSONB False None,
          column ''scope_snapshot'' JSONB False None,
          column ''reason'' TEXT False None,
          column ''policy_version'' (STRING 32) False None,
          column ''decided_at'' TIMESTAMP False (Some ''now()''),
          column ''expires_at'' TIMESTAMP True None],
       tb_constraints =
         [PrimaryKey [''id''],
          ForeignKey ''fk_approval_decisions_intent_revision'' [''tenant_id'', ''intent_id'',
            ''intent_revision''] ''action_intents'' [''tenant_id'', ''intent_id'', ''revision''],
          CheckExpr ''ck_approval_decisions_level'' ''level IN (1, 2)'',
          CheckExpr ''ck_approval_decisions_decision'' (''decision IN ('' @ [CHR 0x27] @ ''APPROVE'' @ [CHR
            0x27] @ '', '' @ [CHR 0x27] @ ''REJECT'' @ [CHR 0x27] @ '')''),
          CheckExpr ''ck_approval_decisions_revision_positive'' ''intent_revision >= 1'']\<rparr>"

definition role_assignments_migrated :: sql_table where
  "role_assignments_migrated =
     \<lparr>tb_name = ''role_assignments'',
       tb_columns =
         [column ''id'' UUID False None,
          column ''tenant_id'' (STRING 63) False None,
          column ''principal_id'' (STRING 255) False None,
          column ''role'' (STRING 63) False None,
          column ''environments'' JSONB True None,
          column ''environments_key'' (STRING 512) False (Some []),
          column ''valid_from'' TIMESTAMP False (Some ''now()''),
          column ''valid_until'' TIMESTAMP True None,
          column ''revoked_at'' TIMESTAMP True None,
          column ''granted_by'' (STRING 255) False None,
          column ''scopes'' JSONB True None],
       tb_constraints =
         [PrimaryKey [''id'']]\<rparr>"

definition executions_migrated :: sql_table where
  "executions_migrated =
     \<lparr>tb_name = ''executions'',
       tb_columns =
         [column ''id'' UUID False None,
          column ''tenant_id'' (STRING 63) False None,
          column ''intent_id'' UUID False None,
          column ''intent_revision'' INTEGER False None,
          column ''operation_key'' (STRING 255) False None,
          column ''attempt'' INTEGER False None,
          column ''status'' (STRING 32) False None,
          column ''provider_operation_id'' (STRING 255) True None,
          column ''request_fingerprint'' (STRING 64) True None,
          column ''precondition_snapshot'' JSONB True None,
          column ''claim_expires_at'' TIMESTAMP True None,
          column ''started_at'' TIMESTAMP True None,
          column ''finished_at'' TIMESTAMP True None,
          column ''error_code'' (STRING 64) True None,
          column ''result_summary'' JSONB True None,
          column ''reconcile_attempts'' INTEGER False (Some ''0''),
          column ''next_reconcile_at'' TIMESTAMP True None],
       tb_constraints =
         [PrimaryKey [''id''],
          ForeignKey ''fk_executions_intent_revision'' [''tenant_id'', ''intent_id'', ''intent_revision'']
            ''action_intents'' [''tenant_id'', ''intent_id'', ''revision''],
          UniqueKey ''uq_executions_revision'' [''tenant_id'', ''intent_id'', ''intent_revision''],
          UniqueKey ''uq_executions_operation_key'' [''operation_key''],
          CheckExpr ''ck_executions_attempt_positive'' ''attempt >= 1'',
          CheckExpr ''ck_executions_revision_positive'' ''intent_revision >= 1'',
          CheckExpr ''ck_executions_status'' (''status IN ('' @ [CHR 0x27] @ ''CLAIMED'' @ [CHR 0x27] @
            '', '' @ [CHR 0x27] @ ''EXECUTING'' @ [CHR 0x27] @ '', '' @ [CHR 0x27] @ ''SUCCEEDED'' @ [CHR
            0x27] @ '', '' @ [CHR 0x27] @ ''FAILED'' @ [CHR 0x27] @ '', '' @ [CHR 0x27] @ ''UNKNOWN'' @ [CHR
            0x27] @ '')'')]\<rparr>"

definition audit_events_migrated :: sql_table where
  "audit_events_migrated =
     \<lparr>tb_name = ''audit_events'',
       tb_columns =
         [column ''event_id'' UUID False None,
          column ''tenant_id'' (STRING 63) False None,
          column ''aggregate_id'' UUID False None,
          column ''aggregate_revision'' INTEGER False None,
          column ''sequence'' INTEGER False None,
          column ''event_type'' (STRING 64) False None,
          column ''actor_id'' (STRING 255) False None,
          column ''occurred_at'' TIMESTAMP False None,
          column ''correlation_id'' (STRING 64) True None,
          column ''causation_id'' (STRING 64) True None,
          column ''policy_version'' (STRING 32) True None,
          column ''risk_version'' (STRING 32) True None,
          column ''attributes'' JSONB False None,
          column ''previous_hash'' (STRING 64) False None,
          column ''event_hash'' (STRING 64) False None],
       tb_constraints =
         [PrimaryKey [''event_id''],
          UniqueKey ''uq_audit_events_aggregate_sequence'' [''tenant_id'', ''aggregate_id'', ''sequence'']]\<rparr>"

definition head_schema :: sql_schema where
  "head_schema =
     \<lparr>sc_tables = [action_intents_migrated,
         state_transitions_migrated,
         idempotency_records_migrated,
         outbox_messages_migrated,
         risk_evaluations_migrated,
         policy_evaluations_migrated,
         policy_bundles_migrated,
         approval_decisions_migrated,
         role_assignments_migrated,
         executions_migrated,
         audit_events_migrated],
       sc_indexes =
         [\<lparr>ix_name = ''ix_action_intents_digest'', ix_table = ''action_intents'', ix_columns =
            [''intent_digest''], ix_unique = False, ix_where = None\<rparr>,
          \<lparr>ix_name = ''uq_policy_bundles_tenant_active'', ix_table = ''policy_bundles'', ix_columns =
            [''tenant_id''], ix_unique = True, ix_where = Some ''is_active''\<rparr>,
          \<lparr>ix_name = ''uq_approval_decisions_approving_actor'', ix_table = ''approval_decisions'',
            ix_columns = [''tenant_id'', ''intent_id'', ''intent_revision'', ''level'', ''actor_id''],
            ix_unique = True, ix_where = Some (''decision = '' @ [CHR 0x27] @ ''APPROVE'' @ [CHR
            0x27])\<rparr>,
          \<lparr>ix_name = ''uq_role_assignments_active_grant'', ix_table = ''role_assignments'',
            ix_columns = [''tenant_id'', ''principal_id'', ''role'', ''environments_key''], ix_unique = True,
            ix_where = Some ''revoked_at IS NULL''\<rparr>,
          \<lparr>ix_name = ''ix_executions_claim_lease'', ix_table = ''executions'', ix_columns =
            [''status'', ''claim_expires_at''], ix_unique = False, ix_where = None\<rparr>,
          \<lparr>ix_name = ''ix_action_intents_state'', ix_table = ''action_intents'', ix_columns =
            [''state''], ix_unique = False, ix_where = None\<rparr>,
          \<lparr>ix_name = ''ix_executions_reconciliation_due'', ix_table = ''executions'', ix_columns =
            [''status'', ''next_reconcile_at''], ix_unique = False, ix_where = None\<rparr>,
          \<lparr>ix_name = ''ix_outbox_messages_pending'', ix_table = ''outbox_messages'', ix_columns =
            [''published_at'', ''created_at''], ix_unique = False, ix_where = None\<rparr>,
          \<lparr>ix_name = ''ix_audit_events_aggregate'', ix_table = ''audit_events'', ix_columns =
            [''tenant_id'', ''aggregate_id'', ''sequence''], ix_unique = False, ix_where = None\<rparr>,
          \<lparr>ix_name = ''uq_audit_events_causation'', ix_table = ''audit_events'', ix_columns =
            [''tenant_id'', ''aggregate_id'', ''causation_id''], ix_unique = True, ix_where = Some
            ''causation_id IS NOT NULL''\<rparr>,
          \<lparr>ix_name = ''ix_outbox_messages_publication_order'', ix_table = ''outbox_messages'',
            ix_columns = [''sequence''], ix_unique = False, ix_where = None\<rparr>],
       sc_triggers = [(''trg_audit_events_immutable'', ''audit_events'')],
       sc_functions = [''audit_events_immutable''],
       sc_sequences = [''outbox_messages_sequence_seq'']\<rparr>"

lemma upgrades_give_head: "run_upgrades migrations empty_schema = Some head_schema"
  by code_simp

section \<open>Table by table\<close>

lemma migrated_names [simp]:
  "tb_name action_intents_migrated = ''action_intents''"
  "tb_name state_transitions_migrated = ''state_transitions''"
  "tb_name idempotency_records_migrated = ''idempotency_records''"
  "tb_name outbox_messages_migrated = ''outbox_messages''"
  "tb_name risk_evaluations_migrated = ''risk_evaluations''"
  "tb_name policy_evaluations_migrated = ''policy_evaluations''"
  "tb_name policy_bundles_migrated = ''policy_bundles''"
  "tb_name approval_decisions_migrated = ''approval_decisions''"
  "tb_name role_assignments_migrated = ''role_assignments''"
  "tb_name executions_migrated = ''executions''"
  "tb_name audit_events_migrated = ''audit_events''"
  by (simp_all add: action_intents_migrated_def state_transitions_migrated_def idempotency_records_migrated_def outbox_messages_migrated_def risk_evaluations_migrated_def policy_evaluations_migrated_def policy_bundles_migrated_def approval_decisions_migrated_def role_assignments_migrated_def executions_migrated_def audit_events_migrated_def)

lemma table_names [simp]:
  "tb_name action_intents_table = ''action_intents''"
  "tb_name state_transitions_table = ''state_transitions''"
  "tb_name idempotency_records_table = ''idempotency_records''"
  "tb_name outbox_messages_table = ''outbox_messages''"
  "tb_name audit_events_table = ''audit_events''"
  "tb_name risk_evaluations_table = ''risk_evaluations''"
  "tb_name policy_evaluations_table = ''policy_evaluations''"
  "tb_name policy_bundles_table = ''policy_bundles''"
  "tb_name approval_decisions_table = ''approval_decisions''"
  "tb_name role_assignments_table = ''role_assignments''"
  "tb_name executions_table = ''executions''"
  by (simp_all add: action_intents_table_def state_transitions_table_def idempotency_records_table_def outbox_messages_table_def audit_events_table_def risk_evaluations_table_def policy_evaluations_table_def policy_bundles_table_def approval_decisions_table_def role_assignments_table_def executions_table_def)

named_theorems compared

lemma action_intents_columns [compared]: "same_columns (tb_columns action_intents_migrated) (tb_columns action_intents_table)"
  by code_simp

lemma action_intents_only_migrated [compared]: "extra_constraints action_intents_migrated action_intents_table = []"
  by code_simp

lemma action_intents_only_mapped [compared]: "extra_constraints action_intents_table action_intents_migrated = []"
  by code_simp

lemma state_transitions_columns [compared]: "same_columns (tb_columns state_transitions_migrated) (tb_columns state_transitions_table)"
  by code_simp

lemma state_transitions_only_migrated [compared]: "extra_constraints state_transitions_migrated state_transitions_table = []"
  by code_simp

lemma state_transitions_only_mapped [compared]: "extra_constraints state_transitions_table state_transitions_migrated = []"
  by code_simp

lemma idempotency_records_columns [compared]: "same_columns (tb_columns idempotency_records_migrated) (tb_columns idempotency_records_table)"
  by code_simp

lemma idempotency_records_only_migrated [compared]: "extra_constraints idempotency_records_migrated idempotency_records_table = []"
  by code_simp

lemma idempotency_records_only_mapped [compared]: "extra_constraints idempotency_records_table idempotency_records_migrated = []"
  by code_simp

lemma outbox_messages_columns [compared]: "same_columns (tb_columns outbox_messages_migrated) (tb_columns outbox_messages_table)"
  by code_simp

lemma outbox_messages_only_migrated [compared]: "extra_constraints outbox_messages_migrated outbox_messages_table = []"
  by code_simp

lemma outbox_messages_only_mapped [compared]: "extra_constraints outbox_messages_table outbox_messages_migrated = []"
  by code_simp

lemma audit_events_columns [compared]: "same_columns (tb_columns audit_events_migrated) (tb_columns audit_events_table)"
  by code_simp

lemma audit_events_only_migrated [compared]: "extra_constraints audit_events_migrated audit_events_table = []"
  by code_simp

lemma audit_events_only_mapped [compared]: "extra_constraints audit_events_table audit_events_migrated = [UniqueKey [] [''event_hash'']]"
  by code_simp

lemma risk_evaluations_columns [compared]: "same_columns (tb_columns risk_evaluations_migrated) (tb_columns risk_evaluations_table)"
  by code_simp

lemma risk_evaluations_only_migrated [compared]: "extra_constraints risk_evaluations_migrated risk_evaluations_table = []"
  by code_simp

lemma risk_evaluations_only_mapped [compared]: "extra_constraints risk_evaluations_table risk_evaluations_migrated = []"
  by code_simp

lemma policy_evaluations_columns [compared]: "same_columns (tb_columns policy_evaluations_migrated) (tb_columns policy_evaluations_table)"
  by code_simp

lemma policy_evaluations_only_migrated [compared]: "extra_constraints policy_evaluations_migrated policy_evaluations_table = []"
  by code_simp

lemma policy_evaluations_only_mapped [compared]: "extra_constraints policy_evaluations_table policy_evaluations_migrated = []"
  by code_simp

lemma policy_bundles_columns [compared]: "same_columns (tb_columns policy_bundles_migrated) (tb_columns policy_bundles_table)"
  by code_simp

lemma policy_bundles_only_migrated [compared]: "extra_constraints policy_bundles_migrated policy_bundles_table = [UniqueKey [] [''tenant_id'', ''version'']]"
  by code_simp

lemma policy_bundles_only_mapped [compared]: "extra_constraints policy_bundles_table policy_bundles_migrated = []"
  by code_simp

lemma approval_decisions_columns [compared]: "same_columns (tb_columns approval_decisions_migrated) (tb_columns approval_decisions_table)"
  by code_simp

lemma approval_decisions_only_migrated [compared]: "extra_constraints approval_decisions_migrated approval_decisions_table = []"
  by code_simp

lemma approval_decisions_only_mapped [compared]: "extra_constraints approval_decisions_table approval_decisions_migrated = []"
  by code_simp

lemma role_assignments_columns [compared]: "same_columns (tb_columns role_assignments_migrated) (tb_columns role_assignments_table)"
  by code_simp

lemma role_assignments_only_migrated [compared]: "extra_constraints role_assignments_migrated role_assignments_table = []"
  by code_simp

lemma role_assignments_only_mapped [compared]: "extra_constraints role_assignments_table role_assignments_migrated = []"
  by code_simp

lemma executions_columns [compared]: "same_columns (tb_columns executions_migrated) (tb_columns executions_table)"
  by code_simp

lemma executions_only_migrated [compared]: "extra_constraints executions_migrated executions_table = []"
  by code_simp

lemma executions_only_mapped [compared]: "extra_constraints executions_table executions_migrated = []"
  by code_simp

lemma head_tables_same: "same_tables (sc_tables head_schema) orm_tables"
  by (simp add: same_tables_def head_schema_def orm_tables_def compared)

lemma head_only_migrated:
  "only_in (sc_tables head_schema) orm_tables = [(''policy_bundles'', [UniqueKey [] [''tenant_id'', ''version'']])]"
  by (simp add: only_in_def head_schema_def orm_tables_def compared)

lemma head_only_mapped:
  "only_in orm_tables (sc_tables head_schema) = [(''audit_events'', [UniqueKey [] [''event_hash'']])]"
  by (simp add: only_in_def head_schema_def orm_tables_def compared)

lemma head_indexes:
  "indexes_only_in (sc_indexes head_schema) orm_indexes =
     [''ix_action_intents_state'', ''ix_outbox_messages_publication_order'']"
  "indexes_only_in orm_indexes (sc_indexes head_schema) = [''ix_policy_evaluations_intent'']"
  by code_simp+

lemma migrations_chain: "follow (length migrations) None migrations = migrations" "heads migrations = [''0008'']"
  by code_simp+

text \<open>
  C21. The migration scripts form one chain with the single head 0008, they all run on an empty
  database, and the schema they leave has the tables and columns of the mapped classes. It differs
  from them in two constraints and three indexes, exactly: a bundle version is unique per tenant only
  in the database, an event hash is unique only in the classes, and the index names listed stand on
  one side only.
\<close>

theorem migrations_match_orm:
  "follow (length migrations) None migrations = migrations \<and> heads migrations = [''0008''] \<and>
   (\<exists>s. run_upgrades migrations empty_schema = Some s \<and>
     same_tables (sc_tables s) orm_tables \<and>
     only_in (sc_tables s) orm_tables = [(''policy_bundles'', [UniqueKey [] [''tenant_id'', ''version'']])] \<and>
     only_in orm_tables (sc_tables s) = [(''audit_events'', [UniqueKey [] [''event_hash'']])] \<and>
     indexes_only_in (sc_indexes s) orm_indexes =
       [''ix_action_intents_state'', ''ix_outbox_messages_publication_order''] \<and>
     indexes_only_in orm_indexes (sc_indexes s) = [''ix_policy_evaluations_intent''])"
  using migrations_chain upgrades_give_head head_tables_same head_only_migrated head_only_mapped head_indexes
  by blast

end
