(* ===== verification/Migration_Env.thy ===== *)
theory Migration_Env
  imports Settings Schema_Drift
begin

text \<open>
  \<open>alembic/env.py\<close>: the script that the migration tool runs. It puts the validated database URL into
  the tool's configuration and runs the migrations in one transaction, or renders them without a
  connection. The configuration is a section of a \<open>ConfigParser\<close> of the standard library, whose
  interpolation of percent signs is modelled; the tool itself, the connection and the setup of the
  logs are arguments.
\<close>

datatype env_error = Env_exn exn | Interpolation_error

section \<open>Interpolated options\<close>

text \<open>\<open>%(name)s\<close> behind its percent sign: the name and what follows.\<close>

definition reference_at :: "string \<Rightarrow> (string \<times> string) option" where
  "reference_at s =
     (let name = takeWhile (\<lambda>c. c \<noteq> CHR '')'') (drop 1 s); rest = dropWhile (\<lambda>c. c \<noteq> CHR '')'') (drop 1 s)
      in if starts_with ''('' s \<and> name \<noteq> [] \<and> starts_with '')s'' rest then Some (name, drop 2 rest) else None)"

lemma reference_at_shorter: "reference_at s = Some (name, rest) \<Longrightarrow> length rest < length s"
  using length_dropWhile_le [of "\<lambda>c. c \<noteq> CHR '')''" "drop 1 s"]
  by (cases s) (auto simp: reference_at_def Let_def split: if_splits)

text \<open>\<open>value.replace("%%", "")\<close>, and \<open>_KEYCRE.sub("", value)\<close>.\<close>

fun drop_escaped :: "string \<Rightarrow> string" where
  "drop_escaped [] = []"
| "drop_escaped (c # s) =
     (if c = CHR ''%'' \<and> starts_with ''%'' s then drop_escaped (drop 1 s) else c # drop_escaped s)"

function drop_references :: "string \<Rightarrow> string" where
  "drop_references [] = []"
| "drop_references (c # s) =
     (case (if c = CHR ''%'' then reference_at s else None) of
        Some (name, rest) \<Rightarrow> drop_references rest
      | None \<Rightarrow> c # drop_references s)"
  by pat_completeness auto
termination
  by (relation "measure length") (auto split: if_splits dest!: reference_at_shorter)

text \<open>What \<open>set\<close> lets through, and what \<open>get\<close> makes of it; a value may
  lead through nine references to others.\<close>

definition before_set :: "string \<Rightarrow> env_error + string" where
  "before_set v =
     (if CHR ''%'' \<in> set (drop_references (drop_escaped v)) then Inl (Env_exn ValueError) else Inr v)"

function interpolate :: "(string \<Rightarrow> string option) \<Rightarrow> nat \<Rightarrow> string \<Rightarrow> env_error + string" where
  "interpolate opts depth [] = Inr []"
| "interpolate opts depth (c # s) =
     (if c \<noteq> CHR ''%'' then map_sum id (Cons c) (interpolate opts depth s)
      else if starts_with ''%'' s then map_sum id (Cons c) (interpolate opts depth (drop 1 s))
      else (case reference_at s of
              None \<Rightarrow> Inl Interpolation_error
            | Some (name, rest) \<Rightarrow>
                (case opts (lower name) of
                   None \<Rightarrow> Inl Interpolation_error
                 | Some v \<Rightarrow>
                     (case (if CHR ''%'' \<notin> set v then Inr v
                            else case depth of 0 \<Rightarrow> Inl Interpolation_error | Suc n \<Rightarrow> interpolate opts n v) of
                        Inl e \<Rightarrow> Inl e
                      | Inr w \<Rightarrow> map_sum id (append w) (interpolate opts depth rest)))))"
  by pat_completeness auto
termination
  by (relation "measures [\<lambda>(opts, depth, s). depth, \<lambda>(opts, depth, s). length s]")
    (auto dest!: reference_at_shorter)

section \<open>The configuration of the tool\<close>

text \<open>The raw options of the main section with the defaults, and the name of the file if there is one.\<close>

record alembic_config =
  al_file_name :: "string option"
  al_options :: "(string \<times> string) list"

definition MAX_INTERPOLATION_DEPTH :: nat where "MAX_INTERPOLATION_DEPTH = 10"

definition get_main_option :: "string \<Rightarrow> alembic_config \<Rightarrow> env_error + string option" where
  "get_main_option name conf =
     (case map_of (al_options conf) name of
        None \<Rightarrow> Inr None
      | Some v \<Rightarrow> map_sum id Some (interpolate (map_of (al_options conf)) (MAX_INTERPOLATION_DEPTH - 1) v))"

definition set_main_option :: "string \<Rightarrow> string \<Rightarrow> alembic_config \<Rightarrow> env_error + alembic_config" where
  "set_main_option name v conf =
     map_sum id (\<lambda>w. conf\<lparr>al_options := (name, w) # filter (\<lambda>(k, _). k \<noteq> name) (al_options conf)\<rparr>) (before_set v)"

text \<open>The beginning of the script: the logs, the settings, and the URL unless the file has one.\<close>

definition configured ::
  "(string \<Rightarrow> exn + unit) \<Rightarrow> exn + settings \<Rightarrow> alembic_config \<Rightarrow> env_error + alembic_config" where
  "configured file_config loaded conf =
     (case (case al_file_name conf of None \<Rightarrow> Inr () | Some f \<Rightarrow> file_config f) of
        Inl e \<Rightarrow> Inl (Env_exn e)
      | Inr _ \<Rightarrow>
          (case loaded of
             Inl e \<Rightarrow> Inl (Env_exn e)
           | Inr settings \<Rightarrow>
               (case get_main_option ''sqlalchemy.url'' conf of
                  Inl e \<Rightarrow> Inl e
                | Inr (Some url) \<Rightarrow> Inr conf
                | Inr None \<Rightarrow> set_main_option ''sqlalchemy.url'' (se_database_url settings) conf)))"

section \<open>The run\<close>

text \<open>
  \<open>do_run_migrations\<close>: the migrations in one transaction of the connection. \<open>run\<close> stands for the tool,
  which applies the pending scripts.
\<close>

definition do_run_migrations :: "('s \<Rightarrow> (exn + unit) \<times> 's) \<Rightarrow> 's \<Rightarrow> (env_error + unit) \<times> 's" where
  "do_run_migrations run s =
     (case run s of (Inl e, s') \<Rightarrow> (Inl (Env_exn e), s) | (Inr u, s') \<Rightarrow> (Inr u, s'))"

text \<open>\<open>get_section\<close> interpolates every option; the engine takes its URL from there.\<close>

fun get_section :: "alembic_config \<Rightarrow> (string \<times> string) list \<Rightarrow> env_error + (string \<times> string) list" where
  "get_section conf [] = Inr []"
| "get_section conf ((name, v) # opts) =
     (case interpolate (map_of (al_options conf)) (MAX_INTERPOLATION_DEPTH - 1) v of
        Inl e \<Rightarrow> Inl e
      | Inr w \<Rightarrow> map_sum id (Cons (name, w)) (get_section conf opts))"

text \<open>
  \<open>databases\<close> holds the state behind each URL. \<open>async_engine_from_config\<close> raises a \<open>LookupError\<close> without
  a URL; \<open>connect\<close> says whether the connection is made.
\<close>

definition run_migrations_online ::
  "(string \<Rightarrow> exn + unit) \<Rightarrow> ('s \<Rightarrow> (exn + unit) \<times> 's) \<Rightarrow> alembic_config \<Rightarrow> (string \<Rightarrow> 's)
     \<Rightarrow> (env_error + unit) \<times> (string \<Rightarrow> 's)" where
  "run_migrations_online connect run conf databases =
     (case get_section conf (al_options conf) of
        Inl e \<Rightarrow> (Inl e, databases)
      | Inr section \<Rightarrow>
          (case map_of section ''sqlalchemy.url'' of
             None \<Rightarrow> (Inl (Env_exn LookupError), databases)
           | Some url \<Rightarrow>
               (case connect url of
                  Inl e \<Rightarrow> (Inl (Env_exn e), databases)
                | Inr _ \<Rightarrow>
                    (let (r, s) = do_run_migrations run (databases url) in (r, databases(url := s))))))"

text \<open>Offline, \<open>write_sql\<close> stands for the tool writing the statements for a URL.\<close>

definition run_migrations_offline ::
  "(string option \<Rightarrow> exn + unit) \<Rightarrow> alembic_config \<Rightarrow> env_error + unit" where
  "run_migrations_offline write_sql conf =
     (case get_main_option ''sqlalchemy.url'' conf of
        Inl e \<Rightarrow> Inl e
      | Inr url \<Rightarrow> map_sum Env_exn id (write_sql url))"

definition run_env ::
  "(string \<Rightarrow> exn + unit) \<Rightarrow> exn + settings \<Rightarrow> bool \<Rightarrow> (string option \<Rightarrow> exn + unit) \<Rightarrow> (string \<Rightarrow> exn + unit)
     \<Rightarrow> ('s \<Rightarrow> (exn + unit) \<times> 's) \<Rightarrow> alembic_config \<Rightarrow> (string \<Rightarrow> 's) \<Rightarrow> (env_error + unit) \<times> (string \<Rightarrow> 's)" where
  "run_env file_config loaded offline write_sql connect run conf databases =
     (case configured file_config loaded conf of
        Inl e \<Rightarrow> (Inl e, databases)
      | Inr conf' \<Rightarrow>
          (if offline then (run_migrations_offline write_sql conf', databases)
           else run_migrations_online connect run conf' databases))"

section \<open>What a run may do\<close>

lemma drop_escaped_plain [simp]: "CHR ''%'' \<notin> set s \<Longrightarrow> drop_escaped s = s"
  by (induction s) auto

lemma drop_references_plain [simp]: "CHR ''%'' \<notin> set s \<Longrightarrow> drop_references s = s"
  by (induction s) auto

lemma interpolate_plain [simp]: "CHR ''%'' \<notin> set s \<Longrightarrow> interpolate opts depth s = Inr s"
  by (induction s) auto

lemma get_section_option:
  "get_section conf opts = Inr sec \<Longrightarrow> map_of opts name = Some v \<Longrightarrow>
    \<exists>w. map_of sec name = Some w \<and> interpolate (map_of (al_options conf)) (MAX_INTERPOLATION_DEPTH - 1) v = Inr w"
  by (induction conf opts arbitrary: sec rule: get_section.induct)
    (auto split: sum.splits if_splits simp: map_sum_def)

text \<open>
  A migration run changes at most one database, and that one by all pending scripts or not at all.
  When the file names no URL and the validated URL has no percent sign, it is the database of this URL.
\<close>

lemma migration_run_all_or_nothing:
  assumes "run_env file_config loaded offline write_sql connect run conf databases = (r, databases')"
  shows "databases' = databases \<or>
    r = Inr () \<and> \<not> offline \<and> (\<exists>url. connect url = Inr () \<and> run (databases url) = (Inr (), databases' url) \<and>
      databases' = databases(url := databases' url))"
  using assms
  by (auto simp: run_env_def run_migrations_online_def do_run_migrations_def Let_def
      split: sum.splits if_splits option.splits prod.splits)

lemma migration_run_targets_settings:
  assumes "run_env file_config (Inr settings) False write_sql connect run conf databases = (Inr (), databases')"
    and "map_of (al_options conf) ''sqlalchemy.url'' = None" and "CHR ''%'' \<notin> set (se_database_url settings)"
  shows "run (databases (se_database_url settings)) = (Inr (), databases' (se_database_url settings)) \<and>
    databases' = databases(se_database_url settings := databases' (se_database_url settings))"
proof -
  let ?url = "se_database_url settings"
  let ?conf = "conf\<lparr>al_options := (''sqlalchemy.url'', ?url) # filter (\<lambda>(k, _). k \<noteq> ''sqlalchemy.url'') (al_options conf)\<rparr>"
  have "configured file_config (Inr settings) conf \<in> {Inr ?conf} \<union> range Inl"
    using assms(2,3) by (auto simp: configured_def get_main_option_def set_main_option_def before_set_def split: sum.splits)
  with assms(1) have run: "run_migrations_online connect run ?conf databases = (Inr (), databases')"
    by (auto simp: run_env_def)
  then obtain sec where "get_section ?conf (al_options ?conf) = Inr sec"
    by (auto simp: run_migrations_online_def split: sum.splits)
  from get_section_option [OF this, of "''sqlalchemy.url''" ?url] assms(3)
  have "map_of sec ''sqlalchemy.url'' = Some ?url" by simp
  with run \<open>get_section ?conf (al_options ?conf) = Inr sec\<close> show ?thesis
    by (auto simp: run_migrations_online_def do_run_migrations_def Let_def split: sum.splits prod.splits)
qed

text \<open>
  The script escapes no percent sign: a URL that the settings accept and that the application
  connects to, here with a percent-encoded character in the password, ends the run with \<open>ValueError\<close>.
\<close>

definition encoded_settings :: settings where
  "encoded_settings = production_settings\<lparr>se_database_url := ''postgresql+asyncpg://app:p%40ss@db/hitl''\<rparr>"

lemma encoded_url_blocks_migrations:
  "load_settings upper (\<lambda>_. True) encoded_settings = Inr encoded_settings"
  "run_env file_config (Inr encoded_settings) offline write_sql connect run
     \<lparr>al_file_name = None, al_options = [(''script_location'', ''alembic'')]\<rparr> databases
   = (Inl (Env_exn ValueError), databases)"
proof -
  show "load_settings upper (\<lambda>_. True) encoded_settings = Inr encoded_settings" by code_simp
  have "before_set (se_database_url encoded_settings) = Inl (Env_exn ValueError)" by code_simp
  then show "run_env file_config (Inr encoded_settings) offline write_sql connect run
     \<lparr>al_file_name = None, al_options = [(''script_location'', ''alembic'')]\<rparr> databases
   = (Inl (Env_exn ValueError), databases)"
    by (simp add: run_env_def configured_def get_main_option_def set_main_option_def)
qed

text \<open>On an empty database the shipped configuration and scripts give the schema of \<open>Schema_Drift\<close>.\<close>

definition shipped_options :: "(string \<times> string) list" where
  "shipped_options = [(''here'', ''/app''), (''script_location'', ''alembic''), (''file_template'', ''%%(rev)s_%%(slug)s'')]"

definition run_scripts :: "migration list \<Rightarrow> sql_schema \<Rightarrow> (exn + unit) \<times> sql_schema" where
  "run_scripts ms s = (case run_upgrades ms s of None \<Rightarrow> (Inl RuntimeError, s) | Some t \<Rightarrow> (Inr (), t))"

lemma fresh_database_migrated:
  "run_env (\<lambda>_. Inr ()) (Inr default_settings) False write_sql (\<lambda>_. Inr ()) (run_scripts migrations)
     \<lparr>al_file_name = Some ''alembic.ini'', al_options = shipped_options\<rparr> (\<lambda>_. empty_schema)
   = (Inr (), (\<lambda>_. empty_schema)(DEFAULT_DATABASE_URL := head_schema))"
proof -
  have plain: "CHR ''%'' \<notin> set DEFAULT_DATABASE_URL" by code_simp
  have template: "interpolate opts n ''%%(rev)s_%%(slug)s'' = Inr ''%(rev)s_%(slug)s''" for opts n by simp
  from plain template show ?thesis
    by (simp add: run_env_def configured_def get_main_option_def set_main_option_def before_set_def shipped_options_def
        default_settings_def run_migrations_online_def do_run_migrations_def run_scripts_def upgrades_give_head)
qed

end
