(* ===== verification/Routes.thy ===== *)
theory Routes
  imports Approval_Api Http_Edge Settings "HOL-Library.Monad_Syntax"
begin

text \<open>
  The requests of the API as the framework hands them to the routes: the bodies as their models parse
  them (\<open>api/intents.py\<close>, \<open>api/approvals.py\<close>, \<open>api/admin.py\<close>) and the table of routes in the order of
  \<open>create_app\<close> (\<open>api/app.py\<close>). The framework is the record \<open>framework\<close>: how it decodes a body, how
  the model library converts a JSON number, a timestamp, an identifier or a query text, and what it
  reports of an invalid request.
\<close>

record http_request =
  hq_method :: string
  hq_path :: string
  hq_query :: "(string \<times> string) list"
  hq_authorization :: "string option"
  hq_idempotency_key :: "string option"

record framework =
  fw_body :: "string \<Rightarrow> raised + json option"
  fw_int :: "json \<Rightarrow> int option"
  fw_datetime :: "json \<Rightarrow> instant option"
  fw_uuid :: "string \<Rightarrow> uuid option"
  fw_query_int :: "string \<Rightarrow> int option"
  fw_dump_datetime :: "instant \<Rightarrow> json"
  fw_report :: "http_request \<Rightarrow> json option \<Rightarrow> (string list \<times> string) list"
  fw_page :: "string \<Rightarrow> http_response"

section \<open>Bodies\<close>

text \<open>An object with none but the named fields (\<open>extra="forbid"\<close>).\<close>

definition closed_object :: "string list \<Rightarrow> json option \<Rightarrow> dict option" where
  "closed_object names body =
     (case body of
        Some (JObj d) \<Rightarrow> if list_all (\<lambda>(k, v). k \<in> set names) d then Some d else None
      | _ \<Rightarrow> None)"

definition text_of :: "json \<Rightarrow> string option" where
  "text_of v = (case v of JStr s \<Rightarrow> Some s | _ \<Rightarrow> None)"

definition object_of :: "json \<Rightarrow> dict option" where
  "object_of v = (case v of JObj d \<Rightarrow> Some d | _ \<Rightarrow> None)"

definition texts_of :: "json \<Rightarrow> string list option" where
  "texts_of v = (case v of JList vs \<Rightarrow> those (map text_of vs) | _ \<Rightarrow> None)"

definition text_pairs_of :: "json \<Rightarrow> (string \<times> string) list option" where
  "text_pairs_of v =
     (case v of JObj d \<Rightarrow> those (map (\<lambda>(k, w). map_option (Pair k) (text_of w)) d) | _ \<Rightarrow> None)"

definition required_field :: "(json \<Rightarrow> 'a option) \<Rightarrow> string \<Rightarrow> dict \<Rightarrow> 'a option" where
  "required_field conv name d = (case map_of d name of None \<Rightarrow> None | Some v \<Rightarrow> conv v)"

definition optional_field :: "(json \<Rightarrow> 'a option) \<Rightarrow> 'a \<Rightarrow> string \<Rightarrow> dict \<Rightarrow> 'a option" where
  "optional_field conv dflt name d = (case map_of d name of None \<Rightarrow> Some dflt | Some v \<Rightarrow> conv v)"

definition checked :: "('a \<Rightarrow> bool) \<Rightarrow> 'a \<Rightarrow> 'a option" where
  "checked valid b = (if valid b then Some b else None)"

definition parse_create_body :: "json option \<Rightarrow> create_intent_body option" where
  "parse_create_body body = do {
     d \<leftarrow> closed_object [''tool'', ''parameters'', ''rationale''] body;
     tool \<leftarrow> required_field text_of ''tool'' d;
     parameters \<leftarrow> required_field object_of ''parameters'' d;
     rationale \<leftarrow> optional_field text_of [] ''rationale'' d;
     checked create_body_valid
       \<lparr>cb_tool = tool, cb_parameters = parameters, cb_rationale = rationale\<rparr> }"

definition parse_agent_body :: "json option \<Rightarrow> agent_intent_body option" where
  "parse_agent_body body = do {
     d \<leftarrow> closed_object [''request'', ''context_refs''] body;
     text \<leftarrow> required_field text_of ''request'' d;
     refs \<leftarrow> optional_field object_of [] ''context_refs'' d;
     checked agent_body_valid \<lparr>gt_request = text, gt_context_refs = refs\<rparr> }"

definition decision_of_json :: "json \<Rightarrow> approval_decision option" where
  "decision_of_json v =
     (if v = JStr ''APPROVE'' then Some APPROVE else if v = JStr ''REJECT'' then Some REJECT else None)"

definition parse_approval_body :: "(json \<Rightarrow> int option) \<Rightarrow> json option \<Rightarrow> approval_body option" where
  "parse_approval_body coerce body = do {
     d \<leftarrow> closed_object [''revision'', ''intent_digest'', ''level'', ''decision'', ''reason'',
            ''expected_state_version'', ''obligations''] body;
     revision \<leftarrow> required_field coerce ''revision'' d;
     digest \<leftarrow> required_field text_of ''intent_digest'' d;
     level \<leftarrow> required_field coerce ''level'' d;
     decision \<leftarrow> required_field decision_of_json ''decision'' d;
     reason \<leftarrow> required_field text_of ''reason'' d;
     version \<leftarrow> required_field coerce ''expected_state_version'' d;
     obligations \<leftarrow> optional_field text_pairs_of [] ''obligations'' d;
     checked approval_body_valid
       \<lparr>vb_revision = revision, vb_intent_digest = digest, vb_level = level, vb_decision = decision,
        vb_reason = reason, vb_expected_state_version = version, vb_obligations = obligations\<rparr> }"

definition parse_cancel_body :: "(json \<Rightarrow> int option) \<Rightarrow> json option \<Rightarrow> cancel_body option" where
  "parse_cancel_body coerce body = do {
     d \<leftarrow> closed_object [''revision'', ''reason'', ''expected_state_version''] body;
     revision \<leftarrow> required_field coerce ''revision'' d;
     reason \<leftarrow> required_field text_of ''reason'' d;
     version \<leftarrow> required_field coerce ''expected_state_version'' d;
     checked cancel_body_valid
       \<lparr>vc_revision = revision, vc_reason = reason, vc_expected_state_version = version\<rparr> }"

definition nullable :: "(json \<Rightarrow> 'a option) \<Rightarrow> json \<Rightarrow> 'a option option" where
  "nullable conv v = (if v = JNull then Some None else map_option Some (conv v))"

definition parse_grant_body :: "(json \<Rightarrow> instant option) \<Rightarrow> json option \<Rightarrow> grant_role_body option" where
  "parse_grant_body datetime body = do {
     d \<leftarrow> closed_object [''principal_id'', ''role'', ''environments'', ''scopes'', ''valid_until'', ''reason''] body;
     principal \<leftarrow> required_field text_of ''principal_id'' d;
     role \<leftarrow> required_field text_of ''role'' d;
     environments \<leftarrow> optional_field texts_of [] ''environments'' d;
     scopes \<leftarrow> optional_field texts_of [] ''scopes'' d;
     until \<leftarrow> optional_field (nullable datetime) None ''valid_until'' d;
     reason \<leftarrow> required_field text_of ''reason'' d;
     checked grant_body_valid
       \<lparr>gb_principal_id = principal, gb_role = role, gb_environments = environments, gb_scopes = scopes,
        gb_valid_until = until, gb_reason = reason\<rparr> }"

definition parse_reason_body :: "json option \<Rightarrow> reason_body option" where
  "parse_reason_body body = do {
     d \<leftarrow> closed_object [''reason''] body;
     reason \<leftarrow> required_field text_of ''reason'' d;
     checked reason_body_valid \<lparr>ob_reason = reason\<rparr> }"

definition parse_register_body :: "json option \<Rightarrow> register_bundle_body option" where
  "parse_register_body body = do {
     d \<leftarrow> closed_object [''version'', ''rules'', ''reason''] body;
     version \<leftarrow> required_field text_of ''version'' d;
     rules \<leftarrow> required_field object_of ''rules'' d;
     reason \<leftarrow> required_field text_of ''reason'' d;
     checked register_body_valid \<lparr>bb_version = version, bb_rules = rules, bb_reason = reason\<rparr> }"

section \<open>The table of routes\<close>

datatype endpoint =
    Page string
  | Create_intent | Create_agent_intent | Read_intent | Read_events
  | Decide_approval | Cancel_intent
  | Grant_role | Revoke_role | Register_bundle | Activate_bundle
  | Live | Ready

datatype segment = Lit string | Param

type_synonym http_route = "string list \<times> segment list \<times> endpoint"

text \<open>A path starts with a slash; its parts are what the slashes separate.\<close>

fun path_parts :: "string \<Rightarrow> string list" where
  "path_parts [] = [[]]"
| "path_parts (c # s) =
     (if c = CHR ''/'' then [] # path_parts s
      else (case path_parts s of [] \<Rightarrow> [[c]] | p # ps \<Rightarrow> (c # p) # ps))"

definition v1 :: "segment list \<Rightarrow> segment list" where "v1 ps = Lit [] # Lit ''v1'' # ps"

text \<open>\<open>intents.router\<close>, \<open>approvals.router\<close>, \<open>admin.router\<close> with their prefixes.\<close>

definition intent_routes :: "http_route list" where
  "intent_routes =
     [([''POST''], v1 [Lit ''agent'', Lit ''intents''], Create_agent_intent),
      ([''POST''], v1 [Lit ''intents''], Create_intent),
      ([''GET''], v1 [Lit ''intents'', Param], Read_intent),
      ([''GET''], v1 [Lit ''intents'', Param, Lit ''events''], Read_events)]"

definition approval_routes :: "http_route list" where
  "approval_routes =
     [([''POST''], v1 [Lit ''intents'', Param, Lit ''approvals''], Decide_approval),
      ([''POST''], v1 [Lit ''intents'', Param, Lit ''cancel''], Cancel_intent)]"

definition admin_routes :: "http_route list" where
  "admin_routes =
     [([''POST''], v1 [Lit ''admin'', Lit ''role-assignments''], Grant_role),
      ([''POST''], v1 [Lit ''admin'', Lit ''role-assignments'', Param, Lit ''revoke''], Revoke_role),
      ([''POST''], v1 [Lit ''admin'', Lit ''policy-bundles''], Register_bundle),
      ([''POST''], v1 [Lit ''admin'', Lit ''policy-bundles'', Param, Lit ''activate''], Activate_bundle)]"

text \<open>The pages that the framework adds by default, before any route of the program.\<close>

definition framework_routes :: "http_route list" where
  "framework_routes =
     [([''GET'', ''HEAD''], [Lit [], Lit ''openapi.json''], Page ''openapi''),
      ([''GET'', ''HEAD''], [Lit [], Lit ''docs''], Page ''docs''),
      ([''GET'', ''HEAD''], [Lit [], Lit ''docs'', Lit ''oauth2-redirect''], Page ''oauth2-redirect''),
      ([''GET'', ''HEAD''], [Lit [], Lit ''redoc''], Page ''redoc'')]"

definition health_routes :: "http_route list" where
  "health_routes =
     [([''GET''], [Lit [], Lit ''health'', Lit ''live''], Live),
      ([''GET''], [Lit [], Lit ''health'', Lit ''ready''], Ready)]"

definition app_routes :: "http_route list" where
  "app_routes = framework_routes @ intent_routes @ approval_routes @ admin_routes @ health_routes"

fun match_path :: "segment list \<Rightarrow> string list \<Rightarrow> string list option" where
  "match_path [] [] = Some []"
| "match_path (Lit s # ss) (p # ps) = (if s = p then match_path ss ps else None)"
| "match_path (Param # ss) (p # ps) =
     (if p = [] then None else map_option (\<lambda>vs. p # vs) (match_path ss ps))"
| "match_path _ _ = None"

datatype routed = Full endpoint "string list" | Wrong_method | Redirected | Unknown_path

text \<open>The first route whose path and method match; a path alone is remembered as the wrong method.\<close>

fun find_route :: "string \<Rightarrow> string list \<Rightarrow> http_route list \<Rightarrow> routed" where
  "find_route mth parts [] = Unknown_path"
| "find_route mth parts ((ms, pattern, ep) # rs) =
     (case match_path pattern parts of
        None \<Rightarrow> find_route mth parts rs
      | Some ps \<Rightarrow>
          if mth \<in> set ms then Full ep ps
          else (case find_route mth parts rs of Full ep' ps' \<Rightarrow> Full ep' ps' | _ \<Rightarrow> Wrong_method))"

text \<open>A path that matches only with its last slash added or removed is redirected there.\<close>

definition toggled :: "string list \<Rightarrow> string list" where
  "toggled parts =
     (if last parts = [] then rev (dropWhile (\<lambda>p. p = []) (rev parts)) else parts @ [[]])"

definition route_request :: "string \<Rightarrow> string \<Rightarrow> routed" where
  "route_request mth path =
     (case find_route mth (path_parts path) app_routes of
        Unknown_path \<Rightarrow>
          (if path \<noteq> ''/'' \<and> find_route mth (toggled (path_parts path)) app_routes \<noteq> Unknown_path
           then Redirected else Unknown_path)
      | r \<Rightarrow> r)"

end
