(* ===== verification/Application.thy ===== *)
theory Application
  imports Routes System
begin

text \<open>
  \<open>create_app\<close> of \<open>api/app.py\<close>: the whole HTTP service. A connection passes the edge of \<open>Http_Edge\<close>,
  then the table of \<open>Routes\<close>, the dependencies of the route in their order (the session, the actor, the
  idempotency key) and the validation of path, query and body; the route runs in the transaction of
  \<open>get_session\<close>. The body is decoded before the dependencies run, as the framework does it.
\<close>

text \<open>What all processes of a deployment share, and what one request finds.\<close>

record service =
  sv_settings :: settings
  sv_creation :: creation_library
  sv_decode :: "string \<Rightarrow> string \<Rightarrow> string \<Rightarrow> string \<Rightarrow> dict option"
  sv_framework :: framework
  sv_length :: "json \<Rightarrow> nat"

record health_probe =
  hp_in_time :: bool
  hp_connect :: "exn + unit"
  hp_ini_exists :: bool
  hp_head :: "string option"
  hp_answer :: "exn + string option"

record request_inputs =
  in_env :: env
  in_race :: insert_race
  in_intent_id :: uuid
  in_command_id :: string
  in_now :: instant
  in_edge_now :: instant
  in_fresh :: string
  in_fresh' :: string
  in_probe :: health_probe

section \<open>Construction\<close>

record application =
  ap_db :: db
  ap_rate_limiter :: rate_limiter
  ap_address_limiter :: rate_limiter

definition create_app :: "settings \<Rightarrow> db \<Rightarrow> application" where
  "create_app s d =
     \<lparr>ap_db = d, ap_rate_limiter = new_limiter (se_rate_limit_per_minute s),
      ap_address_limiter = new_limiter (se_address_rate_limit_per_minute s)\<rparr>"

section \<open>Running a route\<close>

definition answer :: "int \<Rightarrow> exn + dict \<Rightarrow> exn + http_response" where
  "answer status r = (case r of Inl e \<Rightarrow> Inl e | Inr body \<Rightarrow> Inr (json_response status (JObj body)))"

definition invalid :: "service \<Rightarrow> http_request \<Rightarrow> string \<Rightarrow> json option \<Rightarrow> exn + http_response" where
  "invalid sv rq cid body =
     Inr (error_response cid (Validation (fw_report (sv_framework sv) rq body)))"

text \<open>A mutation: the key is required, then the parsed request, then the route in its transaction.\<close>

definition mutate ::
  "service \<Rightarrow> http_request \<Rightarrow> string \<Rightarrow> json option \<Rightarrow> int \<Rightarrow> 'b option \<Rightarrow> ('b \<Rightarrow> db \<Rightarrow> (exn + dict) \<times> db)
     \<Rightarrow> db \<Rightarrow> (exn + http_response) \<times> db" where
  "mutate sv rq cid body status parsed run d =
     (case require_idempotency_key (hq_idempotency_key rq) of
        Inl e \<Rightarrow> (Inl e, d)
      | Inr key \<Rightarrow>
          (case parsed of
             None \<Rightarrow> (invalid sv rq cid body, d)
           | Some b \<Rightarrow> (let (r, d') = request (run b) d in (answer status r, d'))))"

definition path_uuid :: "framework \<Rightarrow> string list \<Rightarrow> uuid option" where
  "path_uuid fw ps = (case ps of p # _ \<Rightarrow> fw_uuid fw p | [] \<Rightarrow> None)"

definition both :: "'a option \<Rightarrow> 'b option \<Rightarrow> ('a \<times> 'b) option" where
  "both x y = (case (x, y) of (Some a, Some b) \<Rightarrow> Some (a, b) | _ \<Rightarrow> None)"

text \<open>The last of repeated query parameters counts.\<close>

definition query_int :: "framework \<Rightarrow> http_request \<Rightarrow> string \<Rightarrow> int \<Rightarrow> int option" where
  "query_int fw rq name dflt =
     (let vs = filter (\<lambda>(k, v). k = name) (hq_query rq)
      in if vs = [] then Some dflt else fw_query_int fw (snd (last vs)))"

definition read_events_route ::
  "service \<Rightarrow> http_request \<Rightarrow> string \<Rightarrow> authenticated_actor \<Rightarrow> string list \<Rightarrow> db \<Rightarrow> exn + http_response" where
  "read_events_route sv rq cid a ps d =
     (let fw = sv_framework sv
      in case (path_uuid fw ps, query_int fw rq ''cursor'' 0, query_int fw rq ''limit'' 50) of
           (Some n, Some cursor, Some limit) \<Rightarrow>
             (if events_query_valid cursor limit
              then answer 200 (get_events (cl_sha (sv_creation sv)) a n cursor limit d)
              else invalid sv rq cid None)
         | _ \<Rightarrow> invalid sv rq cid None)"

definition ids_of :: "request_inputs \<Rightarrow> string \<Rightarrow> request_ids" where
  "ids_of inp cid =
     \<lparr>rq_intent_id = in_intent_id inp, rq_command_id = in_command_id inp, rq_correlation_id = cid\<rparr>"

fun run_endpoint ::
  "service \<Rightarrow> request_inputs \<Rightarrow> http_request \<Rightarrow> string \<Rightarrow> json option \<Rightarrow> authenticated_actor \<Rightarrow> string list
     \<Rightarrow> db \<Rightarrow> endpoint \<Rightarrow> (exn + http_response) \<times> db" where
  "run_endpoint sv inp rq cid body a ps d Create_intent =
     mutate sv rq cid body 201 (parse_create_body body)
       (\<lambda>b. create_intent (sv_creation sv) (in_race inp) (in_env inp) a b (hq_idempotency_key rq) (ids_of inp cid)) d"
| "run_endpoint sv inp rq cid body a ps d Create_agent_intent =
     mutate sv rq cid body 201 (parse_agent_body body)
       (\<lambda>b. create_agent_intent (sv_creation sv) disabled_provider (in_race inp) (in_env inp) a b
          (hq_idempotency_key rq) (ids_of inp cid)) d"
| "run_endpoint sv inp rq cid body a ps d Read_intent =
     (case path_uuid (sv_framework sv) ps of
        None \<Rightarrow> (invalid sv rq cid None, d)
      | Some n \<Rightarrow> (answer 200 (get_intent_view a n d), d))"
| "run_endpoint sv inp rq cid body a ps d Read_events = (read_events_route sv rq cid a ps d, d)"
| "run_endpoint sv inp rq cid body a ps d Decide_approval =
     mutate sv rq cid body 200
       (both (path_uuid (sv_framework sv) ps) (parse_approval_body (fw_int (sv_framework sv)) body))
       (\<lambda>(n, b). decide_approval (cl_sha (sv_creation sv)) (in_race inp) (in_env inp) a n b
          (hq_idempotency_key rq) (in_command_id inp)) d"
| "run_endpoint sv inp rq cid body a ps d Cancel_intent =
     mutate sv rq cid body 200
       (both (path_uuid (sv_framework sv) ps) (parse_cancel_body (fw_int (sv_framework sv)) body))
       (\<lambda>(n, b). cancel_intent (cl_sha (sv_creation sv)) (in_race inp) (in_env inp) a n b
          (hq_idempotency_key rq) (in_command_id inp)) d"
| "run_endpoint sv inp rq cid body a ps d Grant_role =
     mutate sv rq cid body 201 (parse_grant_body (fw_datetime (sv_framework sv)) body)
       (\<lambda>b. admin_grant_role (cl_sha (sv_creation sv)) (in_race inp) (fw_dump_datetime (sv_framework sv))
          (in_env inp) a b (hq_idempotency_key rq) (in_command_id inp)) d"
| "run_endpoint sv inp rq cid body a ps d Revoke_role =
     mutate sv rq cid body 200
       (both (map_option unat (path_uuid (sv_framework sv) ps)) (parse_reason_body body))
       (\<lambda>(n, b). admin_revoke_role (cl_sha (sv_creation sv)) (in_race inp) (in_env inp) a n b
          (hq_idempotency_key rq) (in_command_id inp)) d"
| "run_endpoint sv inp rq cid body a ps d Register_bundle =
     mutate sv rq cid body 201 (parse_register_body body)
       (\<lambda>b. admin_register_bundle (cl_sha (sv_creation sv)) (in_race inp) (in_env inp) a b
          (hq_idempotency_key rq) (in_command_id inp)) d"
| "run_endpoint sv inp rq cid body a ps d Activate_bundle =
     mutate sv rq cid body 200
       (both (case ps of v # _ \<Rightarrow> Some v | [] \<Rightarrow> None) (parse_reason_body body))
       (\<lambda>(v, b). admin_activate_bundle (cl_sha (sv_creation sv)) (in_race inp) (in_env inp) a v b
          (hq_idempotency_key rq) (in_command_id inp)) d"
| "run_endpoint sv inp rq cid body a ps d Live = (Inr liveness, d)"
| "run_endpoint sv inp rq cid body a ps d Ready =
     (let p = in_probe inp
      in (Inr (readiness (hp_in_time p) (hp_connect p) (script_head (hp_ini_exists p) (hp_head p)) (hp_answer p)), d))"
| "run_endpoint sv inp rq cid body a ps d (Page p) = (Inr (fw_page (sv_framework sv) p), d)"

definition open_endpoint :: "endpoint \<Rightarrow> bool" where
  "open_endpoint ep \<longleftrightarrow> (case ep of Live \<Rightarrow> True | Ready \<Rightarrow> True | Page p \<Rightarrow> True | _ \<Rightarrow> False)"

definition takes_body :: "endpoint \<Rightarrow> bool" where
  "takes_body ep \<longleftrightarrow> \<not> open_endpoint ep \<and> ep \<noteq> Read_intent \<and> ep \<noteq> Read_events"

text \<open>The body of a route that declares one; a client that leaves while it is read gives a 400.\<close>

definition decoded_body :: "framework \<Rightarrow> endpoint \<Rightarrow> http_message list \<Rightarrow> raised + json option" where
  "decoded_body fw ep messages =
     (if \<not> takes_body ep then Inr None
      else (case whole_body messages of
              None \<Rightarrow> Inl (HttpException 400 ''There was an error parsing the body'')
            | Some (body, rest) \<Rightarrow> fw_body fw body))"

definition no_actor :: authenticated_actor where
  "no_actor = \<lparr>ac_actor_id = [], ac_tenant_id = [], ac_correlation_id = [], ac_scopes = {}\<rparr>"

definition run_route ::
  "service \<Rightarrow> request_inputs \<Rightarrow> http_request \<Rightarrow> string \<Rightarrow> http_message list \<Rightarrow> endpoint \<Rightarrow> string list
     \<Rightarrow> db \<times> rate_limiter \<Rightarrow> (exn + http_response) \<times> db \<times> rate_limiter" where
  "run_route sv inp rq cid messages ep ps s =
     (case decoded_body (sv_framework sv) ep messages of
        Inl r \<Rightarrow> (Inr (error_response cid r), s)
      | Inr body \<Rightarrow>
          (let (d, l) = s
           in if open_endpoint ep
              then (let (r, d') = run_endpoint sv inp rq cid body no_actor ps d ep in (r, d', l))
              else
                (case get_actor (sv_decode sv) (identity_of (sv_settings sv)) (hq_authorization rq) (in_now inp) l of
                   (Inl e, l') \<Rightarrow> (Inl e, d, l')
                 | (Inr a, l') \<Rightarrow>
                     (let (r, d') = run_endpoint sv inp rq cid body a ps d ep in (r, d', l')))))"

definition redirect_response :: http_response where
  "redirect_response = json_response 307 JNull"

definition dispatch ::
  "service \<Rightarrow> request_inputs \<Rightarrow> http_request \<Rightarrow> string \<Rightarrow> http_message list
     \<Rightarrow> db \<times> rate_limiter \<Rightarrow> (exn + http_response) \<times> db \<times> rate_limiter" where
  "dispatch sv inp rq cid messages s =
     (case route_request (hq_method rq) (hq_path rq) of
        Full ep ps \<Rightarrow> run_route sv inp rq cid messages ep ps s
      | Wrong_method \<Rightarrow> (Inr (error_response cid (HttpException 405 ''Method Not Allowed'')), s)
      | Redirected \<Rightarrow> (Inr redirect_response, s)
      | Unknown_path \<Rightarrow> (Inr (error_response cid (HttpException 404 ''Not Found'')), s))"

section \<open>The service\<close>

definition serve ::
  "service \<Rightarrow> request_inputs \<Rightarrow> http_request \<Rightarrow> connection \<Rightarrow> application \<Rightarrow> served \<times> application" where
  "serve sv inp rq cn ap =
     (let (result, l', d', rl') =
        app_serve (sv_length sv) (nat (se_max_request_bytes (sv_settings sv))) (in_edge_now inp)
          (in_fresh inp) (in_fresh' inp) (dispatch sv inp rq) cn (ap_address_limiter ap)
          (ap_db ap, ap_rate_limiter ap)
      in (result, \<lparr>ap_db = d', ap_rate_limiter = rl', ap_address_limiter = l'\<rparr>))"

end
