(* ===== verification/Application_Safety.thy ===== *)
theory Application_Safety
  imports Application System_Safety System_Run
begin

text \<open>
  What the HTTP service as a whole promises: whatever clients send, the database only takes steps of
  \<open>System\<close>, and a request without an accepted identity changes nothing.
\<close>

section \<open>Requests are steps\<close>

lemma mutate_request:
  "mutate sv rq cid body status parsed run d = (r, d') \<Longrightarrow>
     d' = d \<or> (\<exists>b q. parsed = Some b \<and> request (run b) d = (q, d'))"
  by (auto simp: mutate_def split: sum.splits option.splits prod.splits)

lemma run_endpoint_step:
  assumes "run_endpoint sv inp rq cid body a ps d ep = (r, d')" and "w_db w = d"
  shows "d' = d \<or> step (sv_creation sv) w (w\<lparr>w_db := d'\<rparr>)"
  using assms
  by (cases ep) (auto dest!: mutate_request
      intro: step.create step.create_agent step.decide step.cancel step.grant step.revoke step.register step.activate
      split: option.splits simp: Let_def)

lemma run_route_db:
  assumes "run_route sv inp rq cid messages ep ps (d, l) = (r, d', l')"
  shows "d' = d \<or> (\<exists>body a r. run_endpoint sv inp rq cid body a ps d ep = (r, d'))"
  using assms by (auto simp: run_route_def Let_def split: sum.splits prod.splits if_splits)

lemma dispatch_db:
  assumes "dispatch sv inp rq cid messages (d, l) = (r, d', l')"
  shows "d' = d \<or> (\<exists>ep ps. route_request (hq_method rq) (hq_path rq) = Full ep ps \<and>
      run_route sv inp rq cid messages ep ps (d, l) = (r, d', l'))"
  using assms by (auto simp: dispatch_def split: routed.splits)

lemma dispatch_step:
  assumes "dispatch sv inp rq cid messages (d, l) = (r, d', l')" and "w_db w = d"
  shows "d' = d \<or> step (sv_creation sv) w (w\<lparr>w_db := d'\<rparr>)"
  using dispatch_db [OF assms(1)]
proof (elim disjE exE conjE)
  fix ep ps
  assume "run_route sv inp rq cid messages ep ps (d, l) = (r, d', l')"
  from run_route_db [OF this] show ?thesis using run_endpoint_step [OF _ assms(2)] by blast
qed simp

text \<open>The state that a route of the edge leaves is untouched or what the route made of it.\<close>

lemma handled_state: "snd (handled cid route s) = snd (route s)"
  by (simp add: handled_def split: prod.splits sum.splits)

lemma app_serve_cases:
  assumes "app_serve len m now f f' route cn l s = (res, l', s')"
  obtains (untouched) "s' = s"
  | (routed) ms where "body_gate len m (cn_is_http cn) (cn_content_length cn) (cn_correlation cn) f (cn_messages cn)
        = Forwarded ms" and "allow (address_identity (cn_client cn)) now l = (True, l')"
      and "s' = snd (route (correlation_of (cn_correlation cn) f') ms s)"
proof (cases "body_gate len m (cn_is_http cn) (cn_content_length cn) (cn_correlation cn) f (cn_messages cn)")
  case (Forwarded ms)
  let ?cid = "correlation_of (cn_correlation cn) f'"
  obtain r l1 s1 where h: "hardening_middleware (cn_client cn) now ?cid (handled ?cid (route ?cid ms)) l s = (r, l1, s1)"
    by (metis prod_cases3)
  with assms Forwarded have e: "l1 = l'" "s1 = s'" by (auto simp: app_serve_def Let_def)
  from h have "s1 = s \<or> allow (address_identity (cn_client cn)) now l = (True, l1) \<and>
      s1 = snd (handled ?cid (route ?cid ms) s)"
    by (auto simp: hardening_middleware_def split: prod.splits if_splits)
  with e handled_state [of ?cid "route ?cid ms" s] untouched routed [OF Forwarded] show ?thesis by auto
qed (use assms untouched in \<open>auto simp: app_serve_def\<close>)

lemma serve_app_serve:
  assumes "serve sv inp rq cn ap = (res, ap')"
  shows "app_serve (sv_length sv) (nat (se_max_request_bytes (sv_settings sv))) (in_edge_now inp)
      (in_fresh inp) (in_fresh' inp) (dispatch sv inp rq) cn (ap_address_limiter ap) (ap_db ap, ap_rate_limiter ap)
      = (res, ap_address_limiter ap', ap_db ap', ap_rate_limiter ap')"
  using assms by (auto simp: serve_def split: prod.splits)

lemma serve_step:
  assumes "serve sv inp rq cn ap = (res, ap')" and "w_db w = ap_db ap"
  shows "ap_db ap' = ap_db ap \<or> step (sv_creation sv) w (w\<lparr>w_db := ap_db ap'\<rparr>)"
  using serve_app_serve [OF assms(1)]
proof (cases rule: app_serve_cases)
  case (routed ms)
  then obtain cid r where "dispatch sv inp rq cid ms (ap_db ap, ap_rate_limiter ap) = (r, ap_db ap', ap_rate_limiter ap')"
    by (metis prod.collapse)
  from dispatch_step [OF this assms(2)] show ?thesis .
qed simp

section \<open>Only an authenticated mutation writes\<close>

lemma find_route_method: "find_route mth parts rs = Full ep ps \<Longrightarrow> \<exists>ms pat. (ms, pat, ep) \<in> set rs \<and> mth \<in> set ms"
  by (induction mth parts rs rule: find_route.induct) (auto split: option.splits if_splits routed.splits)

lemma route_request_method:
  assumes "route_request mth path = Full ep ps" and "takes_body ep"
  shows "mth = ''POST''"
proof -
  from assms(1) have "find_route mth (path_parts path) app_routes = Full ep ps"
    by (auto simp: route_request_def split: routed.splits if_splits)
  from find_route_method [OF this] assms(2) show ?thesis
    by (auto simp: app_routes_def framework_routes_def intent_routes_def approval_routes_def admin_routes_def
        health_routes_def takes_body_def open_endpoint_def)
qed

lemma mutate_writes:
  assumes "mutate sv rq cid body status parsed run d = (r, d')" and "d' \<noteq> d"
  shows "\<exists>k. hq_idempotency_key rq = Some k \<and> k \<noteq> []"
  using assms by (auto simp: mutate_def require_idempotency_key_def Let_def split: sum.splits option.splits if_splits)

lemma run_endpoint_writes:
  assumes "run_endpoint sv inp rq cid body a ps d ep = (r, d')" and "d' \<noteq> d"
  shows "takes_body ep \<and> (\<exists>k. hq_idempotency_key rq = Some k \<and> k \<noteq> [])"
  using assms
  by (cases ep) (auto simp: takes_body_def open_endpoint_def Let_def dest: mutate_writes split: option.splits)

lemma run_route_writes:
  assumes "run_route sv inp rq cid messages ep ps (d, l) = (r, d', l')" and "d' \<noteq> d"
  shows "takes_body ep \<and> (\<exists>k. hq_idempotency_key rq = Some k \<and> k \<noteq> []) \<and>
    (\<exists>a. get_actor (sv_decode sv) (identity_of (sv_settings sv)) (hq_authorization rq) (in_now inp) l = (Inr a, l'))"
proof -
  have closed: "\<not> open_endpoint ep" if "takes_body ep" using that by (simp add: takes_body_def)
  from assms show ?thesis
    by (auto simp: run_route_def Let_def dest!: run_endpoint_writes closed
        split: sum.splits prod.splits if_splits)
qed

text \<open>
  C14. Only authenticated mutations write. If a connection changes the database, then it was a POST to
  one of the eight mutating routes, with an idempotency key, with a token that the token check
  accepted and within its actor's rate, from an address within its rate, and with a body that
  arrived completely and within the limit. So reads, refused tokens, unknown paths and oversized
  bodies leave everything as it was.
\<close>

theorem only_authenticated_mutations_write:
  assumes "serve sv inp rq cn ap = (res, ap')" and "ap_db ap' \<noteq> ap_db ap" and "cn_is_http cn"
  shows "hq_method rq = ''POST'' \<and>
    (\<exists>ep ps. route_request (hq_method rq) (hq_path rq) = Full ep ps \<and> takes_body ep) \<and>
    (\<exists>k. hq_idempotency_key rq = Some k \<and> k \<noteq> []) \<and>
    (\<exists>a. get_actor (sv_decode sv) (identity_of (sv_settings sv)) (hq_authorization rq) (in_now inp)
       (ap_rate_limiter ap) = (Inr a, ap_rate_limiter ap')) \<and>
    allow (address_identity (cn_client cn)) (in_edge_now inp) (ap_address_limiter ap) = (True, ap_address_limiter ap') \<and>
    (\<exists>body rest. whole_body (cn_messages cn) = Some (body, rest) \<and>
       length body \<le> nat (se_max_request_bytes (sv_settings sv)))"
  using serve_app_serve [OF assms(1)]
proof (cases rule: app_serve_cases)
  case untouched
  with assms(2) show ?thesis by simp
next
  case (routed ms)
  obtain cid r where d: "dispatch sv inp rq cid ms (ap_db ap, ap_rate_limiter ap) = (r, ap_db ap', ap_rate_limiter ap')"
    using routed(3) by (metis prod.collapse)
  with dispatch_db [OF d] assms(2) obtain ep ps where ep: "route_request (hq_method rq) (hq_path rq) = Full ep ps"
      and run: "run_route sv inp rq cid ms ep ps (ap_db ap, ap_rate_limiter ap) = (r, ap_db ap', ap_rate_limiter ap')"
    by blast
  note w = run_route_writes [OF run assms(2)]
  have "\<exists>body rest. whole_body (cn_messages cn) = Some (body, rest) \<and>
      length body \<le> nat (se_max_request_bytes (sv_settings sv))"
    by (rule body_gate_cases [OF routed(1) [unfolded eqTrueI [OF assms(3)]]]) auto
  with w ep route_request_method [OF ep] routed(2) show ?thesis by blast
qed

section \<open>A request through the whole service\<close>

text \<open>The request of \<open>System_Run\<close>, sent over HTTP.\<close>

definition alice_claims :: dict where
  "alice_claims = [(''sub'', JStr ''alice''), (''tenant'', JStr ''t''), (''scope'', JStr ''ops:write'')]"

definition inspect_json :: json where
  "inspect_json = JObj [(''tool'', JStr ''inspect_service''),
     (''parameters'', JObj (cb_parameters inspect_body)), (''rationale'', JStr ''look'')]"

definition sample_framework :: framework where
  "sample_framework =
     \<lparr>fw_body = (\<lambda>_. Inr (Some inspect_json)), fw_int = strict_int, fw_datetime = (\<lambda>_. None),
      fw_uuid = (\<lambda>_. None), fw_query_int = (\<lambda>_. None), fw_dump_datetime = (\<lambda>_. JNull),
      fw_report = (\<lambda>_ _. []), fw_page = (\<lambda>_. liveness)\<rparr>"

definition sample_web :: service where
  "sample_web =
     \<lparr>sv_settings = sample_settings, sv_creation = sample_service,
      sv_decode = (\<lambda>_ _ _ _. Some alice_claims), sv_framework = sample_framework, sv_length = (\<lambda>_. 0)\<rparr>"

definition sample_inputs :: request_inputs where
  "sample_inputs =
     \<lparr>in_env = at_second 10, in_race = NoConflict, in_intent_id = 9, in_command_id = ''c9'', in_now = 0,
      in_edge_now = 0, in_fresh = ''f'', in_fresh' = ''g'',
      in_probe = \<lparr>hp_in_time = True, hp_connect = Inr (), hp_ini_exists = True, hp_head = None, hp_answer = Inr None\<rparr>\<rparr>"

definition sample_post :: http_request where
  "sample_post =
     \<lparr>hq_method = ''POST'', hq_path = ''/v1/intents'', hq_query = [], hq_authorization = Some ''Bearer tok'',
      hq_idempotency_key = Some ''k''\<rparr>"

definition sample_post_connection :: connection where
  "sample_post_connection =
     \<lparr>cn_is_http = True, cn_content_length = None, cn_correlation = Some ''x9'', cn_client = None,
      cn_messages = [Chunk (Some ''{}'') False]\<rparr>"

lemma sample_post_routed: "route_request ''POST'' ''/v1/intents'' = Full Create_intent []"
  by code_simp

lemma sample_post_parsed: "parse_create_body (Some inspect_json) = Some inspect_body"
  by code_simp

lemma sample_post_actor:
  obtains l' where "get_actor (\<lambda>_ _ _ _. Some alice_claims) (identity_of sample_settings) (Some ''Bearer tok'') 0
      (new_limiter 120) = (Inr (actor_named ''alice''), l')"
proof -
  have "validate_token (\<lambda>_ _ _ _. Some alice_claims) tok secret issuer audience = Inr (actor_named ''alice'')"
    for tok secret issuer audience
    by code_simp
  moreover have "starts_with ''bearer '' (lower ''Bearer tok'')" by code_simp
  ultimately show ?thesis
    using that
    by (simp add: get_actor_def identity_of_def sample_settings_def default_settings_def allow_def new_limiter_def hits_of_def)
qed

lemma sample_post_served:
  obtains ap' response where "serve sample_web sample_inputs sample_post sample_post_connection (create_app sample_settings sample_empty)
      = (Answer response, ap')" and "ap_db ap' = served_requested"
proof -
  obtain l' where actor: "get_actor (\<lambda>_ _ _ _. Some alice_claims) (identity_of sample_settings) (Some ''Bearer tok'') 0
      (new_limiter 120) = (Inr (actor_named ''alice''), l')" by (rule sample_post_actor)
  have ids: "ids_of sample_inputs ''x9'' = sample_ids"
    by (simp add: ids_of_def sample_inputs_def sample_ids_def)
  obtain body where run: "request (create_intent sample_service NoConflict (at_second 10) (actor_named ''alice'')
      inspect_body (Some ''k'') sample_ids) sample_empty = (Inr body, served_requested)"
    unfolding served_request_def [symmetric] served_requested_def served_request_code by simp
  have route: "run_route sample_web sample_inputs sample_post ''x9'' ms Create_intent [] (sample_empty, new_limiter 120)
      = (Inr (json_response 201 (JObj body)), served_requested, l')" if "whole_body ms = Some x" for ms x
    using actor run ids sample_post_parsed that
    by (cases x) (simp add: run_route_def decoded_body_def takes_body_def open_endpoint_def mutate_def answer_def
        sample_web_def sample_framework_def sample_inputs_def sample_post_def require_idempotency_key_def)
  show ?thesis
    using that sample_post_routed route [of "[Chunk (Some ''{}'') False]"]
    by (simp add: serve_def create_app_def app_serve_def body_gate_def sample_post_connection_def declared_too_large_def
        chunk_body_def correlation_of_def hardening_middleware_def handled_def dispatch_def sample_post_def
        sample_settings_def default_settings_def allow_def new_limiter_def hits_of_def sample_web_def sample_inputs_def)
qed

lemma only_authenticated_mutations_write_witness:
  "\<exists>ap'. (\<exists>response. serve sample_web sample_inputs sample_post sample_post_connection (create_app sample_settings sample_empty)
      = (Answer response, ap')) \<and> ap_db ap' \<noteq> sample_empty \<and> (\<exists>k. hq_idempotency_key sample_post = Some k \<and> k \<noteq> [])"
proof -
  obtain ap' response where s: "serve sample_web sample_inputs sample_post sample_post_connection
      (create_app sample_settings sample_empty) = (Answer response, ap')" and d: "ap_db ap' = served_requested"
    by (rule sample_post_served)
  have n: "ap_db ap' \<noteq> ap_db (create_app sample_settings sample_empty)"
    unfolding d served_requested_def served_request_code by (simp add: create_app_def sample_empty_def empty_db_def)
  from only_authenticated_mutations_write [OF s n] s n show ?thesis
    by (auto simp: sample_post_connection_def create_app_def)
qed

end
