(* ===== verification/Deployment.thy ===== *)
theory Deployment
  imports Application_Safety System_Tick Supervisor
begin

text \<open>
  A running deployment: the API process (\<open>api/app.py\<close>) and the worker process (\<open>worker_main.py\<close>) started
  from the same settings on one database. Both are composed from their models: requests pass through
  \<open>serve\<close>, and the worker loop runs supervised passes of \<open>run_worker_tick\<close>. Other processes act within
  the worker's passes (\<open>ti_meanwhile\<close>); the pauses of the loop are those of \<open>Supervisor\<close>.
\<close>

text \<open>\<open>_run\<close> and \<open>create_app\<close>: a process whose settings are refused does not start.\<close>

record ('s, 'n) deployment =
  dp_app :: application
  dp_provider :: 's
  dp_sink :: 'n
  dp_outcomes :: "tick_outcome list"

definition deploy :: "exn + settings \<Rightarrow> db \<Rightarrow> 's \<Rightarrow> 'n \<Rightarrow> exn + ('s, 'n) deployment" where
  "deploy loaded d s nt =
     (case loaded of
        Inl e \<Rightarrow> Inl e
      | Inr settings \<Rightarrow>
          Inr \<lparr>dp_app = create_app settings d, dp_provider = s, dp_sink = nt, dp_outcomes = []\<rparr>)"

definition outcome_of_pass :: "exn + 'a \<Rightarrow> tick_outcome" where
  "outcome_of_pass r = (case r of Inl e \<Rightarrow> Tick_failed | Inr st \<Rightarrow> Tick_done)"

datatype activity = Request_arrives request_inputs http_request connection | Pass_runs tick_inputs

definition run_pass ::
  "service \<Rightarrow> (string \<Rightarrow> string) \<Rightarrow> library \<Rightarrow> (notification_request \<Rightarrow> 'n \<Rightarrow> (exn + string) \<times> 'n) \<Rightarrow> 's provider
     \<Rightarrow> tick_inputs \<Rightarrow> ('s, 'n) deployment \<Rightarrow> ('s, 'n) deployment" where
  "run_pass sv lc lib notify p ti dp =
     (let (r, d, s, nt) = run_worker_tick (cl_sha (sv_creation sv)) lc lib notify p ti (ap_db (dp_app dp))
        (dp_provider dp) (dp_sink dp)
      in dp\<lparr>dp_app := (dp_app dp)\<lparr>ap_db := d\<rparr>, dp_provider := s, dp_sink := nt,
           dp_outcomes := dp_outcomes dp @ [outcome_of_pass r]\<rparr>)"

fun run_activities ::
  "service \<Rightarrow> (string \<Rightarrow> string) \<Rightarrow> library \<Rightarrow> (notification_request \<Rightarrow> 'n \<Rightarrow> (exn + string) \<times> 'n) \<Rightarrow> 's provider
     \<Rightarrow> activity list \<Rightarrow> ('s, 'n) deployment \<Rightarrow> ('s, 'n) deployment" where
  "run_activities sv lc lib notify p [] dp = dp"
| "run_activities sv lc lib notify p (Request_arrives inp rq cn # xs) dp =
     run_activities sv lc lib notify p xs (dp\<lparr>dp_app := snd (serve sv inp rq cn (dp_app dp))\<rparr>)"
| "run_activities sv lc lib notify p (Pass_runs ti # xs) dp =
     run_activities sv lc lib notify p xs (run_pass sv lc lib notify p ti dp)"

text \<open>The pauses that the worker loop has made so far, and whether it has ended.\<close>

definition worker_loop :: "int \<Rightarrow> int \<Rightarrow> ('s, 'n) deployment \<Rightarrow> int list \<times> bool" where
  "worker_loop max_backoff idle dp = supervise max_backoff idle 0 (dp_outcomes dp)"

definition passes :: "activity list \<Rightarrow> tick_inputs list" where
  "passes xs = concat (map (\<lambda>x. case x of Pass_runs ti \<Rightarrow> [ti] | _ \<Rightarrow> []) xs)"

lemma passes_simps [simp]:
  "passes [] = []"
  "passes (Request_arrives inp rq cn # xs) = passes xs"
  "passes (Pass_runs ti # xs) = ti # passes xs"
  by (simp_all add: passes_def)

section \<open>A deployment is a run of the system\<close>

definition world_of :: "world \<Rightarrow> ((tool_name \<times> adapter_command) list \<times> 's, 'n) deployment \<Rightarrow> world" where
  "world_of w dp = w\<lparr>w_db := ap_db (dp_app dp), w_sent := fst (dp_provider dp)\<rparr>"

lemma request_steps:
  "steps (sv_creation sv) (world_of w dp) (world_of w (dp\<lparr>dp_app := snd (serve sv inp rq cn (dp_app dp))\<rparr>))"
proof -
  obtain res ap' where s: "serve sv inp rq cn (dp_app dp) = (res, ap')" by (rule prod.exhaust)
  from serve_step [OF s, of "world_of w dp"] s show ?thesis by (auto simp: world_of_def world_swap)
qed

lemma pass_steps:
  assumes "meanwhile_steps (sv_creation sv) ti"
  shows "steps (sv_creation sv) (world_of w dp) (world_of w (run_pass sv lc lib notify (logging_provider p) ti dp)) \<and>
    length (fst (dp_provider (run_pass sv lc lib notify (logging_provider p) ti dp))) \<le> length (fst (dp_provider dp)) + 5"
proof -
  obtain log s where ls: "dp_provider dp = (log, s)" by (rule prod.exhaust)
  obtain r d' log' s' nt' where run: "run_worker_tick (cl_sha (sv_creation sv)) lc lib notify (logging_provider p) ti
      (ap_db (dp_app dp)) (log, s) (dp_sink dp) = (r, d', (log', s'), nt')" by (metis prod_cases5 prod.collapse)
  from tick_steps [where w = "world_of w dp", OF _ assms, of lc lib notify p s "dp_sink dp" r d' log' s' nt'] run ls
  show ?thesis by (simp add: world_of_def run_pass_def)
qed

text \<open>
  The contract that the processes share: each thing a process does takes the world that others see from
  one state to another by steps of the system. \<open>view\<close> is this world for a state of the process.
\<close>

locale system_process =
  fixes cl :: creation_library
    and view :: "'p \<Rightarrow> world"
    and act :: "'x \<Rightarrow> 'p \<Rightarrow> 'p"
    and fair :: "'x \<Rightarrow> bool"
  assumes act_steps: "fair x \<Longrightarrow> steps cl (view s) (view (act x s))"
begin

lemma run_steps: "list_all fair xs \<Longrightarrow> steps cl (view s) (view (fold act xs s))"
  by (induction xs arbitrary: s) (auto intro: rtranclp_trans act_steps)

lemma run_reachable: "reachable cl (view s) \<Longrightarrow> list_all fair xs \<Longrightarrow> reachable cl (view (fold act xs s))"
  using run_steps [of xs s] by (auto simp: reachable_def intro: rtranclp_trans)

lemma run_keeps:
  assumes "reachable cl (view s)" and "list_all fair xs"
  shows "world_ok (view (fold act xs s))"
  using run_reachable [OF assms] by (rule reachable_world_ok)

end

definition activity_step ::
  "service \<Rightarrow> (string \<Rightarrow> string) \<Rightarrow> library \<Rightarrow> (notification_request \<Rightarrow> 'n \<Rightarrow> (exn + string) \<times> 'n) \<Rightarrow> 's provider
     \<Rightarrow> activity \<Rightarrow> ('s, 'n) deployment \<Rightarrow> ('s, 'n) deployment" where
  "activity_step sv lc lib notify p x dp = run_activities sv lc lib notify p [x] dp"

definition fair_activity :: "creation_library \<Rightarrow> activity \<Rightarrow> bool" where
  "fair_activity cl x \<longleftrightarrow> (case x of Pass_runs ti \<Rightarrow> meanwhile_steps cl ti | _ \<Rightarrow> True)"

lemma run_activities_fold:
  "run_activities sv lc lib notify p xs dp = fold (activity_step sv lc lib notify p) xs dp"
proof (induction xs arbitrary: dp)
  case (Cons x xs)
  then show ?case by (cases x) (simp_all add: activity_step_def)
qed simp

lemma fair_passes: "(\<forall>ti \<in> set (passes xs). meanwhile_steps cl ti) \<Longrightarrow> list_all (fair_activity cl) xs"
proof (induction xs)
  case (Cons x xs)
  then show ?case by (cases x) (simp_all add: fair_activity_def)
qed simp

interpretation api: system_process "sv_creation sv" "world_of w"
    "\<lambda>(inp, rq, cn) dp. dp\<lparr>dp_app := snd (serve sv inp rq cn (dp_app dp))\<rparr>" "\<lambda>_. True"
  for sv w
  by unfold_locales (auto simp: request_steps)

interpretation worker: system_process "sv_creation sv" "world_of w"
    "run_pass sv lc lib notify (logging_provider p)" "meanwhile_steps (sv_creation sv)"
  for sv w lc lib notify p
  by unfold_locales (simp add: pass_steps)

interpretation both_processes: system_process "sv_creation sv" "world_of w"
    "activity_step sv lc lib notify (logging_provider p)" "fair_activity (sv_creation sv)"
  for sv w lc lib notify p
proof unfold_locales
  fix x dp
  assume fair: "fair_activity (sv_creation sv) x"
  show "steps (sv_creation sv) (world_of w dp) (world_of w (activity_step sv lc lib notify (logging_provider p) x dp))"
  proof (cases x)
    case (Request_arrives inp rq cn)
    with api.act_steps [where x = "(inp, rq, cn)"] show ?thesis by (simp add: activity_step_def)
  next
    case (Pass_runs ti)
    with worker.act_steps [where x = ti] fair show ?thesis by (simp add: activity_step_def fair_activity_def)
  qed
qed

lemma activities_sent:
  assumes "\<forall>ti \<in> set (passes xs). meanwhile_steps (sv_creation sv) ti"
  shows "length (fst (dp_provider (run_activities sv lc lib notify (logging_provider p) xs dp)))
      \<le> length (fst (dp_provider dp)) + 5 * length (passes xs)"
  using assms
proof (induction xs arbitrary: dp)
  case (Cons x xs)
  show ?case
  proof (cases x)
    case (Request_arrives inp rq cn)
    with Cons.IH [of "dp\<lparr>dp_app := snd (serve sv inp rq cn (dp_app dp))\<rparr>"] Cons.prems show ?thesis by simp
  next
    case (Pass_runs ti)
    with Cons.prems have ti: "meanwhile_steps (sv_creation sv) ti" by simp
    from Cons.IH [of "run_pass sv lc lib notify (logging_provider p) ti dp"] Cons.prems Pass_runs
      pass_steps [OF ti, of undefined dp lc lib notify p]
    show ?thesis by simp
  qed
qed simp

lemma activities_outcomes:
  "\<exists>os. dp_outcomes (run_activities sv lc lib notify p xs dp) = dp_outcomes dp @ os \<and> length os = length (passes xs) \<and>
     Tick_cancelled \<notin> set os"
proof (induction xs arbitrary: dp)
  case (Cons x xs)
  show ?case
  proof (cases x)
    case (Request_arrives inp rq cn)
    with Cons.IH [of "dp\<lparr>dp_app := snd (serve sv inp rq cn (dp_app dp))\<rparr>"] show ?thesis by simp
  next
    case (Pass_runs ti)
    let ?dp = "run_pass sv lc lib notify p ti dp"
    obtain r d s nt where "run_worker_tick (cl_sha (sv_creation sv)) lc lib notify p ti (ap_db (dp_app dp))
        (dp_provider dp) (dp_sink dp) = (r, d, s, nt)" by (rule prod_cases4)
    then have "dp_outcomes ?dp = dp_outcomes dp @ [outcome_of_pass r]" by (simp add: run_pass_def)
    moreover have "outcome_of_pass r \<noteq> Tick_cancelled" by (simp add: outcome_of_pass_def split: sum.splits)
    ultimately show ?thesis using Cons.IH [of ?dp] Pass_runs by auto
  qed
qed simp

text \<open>
  C13. The whole deployment refines the transition system. From a reachable world, start the API and the
  worker on its database and let clients send whatever they like and the worker run passes, in any
  order: the world stays reachable, so the guarantees proved for the system hold behind the API and
  under the worker at every moment; each pass sends at most five commands, and the worker loop has
  paused once after each pass and has not ended, whatever failed.
\<close>

theorem deployment_refines_system:
  assumes "reachable (sv_creation sv) w" and "deploy loaded (w_db w) (w_sent w, s) nt = Inr dp"
    and "\<forall>ti \<in> set (passes xs). meanwhile_steps (sv_creation sv) ti"
  shows "reachable (sv_creation sv) (world_of w (run_activities sv lc lib notify (logging_provider p) xs dp)) \<and>
    db_ok (ap_db (dp_app (run_activities sv lc lib notify (logging_provider p) xs dp))) \<and>
    length (fst (dp_provider (run_activities sv lc lib notify (logging_provider p) xs dp)))
      \<le> length (w_sent w) + 5 * length (passes xs) \<and>
    (\<exists>pauses. worker_loop max_backoff idle (run_activities sv lc lib notify (logging_provider p) xs dp) = (pauses, False) \<and>
       length pauses = length (passes xs))"
proof -
  from assms(2) have dp: "world_of w dp = w" "fst (dp_provider dp) = w_sent w" "dp_outcomes dp = []"
    by (auto simp: deploy_def world_of_def create_app_def split: sum.splits)
  let ?dp = "run_activities sv lc lib notify (logging_provider p) xs dp"
  note sent = activities_sent [OF assms(3), of lc lib notify p dp]
  note fair = fair_passes [OF assms(3)]
  have r: "reachable (sv_creation sv) (world_of w ?dp)"
    unfolding run_activities_fold by (rule both_processes.run_reachable) (simp_all add: dp(1) assms(1) fair)
  have "world_ok (world_of w ?dp)"
    unfolding run_activities_fold by (rule both_processes.run_keeps) (simp_all add: dp(1) assms(1) fair)
  then have "db_ok (ap_db (dp_app ?dp))" by (simp add: world_ok_def world_of_def)
  moreover obtain os where "dp_outcomes (run_activities sv lc lib notify (logging_provider p) xs dp) = os"
      and "length os = length (passes xs)" and "Tick_cancelled \<notin> set os"
    using activities_outcomes [of sv lc lib notify "logging_provider p" xs dp] dp(3) by auto
  moreover from this(3) have "\<exists>ds. supervise max_backoff idle 0 os = (ds, False) \<and> length ds = length os"
    using supervise_append [of os max_backoff idle 0] by blast
  ultimately show ?thesis using r sent dp(2) by (auto simp: worker_loop_def)
qed

text \<open>The request of \<open>Application_Safety\<close>, then the worker pass of \<open>System_Tick\<close>.\<close>

definition sample_day :: "activity list" where
  "sample_day = [Request_arrives sample_inputs sample_post sample_post_connection, Pass_runs sample_tick]"

lemma deployment_refines_system_witness:
  "\<exists>dp. deploy (Inr sample_settings) sample_empty ([], 0) () = Inr dp \<and>
     ap_db (dp_app (run_activities sample_web id sample_library sample_notify (logging_provider sample_provider)
       [Request_arrives sample_inputs sample_post sample_post_connection] dp)) = served_requested \<and>
     reachable sample_service (world_of \<lparr>w_db = sample_empty, w_permits = [], w_sent = []\<rparr>
       (run_activities sample_web id sample_library sample_notify (logging_provider sample_provider) sample_day dp))"
proof -
  let ?w = "\<lparr>w_db = sample_empty, w_permits = [], w_sent = []\<rparr>"
  have "constraints_ok sample_empty" unfolding constraints_ok_def by code_simp
  then have "initial_world ?w" by (simp add: initial_world_def sample_empty_def empty_db_def)
  then have w: "reachable (sv_creation sample_web) ?w" unfolding reachable_def by blast
  obtain dp where dp: "deploy (Inr sample_settings) (w_db ?w) (w_sent ?w, 0 :: nat) () = Inr dp"
    by (simp add: deploy_def)
  have mw: "\<forall>ti \<in> set (passes sample_day). meanwhile_steps (sv_creation sample_web) ti"
    by (simp add: sample_day_def meanwhile_steps_def sample_tick_def)
  obtain ap' response where "serve sample_web sample_inputs sample_post sample_post_connection
      (create_app sample_settings sample_empty) = (Answer response, ap')" and "ap_db ap' = served_requested"
    by (rule sample_post_served)
  with dp have "ap_db (dp_app (run_activities sample_web id sample_library sample_notify (logging_provider sample_provider)
       [Request_arrives sample_inputs sample_post sample_post_connection] dp)) = served_requested"
    by (auto simp: deploy_def)
  with deployment_refines_system [OF w dp mw, of id sample_library sample_notify sample_provider] dp show ?thesis
    by (auto simp: sample_web_def)
qed

end
