(* ===== verification/E2e_Check.thy ===== *)
theory E2e_Check
  imports Application
begin

text \<open>
  \<open>tools/e2e_check.py\<close>: the script that drives a running deployment over HTTP like a client and keeps
  a checklist. What is outside the script is the record \<open>client\<close> over a world \<open>'w\<close>: the HTTP library
  (\<open>None\<close> is an exception, the content is \<open>None\<close> when it is not JSON), fresh hexadecimal ids, the two
  clocks, the pause and the token library. A step of the script has the value \<open>None\<close> when it ends
  with an exception. The printed text and the details of a check are not modelled, but what they
  evaluate is.
\<close>

record http_call =
  hc_method :: string
  hc_path :: string
  hc_params :: "(string \<times> string) list"
  hc_authorization :: "string option"
  hc_key :: "string option"
  hc_body :: "json option"

record 'w client =
  ct_call :: "http_call \<Rightarrow> 'w \<Rightarrow> ((int \<times> json option) \<times> 'w) option"
  ct_hex :: "'w \<Rightarrow> string \<times> 'w"
  ct_monotonic :: "'w \<Rightarrow> int \<times> 'w"
  ct_sleep :: "int \<Rightarrow> 'w \<Rightarrow> 'w"
  ct_utc :: "'w \<Rightarrow> instant \<times> 'w"
  ct_encode :: "dict \<Rightarrow> string \<Rightarrow> string"
  ct_secret :: string

record 'w session =
  ss_world :: 'w
  ss_results :: "(bool \<times> string) list"

section \<open>JSON as the script reads it\<close>

text \<open>\<open>d[name]\<close>, and \<open>d.get(name, {})\<close> where the script goes on with \<open>.get\<close>.\<close>

definition item :: "string \<Rightarrow> dict \<Rightarrow> json option" where
  "item name d = map_of d name"

definition sub_object :: "string \<Rightarrow> dict \<Rightarrow> dict option" where
  "sub_object name d = object_of (dget_or name (JObj []) d)"

text \<open>\<open>x in container\<close> for a text \<open>x\<close>; other containers raise \<open>TypeError\<close>.\<close>

definition text_in :: "string \<Rightarrow> json \<Rightarrow> bool option" where
  "text_in x container =
     (case container of
        JList vs \<Rightarrow> Some (JStr x \<in> set vs)
      | JStr s \<Rightarrow> Some (contains x s)
      | JObj d \<Rightarrow> Some (x \<in> set (map fst d))
      | _ \<Rightarrow> None)"

text \<open>\<open>v in wanted\<close> for a set of texts: an unhashable value raises.\<close>

definition wanted_has :: "string list \<Rightarrow> json \<Rightarrow> bool option" where
  "wanted_has wanted v =
     (case v of JList vs \<Rightarrow> None | JObj d \<Rightarrow> None | _ \<Rightarrow> Some (v \<in> set (map JStr wanted)))"

text \<open>\<open>[e[name] for e in d.get(field, [])]\<close>.\<close>

definition column_of :: "string \<Rightarrow> string \<Rightarrow> dict \<Rightarrow> json list option" where
  "column_of field name d =
     (case dget_or field (JList []) d of
        JList es \<Rightarrow> those (map (\<lambda>e. Option.bind (object_of e) (item name)) es)
      | JStr s \<Rightarrow> if s = [] then Some [] else None
      | JObj e \<Rightarrow> if e = [] then Some [] else None
      | _ \<Rightarrow> None)"

text \<open>The numbers of a list; \<open>None\<close> if an entry is no integer, which the service never sends.\<close>

definition integers_of :: "json list \<Rightarrow> int list option" where
  "integers_of vs = those (map (\<lambda>v. case v of JInt n \<Rightarrow> Some n | _ \<Rightarrow> None) vs)"

section \<open>The helpers\<close>

definition check :: "string \<Rightarrow> bool \<Rightarrow> 'w session \<Rightarrow> 'w session" where
  "check name ok s = s\<lparr>ss_results := ss_results s @ [(ok, name)]\<rparr>"

definition e2e_claims :: "instant \<Rightarrow> string \<Rightarrow> string \<Rightarrow> dict" where
  "e2e_claims now actor tenant =
     [(''sub'', JStr actor), (''tenant'', JStr tenant), (''iss'', JStr ''https://test-issuer.local''),
      (''aud'', JStr ''hitl-ops''), (''scope'', JStr ''ops:read ops:write''),
      (''exp'', JInt ((now + 30 * 60 * 1000000) div 1000000))]"

definition e2e_token :: "'w client \<Rightarrow> string \<Rightarrow> string \<Rightarrow> 'w session \<Rightarrow> string \<times> 'w session" where
  "e2e_token c actor tenant s =
     (let (now, w) = ct_utc c (ss_world s)
      in (ct_encode c (e2e_claims now actor tenant) (ct_secret c), s\<lparr>ss_world := w\<rparr>))"

text \<open>\<open>headers\<close>: the authorization, and the key unless it is empty.\<close>

definition headers ::
  "'w client \<Rightarrow> string \<Rightarrow> string option \<Rightarrow> string \<Rightarrow> 'w session \<Rightarrow> (string \<times> string option) \<times> 'w session" where
  "headers c actor key tenant s =
     (let (t, s') = e2e_token c actor tenant s
      in ((''Bearer '' @ t, if key = Some [] then None else key), s'))"

definition new_hex :: "'w client \<Rightarrow> 'w session \<Rightarrow> string \<times> 'w session" where
  "new_hex c s = (let (h, w) = ct_hex c (ss_world s) in (h, s\<lparr>ss_world := w\<rparr>))"

definition call :: "'w client \<Rightarrow> http_call \<Rightarrow> 'w session \<Rightarrow> ((int \<times> json option) \<times> 'w session) option" where
  "call c q s = (case ct_call c q (ss_world s) of None \<Rightarrow> None | Some (r, w) \<Rightarrow> Some (r, s\<lparr>ss_world := w\<rparr>))"

text \<open>\<open>{"status": response.status_code, **response.json()}\<close>.\<close>

definition with_status :: "int \<times> json option \<Rightarrow> dict option" where
  "with_status r =
     (case snd r of Some (JObj d) \<Rightarrow> Some (dupdate [(''status'', JInt (fst r))] d) | _ \<Rightarrow> None)"

definition post ::
  "'w client \<Rightarrow> string \<Rightarrow> json \<Rightarrow> string \<Rightarrow> string option \<Rightarrow> 'w session \<Rightarrow> ((int \<times> json option) \<times> 'w session) option" where
  "post c path body actor key s =
     (let ((auth, k), s1) = headers c actor key ''tenant-1'' s
      in call c \<lparr>hc_method = ''POST'', hc_path = path, hc_params = [], hc_authorization = Some auth, hc_key = k,
                hc_body = Some body\<rparr> s1)"

text \<open>A post under a fresh key.\<close>

definition post_fresh ::
  "'w client \<Rightarrow> string \<Rightarrow> json \<Rightarrow> string \<Rightarrow> 'w session \<Rightarrow> ((int \<times> json option) \<times> 'w session) option" where
  "post_fresh c path body actor s = (let (h, s1) = new_hex c s in post c path body actor (Some h) s1)"

definition create_body :: "string \<Rightarrow> dict \<Rightarrow> json" where
  "create_body tool parameters =
     JObj [(''tool'', JStr tool), (''parameters'', JObj parameters), (''rationale'', JStr ''e2e check'')]"

definition e2e_create ::
  "'w client \<Rightarrow> string \<Rightarrow> dict \<Rightarrow> string option \<Rightarrow> 'w session \<Rightarrow> (dict \<times> 'w session) option" where
  "e2e_create c tool parameters key s = do {
     (r, s1) \<leftarrow> (case key of
        Some k \<Rightarrow> if k = [] then post_fresh c ''/v1/intents'' (create_body tool parameters) ''user-1'' s
                 else post c ''/v1/intents'' (create_body tool parameters) ''user-1'' (Some k) s
      | None \<Rightarrow> post_fresh c ''/v1/intents'' (create_body tool parameters) ''user-1'' s);
     d \<leftarrow> with_status r;
     Some (d, s1) }"

definition intent_path :: "json \<Rightarrow> string" where
  "intent_path n = ''/v1/intents/'' @ py_str n"

definition e2e_state :: "'w client \<Rightarrow> json \<Rightarrow> string \<Rightarrow> 'w session \<Rightarrow> (dict \<times> 'w session) option" where
  "e2e_state c n actor s = do {
     let ((auth, k), s1) = headers c actor None ''tenant-1'' s;
     (r, s2) \<leftarrow> call c \<lparr>hc_method = ''GET'', hc_path = intent_path n, hc_params = [],
                       hc_authorization = Some auth, hc_key = k, hc_body = None\<rparr> s1;
     d \<leftarrow> with_status r;
     Some (d, s2) }"

definition e2e_approve ::
  "'w client \<Rightarrow> json \<Rightarrow> json \<Rightarrow> json \<Rightarrow> string \<Rightarrow> int \<Rightarrow> dict \<Rightarrow> 'w session \<Rightarrow> (dict \<times> 'w session) option" where
  "e2e_approve c n digest version actor level obligations s = do {
     (r, s1) \<leftarrow> post_fresh c (intent_path n @ ''/approvals'')
       (JObj [(''revision'', JInt 1), (''intent_digest'', digest), (''level'', JInt level),
              (''decision'', JStr ''APPROVE''), (''reason'', JStr ''e2e approval''),
              (''expected_state_version'', version), (''obligations'', JObj obligations)]) actor s;
     d \<leftarrow> with_status r;
     Some (d, s1) }"

text \<open>The loop of \<open>wait_for\<close>; clock readings are microseconds. \<open>None\<close> also if it never ends.\<close>

definition read_monotonic :: "'w client \<Rightarrow> 'w session \<Rightarrow> int \<times> 'w session" where
  "read_monotonic c s = (let (t, w) = ct_monotonic c (ss_world s) in (t, s\<lparr>ss_world := w\<rparr>))"

definition pause :: "'w client \<Rightarrow> int \<Rightarrow> 'w session \<Rightarrow> 'w session" where
  "pause c t s = s\<lparr>ss_world := ct_sleep c t (ss_world s)\<rparr>"

definition state_in :: "dict \<Rightarrow> json" where
  "state_in current = dget_or ''state'' (dget_or ''detail'' (JStr []) current) current"

partial_function (option) wait_loop ::
  "'w client \<Rightarrow> json \<Rightarrow> string list \<Rightarrow> int \<Rightarrow> json \<Rightarrow> 'w session \<Rightarrow> (json \<times> 'w session) option" where
  "wait_loop c n wanted deadline seen s =
     (case read_monotonic c s of
        (t, s1) \<Rightarrow>
          if t < deadline
          then Option.bind (e2e_state c n ''user-1'' s1) (\<lambda>(current, s2).
                 let v = state_in current
                 in Option.bind (wanted_has wanted v) (\<lambda>found.
                      if found then Some (v, s2)
                      else wait_loop c n wanted deadline v (pause c 1000000 s2)))
          else Some (seen, s1))"

definition wait_for ::
  "'w client \<Rightarrow> json \<Rightarrow> string list \<Rightarrow> int \<Rightarrow> 'w session \<Rightarrow> (json \<times> 'w session) option" where
  "wait_for c n wanted limit s =
     (let (t, s1) = read_monotonic c s in wait_loop c n wanted (t + limit * 1000000) (JStr []) s1)"

end
