(* ===== verification/E2e_Journeys.thy ===== *)
theory E2e_Journeys
  imports E2e_Check
begin

text \<open>
  The journeys of \<open>tools/e2e_check.py\<close>, one definition for each section of the script, and its exit
  status. The intent of the third journey is used again by the later sections.
\<close>

definition get :: "'w client \<Rightarrow> string \<Rightarrow> (string \<times> string) list \<Rightarrow> string option \<Rightarrow> 'w session
    \<Rightarrow> ((int \<times> json option) \<times> 'w session) option" where
  "get c path params auth s =
     call c \<lparr>hc_method = ''GET'', hc_path = path, hc_params = params, hc_authorization = auth, hc_key = None,
             hc_body = None\<rparr> s"

definition health :: "'w client \<Rightarrow> 'w session \<Rightarrow> 'w session option" where
  "health c s = do {
     (live, s) \<leftarrow> get c ''/health/live'' [] None s;
     (ready, s) \<leftarrow> get c ''/health/ready'' [] None s;
     let s = check ''liveness returns 200 without dependencies'' (fst live = 200) s;
     Some (check ''readiness returns 200 with PostgreSQL reachable'' (fst ready = 200) s) }"

definition journey_low :: "'w client \<Rightarrow> 'w session \<Rightarrow> 'w session option" where
  "journey_low c s = do {
     (inspect, s) \<leftarrow> e2e_create c ''inspect_service''
       [(''environment'', JStr ''staging''), (''service'', JStr ''api''), (''requested_fields'', JList [JStr ''health''])]
       None s;
     status \<leftarrow> item ''status'' inspect;
     let s = check ''inspect_service intent created'' (status = JInt 201) s;
     risk \<leftarrow> sub_object ''risk'' inspect;
     let s = check ''risk classified LOW'' (dget ''band'' risk = JStr ''LOW'') s;
     let s = check ''policy auto-allowed it'' (dget ''state'' inspect = JStr ''AUTO_APPROVED'') s;
     n \<leftarrow> item ''intent_id'' inspect;
     (final, s) \<leftarrow> wait_for c n [''SUCCEEDED'', ''FAILED''] 45 s;
     let s = check ''worker executed it to SUCCEEDED'' (final = JStr ''SUCCEEDED'') s;
     (detail, s) \<leftarrow> e2e_state c n ''user-1'' s;
     execution \<leftarrow> sub_object ''execution'' detail;
     Some (check ''execution carries a provider operation id'' (truthy (dget ''provider_operation_id'' execution)) s) }"

definition scale_parameters :: "string \<Rightarrow> int \<Rightarrow> dict" where
  "scale_parameters environment replicas =
     [(''environment'', JStr environment), (''service'', JStr ''api''), (''replicas'', JInt replicas)]"

definition journey_medium :: "'w client \<Rightarrow> 'w session \<Rightarrow> 'w session option" where
  "journey_medium c s = do {
     (staging, s) \<leftarrow> e2e_create c ''scale_service'' (scale_parameters ''staging'' 4) None s;
     let s = check ''staging scale auto-allows (policy ALLOW)'' (dget ''state'' staging = JStr ''AUTO_APPROVED'') s;
     risk \<leftarrow> sub_object ''risk'' staging;
     let s = check ''staging scale band MEDIUM'' (dget ''band'' risk = JStr ''MEDIUM'') s;
     (prod, s) \<leftarrow> e2e_create c ''scale_service'' (scale_parameters ''production'' 4) None s;
     risk \<leftarrow> sub_object ''risk'' prod;
     let s = check ''production scale escalates band to HIGH'' (dget ''band'' risk = JStr ''HIGH'') s;
     Some (check ''production scale waits for approval'' (dget ''state'' prod = JStr ''PENDING_APPROVAL_1'') s) }"

definition restart_parameters :: "string \<Rightarrow> dict" where
  "restart_parameters service =
     [(''environment'', JStr ''staging''), (''service'', JStr service), (''strategy'', JStr ''rolling'')]"

definition announced :: dict where
  "announced = [(''announce_in_incident_channel'', JStr ''done'')]"

definition journey_high :: "'w client \<Rightarrow> 'w session \<Rightarrow> (json \<times> 'w session) option" where
  "journey_high c s = do {
     (restart, s) \<leftarrow> e2e_create c ''restart_service'' (restart_parameters ''api'') None s;
     n \<leftarrow> item ''intent_id'' restart;
     (current, s) \<leftarrow> e2e_state c n ''user-1'' s;
     state \<leftarrow> item ''state'' current;
     let s = check ''restart waits for approval'' (state = JStr ''PENDING_APPROVAL_1'') s;
     policy \<leftarrow> sub_object ''policy'' current;
     named \<leftarrow> text_in ''approver'' (dget_or ''required_roles'' (JList []) policy);
     let s = check ''approval requirements name the approver role'' named s;
     digest \<leftarrow> item ''digest'' restart;
     version \<leftarrow> item ''state_version'' current;
     (self_approval, s) \<leftarrow> e2e_approve c n digest version ''user-1'' 1 [] s;
     status \<leftarrow> item ''status'' self_approval;
     let s = check ''requester cannot self-approve'' (status = JInt 403) s;
     (stale, s) \<leftarrow> e2e_approve c n (JStr (replicate 64 (CHR ''f''))) version ''approver-1'' 1 [] s;
     status \<leftarrow> item ''status'' stale;
     error \<leftarrow> sub_object ''error'' stale;
     let s = check ''approval bound to a different digest is rejected'' (status = JInt 409) s;
     (approved, s) \<leftarrow> e2e_approve c n digest version ''approver-1'' 1 announced s;
     let s = check ''authorized approver moves it to APPROVED'' (dget ''state'' approved = JStr ''APPROVED'') s;
     (final, s) \<leftarrow> wait_for c n [''SUCCEEDED'', ''FAILED''] 45 s;
     Some (n, check ''approved restart executed'' (final = JStr ''SUCCEEDED'') s) }"

definition ticketed :: dict where
  "ticketed = [(''require_change_ticket'', JStr ''CHG-1234'')]"

definition journey_critical :: "'w client \<Rightarrow> 'w session \<Rightarrow> 'w session option" where
  "journey_critical c s = do {
     (delete, s) \<leftarrow> e2e_create c ''delete_resource''
       [(''environment'', JStr ''production''), (''resource_type'', JStr ''postgres_instance''),
        (''resource_id'', JStr ''pg-main-1''), (''deletion_mode'', JStr ''hard'')] None s;
     risk \<leftarrow> sub_object ''risk'' delete;
     let s = check ''delete band CRITICAL'' (dget ''band'' risk = JStr ''CRITICAL'') s;
     policy \<leftarrow> sub_object ''policy'' delete;
     let s = check ''delete requires two-step approval'' (dget ''route'' policy = JStr ''CRITICAL_TWO_STEP'') s;
     n \<leftarrow> item ''intent_id'' delete;
     (current, s) \<leftarrow> e2e_state c n ''user-1'' s;
     digest \<leftarrow> item ''digest'' delete;
     version \<leftarrow> item ''state_version'' current;
     (l1, s) \<leftarrow> e2e_approve c n digest version ''l1-user'' 1 ticketed s;
     let s = check ''L1 approval accepted'' (dget ''state'' l1 = JStr ''PENDING_APPROVAL_2'') s;
     (after_l1, s) \<leftarrow> e2e_state c n ''user-1'' s;
     state \<leftarrow> item ''state'' after_l1;
     let s = check ''L2 request is published automatically'' (state = JStr ''PENDING_APPROVAL_2'') s;
     version \<leftarrow> item ''state_version'' after_l1;
     (same_actor, s) \<leftarrow> e2e_approve c n digest version ''l1-user'' 2 [] s;
     status \<leftarrow> item ''status'' same_actor;
     let s = check ''same actor cannot satisfy L2'' (status = JInt 403) s;
     (l2, s) \<leftarrow> e2e_approve c n digest version ''l2-user'' 2 ticketed s;
     Some (check ''distinct L2 approver completes approval'' (dget ''state'' l2 = JStr ''APPROVED'') s) }"

text \<open>\<open>response.json().get(name)\<close>.\<close>

definition answered :: "string \<Rightarrow> int \<times> json option \<Rightarrow> json option" where
  "answered name r = map_option (dget name) (Option.bind (snd r) object_of)"

definition journey_refusals :: "'w client \<Rightarrow> 'w session \<Rightarrow> 'w session option" where
  "journey_refusals c s = do {
     (target, s) \<leftarrow> e2e_create c ''restart_service'' (restart_parameters ''api'') None s;
     n \<leftarrow> item ''intent_id'' target;
     (current, s) \<leftarrow> e2e_state c n ''user-1'' s;
     digest \<leftarrow> item ''digest'' target;
     version \<leftarrow> item ''state_version'' current;
     (rejection, s) \<leftarrow> post_fresh c (intent_path n @ ''/approvals'')
       (JObj [(''revision'', JInt 1), (''intent_digest'', digest), (''level'', JInt 1), (''decision'', JStr ''REJECT''),
              (''reason'', JStr ''not needed''), (''expected_state_version'', version)]) ''approver-1'' s;
     state \<leftarrow> answered ''state'' rejection;
     let s = check ''rejection is terminal'' (state = JStr ''REJECTED'') s;
     (target, s) \<leftarrow> e2e_create c ''restart_service'' (restart_parameters ''api'') None s;
     n \<leftarrow> item ''intent_id'' target;
     (current, s) \<leftarrow> e2e_state c n ''user-1'' s;
     version \<leftarrow> item ''state_version'' current;
     (cancellation, s) \<leftarrow> post_fresh c (intent_path n @ ''/cancel'')
       (JObj [(''revision'', JInt 1), (''reason'', JStr ''changed mind''), (''expected_state_version'', version)])
       ''user-1'' s;
     state \<leftarrow> answered ''state'' cancellation;
     let s = check ''requester can cancel before execution'' (state = JStr ''CANCELLED'') s;
     (first, s) \<leftarrow> e2e_create c ''scale_service'' (scale_parameters ''staging'' 2) (Some ''e2e-replay-key'') s;
     (second, s) \<leftarrow> e2e_create c ''scale_service'' (scale_parameters ''staging'' 2) (Some ''e2e-replay-key'') s;
     n1 \<leftarrow> item ''intent_id'' first;
     n2 \<leftarrow> item ''intent_id'' second;
     let s = check ''same idempotency key replays the original intent'' (n1 = n2) s;
     (conflict, s) \<leftarrow> post c ''/v1/intents''
       (JObj [(''tool'', JStr ''scale_service''), (''parameters'', JObj (scale_parameters ''staging'' 5))])
       ''user-1'' (Some ''e2e-replay-key'') s;
     Some (check ''same key with a changed body conflicts'' (fst conflict = 409) s) }"

definition journey_ambiguity :: "'w client \<Rightarrow> json \<Rightarrow> 'w session \<Rightarrow> 'w session option" where
  "journey_ambiguity c restart s = do {
     (ambiguous, s) \<leftarrow> e2e_create c ''restart_service'' (restart_parameters ''timeout-api'') None s;
     n \<leftarrow> item ''intent_id'' ambiguous;
     (current, s) \<leftarrow> e2e_state c n ''user-1'' s;
     digest \<leftarrow> item ''digest'' ambiguous;
     version \<leftarrow> item ''state_version'' current;
     (approved, s) \<leftarrow> e2e_approve c n digest version ''approver-1'' 1 announced s;
     (saw, s) \<leftarrow> wait_for c n [''EXECUTION_UNKNOWN'', ''SUCCEEDED''] 30 s;
     let s = check ''lost provider response enters EXECUTION_UNKNOWN''
       (saw = JStr ''EXECUTION_UNKNOWN'' \<or> saw = JStr ''SUCCEEDED'') s;
     (reconciled, s) \<leftarrow> wait_for c n [''SUCCEEDED'', ''FAILED''] 60 s;
     let s = check ''reconciliation resolves it from provider evidence'' (reconciled = JStr ''SUCCEEDED'') s;
     let ((auth, k), s) = headers c ''user-1'' None ''tenant-1'' s;
     (r, s) \<leftarrow> get c (intent_path restart @ ''/events'') [(''limit'', ''100'')] (Some auth) s;
     events \<leftarrow> Option.bind (snd r) object_of;
     let s = check ''audit chain verifies'' (dget ''chain_valid'' events = JBool True) s;
     types \<leftarrow> column_of ''audit'' ''event_type'' events;
     let s = check ''audit starts at intent_created'' (take 1 types = [JStr ''intent_created'']) s;
     let s = check ''audit records state transitions'' (JStr ''state_transitioned'' \<in> set types) s;
     hashes \<leftarrow> column_of ''audit'' ''event_hash'' events;
     let s = check ''audit hashes are unique (no duplicated deliveries)'' (distinct hashes) s;
     sequences \<leftarrow> Option.bind (column_of ''events'' ''sequence'' events) integers_of;
     Some (check ''transition feed is ordered'' (sequences = sort sequences) s) }"

section \<open>The security spot checks\<close>

definition anonymous_call :: "json \<Rightarrow> http_call" where
  "anonymous_call n =
     \<lparr>hc_method = ''GET'', hc_path = intent_path n, hc_params = [], hc_authorization = None, hc_key = None, hc_body = None\<rparr>"

definition unknown_tool_body :: json where
  "unknown_tool_body = JObj [(''tool'', JStr ''deploy_everything''), (''parameters'', JObj [])]"

definition extra_field_body :: json where
  "extra_field_body =
     JObj [(''tool'', JStr ''scale_service''),
           (''parameters'', JObj (scale_parameters ''staging'' 1 @ [(''force'', JBool True)]))]"

definition plain_scale_body :: json where
  "plain_scale_body = JObj [(''tool'', JStr ''scale_service''), (''parameters'', JObj (scale_parameters ''staging'' 1))]"

definition oversized_body :: json where
  "oversized_body =
     JObj [(''tool'', JStr ''scale_service''), (''parameters'', JObj (scale_parameters ''staging'' 1)),
           (''rationale'', JStr (replicate 80000 (CHR ''x'')))]"

definition security_checks :: "'w client \<Rightarrow> json \<Rightarrow> 'w session \<Rightarrow> 'w session option" where
  "security_checks c restart s = do {
     (anonymous, s) \<leftarrow> call c (anonymous_call restart) s;
     let s = check ''unauthenticated request is rejected'' (fst anonymous = 403) s;
     let ((auth, k), s) = headers c ''user-9'' None ''tenant-2'' s;
     (foreign, s) \<leftarrow> get c (intent_path restart) [] (Some auth) s;
     let s = check ''cross-tenant request returns 404'' (fst foreign = 404) s;
     (unknown_tool, s) \<leftarrow> post_fresh c ''/v1/intents'' unknown_tool_body ''user-1'' s;
     named \<leftarrow> (if fst unknown_tool = 422
       then do { d \<leftarrow> Option.bind (snd unknown_tool) object_of;
                 e \<leftarrow> Option.bind (item ''error'' d) object_of;
                 code \<leftarrow> item ''code'' e;
                 Some (code = JStr ''UNKNOWN_TOOL'') }
       else Some False);
     let s = check ''unknown tool is rejected'' named s;
     (extra_field, s) \<leftarrow> post_fresh c ''/v1/intents'' extra_field_body ''user-1'' s;
     let s = check ''extra parameters are rejected'' (fst extra_field = 422) s;
     (missing_key, s) \<leftarrow> post c ''/v1/intents'' plain_scale_body ''user-1'' None s;
     let s = check ''mutation without an idempotency key is rejected'' (fst missing_key = 422) s;
     (oversized, s) \<leftarrow> post_fresh c ''/v1/intents'' oversized_body ''user-1'' s;
     let s = check ''oversized payload is rejected'' (fst oversized = 413 \<or> fst oversized = 422) s;
     let (h, s) = new_hex c s;
     let ((auth, k), s) = headers c ''user-1'' (Some h) ''tenant-1'' s;
     (no_execute, s) \<leftarrow> call c \<lparr>hc_method = ''POST'', hc_path = intent_path restart @ ''/execute'', hc_params = [],
         hc_authorization = Some auth, hc_key = k, hc_body = None\<rparr> s;
     Some (check ''no public execute endpoint exists'' (fst no_execute = 404 \<or> fst no_execute = 405) s) }"

section \<open>The script\<close>

definition e2e_script :: "'w client \<Rightarrow> 'w \<Rightarrow> 'w session option" where
  "e2e_script c w = do {
     s \<leftarrow> health c \<lparr>ss_world = w, ss_results = []\<rparr>;
     s \<leftarrow> journey_low c s;
     s \<leftarrow> journey_medium c s;
     (restart, s) \<leftarrow> journey_high c s;
     s \<leftarrow> journey_critical c s;
     s \<leftarrow> journey_refusals c s;
     s \<leftarrow> journey_ambiguity c restart s;
     security_checks c restart s }"

text \<open>What the summary counts, and the exit status; an exception ends Python with status 1.\<close>

definition passed_checks :: "'w session \<Rightarrow> nat" where
  "passed_checks s = length (filter fst (ss_results s))"

definition failed_checks :: "'w session \<Rightarrow> string list" where
  "failed_checks s = map snd (filter (\<lambda>r. \<not> fst r) (ss_results s))"

definition exit_status :: "'w session option \<Rightarrow> int" where
  "exit_status r = (case r of None \<Rightarrow> 1 | Some s \<Rightarrow> if failed_checks s \<noteq> [] then 1 else 0)"

end
