(* ===== verification/E2e_Safety.thy ===== *)
theory E2e_Safety
  imports E2e_Journeys
begin

text \<open>
  What the check tool promises: a run that ends well has made every check, waiting ends, and its
  security spot checks hold in every state of the service.
\<close>

section \<open>The checklist\<close>

text \<open>What the sections of the script check, in their order.\<close>

definition health_checks :: "string list" where
  "health_checks =
     [''liveness returns 200 without dependencies'', ''readiness returns 200 with PostgreSQL reachable'']"

definition low_checks :: "string list" where
  "low_checks =
     [''inspect_service intent created'', ''risk classified LOW'', ''policy auto-allowed it'',
      ''worker executed it to SUCCEEDED'', ''execution carries a provider operation id'']"

definition medium_checks :: "string list" where
  "medium_checks =
     [''staging scale auto-allows (policy ALLOW)'', ''staging scale band MEDIUM'',
      ''production scale escalates band to HIGH'', ''production scale waits for approval'']"

definition high_checks :: "string list" where
  "high_checks =
     [''restart waits for approval'', ''approval requirements name the approver role'',
      ''requester cannot self-approve'', ''approval bound to a different digest is rejected'',
      ''authorized approver moves it to APPROVED'', ''approved restart executed'']"

definition critical_checks :: "string list" where
  "critical_checks =
     [''delete band CRITICAL'', ''delete requires two-step approval'', ''L1 approval accepted'',
      ''L2 request is published automatically'', ''same actor cannot satisfy L2'',
      ''distinct L2 approver completes approval'']"

definition refusal_checks :: "string list" where
  "refusal_checks =
     [''rejection is terminal'', ''requester can cancel before execution'',
      ''same idempotency key replays the original intent'', ''same key with a changed body conflicts'']"

definition ambiguity_checks :: "string list" where
  "ambiguity_checks =
     [''lost provider response enters EXECUTION_UNKNOWN'',
      ''reconciliation resolves it from provider evidence'', ''audit chain verifies'',
      ''audit starts at intent_created'', ''audit records state transitions'',
      ''audit hashes are unique (no duplicated deliveries)'', ''transition feed is ordered'']"

definition spot_checks :: "string list" where
  "spot_checks =
     [''unauthenticated request is rejected'', ''cross-tenant request returns 404'',
      ''unknown tool is rejected'', ''extra parameters are rejected'',
      ''mutation without an idempotency key is rejected'', ''oversized payload is rejected'',
      ''no public execute endpoint exists'']"

definition e2e_checks :: "string list" where
  "e2e_checks = health_checks @ low_checks @ medium_checks @ high_checks @ critical_checks @
     refusal_checks @ ambiguity_checks @ spot_checks"

section \<open>A green run has made every check\<close>

abbreviation made :: "'w session \<Rightarrow> string list" where
  "made s \<equiv> map snd (ss_results s)"

text \<open>
  The names on the checklist after a part of the script that returned: \<open>p\<close> finds the session in what
  it returns.
\<close>

definition ends :: "string list \<Rightarrow> ('a \<Rightarrow> 'w session) \<Rightarrow> 'a option \<Rightarrow> bool" where
  "ends ns p m \<longleftrightarrow> (\<forall>r. m = Some r \<longrightarrow> made (p r) = ns)"

lemma ends_bind_pair:
  "ends ks snd m \<Longrightarrow> (\<And>r s. made s = ks \<Longrightarrow> ends ns p (f r s)) \<Longrightarrow> ends ns p (Option.bind m (case_prod f))"
  by (auto simp: ends_def bind_eq_Some_conv)

lemma ends_bind_session:
  "ends ks (\<lambda>s. s) m \<Longrightarrow> (\<And>s. made s = ks \<Longrightarrow> ends ns p (f s)) \<Longrightarrow> ends ns p (Option.bind m f)"
  by (auto simp: ends_def bind_eq_Some_conv)

lemma ends_bind_value: "(\<And>x. ends ns p (f x)) \<Longrightarrow> ends ns p (Option.bind m f)"
  by (auto simp: ends_def bind_eq_Some_conv)

lemma ends_case: "(\<And>a b. ends ns p (f a b s)) \<Longrightarrow> ends ns p (case_prod f r s)"
  by (cases r) simp

lemma ends_check:
  "made s = ks \<Longrightarrow> (\<And>s'. made s' = ks @ [name] \<Longrightarrow> ends ns p (f s')) \<Longrightarrow> ends ns p (let s = check name ok s in f s)"
  by (simp add: check_def)

lemma ends_last: "made s = ks \<Longrightarrow> ks @ [name] = ns \<Longrightarrow> ends ns (\<lambda>s. s) (Some (check name ok s))"
  by (simp add: ends_def check_def)

lemma ends_last_with: "made s = ks \<Longrightarrow> ks @ [name] = ns \<Longrightarrow> ends ns snd (Some (n, check name ok s))"
  by (simp add: ends_def check_def)

text \<open>Everything but \<open>check\<close> leaves the checklist alone.\<close>

lemma ends_headers:
  "made s = ks \<Longrightarrow> (\<And>r s'. made s' = ks \<Longrightarrow> ends ns p (f r s')) \<Longrightarrow>
    ends ns p (Let (headers c actor key tenant s) (case_prod f))"
  by (simp add: headers_def e2e_token_def Let_def split: prod.splits)

lemma ends_new_hex:
  "made s = ks \<Longrightarrow> (\<And>r s'. made s' = ks \<Longrightarrow> ends ns p (f r s')) \<Longrightarrow> ends ns p (Let (new_hex c s) (case_prod f))"
  by (simp add: new_hex_def split: prod.splits)

lemma ends_some: "made s = ks \<Longrightarrow> ends ks snd (Some (r, s))"
  by (simp add: ends_def)

lemma ends_call: "made s = ks \<Longrightarrow> ends ks snd (call c q s)"
  by (auto simp: ends_def call_def split: option.splits)

lemma ends_get: "made s = ks \<Longrightarrow> ends ks snd (get c path params auth s)"
  by (simp add: get_def ends_call)

lemma ends_post: "made s = ks \<Longrightarrow> ends ks snd (post c path body actor key s)"
  unfolding post_def by (rule ends_headers ends_case ends_call | assumption)+

lemma ends_post_fresh: "made s = ks \<Longrightarrow> ends ks snd (post_fresh c path body actor s)"
  unfolding post_fresh_def by (rule ends_new_hex ends_post | assumption)+

lemma ends_create: "made s = ks \<Longrightarrow> ends ks snd (e2e_create c tool ps key s)"
  unfolding e2e_create_def
  by (rule ends_bind_pair [where ks = ks] ends_bind_value ends_some
      | assumption | simp add: ends_post ends_post_fresh split: option.splits)+

lemma ends_state: "made s = ks \<Longrightarrow> ends ks snd (e2e_state c n actor s)"
  unfolding e2e_state_def
  by (rule ends_headers ends_case ends_bind_pair ends_call ends_bind_value ends_some | assumption)+

lemma ends_approve: "made s = ks \<Longrightarrow> ends ks snd (e2e_approve c n g v actor level obs s)"
  unfolding e2e_approve_def
  by (rule ends_bind_pair ends_post_fresh ends_bind_value ends_some | assumption)+

lemma read_monotonic_results: "read_monotonic c s = (t, s') \<Longrightarrow> ss_results s' = ss_results s"
  by (auto simp: read_monotonic_def split: prod.splits)

lemma wait_loop_results: "wait_loop c n wanted deadline seen s = Some r \<Longrightarrow> made (snd r) = made s"
proof (induction rule: wait_loop.raw_induct
    [rotated, where P = "\<lambda>c n wanted deadline seen s r. made (snd r) = made s", consumes 1, case_names loop])
  case (loop f c n wanted deadline seen s r)
  obtain t s1 where t: "read_monotonic c s = (t, s1)" by (rule prod.exhaust)
  have "made s2 = made s" if "e2e_state c n ''user-1'' s1 = Some (d, s2)" for d s2
    using that ends_state [of s1 "made s1" c n "''user-1''"] read_monotonic_results [OF t] by (simp add: ends_def)
  with loop t read_monotonic_results [OF t] show ?case
    by (auto simp: bind_eq_Some_conv Let_def pause_def split: if_splits dest!: loop(1))
qed

lemma ends_wait_for: "made s = ks \<Longrightarrow> ends ks snd (wait_for c n wanted limit s)"
  using wait_loop_results [of c n wanted] read_monotonic_results [of c s]
  by (auto simp: ends_def wait_for_def split: prod.splits)

lemmas ends_rules =
  ends_case ends_check ends_last ends_last_with ends_headers ends_new_hex
  ends_call ends_get ends_post ends_post_fresh ends_create ends_state ends_approve ends_wait_for
  ends_bind_pair ends_bind_value

lemma health_ends: "made s = ks \<Longrightarrow> ends (ks @ health_checks) (\<lambda>s. s) (health c s)"
  unfolding health_def health_checks_def by (rule ends_rules | assumption | simp only: append.assoc append.simps)+

lemma journey_low_ends: "made s = ks \<Longrightarrow> ends (ks @ low_checks) (\<lambda>s. s) (journey_low c s)"
  unfolding journey_low_def low_checks_def by (rule ends_rules | assumption | simp only: append.assoc append.simps)+

lemma journey_medium_ends: "made s = ks \<Longrightarrow> ends (ks @ medium_checks) (\<lambda>s. s) (journey_medium c s)"
  unfolding journey_medium_def medium_checks_def by (rule ends_rules | assumption | simp only: append.assoc append.simps)+

lemma journey_high_ends: "made s = ks \<Longrightarrow> ends (ks @ high_checks) snd (journey_high c s)"
  unfolding journey_high_def high_checks_def by (rule ends_rules | assumption | simp only: append.assoc append.simps)+

lemma journey_critical_ends: "made s = ks \<Longrightarrow> ends (ks @ critical_checks) (\<lambda>s. s) (journey_critical c s)"
  unfolding journey_critical_def critical_checks_def by (rule ends_rules | assumption | simp only: append.assoc append.simps)+

lemma journey_refusals_ends: "made s = ks \<Longrightarrow> ends (ks @ refusal_checks) (\<lambda>s. s) (journey_refusals c s)"
  unfolding journey_refusals_def refusal_checks_def by (rule ends_rules | assumption | simp only: append.assoc append.simps)+

lemma journey_ambiguity_ends: "made s = ks \<Longrightarrow> ends (ks @ ambiguity_checks) (\<lambda>s. s) (journey_ambiguity c n s)"
  unfolding journey_ambiguity_def ambiguity_checks_def by (rule ends_rules | assumption | simp only: append.assoc append.simps)+

lemma security_checks_ends: "made s = ks \<Longrightarrow> ends (ks @ spot_checks) (\<lambda>s. s) (security_checks c n s)"
  unfolding security_checks_def spot_checks_def by (rule ends_rules | assumption | simp only: append.assoc append.simps)+

lemma e2e_script_ends: "ends e2e_checks (\<lambda>s. s) (e2e_script c w)"
proof -
  have "ends ((((((((([] @ health_checks) @ low_checks) @ medium_checks) @ high_checks) @ critical_checks) @
      refusal_checks) @ ambiguity_checks) @ spot_checks)) (\<lambda>s. s) (e2e_script c w)"
    unfolding e2e_script_def
    by (rule ends_bind_session health_ends journey_low_ends journey_medium_ends ends_bind_pair journey_high_ends
        journey_critical_ends journey_refusals_ends journey_ambiguity_ends security_checks_ends | assumption | simp)+
  then show ?thesis by (simp add: e2e_checks_def)
qed

lemma all_passed: "filter (\<lambda>r. \<not> fst r) rs = [] \<longleftrightarrow> rs = map (Pair True) (map snd rs)"
  by (induction rs) auto

text \<open>
  C24. The exit status of the check tool says what it seems to say. Whatever the service answers, the
  tool ends with status 0 if and only if it ran to its end and made each of its 41 checks, in this
  order, and each of them passed: an exception, a check that failed or a
  check that was not reached give another status.
\<close>

theorem e2e_exit_status:
  "exit_status (e2e_script c w) = 0 \<longleftrightarrow>
     (\<exists>s. e2e_script c w = Some s \<and> ss_results s = map (Pair True) e2e_checks)"
proof (cases "e2e_script c w")
  case (Some s)
  with e2e_script_ends [of c w] have "made s = e2e_checks" by (simp add: ends_def)
  with Some show ?thesis
    by (auto simp: exit_status_def failed_checks_def all_passed filter_empty_conv)
qed (simp add: exit_status_def)

section \<open>Waiting ends\<close>

text \<open>
  What the script relies on when it waits: a clock that does not run backwards and that a pause moves on
  by the length of the pause, and a service that answers every call with a JSON object whose fields
  \<open>state\<close> and \<open>detail\<close>, where it has them, are texts. The keys of a JSON object are distinct.
\<close>

definition text_field :: "string \<Rightarrow> dict \<Rightarrow> bool" where
  "text_field name d \<longleftrightarrow> (case map_of d name of None \<Rightarrow> True | Some v \<Rightarrow> text_of v \<noteq> None)"

definition steady :: "'w client \<Rightarrow> ('w \<Rightarrow> int) \<Rightarrow> bool" where
  "steady c clock \<longleftrightarrow>
     (\<forall>w. fst (ct_monotonic c w) = clock w \<and> clock w \<le> clock (snd (ct_monotonic c w))) \<and>
     (\<forall>w. clock w \<le> clock (snd (ct_utc c w))) \<and>
     (\<forall>t w. clock w + t \<le> clock (ct_sleep c t w)) \<and>
     (\<forall>q w. \<exists>code d w'. ct_call c q w = Some ((code, Some (JObj d)), w') \<and> clock w \<le> clock w' \<and>
        distinct (map fst d) \<and> text_field ''state'' d \<and> text_field ''detail'' d)"

lemma map_of_dupdate:
  "distinct (map fst e) \<Longrightarrow> map_of (dupdate d e) k = (case map_of e k of None \<Rightarrow> map_of d k | Some v \<Rightarrow> Some v)"
proof (induction e arbitrary: d)
  case (Cons x e)
  obtain k' v where x: "x = (k', v)" by (rule prod.exhaust)
  have "map_of e k' = None" using Cons.prems x by (auto simp: map_of_eq_None_iff)
  moreover have "dupdate d (x # e) = dupdate (dset k' v d) e" by (simp add: dupdate_def x)
  ultimately show ?case using Cons x by (auto split: option.splits)
qed (simp add: dupdate_def)

lemma state_in_text:
  assumes "distinct (map fst d)" and "text_field ''state'' d" and "text_field ''detail'' d"
  shows "\<exists>x. state_in (dupdate [(''status'', v)] d) = JStr x"
  using assms
  by (auto simp: state_in_def dget_or_def map_of_dupdate text_field_def text_of_def
      simp del: map_of_eq_Some_iff split: option.splits json.splits)

lemma steady_state:
  assumes "steady c clock"
  obtains d s' x where "e2e_state c n actor s = Some (d, s')" and "clock (ss_world s) \<le> clock (ss_world s')"
    and "state_in d = JStr x"
proof -
  obtain t w1 where u: "ct_utc c (ss_world s) = (t, w1)" by (rule prod.exhaust)
  obtain code d w2 where r: "ct_call c \<lparr>hc_method = ''GET'', hc_path = intent_path n, hc_params = [],
        hc_authorization = Some (''Bearer '' @ ct_encode c (e2e_claims t actor ''tenant-1'') (ct_secret c)), hc_key = None,
        hc_body = None\<rparr> w1 = Some ((code, Some (JObj d)), w2)" and w: "clock w1 \<le> clock w2"
      and d: "distinct (map fst d)" "text_field ''state'' d" "text_field ''detail'' d"
    using assms unfolding steady_def by blast
  have "clock (ss_world s) \<le> clock w1" using assms u unfolding steady_def by (metis snd_conv)
  with w have "clock (ss_world s) \<le> clock w2" by simp
  moreover have "e2e_state c n actor s = Some (dupdate [(''status'', JInt code)] d, s\<lparr>ss_world := w2\<rparr>)"
    using u r by (simp add: e2e_state_def headers_def e2e_token_def call_def with_status_def Let_def)
  moreover obtain x where "state_in (dupdate [(''status'', JInt code)] d) = JStr x"
    using state_in_text [OF d] by blast
  ultimately show thesis using that [of "dupdate [(''status'', JInt code)] d" "s\<lparr>ss_world := w2\<rparr>" x] by simp
qed

lemma wait_loop_returns:
  assumes "steady c clock"
  shows "\<exists>v s'. wait_loop c n wanted deadline seen s = Some (v, s') \<and>
    (v \<in> JStr ` set wanted \<or> deadline \<le> clock (ss_world s'))"
proof (induction "nat (deadline - clock (ss_world s))" arbitrary: seen s rule: less_induct)
  case less
  obtain w1 where m: "ct_monotonic c (ss_world s) = (clock (ss_world s), w1)" and w1: "clock (ss_world s) \<le> clock w1"
    using assms unfolding steady_def by (metis prod.collapse)
  let ?s1 = "s\<lparr>ss_world := w1\<rparr>"
  show ?case
  proof (cases "clock (ss_world s) < deadline")
    case True
    obtain d s2 x where r: "e2e_state c n ''user-1'' ?s1 = Some (d, s2)" and w2: "clock (ss_world ?s1) \<le> clock (ss_world s2)"
        and x: "state_in d = JStr x" by (rule steady_state [OF assms])
    let ?s3 = "pause c 1000000 s2"
    have "clock (ss_world s2) + 1000000 \<le> clock (ss_world ?s3)" using assms by (simp add: steady_def pause_def)
    with True w1 w2 have "nat (deadline - clock (ss_world ?s3)) < nat (deadline - clock (ss_world s))" by simp
    from less [OF this, of "JStr x"] show ?thesis
      by (subst wait_loop.simps) (use True m r x in \<open>auto simp: read_monotonic_def wanted_has_def Let_def\<close>)
  next
    case False
    then show ?thesis
      by (subst wait_loop.simps) (use m w1 in \<open>auto simp: read_monotonic_def\<close>)
  qed
qed

text \<open>
  Waiting ends. Against a service that answers with JSON objects and with a clock that the pauses
  move on, \<open>wait_for\<close> returns for every intent, set of wanted states and limit, and what it
  returns is a wanted state unless the limit has passed: it neither hangs nor gives up early.
\<close>

theorem wait_for_terminates:
  assumes "steady c clock"
  shows "\<exists>v s'. wait_for c n wanted limit s = Some (v, s') \<and>
    (v \<in> JStr ` set wanted \<or> clock (ss_world s) + limit * 1000000 \<le> clock (ss_world s'))"
proof -
  obtain w1 where m: "ct_monotonic c (ss_world s) = (clock (ss_world s), w1)"
    using assms unfolding steady_def by (metis prod.collapse)
  from wait_loop_returns [OF assms, of n wanted "clock (ss_world s) + limit * 1000000"] m show ?thesis
    by (simp add: wait_for_def read_monotonic_def)
qed

text \<open>A service that executes what it is asked about after three seconds.\<close>

definition patient_client :: "int client" where
  "patient_client =
     \<lparr>ct_call = (\<lambda>q t. Some ((200, Some (JObj [(''state'', JStr (if t < 3000000 then ''EXECUTING'' else ''SUCCEEDED''))])), t)),
      ct_hex = (\<lambda>t. (''k'', t)), ct_monotonic = (\<lambda>t. (t, t)), ct_sleep = (\<lambda>p t. t + max 0 p), ct_utc = (\<lambda>t. (t, t)),
      ct_encode = (\<lambda>_ _. ''tok''), ct_secret = ''s''\<rparr>"

lemma wait_for_terminates_witness:
  "\<exists>v s'. wait_for patient_client (JStr ''i'') [''SUCCEEDED''] 45 \<lparr>ss_world = 0, ss_results = []\<rparr> = Some (v, s') \<and>
     (v \<in> JStr ` set [''SUCCEEDED''] \<or> 45 * 1000000 \<le> ss_world s')"
proof -
  have "steady patient_client (\<lambda>t. t)"
    by (auto simp: steady_def patient_client_def text_field_def text_of_def)
  from wait_for_terminates [OF this, of "JStr ''i''" "[''SUCCEEDED'']" 45 "\<lparr>ss_world = 0, ss_results = []\<rparr>"]
  show ?thesis by simp
qed

end
