(* ===== verification/E2e_Service.thy ===== *)
theory E2e_Service
  imports E2e_Journeys Application_Safety
begin

text \<open>
  The check tool against the service: the spot checks that need no data hold in every state of the
  application, since they follow from the edge, the table of routes and the dependencies alone.
\<close>

section \<open>A call as a request\<close>

text \<open>A bound from below on the encoding of an object: its texts.\<close>

definition texts_length :: "json \<Rightarrow> nat" where
  "texts_length v =
     (case v of JObj d \<Rightarrow> sum_list (map (\<lambda>(k, w). case w of JStr s \<Rightarrow> length s | _ \<Rightarrow> 0) d) | _ \<Rightarrow> 0)"

text \<open>
  The request and the connection carry the call: its fields, and a body that arrives completely, that
  decodes to the body of the call, that is no shorter than its texts and whose declared length, if any,
  is its length.
\<close>

definition carries :: "service \<Rightarrow> http_call \<Rightarrow> http_request \<Rightarrow> connection \<Rightarrow> bool" where
  "carries sv q rq cn \<longleftrightarrow>
     hq_method rq = hc_method q \<and> hq_path rq = hc_path q \<and> hq_authorization rq = hc_authorization q \<and>
     hq_idempotency_key rq = hc_key q \<and> cn_is_http cn \<and>
     (\<exists>body rest. whole_body (cn_messages cn) = Some (body, rest) \<and>
        declared_too_large (nat (se_max_request_bytes (sv_settings sv))) (cn_content_length cn)
          \<in> {Inr False, Inr (nat (se_max_request_bytes (sv_settings sv)) < length body)} \<and>
        (case hc_body q of
           None \<Rightarrow> body = []
         | Some v \<Rightarrow> texts_length v \<le> length body \<and> fw_body (sv_framework sv) body = Inr (Some v)))"

lemma gate_passes:
  assumes "whole_body ms = Some (body, rest)" and "length body \<le> m"
    and "declared_too_large m declared \<in> {Inr False, Inr (m < length body)}"
  shows "body_gate len m True declared correlation fresh ms = Forwarded (Chunk (Some body) False # rest)"
proof -
  have "read_within_limit m [] ms = Some (Body body, rest)"
    using assms(1,2) read_within_limit_body [of m "[]" ms body rest] by simp
  with assms(2,3) show ?thesis by (auto simp: body_gate_def)
qed

lemma gate_refuses:
  assumes "whole_body ms = Some (body, rest)" and "m < length body"
    and "declared_too_large m declared \<in> {Inr False, Inr (m < length body)}"
  shows "body_gate len m True declared correlation fresh ms
    = Rejected (reject_response len (request_correlation correlation fresh))"
  using read_within_limit_too_large [OF assms(1), of m "[]"] assms(2,3) by (auto simp: body_gate_def)

text \<open>What the client is told of a result of the routes.\<close>

definition status_of :: "exn + http_response \<Rightarrow> int" where
  "status_of r = (case r of Inl e \<Rightarrow> hr_status (error_response [] (Raised e)) | Inr response \<Rightarrow> hr_status response)"

lemma error_response_status: "hr_status (error_response cid r) = hr_status (error_response cid' r)"
  by (cases "(cid, r)" rule: error_response.cases)
    (auto simp: controlled_response_def validation_response_def http_error_response_def domain_response_def
      unknown_tool_response_def parameter_response_def unhandled_response_def json_response_def split: exn.splits)

lemma harden_status [simp]: "hr_status (harden cid r) = hr_status r"
  by (simp add: harden_def)

lemma handled_status: "status_of (fst (handled cid route s)) = status_of (fst (route s))"
  by (auto simp: handled_def status_of_def error_response_status [of cid _ "[]"] split: prod.splits sum.splits
      simp del: error_response.simps)

lemma serve_answer:
  assumes "serve sv inp rq cn ap = (Answer response, ap')" and "cn_is_http cn"
    and "whole_body (cn_messages cn) = Some (body, rest)"
    and "length body \<le> nat (se_max_request_bytes (sv_settings sv))"
    and "declared_too_large (nat (se_max_request_bytes (sv_settings sv))) (cn_content_length cn)
      \<in> {Inr False, Inr (nat (se_max_request_bytes (sv_settings sv)) < length body)}"
    and "allow (address_identity (cn_client cn)) (in_edge_now inp) (ap_address_limiter ap) = (True, l)"
  obtains cid r where "dispatch sv inp rq cid (Chunk (Some body) False # rest) (ap_db ap, ap_rate_limiter ap)
      = (r, ap_db ap', ap_rate_limiter ap')" and "hr_status response = status_of r"
proof -
  let ?cid = "correlation_of (cn_correlation cn) (in_fresh' inp)"
  let ?route = "dispatch sv inp rq ?cid (Chunk (Some body) False # rest)"
  let ?s = "(ap_db ap, ap_rate_limiter ap)"
  obtain r d l' where h: "handled ?cid ?route ?s = (r, d, l')" by (rule prod_cases3)
  have "hr_status response = status_of r \<and> (d, l') = (ap_db ap', ap_rate_limiter ap')"
    using serve_app_serve [OF assms(1)] h assms(2,6)
    by (auto simp: app_serve_def gate_passes [OF assms(3,4,5)] hardening_middleware_def Let_def status_of_def
        error_response_status [of ?cid _ "[]"] split: prod.splits sum.splits simp del: error_response.simps)
  moreover have "status_of r = status_of (fst (?route ?s))" "snd (?route ?s) = (d, l')"
    using handled_status [of ?cid ?route ?s] handled_state [of ?cid ?route ?s] h by simp_all
  ultimately show thesis using that [of ?cid "fst (?route ?s)"] by (metis prod.collapse)
qed

section \<open>Where the spot checks lead\<close>

lemma path_parts_last: "CHR ''/'' \<notin> set x \<Longrightarrow> path_parts x = [x]"
  by (induction x) auto

lemma path_parts_part: "CHR ''/'' \<notin> set x \<Longrightarrow> path_parts (x @ CHR ''/'' # s) = x # path_parts s"
  by (induction x) auto

lemmas routes_table =
  app_routes_def framework_routes_def intent_routes_def approval_routes_def admin_routes_def health_routes_def v1_def

lemma read_routed:
  assumes "CHR ''/'' \<notin> set x" and "x \<noteq> []"
  shows "route_request ''GET'' (intent_path (JStr x)) = Full Read_intent [x]"
  using assms
  by (simp add: route_request_def intent_path_def routes_table path_parts_last)

lemma execute_routed:
  assumes "CHR ''/'' \<notin> set x"
  shows "route_request m (intent_path (JStr x) @ ''/execute'') = Unknown_path"
  using assms
  by (simp add: route_request_def intent_path_def routes_table path_parts_last path_parts_part toggled_def)

lemma create_routed: "route_request ''POST'' ''/v1/intents'' = Full Create_intent []"
  by (rule sample_post_routed)

lemma forbidden_status: "status_of (Inl (raise_error ForbiddenError msg)) = 403"
  by (simp add: status_of_def raise_error_def make_error_def domain_response_def json_response_def)

lemma coded_status: "status_of (Inl (raise_coded msg code status retryable)) = status"
  by (simp add: status_of_def raise_coded_def make_error_def domain_response_def json_response_def)

lemma anonymous_dispatch:
  assumes "CHR ''/'' \<notin> set x" and "x \<noteq> []" and "hq_method rq = ''GET''" and "hq_path rq = intent_path (JStr x)"
    and "hq_authorization rq = None" and "dispatch sv inp rq cid ms (d, l) = (r, s')"
  shows "status_of r = 403 \<and> s' = (d, l)"
  using assms(3-6) read_routed [OF assms(1,2)]
  by (auto simp: dispatch_def run_route_def decoded_body_def takes_body_def open_endpoint_def get_actor_def
      forbidden_status split: option.splits)

lemma execute_dispatch:
  assumes "CHR ''/'' \<notin> set x" and "hq_path rq = intent_path (JStr x) @ ''/execute''"
    and "dispatch sv inp rq cid ms (d, l) = (r, s')"
  shows "status_of r = 404 \<and> s' = (d, l)"
  using assms(2,3) execute_routed [OF assms(1)]
  by (auto simp: dispatch_def status_of_def http_error_response_def json_response_def)

lemma keyless_dispatch:
  assumes "hq_method rq = ''POST''" and "hq_path rq = ''/v1/intents''" and "hq_idempotency_key rq = None"
    and "fw_body (sv_framework sv) body = Inr v"
    and "get_actor (sv_decode sv) (identity_of (sv_settings sv)) (hq_authorization rq) (in_now inp) l = (Inr a, l')"
    and "dispatch sv inp rq cid (Chunk (Some body) False # rest) (d, l) = (r, s')"
  shows "status_of r = 422 \<and> s' = (d, l')"
  using assms create_routed
  by (auto simp: dispatch_def run_route_def decoded_body_def takes_body_def open_endpoint_def chunk_body_def
      mutate_def require_idempotency_key_def coded_status)

text \<open>
  C23. The spot checks of the tool hold in every state. Whatever the database and the limits contain, as
  long as the client's address is within its rate and the body limit below 80000 bytes: the anonymous
  read of any intent is answered 403, the oversized proposal 413, a call of an execute endpoint 404
  with any method and token, and the proposal without an idempotency key 422 when its token is
  accepted; none of them changes the database.
\<close>

theorem spot_checks_hold:
  assumes "carries sv q rq cn" and "serve sv inp rq cn ap = (Answer response, ap')"
    and "allow (address_identity (cn_client cn)) (in_edge_now inp) (ap_address_limiter ap) = (True, l)"
    and "se_max_request_bytes (sv_settings sv) < 80000" and "CHR ''/'' \<notin> set x" and "x \<noteq> []"
  shows "(q = anonymous_call (JStr x) \<longrightarrow> hr_status response = 403 \<and> ap_db ap' = ap_db ap) \<and>
    (hc_body q = Some oversized_body \<longrightarrow> hr_status response = 413 \<and> ap' = ap) \<and>
    (hc_path q = intent_path (JStr x) @ ''/execute'' \<and> hc_body q = None \<longrightarrow>
       hr_status response = 404 \<and> ap_db ap' = ap_db ap) \<and>
    (hc_method q = ''POST'' \<and> hc_path q = ''/v1/intents'' \<and> hc_key q = None \<and> hc_body q = Some plain_scale_body \<and>
       (\<exists>a l'. get_actor (sv_decode sv) (identity_of (sv_settings sv)) (hc_authorization q) (in_now inp)
          (ap_rate_limiter ap) = (Inr a, l')) \<and>
       (\<forall>body rest. whole_body (cn_messages cn) = Some (body, rest) \<longrightarrow>
          length body \<le> nat (se_max_request_bytes (sv_settings sv))) \<longrightarrow>
       hr_status response = 422 \<and> ap_db ap' = ap_db ap)"
proof -
  from assms(1) have h: "cn_is_http cn" and rq: "hq_method rq = hc_method q" "hq_path rq = hc_path q"
      "hq_authorization rq = hc_authorization q" "hq_idempotency_key rq = hc_key q"
    by (simp_all add: carries_def)
  from assms(1) obtain body rest where b: "whole_body (cn_messages cn) = Some (body, rest)"
      and dec: "declared_too_large (nat (se_max_request_bytes (sv_settings sv))) (cn_content_length cn)
        \<in> {Inr False, Inr (nat (se_max_request_bytes (sv_settings sv)) < length body)}"
      and empty: "hc_body q = None \<Longrightarrow> body = []"
      and decoded: "\<And>v. hc_body q = Some v \<Longrightarrow> texts_length v \<le> length body \<and> fw_body (sv_framework sv) body = Inr (Some v)"
    unfolding carries_def by (auto split: option.splits)
  have answer: "\<exists>cid r. dispatch sv inp rq cid (Chunk (Some body) False # rest) (ap_db ap, ap_rate_limiter ap)
      = (r, ap_db ap', ap_rate_limiter ap') \<and> hr_status response = status_of r"
    if "length body \<le> nat (se_max_request_bytes (sv_settings sv))"
    using serve_answer [OF assms(2) h b that dec assms(3)] by blast
  have "hr_status response = 413 \<and> ap' = ap" if "hc_body q = Some oversized_body"
  proof -
    have "80000 \<le> texts_length oversized_body"
      by (simp add: texts_length_def oversized_body_def)
    with decoded [OF that] assms(4) have "nat (se_max_request_bytes (sv_settings sv)) < length body" by linarith
    from gate_refuses [OF b this dec] h serve_app_serve [OF assms(2)] show ?thesis
      by (auto simp: app_serve_def reject_response_def)
  qed
  moreover have "hr_status response = 403 \<and> ap_db ap' = ap_db ap" if "q = anonymous_call (JStr x)"
    using that rq empty anonymous_dispatch [OF assms(5,6), of rq] answer
    by (fastforce simp: anonymous_call_def)
  moreover have "hr_status response = 404 \<and> ap_db ap' = ap_db ap"
    if "hc_path q = intent_path (JStr x) @ ''/execute''" "hc_body q = None"
    using that rq empty execute_dispatch [OF assms(5), of rq] answer by fastforce
  moreover have "hr_status response = 422 \<and> ap_db ap' = ap_db ap"
    if "hc_method q = ''POST''" "hc_path q = ''/v1/intents''" "hc_key q = None" "hc_body q = Some plain_scale_body"
      "length body \<le> nat (se_max_request_bytes (sv_settings sv))"
      "get_actor (sv_decode sv) (identity_of (sv_settings sv)) (hc_authorization q) (in_now inp)
         (ap_rate_limiter ap) = (Inr a, l')" for a l'
    using that rq decoded keyless_dispatch [of rq sv body "Some plain_scale_body" inp "ap_rate_limiter ap" a l'] answer
    by fastforce
  ultimately show ?thesis using b by blast
qed

definition anonymous_connection :: connection where
  "anonymous_connection =
     \<lparr>cn_is_http = True, cn_content_length = None, cn_correlation = Some ''x9'', cn_client = None,
      cn_messages = [Chunk None False]\<rparr>"

definition anonymous_request :: http_request where
  "anonymous_request =
     \<lparr>hq_method = ''GET'', hq_path = ''/v1/intents/i1'', hq_query = [], hq_authorization = None,
      hq_idempotency_key = None\<rparr>"

lemma spot_checks_hold_witness:
  "\<exists>response ap'. serve sample_web sample_inputs anonymous_request anonymous_connection (create_app sample_settings sample_empty)
      = (Answer response, ap') \<and> hr_status response = 403 \<and> ap_db ap' = sample_empty"
proof -
  let ?ap = "create_app sample_settings sample_empty"
  have carried: "carries sample_web (anonymous_call (JStr ''i1'')) anonymous_request anonymous_connection"
    by (simp add: carries_def anonymous_call_def anonymous_request_def anonymous_connection_def intent_path_def
        chunk_body_def declared_too_large_def)
  obtain l where allowed: "allow (address_identity (cn_client anonymous_connection)) (in_edge_now sample_inputs)
      (ap_address_limiter ?ap) = (True, l)"
    by (simp add: create_app_def allow_def new_limiter_def hits_of_def sample_settings_def default_settings_def)
  have "\<exists>response ap'. serve sample_web sample_inputs anonymous_request anonymous_connection ?ap = (Answer response, ap')"
    by (simp add: serve_def app_serve_def body_gate_def anonymous_connection_def declared_too_large_def
        chunk_body_def Let_def split: prod.splits)
  then obtain response ap' where s: "serve sample_web sample_inputs anonymous_request anonymous_connection ?ap
      = (Answer response, ap')" by blast
  have "se_max_request_bytes (sv_settings sample_web) < 80000"
    by (simp add: sample_web_def sample_settings_def default_settings_def)
  from spot_checks_hold [OF carried s allowed this, of "''i1''"] s show ?thesis
    by (simp add: create_app_def)
qed

end
