(* ===== verification/Spec2Isabelle.thy ===== *)
theory Spec2Isabelle
  imports Schemas Risk Policy Intent State_Machine Approval_Safety Permit_Safety Execution_Safety
    Outbox_Safety Adapters Worker_Safety Approval_Api System_Tick Http_Edge Settings Supervisor Bootstrap
    Migration_Env Deployment E2e_Safety E2e_Service
begin

text \<open>
  Verification library of the human-in-the-loop operations service \<open>hitl_ops\<close>. Clients propose
  infrastructure actions; the service classifies their risk, routes them by policy, collects human
  approvals, revalidates an approved action against the live target and sends it to the provider at
  most once; unknown outcomes are reconciled from evidence, and every change is published through an
  outbox into a hash-linked audit chain. Paths are under \<open>src/src/hitl_ops\<close> unless they start with
  \<open>alembic\<close> or \<open>tools\<close>.

  \<^bold>\<open>Parts and where they are modelled.\<close>

  \<^item> Values. \<open>Prelude\<close> (text rendering, row lists), \<open>Json\<close> (JSON values and the two dump forms),
    \<open>Domain_Enums\<close> (\<open>domain/enums.py\<close>), \<open>Domain_Errors\<close> (\<open>domain/errors.py\<close> and the library exceptions,
    as values of one type).
  \<^item> Pure rules. \<open>Schemas\<close> (\<open>agent/schemas.py\<close>), \<open>Risk\<close> and \<open>Policy\<close> (\<open>domain/risk.py\<close>,
    \<open>domain/policy.py\<close>), \<open>Intent\<close> (\<open>domain/intent.py\<close>: canonical form, digest, redaction),
    \<open>State_Machine\<close> (\<open>domain/state_machine.py\<close>), \<open>Identity\<close> (\<open>infrastructure/identity.py\<close>).
  \<^item> Durable state. \<open>Store\<close> has one record per class of \<open>infrastructure/orm.py\<close>, the record \<open>db\<close> of
    all tables, \<open>flush\<close> (column lengths, checks, references, and the uniqueness that the migrations
    create) and \<open>transaction\<close> and
    \<open>request\<close>, the two owners of a commit. \<open>Repositories\<close>, \<open>Authorization\<close> and \<open>Commands\<close> model
    \<open>infrastructure/repositories.py\<close>, \<open>infrastructure/authorization.py\<close> and \<open>application/commands.py\<close>.
  \<^item> The worker's side. \<open>Adapters\<close> (\<open>adapters/base.py\<close>, \<open>adapters/demo.py\<close>), \<open>Revalidation\<close>,
    \<open>Execution\<close>, \<open>Reconciliation\<close> (\<open>application\<close> files of these names), \<open>Audit_Chain\<close> and \<open>Outbox\<close>
    (\<open>infrastructure/audit.py\<close>, \<open>outbox.py\<close>, \<open>notification.py\<close>), \<open>Worker\<close> (\<open>worker.py\<close>: one pass),
    \<open>Supervisor\<close> (\<open>worker_main.py\<close>, \<open>observability\<close>).
  \<^item> The API. \<open>Idempotency\<close> (the frame of every mutating route), \<open>Intent_Api\<close>, \<open>Approval_Api\<close>,
    \<open>Admin_Api\<close> with \<open>Administration\<close>, \<open>Orchestrator\<close> (\<open>agent/orchestrator.py\<close>), \<open>Request_Actor\<close>
    (\<open>api/dependencies.py\<close>), \<open>Rate_Limit\<close>, \<open>Body_Limit\<close>, \<open>Api_Errors\<close> and \<open>Http_Edge\<close> (the middleware of
    \<open>api/app.py\<close> and the readiness check of \<open>infrastructure/database.py\<close>), \<open>Routes\<close> (the body models and the
    table of routes) and \<open>Application\<close> (\<open>create_app\<close>: a connection from the edge to the route and back).
  \<^item> Operation. \<open>Settings\<close> (\<open>config.py\<close>, \<open>dev_tokens.py\<close>), \<open>Bootstrap\<close> (\<open>bootstrap.py\<close>), \<open>Db_Schema\<close>
    and \<open>Migrations\<close> (the tables as the classes declare them and the scripts of \<open>alembic/versions\<close>),
    \<open>Schema_Drift\<close> (the comparison of the two), \<open>Migration_Env\<close> (\<open>alembic/env.py\<close>), \<open>E2e_Check\<close> and
    \<open>E2e_Journeys\<close> (\<open>tools/e2e_check.py\<close>: its helpers and its sections, over an arbitrary HTTP client).

  A function of the source is a HOL function of the same name. A method on a session takes the
  database and returns its result, \<open>Inl\<close> of the exception or \<open>Inr\<close> of the value, together with the
  database as its writes left it; \<open>transaction\<close> and \<open>request\<close> drop the writes of a failure. What a
  process cannot know (clocks, locks taken by others, ids, provider answers, the effect of other
  transactions between two of its own) is an argument, mostly a field of the record \<open>env\<close>.

  \<^bold>\<open>How the parts interact.\<close> The components meet in the database. \<open>System\<close> states this: a world is the
  database, the permits that workers hold and the log of commands sent; a step is one request, one
  worker transaction, one send or a crash. Every component's operations appear there as steps, so a
  property of all reachable worlds covers every interleaving. \<open>System_Tick\<close> shows that the worker
  pass with its loops is a run of this system, and \<open>Deployment\<close> that the API process (any connections,
  any bytes) and the supervised worker process together are one, so the detailed program has these
  properties too.

  \<^bold>\<open>What the lemmas show.\<close>

  \<^item> \<open>History\<close>: \<open>moves\<close> and \<open>evolves\<close>, the abstract specification of what one write may do to an
    intent, its transitions and decisions, and that they keep \<open>db_ok\<close>; \<open>History_Growth\<close>: what a
    sequence of them keeps. Each component proves that its operations are such moves
    (\<open>transition_recorder\<close> is the contract the four recorders share).
  \<^item> \<open>Approval_Safety\<close>, \<open>Permit_Safety\<close>, \<open>Execution_Safety\<close>, \<open>Worker_Safety\<close>, \<open>Outbox_Safety\<close>,
    \<open>Intent_Safety\<close>: the exact meaning of success and of failure of the operations of a component.
  \<^item> \<open>Typed_Intents\<close>: which operations can add an intent, and that only validated ones are added.
    \<open>System_Safety\<close>: the invariants of reachable worlds, at most one send per operation, only what
    was approved and is well-typed is sent, refinement of the lifecycle graph.
  \<^item> \<open>Application_Safety\<close>: a connection is at most one step of the system, and which connections can
    write at all. \<open>E2e_Safety\<close>: what the exit status of the check tool means, and that its waiting ends;
    \<open>E2e_Service\<close>: its spot checks against the model of the service.
  \<^item> The theories of the edge and of operation: limits, hardening, authentication, startup checks,
    supervision; migrations and their inverses.

  Locales state the interfaces: \<open>table\<close> (a field of the database), \<open>transition_recorder\<close>, \<open>authority\<close>
  (roles and scopes in force), \<open>adapter\<close> (a provider that performs an operation key at most once),
  \<open>keyed_route\<close> (a command behind the idempotency frame), \<open>system_process\<close> (a process whose acts are
  steps of the system: the API, the worker, both together). Each is interpreted on the definitions of
  the component that provides it.

  \<open>Scenario\<close>, \<open>Scenario_Run\<close> and \<open>System_Run\<close> are concrete runs for the witnesses. Their databases have
  evaluated forms as code equations, so that each witness evaluates its own step only.

  \<^bold>\<open>Bounds and fuel.\<close> The worker pass is bounded by the code (\<open>TICK_LIMIT\<close> per phase and the
  batch of \<open>claim_messages\<close>), so it is structural recursion over lists. \<open>read_events\<close> takes fuel for a client that follows the cursor;
  \<open>cursor_reads_whole_history\<close> shows that more fuel than the history has rows is enough. \<open>follow\<close>
  takes the number of migrations. \<open>wait_loop\<close> is a \<open>partial_function\<close>, since it ends only if the clock
  moves on; \<open>wait_for_terminates\<close> shows that then it does. Interpolation of options is bounded by the
  depth of the library. The supervisor, which never ends, is a function of the finite list
  of what its passes did so far.

  \<^bold>\<open>Parameters.\<close> SHA-256, Unicode normalisation and lower-casing, integer parsing beyond ASCII, the
  token library, the model provider and the infrastructure provider are arguments. Statements about
  the hash say \<open>or there is a collision\<close>. The order in which a query without ORDER BY gives its rows
  is table order; no property depends on it.

  The framework is one as well, the record \<open>framework\<close>: decoding of a body, conversions of the model
  library, validation reports. Of its routing the documented rule is stated: the first route that
  matches path and method, 405 for another method, a redirect for a last slash.

  \<^bold>\<open>Not modelled.\<close> The engine and session objects and their pools, process entry points and command
  lines, the log stream and the text that the check tool prints, and \<open>outbox_row_from_audit\<close>, which
  nothing calls. Row data that migrations rewrite is not modelled either: those statements
  have no effect on the schema. The database's isolation is that of the row locks the code takes:
  a transaction is atomic, and lock conflicts are answers of the environment. Where the source reads a row before
  it takes a lock (\<open>reconcile\<close> and the execution row) the model is more atomic than the code;
  \<open>polling_is_bounded\<close> therefore speaks of one worker only.
\<close>

end
